(* ===== verification/Prelude.thy ===== *)
theory Prelude
  imports Complex_Main "HOL-Library.Char_ord" "HOL-Library.List_Lexorder"
    "HOL-Library.Product_Lexorder" "HOL-Library.Sublist" "HOL-Library.Log_Nat"
begin

text \<open>
  Shared vocabulary of the development: the collections of facts its proofs use, errors as
  values, Python's text and float values as the schema-v5 modules read them, and the generic
  laws of a table of rows (lookup by key, guarded update).

  Text is a list of characters with code points below 256; \<open>of_char\<close> is \<open>ord\<close>. A Python
  float is a finite binary64 value (a rational), an infinity or not-a-number; \<open>round64\<close> is
  the rounding of one arithmetic operation to binary64.
\<close>

named_theorems effect_simps \<open>what a successful operation did to the database\<close>
named_theorems vcg \<open>rules that take a transaction apart statement by statement\<close>

section \<open>Errors as values\<close>

text \<open>The exception classes of the modelled modules.\<close>

datatype exn =
    V5SchedulerError
  | V5ReservationError
  | V5ReservationNotFoundError
  | V5ReservationEvidenceError
  | V5OperatorError
  | V5OperatorNotFoundError
  | V5OperatorEvidenceError
  | V5RepositoryError
  | V5NotFoundError
  | V5EvidenceError
  | LifecycleValidationError
  | OverflowError
  | TypeError
  | KeyError
  | ProtocolIdentityError
  | YieldDocumentError
  | YieldIntegrityError
  | LegacyV0ContinuationError
  | V5ContinuationError
  | V5SchedulerServiceError
  | AttemptRuntimeError
  | AttemptLaunchUncertainError
  | ExecutorError
  | ExecutionValidationError
  | ProjectWorktreeError
  | LegacyCardError
  | HostGpuLockError
  | QueueError
  | SqliteError
  | OSError
  | CanonicalJSONError
  | ValueError
  | KeyboardInterrupt

text \<open>Which check of an operation raised; one constructor per kind of \<open>raise\<close>.\<close>

datatype reason =
    Bad_text
  | Bad_timestamp
  | Bad_integer
  | Bad_number
  | Bad_argument
  | Bad_payload
  | Bad_scope
  | Constraint_violated
  | Metadata_incomplete
  | Row_missing
  | Wrong_state
  | Wrong_identity
  | Stale_evidence
  | Conflicting_evidence
  | Corrupt_evidence
  | Not_idle
  | Not_allowed
  | No_change
  | Lost_update

type_synonym error = "exn \<times> reason"

type_synonym 'a result = "error + 'a"

definition and_then :: "'e + 'a \<Rightarrow> ('a \<Rightarrow> 'e + 'b) \<Rightarrow> 'e + 'b" where
  "and_then m f = (case m of Inl e \<Rightarrow> Inl e | Inr x \<Rightarrow> f x)"

lemma and_then_Inl [simp]: "and_then (Inl e) f = Inl e"
  by (simp add: and_then_def)

lemma and_then_Inr [simp]: "and_then (Inr x) f = f x"
  by (simp add: and_then_def)

lemma and_then_eq_Inr [simp]:
  "and_then m f = Inr y \<longleftrightarrow> (\<exists>x. m = Inr x \<and> f x = Inr y)"
  by (cases m) simp_all

lemma and_then_eq_Inl:
  "and_then m f = Inl e \<longleftrightarrow> m = Inl e \<or> (\<exists>x. m = Inr x \<and> f x = Inl e)"
  by (cases m) auto

text \<open>\<open>if not c: raise e\<close> and the fetch of a row that raises when there is none.\<close>

definition require :: "bool \<Rightarrow> 'e \<Rightarrow> 'e + 'a \<Rightarrow> 'e + 'a" where
  "require c e k = (if c then k else Inl e)"

definition fetch :: "'r option \<Rightarrow> 'e \<Rightarrow> ('r \<Rightarrow> 'e + 'a) \<Rightarrow> 'e + 'a" where
  "fetch v e k = (case v of None \<Rightarrow> Inl e | Some r \<Rightarrow> k r)"

lemma require_eq_Inr [simp]: "require c e k = Inr y \<longleftrightarrow> c \<and> k = Inr y"
  by (simp add: require_def)

lemma require_True [simp]: "require True e k = k"
  by (simp add: require_def)

lemma require_False [simp]: "require False e k = Inl e"
  by (simp add: require_def)

lemma require_eq_Inl: "require c e k = Inl y \<longleftrightarrow> \<not> c \<and> y = e \<or> c \<and> k = Inl y"
  by (auto simp: require_def)

lemma fetch_eq_Inr [simp]: "fetch v e k = Inr y \<longleftrightarrow> (\<exists>r. v = Some r \<and> k r = Inr y)"
  by (cases v) (simp_all add: fetch_def)

lemma fetch_Some [simp]: "fetch (Some r) e k = k r"
  by (simp add: fetch_def)

lemma fetch_None [simp]: "fetch None e k = Inl e"
  by (simp add: fetch_def)

text \<open>Evaluation unfolds these where they occur, so that a continuation is reached only with a value.\<close>

declare and_then_def [code_unfold] require_def [code_unfold] fetch_def [code_unfold]

text \<open>Reading the outcome of an operation that returns a value and a new state.\<close>

definition succeeds :: "'e + 'v \<times> 's \<Rightarrow> ('v \<Rightarrow> bool) \<Rightarrow> bool" where
  "succeeds r P = (case r of Inl _ \<Rightarrow> False | Inr (v, _) \<Rightarrow> P v)"

definition after :: "'e + 'v \<times> 's \<Rightarrow> 's" where
  "after r = snd (projr r)"

lemma succeedsD: "succeeds r P \<Longrightarrow> \<exists>v. r = Inr (v, after r) \<and> P v"
  by (auto simp: succeeds_def after_def split: sum.splits)

lemma succeeds_value: "succeeds r (\<lambda>w. w = v) \<Longrightarrow> r = Inr (v, after r)"
  by (auto dest: succeedsD)

section \<open>Text\<close>

abbreviation ord :: "char \<Rightarrow> nat" where
  "ord c \<equiv> of_char c"

text \<open>\<open>str.isspace\<close> on one character, the set \<open>str.strip\<close> and \<open>str.split\<close> use.\<close>

definition py_space :: "char \<Rightarrow> bool" where
  "py_space c = (let n = ord c in
     9 \<le> n \<and> n \<le> 13 \<or> 28 \<le> n \<and> n \<le> 32 \<or> n = 133 \<or> n = 160)"

definition strip :: "string \<Rightarrow> string" where
  "strip s = rev (dropWhile py_space (rev (dropWhile py_space s)))"

definition control_char :: "char \<Rightarrow> bool" where
  "control_char c = (ord c < 32 \<or> ord c = 127)"

definition log_safe :: "nat \<Rightarrow> string \<Rightarrow> bool" where
  "log_safe maximum s = (length s \<le> maximum \<and> \<not> list_ex control_char s)"

text \<open>Non-empty text without surrounding whitespace, of bounded length and log-safe.\<close>

definition text_ok :: "nat \<Rightarrow> string \<Rightarrow> bool" where
  "text_ok maximum s = (s \<noteq> [] \<and> s = strip s \<and> log_safe maximum s)"

text \<open>Decimal digits of an integer, as \<open>str(n)\<close> writes it.\<close>

fun digits :: "nat \<Rightarrow> string" where
  "digits n = (if n < 10 then [char_of (48 + n)]
               else digits (n div 10) @ [char_of (48 + n mod 10)])"

declare digits.simps [simp del]

definition str_int :: "int \<Rightarrow> string" where
  "str_int n = (if n < 0 then CHR ''-'' # digits (nat (- n)) else digits (nat n))"

lemma text_ok_nonempty: "text_ok n s \<Longrightarrow> s \<noteq> []"
  by (simp add: text_ok_def)

lemma text_ok_mono: "text_ok m s \<Longrightarrow> m \<le> n \<Longrightarrow> text_ok n s"
  by (auto simp: text_ok_def log_safe_def)

lemma digits_nonempty: "digits n \<noteq> []"
  by (subst digits.simps) simp

text \<open>\<open>pathlib\<close> on POSIX: the root, then the components, empty ones and \<open>.\<close> dropped.\<close>

fun split_slash :: "string \<Rightarrow> string \<Rightarrow> string list" where
  "split_slash acc [] = [rev acc]"
| "split_slash acc (c # s) =
     (if c = CHR ''/'' then rev acc # split_slash [] s else split_slash (c # acc) s)"

definition path_parts :: "string \<Rightarrow> string list" where
  "path_parts s =
    (if s \<noteq> [] \<and> hd s = CHR ''/''
     then [if prefix ''//'' s \<and> \<not> prefix ''///'' s then ''//'' else ''/''] else [])
    @ filter (\<lambda>part. part \<noteq> [] \<and> part \<noteq> ''.'') (split_slash [] s)"

section \<open>Floats\<close>

datatype pyfloat = Finite rat | PInf | NInf | NaN

text \<open>\<open>_nonnegative_float\<close>: the value as a number, or nothing when it is refused.\<close>

definition nonnegative_float :: "pyfloat \<Rightarrow> rat option" where
  "nonnegative_float x = (case x of
      Finite r \<Rightarrow> if r < 0 then None else Some r
    | PInf \<Rightarrow> None | NInf \<Rightarrow> None | NaN \<Rightarrow> None)"

lemma nonnegative_float_SomeD: "nonnegative_float x = Some r \<Longrightarrow> x = Finite r \<and> 0 \<le> r"
  by (auto simp: nonnegative_float_def split: pyfloat.splits if_splits)

definition two_pow :: "int \<Rightarrow> rat" where
  "two_pow k = (if 0 \<le> k then 2 ^ nat k else 1 / 2 ^ nat (- k))"

definition round_half_even :: "rat \<Rightarrow> int" where
  "round_half_even r = (let f = \<lfloor>r\<rfloor>; d = r - of_int f in
     if d < 1 / 2 then f else if 1 / 2 < d then f + 1 else if even f then f else f + 1)"

definition binary_exponent :: "rat \<Rightarrow> int" where
  "binary_exponent r = (let (p, q) = quotient_of \<bar>r\<bar>; k = bitlen p - bitlen q in
     if \<bar>r\<bar> < two_pow k then k - 1 else k)"

definition round64 :: "rat \<Rightarrow> rat" where
  "round64 r = (if r = 0 then 0
     else let u = two_pow (max (- 1022) (binary_exponent r) - 52)
          in of_int (round_half_even (r / u)) * u)"

section \<open>Tables of rows\<close>

definition update_rows :: "('r \<Rightarrow> bool) \<Rightarrow> ('r \<Rightarrow> 'r) \<Rightarrow> 'r list \<Rightarrow> 'r list" where
  "update_rows P f rows = map (\<lambda>r. if P r then f r else r) rows"

definition next_id :: "int list \<Rightarrow> int" where
  "next_id ids = fold max ids 0 + 1"

lemma length_update_rows [simp]: "length (update_rows P f rows) = length rows"
  by (simp add: update_rows_def)

lemma update_rows_Nil [simp]: "update_rows P f [] = []"
  by (simp add: update_rows_def)

lemma update_rows_Cons [simp]:
  "update_rows P f (r # rows) = (if P r then f r else r) # update_rows P f rows"
  by (simp add: update_rows_def)

lemma set_update_rows:
  "set (update_rows P f rows) = (\<lambda>r. if P r then f r else r) ` set rows"
  by (simp add: update_rows_def)

lemma in_update_rows:
  "y \<in> set (update_rows P f rows) \<longleftrightarrow> (\<exists>x \<in> set rows. P x \<and> y = f x) \<or> y \<in> set rows \<and> \<not> P y"
  by (induction rows) auto

lemma list_all2_update_rows:
  assumes "\<And>r. r \<in> set rows \<Longrightarrow> P r \<Longrightarrow> R r (f r)"
    and "\<And>r. r \<in> set rows \<Longrightarrow> \<not> P r \<Longrightarrow> R r r"
  shows "list_all2 R rows (update_rows P f rows)"
  using assms by (induction rows) auto

lemma update_rows_absent: "(\<And>r. r \<in> set rows \<Longrightarrow> \<not> P r) \<Longrightarrow> update_rows P f rows = rows"
  by (induction rows) auto

lemma find_SomeD: "find P xs = Some x \<Longrightarrow> x \<in> set xs \<and> P x"
  by (induction xs) (auto split: if_splits)

lemma set_map_filter: "set (List.map_filter f xs) = {y. \<exists>x \<in> set xs. f x = Some y}"
  by (induction xs) (auto simp: List.map_filter_def)

lemma map_filter_restrict:
  assumes "\<And>x. x \<in> set xs \<Longrightarrow> g x = (case f x of Some y \<Rightarrow> if P y then Some y else None | None \<Rightarrow> None)"
  shows "List.map_filter g xs = filter P (List.map_filter f xs)"
  using assms by (induction xs) (auto simp: List.map_filter_simps split: option.splits)

lemma fold_max_start: "(a::int) \<le> fold max xs a"
proof (induction xs arbitrary: a)
  case (Cons y ys)
  from Cons[of "max y a"] show ?case by simp
qed simp

lemma fold_max_ge: "(x::int) \<in> set xs \<Longrightarrow> x \<le> fold max xs a"
proof (induction xs arbitrary: a)
  case (Cons y ys)
  with fold_max_start[of "max y a" ys] show ?case by auto
qed simp

lemma next_id_fresh: "x \<in> set ids \<Longrightarrow> x < next_id ids"
  using fold_max_ge[of x ids 0] by (simp add: next_id_def)

lemma next_id_positive: "0 < next_id ids"
  using fold_max_start[of 0 ids] by (simp add: next_id_def)

text \<open>
  The contract of a keyed table: rows are found by a key that is unique, and an update that
  keeps the key of every row it touches changes exactly the rows it selects.
\<close>

locale keyed_table =
  fixes key :: "'r \<Rightarrow> 'k" and lookup :: "'r list \<Rightarrow> 'k \<Rightarrow> 'r option"
  assumes lookup_def: "lookup rows k = find (\<lambda>r. key r = k) rows"
begin

lemma lookup_SomeD: "lookup rows k = Some r \<Longrightarrow> r \<in> set rows \<and> key r = k"
  by (induction rows) (auto simp: lookup_def split: if_splits)

lemma lookup_NoneD: "lookup rows k = None \<Longrightarrow> r \<in> set rows \<Longrightarrow> key r \<noteq> k"
  by (induction rows) (auto simp: lookup_def split: if_splits)

lemma lookup_unique:
  assumes "distinct (map key rows)" and "r \<in> set rows"
  shows "lookup rows (key r) = Some r"
  using assms by (induction rows) (auto simp: lookup_def image_iff split: if_splits)

lemma rows_with_key:
  assumes "distinct (map key rows)" and "lookup rows k = Some r"
    and "s \<in> set rows" and "key s = k"
  shows "s = r"
  using assms lookup_unique[of rows s] by simp

lemma map_key_update_rows:
  assumes "\<And>r. P r \<Longrightarrow> key (f r) = key r"
  shows "map key (update_rows P f rows) = map key rows"
  using assms by (induction rows) auto

lemma lookup_update_rows:
  assumes "\<And>r. P r \<Longrightarrow> key (f r) = key r"
  shows "lookup (update_rows P f rows) k =
    map_option (\<lambda>r. if P r then f r else r) (lookup rows k)"
  using assms by (induction rows) (auto simp: lookup_def)

lemma lookup_append:
  "lookup (rows @ rows') k = (case lookup rows k of Some r \<Rightarrow> Some r | None \<Rightarrow> lookup rows' k)"
  by (induction rows) (auto simp: lookup_def split: option.splits)

end

end
