(* ===== verification/Timestamps.thy ===== *)
theory Timestamps
  imports Prelude
begin

text \<open>
  Timestamps as the modules check and compute with them. Every entry point takes ISO 8601 text,
  replaces a final \<open>Z\<close> and calls \<open>datetime.fromisoformat\<close>, then requires a UTC offset; the
  reservation service also shifts the value to UTC, adds whole hours and prints it back with
  \<open>isoformat\<close>. The parser below covers the documented grammar of \<open>fromisoformat\<close> (calendar and
  week dates, basic and extended, any single separator character, optional fraction and offset).

  An instant is the number of microseconds since \<open>0001-01-01T00:00:00\<close>; a parsed value is the
  local instant with its offset, and \<open>max_instant\<close> bounds what \<open>datetime\<close> represents. The main
  result is that printing a UTC instant and parsing it back is the identity.
\<close>

section \<open>Calendar arithmetic\<close>

definition is_leap :: "int \<Rightarrow> bool" where
  "is_leap y = (4 dvd y \<and> (\<not> 100 dvd y \<or> 400 dvd y))"

definition days_before_year :: "int \<Rightarrow> int" where
  "days_before_year y = (let p = y - 1 in p * 365 + p div 4 - p div 100 + p div 400)"

definition month_starts :: "int list" where
  "month_starts = [0, 31, 59, 90, 120, 151, 181, 212, 243, 273, 304, 334]"

definition days_before_month :: "int \<Rightarrow> int \<Rightarrow> int" where
  "days_before_month y m = month_starts ! nat (m - 1) + (if 2 < m \<and> is_leap y then 1 else 0)"

definition days_in_month :: "int \<Rightarrow> int \<Rightarrow> int" where
  "days_in_month y m = (if m = 2 then (if is_leap y then 29 else 28)
     else if m \<in> {4, 6, 9, 11} then 30 else 31)"

definition ymd2ord :: "int \<Rightarrow> int \<Rightarrow> int \<Rightarrow> int" where
  "ymd2ord y m d = days_before_year y + days_before_month y m + d"

definition max_ordinal :: int where
  "max_ordinal = 3652059"

definition day_us :: int where
  "day_us = 86400000000"

definition max_instant :: int where
  "max_instant = 315537897599999999"

lemma div_pred_int:
  assumes "0 < (k::int)"
  shows "y div k = (y - 1) div k + (if k dvd y then 1 else 0)"
proof (cases "k dvd y")
  case True
  then obtain q where "y = k * q" ..
  moreover have "(k * q - 1) div k = q - 1"
    using assms by (intro int_div_pos_eq[where r = "k - 1"]) (simp_all add: algebra_simps)
  ultimately show ?thesis using True assms by simp
next
  case False
  then have "y mod k \<noteq> 0" by (simp add: dvd_eq_mod_eq_0)
  with assms have "0 \<le> y mod k - 1" and "y mod k - 1 < k"
    using pos_mod_sign[of k y] pos_mod_bound[of k y] by linarith+
  then have "(y - 1) div k = y div k"
    by (intro int_div_pos_eq[where r = "y mod k - 1"])
       (simp_all add: algebra_simps mult_div_mod_eq)
  with False show ?thesis by simp
qed

lemma days_before_year_Suc:
  "days_before_year (y + 1) = days_before_year y + (if is_leap y then 366 else 365)"
proof -
  have "100 dvd y" if "400 dvd y"
    using that by (rule dvd_trans[rotated]) simp
  moreover have "4 dvd y" if "100 dvd y"
    using that by (rule dvd_trans[rotated]) simp
  ultimately have leap: "400 dvd y \<Longrightarrow> 100 dvd y" "100 dvd y \<Longrightarrow> 4 dvd y" by blast+
  define a a' b b' c c'
    where defs: "a = y div 4" "a' = (y - 1) div 4" "b = y div 100" "b' = (y - 1) div 100"
      "c = y div 400" "c' = (y - 1) div 400"
  have "a = a' + (if 4 dvd y then 1 else 0)" and "b = b' + (if 100 dvd y then 1 else 0)"
    and "c = c' + (if 400 dvd y then 1 else 0)"
    unfolding defs by (rule div_pred_int, simp)+
  with leap show ?thesis
    unfolding days_before_year_def is_leap_def Let_def add_diff_cancel_right' defs[symmetric]
    by (cases "4 dvd y"; cases "100 dvd y"; cases "400 dvd y"; simp)
qed

function year_from :: "int \<Rightarrow> int \<Rightarrow> int" where
  "year_from y n = (if days_before_year (y + 1) < n then year_from (y + 1) n else y)"
  by pat_completeness auto
termination
  by (relation "measure (\<lambda>(y, n). nat (n - days_before_year y))")
    (auto simp: days_before_year_Suc split: if_splits)

declare year_from.simps [simp del]

definition month_of :: "int \<Rightarrow> int \<Rightarrow> int" where
  "month_of y k =
    hd (filter (\<lambda>m. days_before_month y m < k) [12, 11, 10, 9, 8, 7, 6, 5, 4, 3, 2, 1])"

definition ord2ymd :: "int \<Rightarrow> int \<times> int \<times> int" where
  "ord2ymd n = (let y = year_from ((n - 1) div 366 + 1) n; k = n - days_before_year y;
      m = month_of y k
    in (y, m, k - days_before_month y m))"

section \<open>\<open>datetime.fromisoformat\<close>\<close>

definition is_digit :: "char \<Rightarrow> bool" where
  "is_digit c = (48 \<le> ord c \<and> ord c \<le> 57)"

definition digits_value :: "string \<Rightarrow> int" where
  "digits_value s = foldl (\<lambda>a c. 10 * a + (int (ord c) - 48)) 0 s"

definition parse_digits :: "nat \<Rightarrow> string \<Rightarrow> (int \<times> string) option" where
  "parse_digits n s = (let t = take n s in
     if length t = n \<and> list_all is_digit t then Some (digits_value t, drop n s) else None)"

definition isoweek_to_ord :: "int \<Rightarrow> int \<Rightarrow> int \<Rightarrow> int option" where
  "isoweek_to_ord year week day = (let first = ymd2ord year 1 1; first_weekday = first mod 7;
      long_year = (first_weekday = 4 \<or> first_weekday = 3 \<and> is_leap year);
      monday = (first + 6) mod 7;
      week1 = (if monday > 3 then first - monday + 7 else first - monday);
      n = week1 + (week - 1) * 7 + (day - 1)
    in if 1 \<le> year \<and> year \<le> 9999 \<and> (0 < week \<and> week < 53 \<or> week = 53 \<and> long_year)
          \<and> 0 < day \<and> day < 8 \<and> 1 \<le> n \<and> n \<le> max_ordinal
       then Some n else None)"

definition ymd_to_ord :: "int \<Rightarrow> int \<Rightarrow> int \<Rightarrow> int option" where
  "ymd_to_ord y m d =
    (if 1 \<le> y \<and> y \<le> 9999 \<and> 1 \<le> m \<and> m \<le> 12 \<and> 1 \<le> d \<and> d \<le> days_in_month y m
     then Some (ymd2ord y m d) else None)"

text \<open>The date part, cut at the separator: an ordinal day.\<close>

definition parse_isoformat_date :: "string \<Rightarrow> int option" where
  "parse_isoformat_date s = (case parse_digits 4 s of None \<Rightarrow> None | Some (year, r) \<Rightarrow>
    (let has_sep = (take 1 r = ''-''); r = (if has_sep then drop 1 r else r) in
     if take 1 r = ''W'' then
       (case parse_digits 2 (drop 1 r) of None \<Rightarrow> None | Some (week, r) \<Rightarrow>
          if r = [] then isoweek_to_ord year week 1
          else if (take 1 r = ''-'') \<noteq> has_sep then None
          else (case parse_digits 1 (if has_sep then drop 1 r else r) of
              Some (day, []) \<Rightarrow> isoweek_to_ord year week day
            | _ \<Rightarrow> None))
     else
       (case parse_digits 2 r of None \<Rightarrow> None | Some (month, r) \<Rightarrow>
          if (take 1 r = ''-'') \<noteq> has_sep then None
          else (case parse_digits 2 (if has_sep then drop 1 r else r) of
              Some (day, []) \<Rightarrow> ymd_to_ord year month day
            | _ \<Rightarrow> None))))"

definition separator_location :: "string \<Rightarrow> nat" where
  "separator_location s =
    (if length s = 7 then 7
     else if s ! 4 = CHR ''-'' then
       (if s ! 5 = CHR ''W'' then
          (if 8 < length s \<and> s ! 8 = CHR ''-''
           then (if 10 < length s \<and> is_digit (s ! 10) then 8 else 10)
           else 8)
        else 10)
     else if s ! 4 = CHR ''W'' then
       (let idx = 7 + length (takeWhile is_digit (drop 7 s)) in
        if idx < 9 then idx else if even idx then 7 else 8)
     else 8)"

text \<open>\<open>HH[:?MM[:?SS[(.|,)f+]]]\<close> as hours, minutes, seconds and microseconds.\<close>

definition parse_fraction :: "string \<Rightarrow> int option" where
  "parse_fraction s =
    (if take 1 s \<noteq> ''.'' \<and> take 1 s \<noteq> '','' then None
     else if drop 1 s = [] \<or> \<not> list_all is_digit (drop 1 s) then None
     else Some (digits_value (take 6 (drop 1 s @ ''000000''))))"

definition parse_hh_mm_ss_ff :: "string \<Rightarrow> (int \<times> int \<times> int \<times> int) option" where
  "parse_hh_mm_ss_ff s = (case parse_digits 2 s of None \<Rightarrow> None | Some (h, r) \<Rightarrow>
    if r = [] then Some (h, 0, 0, 0)
    else let sep = (take 1 r = '':'') in
    (case parse_digits 2 (if sep then drop 1 r else r) of None \<Rightarrow> None | Some (m, r) \<Rightarrow>
      if r = [] then Some (h, m, 0, 0)
      else if sep \<and> take 1 r \<noteq> '':'' then None
      else (case parse_digits 2 (if sep then drop 1 r else r) of None \<Rightarrow> None | Some (sec, r) \<Rightarrow>
        if r = [] then Some (h, m, sec, 0)
        else map_option (\<lambda>us. (h, m, sec, us)) (parse_fraction r))))"

definition hms_us :: "int \<times> int \<times> int \<times> int \<Rightarrow> int" where
  "hms_us t = (case t of (h, m, s, us) \<Rightarrow> ((h * 60 + m) * 60 + s) * 1000000 + us)"

definition is_tz_start :: "char \<Rightarrow> bool" where
  "is_tz_start c = (c = CHR ''+'' \<or> c = CHR ''-'' \<or> c = CHR ''Z'')"

definition parse_offset :: "string \<Rightarrow> int option option" where
  "parse_offset s = (case s of
      [] \<Rightarrow> Some None
    | c # rest \<Rightarrow>
        if c = CHR ''Z'' then (if rest = [] then Some (Some 0) else None)
        else (case parse_hh_mm_ss_ff rest of None \<Rightarrow> None
          | Some t \<Rightarrow> if hms_us t < day_us
              then Some (Some (if c = CHR ''-'' then - hms_us t else hms_us t)) else None))"

text \<open>The time of day: microseconds into the day (a whole day for \<open>24:00\<close>) and the offset.\<close>

definition parse_isoformat_time :: "string \<Rightarrow> (int \<times> int option) option" where
  "parse_isoformat_time s =
    (case parse_hh_mm_ss_ff (takeWhile (\<lambda>c. \<not> is_tz_start c) s) of None \<Rightarrow> None
     | Some (h, m, sec, us) \<Rightarrow>
        (case parse_offset (dropWhile (\<lambda>c. \<not> is_tz_start c) s) of None \<Rightarrow> None
         | Some off \<Rightarrow>
            if h \<le> 23 \<and> m \<le> 59 \<and> sec \<le> 59 \<or> h = 24 \<and> m = 0 \<and> sec = 0 \<and> us = 0
            then Some (hms_us (h, m, sec, us), off) else None))"

definition fromisoformat :: "string \<Rightarrow> (int \<times> int option) option" where
  "fromisoformat s =
    (if length s < 7 then None
     else let k = separator_location s in
       (case parse_isoformat_date (take k s) of None \<Rightarrow> None
        | Some n \<Rightarrow>
           (let t = drop (k + 1) s; base = (n - 1) * day_us in
            if t = [] then Some (base, None)
            else (case parse_isoformat_time t of None \<Rightarrow> None
              | Some (us, off) \<Rightarrow>
                  if base + us \<le> max_instant then Some (base + us, off) else None))))"

definition z_suffix_expanded :: "string \<Rightarrow> string" where
  "z_suffix_expanded s = (if s \<noteq> [] \<and> last s = CHR ''Z'' then butlast s @ ''+00:00'' else s)"

text \<open>Acceptance by every \<open>_timestamp\<close> helper: parseable and timezone-aware.\<close>

definition aware_timestamp :: "string \<Rightarrow> bool" where
  "aware_timestamp s = (case fromisoformat (z_suffix_expanded s) of
      Some (_, Some _) \<Rightarrow> True | _ \<Rightarrow> False)"

definition timestamp_ok :: "string \<Rightarrow> bool" where
  "timestamp_ok s = (s \<noteq> [] \<and> s = strip s \<and> aware_timestamp s)"

text \<open>\<open>parsed.astimezone(timezone.utc)\<close>: nothing when the shift leaves the range.\<close>

definition utc_instant :: "string \<Rightarrow> int option" where
  "utc_instant s = (case fromisoformat (z_suffix_expanded s) of
      Some (local, Some off) \<Rightarrow>
        (if 0 \<le> local - off \<and> local - off \<le> max_instant then Some (local - off) else None)
    | _ \<Rightarrow> None)"

section \<open>\<open>datetime.isoformat\<close> on UTC values\<close>

fun pad :: "nat \<Rightarrow> int \<Rightarrow> string" where
  "pad 0 n = []"
| "pad (Suc k) n = pad k (n div 10) @ [char_of (48 + nat (n mod 10))]"

definition isoformat :: "int \<Rightarrow> string" where
  "isoformat t = (let (y, m, d) = ord2ymd (t div day_us + 1); us = t mod day_us;
      sec = us div 1000000; frac = us mod 1000000
    in pad 4 y @ ''-'' @ pad 2 m @ ''-'' @ pad 2 d @ ''T'' @
       pad 2 (sec div 3600) @ '':'' @ pad 2 (sec div 60 mod 60) @ '':'' @ pad 2 (sec mod 60) @
       (if frac = 0 then [] else ''.'' @ pad 6 frac) @ ''+00:00'')"

definition hours_us :: "int \<Rightarrow> int" where
  "hours_us h = h * 3600000000"

section \<open>Calendar dates round-trip\<close>

lemma year_from_bounds:
  assumes "days_before_year y < n"
  shows "days_before_year (year_from y n) < n \<and> n \<le> days_before_year (year_from y n + 1)
    \<and> y \<le> year_from y n"
  using assms
proof (induction y n rule: year_from.induct)
  case (1 y n)
  show ?case
  proof (cases "days_before_year (y + 1) < n")
    case True
    with "1.IH" show ?thesis by (auto simp: year_from.simps[of y n])
  next
    case False
    with "1.prems" show ?thesis by (simp add: year_from.simps[of y n])
  qed
qed

lemma days_before_year_mono: "y \<le> z \<Longrightarrow> days_before_year y \<le> days_before_year z"
proof (induction z rule: int_ge_induct)
  case (step z)
  then show ?case by (simp add: days_before_year_Suc split: if_splits)
qed simp

lemma first_year_estimate:
  assumes "1 \<le> n"
  shows "days_before_year ((n - 1) div 366 + 1) < n"
proof -
  define p where "p = (n - 1) div 366"
  have "0 \<le> p" unfolding p_def using assms by simp
  moreover have "p * 366 \<le> n - 1"
    unfolding p_def by (metis div_mult_mod_eq assms le_add_same_cancel1 pos_mod_sign zero_less_numeral)
  moreover have "p div 4 \<le> p" and "p div 400 \<le> p div 100"
    using \<open>0 \<le> p\<close> zdiv_mono2[of p 1 4] by (auto intro: zdiv_mono2)
  ultimately show ?thesis by (simp add: days_before_year_def Let_def flip: p_def)
qed

lemma hd_filter_Cons: "hd (filter P (x # xs)) = (if P x then x else hd (filter P xs))"
  by simp

lemma month_of_cases:
  assumes "1 \<le> k" and "l = (if is_leap y then 1 else 0)"
  shows "month_of y k = (if 334 + l < k then 12 else if 304 + l < k then 11 else
    if 273 + l < k then 10 else if 243 + l < k then 9 else if 212 + l < k then 8 else
    if 181 + l < k then 7 else if 151 + l < k then 6 else if 120 + l < k then 5 else
    if 90 + l < k then 4 else if 59 + l < k then 3 else if 31 < k then 2 else 1)"
  using assms
  by (simp only: month_of_def days_before_month_def month_starts_def) (simp add: hd_filter_Cons cong: if_cong del: filter.simps split del: if_split)

lemma month_of_correct:
  assumes "1 \<le> k" and "k \<le> (if is_leap y then 366 else 365)"
  shows "1 \<le> month_of y k \<and> month_of y k \<le> 12 \<and> days_before_month y (month_of y k) < k
    \<and> k \<le> days_before_month y (month_of y k) + days_in_month y (month_of y k)"
proof -
  define l :: int where "l = (if is_leap y then 1 else 0)"
  have "0 \<le> l" "l \<le> 1" "k \<le> 365 + l" using assms(2) by (simp_all add: l_def split: if_splits)
  moreover have "days_in_month y 2 = 28 + l" by (simp add: l_def days_in_month_def)
  moreover have "days_before_month y m = month_starts ! nat (m - 1) + (if 2 < m then l else 0)" for m
    by (simp add: l_def days_before_month_def)
  ultimately show ?thesis
    using assms(1)
    unfolding month_of_cases[OF assms(1) l_def]
    by (simp add: month_starts_def days_in_month_def)
qed

lemma ord2ymd_correct:
  assumes "1 \<le> n" and "n \<le> max_ordinal" and "ord2ymd n = (y, m, d)"
  shows "1 \<le> y \<and> y \<le> 9999 \<and> 1 \<le> m \<and> m \<le> 12 \<and> 1 \<le> d \<and> d \<le> days_in_month y m
    \<and> ymd2ord y m d = n"
proof -
  let ?y = "year_from ((n - 1) div 366 + 1) n"
  have y: "days_before_year ?y < n" "n \<le> days_before_year (?y + 1)" "(n - 1) div 366 + 1 \<le> ?y"
    using year_from_bounds[OF first_year_estimate[OF assms(1)]] by auto
  have "?y < 10000"
  proof (rule ccontr)
    assume "\<not> ?y < 10000"
    then have "days_before_year 10000 \<le> days_before_year ?y"
      by (intro days_before_year_mono) simp
    moreover have "days_before_year 10000 = max_ordinal"
      by (simp add: days_before_year_def max_ordinal_def)
    ultimately show False using y(1) assms(2) by simp
  qed
  moreover have "1 \<le> ?y" using y(3) assms(1) by (smt (verit) pos_imp_zdiv_nonneg_iff)
  moreover define k where "k = n - days_before_year ?y"
  then have k: "1 \<le> k" "k \<le> (if is_leap ?y then 366 else 365)"
    using y(1,2) by (auto simp: days_before_year_Suc)
  ultimately show ?thesis
    using assms(3) month_of_correct[OF k]
    by (auto simp: ord2ymd_def Let_def ymd2ord_def k_def)
qed

section \<open>Printing and parsing a UTC instant\<close>

lemma length_pad [simp]: "length (pad k n) = k"
  by (induction k arbitrary: n) simp_all

lemma ord_digit: "0 \<le> n \<Longrightarrow> n < 10 \<Longrightarrow> ord (char_of (48 + nat n)) = 48 + nat n"
  by (simp add: of_char_of)

lemma pad_digits: "list_all is_digit (pad k n)"
proof (induction k arbitrary: n)
  case (Suc k)
  have "0 \<le> n mod 10" "n mod 10 < 10" by simp_all
  then have "is_digit (char_of (48 + nat (n mod 10)))"
    unfolding is_digit_def by (subst (1 2) ord_digit) auto
  with Suc show ?case by simp
qed simp

lemma digits_value_snoc: "digits_value (s @ [c]) = 10 * digits_value s + (int (ord c) - 48)"
  by (simp add: digits_value_def)

lemma digits_value_pad: "0 \<le> n \<Longrightarrow> n < 10 ^ k \<Longrightarrow> digits_value (pad k n) = n"
proof (induction k arbitrary: n)
  case 0
  then show ?case by (simp add: digits_value_def)
next
  case (Suc k)
  have m: "0 \<le> n mod 10" "n mod 10 < 10" by simp_all
  have "digits_value (pad k (n div 10)) = n div 10"
    using Suc.prems by (intro Suc.IH) auto
  moreover have "int (ord (char_of (48 + nat (n mod 10)))) - 48 = n mod 10"
    by (subst ord_digit[OF m]) (use m in simp)
  ultimately show ?case by (simp only: pad.simps digits_value_snoc mult_div_mod_eq)
qed

lemma parse_digits_pad:
  assumes "0 \<le> n" and "n < 10 ^ k"
  shows "parse_digits k (pad k n @ rest) = Some (n, rest)"
  using assms by (simp add: parse_digits_def pad_digits digits_value_pad)

lemma parse_date_isoformat:
  assumes "0 \<le> y" "y < 10000" "0 \<le> m" "m < 100" "0 \<le> d" "d < 100"
  shows "parse_isoformat_date (pad 4 y @ ''-'' @ pad 2 m @ ''-'' @ pad 2 d) = ymd_to_ord y m d"
proof -
  have "take 1 (pad 2 m @ r) \<noteq> ''W''" for r
  proof -
    obtain a b where "pad 2 m = [a, b]" by (auto simp: numeral_2_eq_2)
    moreover have "is_digit a" using pad_digits[of 2 m] calculation by simp
    ultimately show ?thesis by (auto simp: is_digit_def)
  qed
  moreover have "parse_digits 2 (pad 2 d) = Some (d, [])"
    using parse_digits_pad[of d 2 "[]"] assms by simp
  ultimately show ?thesis
    using parse_digits_pad[of y 4 "''-'' @ pad 2 m @ ''-'' @ pad 2 d"]
      parse_digits_pad[of m 2 "''-'' @ pad 2 d"] assms
    by (simp add: parse_isoformat_date_def)
qed

lemma parse_time_isoformat:
  assumes "0 \<le> h" "h < 100" "0 \<le> m" "m < 100" "0 \<le> s" "s < 100" "0 \<le> f" "f < 1000000"
  shows "parse_hh_mm_ss_ff (pad 2 h @ '':'' @ pad 2 m @ '':'' @ pad 2 s @
           (if f = 0 then [] else ''.'' @ pad 6 f)) = Some (h, m, s, f)"
proof -
  have frac: "parse_fraction (''.'' @ pad 6 f) = Some f"
    using pad_digits[of 6 f] digits_value_pad[of f 6] length_pad[of 6 f] assms
    by (auto simp: parse_fraction_def simp del: length_pad)
  let ?r = "if f = 0 then [] else ''.'' @ pad 6 f"
  show ?thesis
    using frac parse_digits_pad[of h 2 "'':'' @ pad 2 m @ '':'' @ pad 2 s @ ?r"]
      parse_digits_pad[of m 2 "'':'' @ pad 2 s @ ?r"] parse_digits_pad[of s 2 ?r] assms
    by (simp add: parse_hh_mm_ss_ff_def)
qed

lemma not_tz_digit: "is_digit c \<Longrightarrow> \<not> is_tz_start c"
  by (auto simp: is_digit_def is_tz_start_def)

lemma no_tz_pad: "c \<in> set (pad k n) \<Longrightarrow> \<not> is_tz_start c"
  using pad_digits[of k n] not_tz_digit by (auto simp: list_all_iff)

lemma parse_offset_utc: "parse_offset ''+00:00'' = Some (Some 0)"
  by code_simp

lemma parse_isoformat_time_utc:
  assumes "0 \<le> h" "h \<le> 23" "0 \<le> m" "m \<le> 59" "0 \<le> s" "s \<le> 59" "0 \<le> f" "f < 1000000"
  shows "parse_isoformat_time (pad 2 h @ '':'' @ pad 2 m @ '':'' @ pad 2 s @
           (if f = 0 then [] else ''.'' @ pad 6 f) @ ''+00:00'') = Some (hms_us (h, m, s, f), Some 0)"
proof -
  let ?t = "pad 2 h @ '':'' @ pad 2 m @ '':'' @ pad 2 s @ (if f = 0 then [] else ''.'' @ pad 6 f)"
  have "\<forall>c \<in> set ?t. \<not> is_tz_start c"
    by (auto simp: no_tz_pad) (auto simp: is_tz_start_def)
  then have "takeWhile (\<lambda>c. \<not> is_tz_start c) (?t @ ''+00:00'') = ?t"
    and "dropWhile (\<lambda>c. \<not> is_tz_start c) (?t @ ''+00:00'') = ''+00:00''"
    by (auto simp: takeWhile_append2 dropWhile_append2 is_tz_start_def)
  with parse_time_isoformat[of h m s f] assms show ?thesis
    by (simp add: parse_isoformat_time_def parse_offset_utc)
qed

lemma fromisoformat_isoformat:
  assumes "1 \<le> y" "y \<le> 9999" "1 \<le> mo" "mo \<le> 12" "1 \<le> d" "d \<le> days_in_month y mo"
    and time: "0 \<le> h" "h \<le> 23" "0 \<le> m" "m \<le> 59" "0 \<le> s" "s \<le> 59" "0 \<le> f" "f < 1000000"
    and range: "(ymd2ord y mo d - 1) * day_us + hms_us (h, m, s, f) \<le> max_instant"
  shows "fromisoformat (pad 4 y @ ''-'' @ pad 2 mo @ ''-'' @ pad 2 d @ ''T'' @
       pad 2 h @ '':'' @ pad 2 m @ '':'' @ pad 2 s @
       (if f = 0 then [] else ''.'' @ pad 6 f) @ ''+00:00'')
     = Some ((ymd2ord y mo d - 1) * day_us + hms_us (h, m, s, f), Some 0)"
proof -
  define tm where "tm = pad 2 h @ '':'' @ pad 2 m @ '':'' @ pad 2 s @
       (if f = 0 then [] else ''.'' @ pad 6 f) @ ''+00:00''"
  define dt where "dt = pad 4 y @ ''-'' @ pad 2 mo @ ''-'' @ pad 2 d"
  have d31: "d < 100" using assms(6) by (auto simp: days_in_month_def split: if_splits)
  have len: "length dt = 10" by (simp add: dt_def)
  have date: "parse_isoformat_date dt = Some (ymd2ord y mo d)"
    using parse_date_isoformat[of y mo d] assms d31 by (simp add: dt_def ymd_to_ord_def)
  have tim: "parse_isoformat_time tm = Some (hms_us (h, m, s, f), Some 0)" and "tm \<noteq> []"
    using parse_isoformat_time_utc[OF time] by (simp_all add: tm_def)
  moreover have sep: "separator_location (dt @ ''T'' @ tm) = 10"
  proof -
    have "(dt @ ''T'' @ tm) ! 4 = CHR ''-''"
      using length_pad[of 4 y] by (simp add: dt_def nth_append)
    moreover obtain a b where ab: "pad 2 mo = [a, b]" by (auto simp: numeral_2_eq_2)
    moreover have "is_digit a" using pad_digits[of 2 mo] ab by simp
    then have "a \<noteq> CHR ''W''" by (auto simp: is_digit_def)
    moreover have "(dt @ ''T'' @ tm) ! 5 = a"
      using length_pad[of 4 y] ab by (simp add: dt_def nth_append)
    ultimately show ?thesis using len by (simp add: separator_location_def)
  qed
  ultimately have "fromisoformat (dt @ ''T'' @ tm)
      = Some ((ymd2ord y mo d - 1) * day_us + hms_us (h, m, s, f), Some 0)"
    using date len range by (simp add: fromisoformat_def)
  then show ?thesis by (simp add: dt_def tm_def)
qed

lemma isoformat_no_z: "z_suffix_expanded (isoformat t) = isoformat t"
proof -
  have "z_suffix_expanded (s @ ''+00:00'') = s @ ''+00:00''" for s
    by (simp add: z_suffix_expanded_def)
  moreover have "\<exists>s. isoformat t = s @ ''+00:00''"
    unfolding isoformat_def Let_def append_assoc[symmetric] case_prod_beta by blast
  ultimately show ?thesis by auto
qed

lemma div_fits: "0 \<le> (x::int) \<Longrightarrow> 0 < k \<Longrightarrow> x < b * k \<Longrightarrow> 0 \<le> x div k \<and> x div k < b"
proof -
  assume "0 \<le> x" "0 < k" "x < b * k"
  then have "x div k * k < b * k"
    by (metis div_mult_mod_eq le_less_trans le_add_same_cancel1 pos_mod_sign)
  with \<open>0 < k\<close> \<open>0 \<le> x\<close> show ?thesis by (simp add: pos_imp_zdiv_nonneg_iff)
qed

lemma hms_us_split:
  assumes "0 \<le> us" and "us < day_us"
  shows "hms_us (us div 1000000 div 3600, us div 1000000 div 60 mod 60,
           us div 1000000 mod 60, us mod 1000000) = us"
    and "0 \<le> us div 1000000 div 3600" and "us div 1000000 div 3600 \<le> 23"
proof -
  define sec where "sec = us div 1000000"
  have sec: "0 \<le> sec" "sec < 86400"
    unfolding sec_def using div_fits[of us 1000000 86400] assms by (simp_all add: day_us_def)
  have "sec div 60 div 60 = sec div 3600" by (simp add: zdiv_zmult2_eq[symmetric])
  then have a: "(sec div 3600) * 60 + sec div 60 mod 60 = sec div 60"
    by (metis div_mult_mod_eq)
  have b: "(sec div 60) * 60 + sec mod 60 = sec" by (rule div_mult_mod_eq)
  have c: "sec * 1000000 + us mod 1000000 = us" unfolding sec_def by (rule div_mult_mod_eq)
  show "hms_us (us div 1000000 div 3600, us div 1000000 div 60 mod 60,
           us div 1000000 mod 60, us mod 1000000) = us"
    unfolding hms_us_def prod.case sec_def[symmetric] a b c ..
  show "0 \<le> us div 1000000 div 3600" "us div 1000000 div 3600 \<le> 23"
    using div_fits[of sec 3600 24] sec by (simp_all flip: sec_def)
qed

lemma utc_instant_isoformat:
  assumes "0 \<le> t" and "t \<le> max_instant"
  shows "utc_instant (isoformat t) = Some t"
proof -
  define n us where "n = t div day_us + 1" and "us = t mod day_us"
  have n: "1 \<le> n" "n \<le> max_ordinal"
    unfolding n_def using div_fits[of t day_us max_ordinal] assms
    by (auto simp: day_us_def max_ordinal_def max_instant_def)
  have us: "0 \<le> us" "us < day_us" unfolding us_def by (simp_all add: day_us_def)
  have t: "(n - 1) * day_us + us = t" by (simp add: n_def us_def)
  obtain y m d where ymd: "ord2ymd n = (y, m, d)" by (cases "ord2ymd n")
  note date = ord2ymd_correct[OF n ymd]
  have mod60: "0 \<le> x mod 60" "x mod 60 \<le> 59" for x :: int
    using pos_mod_bound[of 60 x] pos_mod_sign[of 60 x] by (simp_all only: zless_add1_eq[symmetric])
  define h mi s f where "h = us div 1000000 div 3600" and "mi = us div 1000000 div 60 mod 60"
    and "s = us div 1000000 mod 60" and "f = us mod 1000000"
  have time: "0 \<le> h" "h \<le> 23" "0 \<le> mi" "mi \<le> 59" "0 \<le> s" "s \<le> 59" "0 \<le> f" "f < 1000000"
    and "hms_us (h, mi, s, f) = us"
    unfolding h_def mi_def s_def f_def
    by (rule hms_us_split[OF us] mod60 pos_mod_sign pos_mod_bound zero_less_numeral)+
  then have "fromisoformat (isoformat t) = Some (t, Some 0)"
    unfolding isoformat_def Let_def n_def[symmetric] us_def[symmetric] ymd prod.case
      h_def[symmetric] mi_def[symmetric] s_def[symmetric] f_def[symmetric]
    using date t assms(2) by (subst fromisoformat_isoformat) simp_all
  then show ?thesis using assms by (simp add: utc_instant_def isoformat_no_z)
qed

end
