(* ===== verification/Serialization.thy ===== *)
theory Serialization
  imports Prelude
begin

text \<open>
  JSON values as \<open>serialization.py\<close> accepts them (\<open>_json_problem\<close>): integers in the safe
  range, finite numbers, at most 64 levels of nesting. The bytes of the RFC 8785 encoder are
  those of an external package; an event keeps the value it encodes, and a reader of the event
  gets that value back. Python compares a decoded number by value, so \<open>json_eq\<close> identifies
  integers, floats and booleans of the same value.

  The model has no container identity, so a recursive container, which \<open>_json_problem\<close>
  refuses, is not representable; neither is an object key that is not text.
\<close>

datatype json =
    JNull
  | JBool bool
  | JInt int
  | JFloat pyfloat
  | JStr string
  | JList "json list"
  | JObj "(string \<times> json) list"

definition max_nesting_depth :: nat where
  "max_nesting_depth = 64"

definition safe_integer :: "int \<Rightarrow> bool" where
  "safe_integer n = (- 9007199254740991 \<le> n \<and> n \<le> 9007199254740991)"

declare max_nesting_depth_def [simp]

text \<open>\<open>_json_problem(value, depth=d) is None\<close>.\<close>

function json_ok :: "nat \<Rightarrow> json \<Rightarrow> bool" where
  "json_ok d JNull = (d \<le> max_nesting_depth)"
| "json_ok d (JBool b) = (d \<le> max_nesting_depth)"
| "json_ok d (JInt n) = (d \<le> max_nesting_depth \<and> safe_integer n)"
| "json_ok d (JFloat x) = (d \<le> max_nesting_depth \<and> x \<notin> {PInf, NInf, NaN})"
| "json_ok d (JStr s) = (d \<le> max_nesting_depth)"
| "json_ok d (JList xs) = (d \<le> max_nesting_depth \<and> (\<forall>x \<in> set xs. json_ok (d + 1) x))"
| "json_ok d (JObj kvs) = (d \<le> max_nesting_depth \<and>
     (\<forall>kv \<in> set kvs. json_ok (d + 1) (JStr (fst kv)) \<and> json_ok (d + 1) (snd kv)))"
  by pat_completeness auto
termination
proof (relation "measure (\<lambda>(d, j). size j)")
  fix d :: nat and kvs :: "(string \<times> json) list" and kv
  assume kv: "kv \<in> set kvs"
  show "((d + 1, JStr (fst kv)), d, JObj kvs) \<in> measure (\<lambda>(d, j). size j)"
    by simp
  have "size (snd kv) < size_list (size_prod (\<lambda>x. 0) size) kvs"
    using kv by (intro size_list_estimation[OF kv]) (auto simp: size_prod_simp)
  then show "((d + 1, snd kv), d, JObj kvs) \<in> measure (\<lambda>(d, j). size j)"
    by simp
qed (auto simp: less_Suc_eq_le size_list_estimation')

definition json_get :: "string \<Rightarrow> json \<Rightarrow> json option" where
  "json_get k j = (case j of JObj kvs \<Rightarrow> map_of kvs k | _ \<Rightarrow> None)"

text \<open>A decoded number: \<open>type(value) in {int, float}\<close>, read with \<open>float(value)\<close>.\<close>

definition json_number :: "json \<Rightarrow> rat option" where
  "json_number j = (case j of JInt n \<Rightarrow> Some (of_int n) | JFloat (Finite r) \<Rightarrow> Some r | _ \<Rightarrow> None)"

text \<open>Equality of scalars as Python's \<open>==\<close> on decoded values.\<close>

definition json_scalar_eq :: "json \<Rightarrow> json \<Rightarrow> bool" where
  "json_scalar_eq a b =
    (let num = (\<lambda>j. case j of JBool t \<Rightarrow> Some (if t then 1 else 0) | _ \<Rightarrow> json_number j) in
     case (num a, num b) of
       (Some x, Some y) \<Rightarrow> x = y
     | (None, None) \<Rightarrow> a = b
     | _ \<Rightarrow> False)"

text \<open>Equality of two flat objects: the same keys, with equal scalars.\<close>

definition json_object_eq :: "json \<Rightarrow> json \<Rightarrow> bool" where
  "json_object_eq a b = (case (a, b) of
      (JObj xs, JObj ys) \<Rightarrow>
        set (map fst xs) = set (map fst ys) \<and>
        list_all (\<lambda>k. case (map_of xs k, map_of ys k) of
            (Some u, Some v) \<Rightarrow> json_scalar_eq u v | _ \<Rightarrow> False) (map fst xs)
    | _ \<Rightarrow> False)"

fun json_opt :: "('a \<Rightarrow> json) \<Rightarrow> 'a option \<Rightarrow> json" where
  "json_opt f None = JNull"
| "json_opt f (Some x) = f x"

lemma json_ok_flat:
  "json_ok d (JObj kvs) \<longleftrightarrow> d \<le> max_nesting_depth \<and>
     (kvs \<noteq> [] \<longrightarrow> d < max_nesting_depth) \<and> (\<forall>kv \<in> set kvs. json_ok (d + 1) (snd kv))"
  by (cases kvs) auto

lemma json_ok_scalar [simp]:
  "json_ok 0 (JObj kvs) \<longleftrightarrow> (\<forall>kv \<in> set kvs. json_ok (Suc 0) (snd kv))"
  by (auto simp: json_ok_flat)

lemma json_ok_leaf [simp]:
  "json_ok (Suc 0) (JStr s)" "json_ok (Suc 0) (JBool b)" "json_ok (Suc 0) JNull"
  "json_ok (Suc 0) (JInt n) \<longleftrightarrow> safe_integer n" "json_ok (Suc 0) (JFloat (Finite r))"
  by simp_all

lemma json_ok_opt [simp]:
  "json_ok d (json_opt f v) \<longleftrightarrow> (case v of None \<Rightarrow> d \<le> max_nesting_depth | Some x \<Rightarrow> json_ok d (f x))"
  by (cases v) simp_all

lemma json_number_scalar_eq:
  "json_number a = Some x \<Longrightarrow> json_number b = Some x \<Longrightarrow> json_scalar_eq a b"
  by (auto simp: json_scalar_eq_def json_number_def split: json.splits pyfloat.splits)

lemma json_object_eq_refl: "distinct (map fst kvs) \<Longrightarrow> json_object_eq (JObj kvs) (JObj kvs)"
  by (auto simp: json_object_eq_def json_scalar_eq_def list_all_iff split: option.splits)

end
