(* ===== verification/Database_V5.thy ===== *)
theory Database_V5
  imports Timestamps Serialization
begin

text \<open>
  The schema-v5 database (\<open>database_v5.py\<close>): one record per table the modelled services read
  or write, with its column constraints as a predicate on rows, and the SQL statements they
  issue as guarded updates and inserts. A statement that violates a \<open>CHECK\<close>, a unique index, a
  foreign key or a trigger is the value \<open>Inl (x, Constraint_violated)\<close>, \<open>x\<close> being the exception
  class the calling service wraps \<open>sqlite3.Error\<close> in; the transaction is then rolled back, so an
  operation that returns \<open>Inl\<close> leaves the database as it was.

  Rows are kept in primary-key order of insertion. No modelled statement deletes a row, so
  \<open>AUTOINCREMENT\<close> is one more than the largest identifier. Integers are within SQLite's 64-bit
  range, and a \<open>REAL\<close> column holds a finite number. Columns that carry an enumeration are
  datatypes; the schema's \<open>CHECK\<close> on their text is then the type.
\<close>

section \<open>Enumerated columns\<close>

datatype item_state =
    Queued | Held | Blocked | Starting | Running | Yielding | Terminating | Force_killing
  | Succeeded | Failed | Interrupted | Force_killed | Removed

fun state_name :: "item_state \<Rightarrow> string" where
  "state_name Queued = ''queued''"
| "state_name Held = ''held''"
| "state_name Blocked = ''blocked''"
| "state_name Starting = ''starting''"
| "state_name Running = ''running''"
| "state_name Yielding = ''yielding''"
| "state_name Terminating = ''terminating''"
| "state_name Force_killing = ''force_killing''"
| "state_name Succeeded = ''succeeded''"
| "state_name Failed = ''failed''"
| "state_name Interrupted = ''interrupted''"
| "state_name Force_killed = ''force_killed''"
| "state_name Removed = ''removed''"

text \<open>\<open>_ACTIVE_STATES\<close>: the states of an attempt that owns a GPU and may have a process.\<close>

definition active_state :: "item_state \<Rightarrow> bool" where
  "active_state s = (s \<in> {Starting, Running, Yielding, Terminating, Force_killing})"

definition terminal_state :: "item_state \<Rightarrow> bool" where
  "terminal_state s = (s \<in> {Succeeded, Failed, Interrupted, Force_killed, Removed})"

definition pending_state :: "item_state \<Rightarrow> bool" where
  "pending_state s = (s \<in> {Queued, Held, Blocked})"

datatype stage = Interrupt | Terminate | Kill

fun stage_name :: "stage \<Rightarrow> string" where
  "stage_name Interrupt = ''interrupt''"
| "stage_name Terminate = ''terminate''"
| "stage_name Kill = ''kill''"

datatype admission_kind = Experiment_card | Legacy_card

datatype lifecycle = Active | Paused | Archived

fun lifecycle_name :: "lifecycle \<Rightarrow> string" where
  "lifecycle_name Active = ''active''"
| "lifecycle_name Paused = ''paused''"
| "lifecycle_name Archived = ''archived''"

datatype health = Closed | Open

datatype revision_kind = Project_v1 | Legacy_v4

datatype reservation_status = Res_pending | Res_active | Res_expired | Res_released | Res_failed

fun status_name :: "reservation_status \<Rightarrow> string" where
  "status_name Res_pending = ''pending''"
| "status_name Res_active = ''active''"
| "status_name Res_expired = ''expired''"
| "status_name Res_released = ''released''"
| "status_name Res_failed = ''failed''"

definition open_status :: "reservation_status \<Rightarrow> bool" where
  "open_status s = (s \<in> {Res_pending, Res_active})"

datatype failure_scope = Scope_host | Scope_project

lemma state_name_inject [simp]: "state_name s = state_name t \<longleftrightarrow> s = t"
  by (cases s; cases t) simp_all

lemma state_partition: "pending_state s \<or> active_state s \<or> terminal_state s"
  by (cases s) (simp_all add: pending_state_def active_state_def terminal_state_def)

lemma state_classes_disjoint:
  "pending_state s \<Longrightarrow> \<not> active_state s" "pending_state s \<Longrightarrow> \<not> terminal_state s"
  "active_state s \<Longrightarrow> \<not> terminal_state s"
  by (cases s; simp add: pending_state_def active_state_def terminal_state_def)+

section \<open>Rows\<close>

record project_row =
  p_id :: int
  p_key :: string
  p_display_name :: string
  p_lifecycle :: lifecycle
  p_current_revision_id :: int
  p_current_revision_sequence :: int
  p_created_at :: string
  p_created_by :: string
  p_lifecycle_changed_at :: string
  p_lifecycle_actor :: string
  p_lifecycle_reason :: string

text \<open>
  The immutable source evidence of a revision: exact bytes, digests, normalized documents (kept as the
  JSON value they encode) and the identity of the schema that validated them. The columns are null
  together, which is \<open>None\<close>.
\<close>

record extension_sources =
  es_path :: string
  es_source :: string
  es_sha256 :: string
  es_canonical :: json
  es_canonical_sha256 :: string
  es_schema_id :: "string option"

record schema_evidence =
  se_api_version :: string
  se_kind :: string
  se_schema_id :: string
  se_sha256 :: string

record project_sources =
  ps_path :: string
  ps_source :: string
  ps_sha256 :: string
  ps_normalized :: json
  ps_normalized_sha256 :: string
  ps_schema :: schema_evidence
  ps_extension :: "extension_sources option"

record stored_blob =
  sb_object_id :: string
  sb_mode :: string
  sb_size :: nat

text \<open>
  A revision row; its enrollment document and package version are read only by the verification of
  stored evidence, which is a parameter of the services, and are not columns here.
\<close>

record revision_row =
  r_id :: int
  r_project_id :: int
  r_sequence :: int
  r_label :: string
  r_kind :: revision_kind
  r_display_name :: string
  r_git_commit :: "string option"
  r_checkout_path :: string
  r_created_at :: string
  r_created_actor :: string
  r_sources :: "project_sources option"
  r_project_blob :: "stored_blob option"
  r_extension_blob :: "stored_blob option"

datatype access = Read_only | Read_write

record mount_row =
  m_project_id :: int
  m_revision_id :: int
  m_name :: string
  m_path :: string
  m_declared_access :: access
  m_access :: access
  m_required :: bool
  m_checkout_descendant :: bool
  m_git_ignored :: bool

record root_row =
  ar_project_id :: int
  ar_revision_id :: int
  ar_mount_name :: string

record environment_row =
  en_project_id :: int
  en_revision_id :: int
  en_name :: string
  en_search_directories :: "string list"
  en_command_prefix :: "string list option"
  en_inherit_variables :: "string list"

record runtime_row =
  rs_project_id :: int
  rs_health :: health
  rs_failure_count :: int
  rs_reason :: string
  rs_actor :: string
  rs_changed_at :: string

record queue_item =
  qi_id :: int
  qi_project_id :: int
  qi_revision_id :: int
  qi_admission_kind :: admission_kind
  qi_snapshot_id :: "int option"
  qi_job_id :: "string option"
  qi_experiment_id :: string
  qi_attempt :: int
  qi_card_path :: string
  qi_card_sha256 :: string
  qi_command_text :: string
  qi_runner_name :: string
  qi_git_commit :: string
  qi_added_at :: string
  qi_added_by :: string
  qi_git_ref :: "string option"
  qi_worktree_path :: "string option"
  qi_worktree_created_at :: "string option"
  qi_worktree_removed_at :: "string option"
  qi_worktree_cleanup_error :: "string option"
  qi_state :: item_state
  qi_priority :: int
  qi_state_detail :: "string option"
  qi_gpu_uuid :: "string option"
  qi_gpu_index :: "string option"
  qi_lease_held :: bool
  qi_lease_released_at :: "string option"
  qi_pid :: "int option"
  qi_pgid :: "int option"
  qi_start_ticks :: "string option"
  qi_started_at :: "string option"
  qi_finished_at :: "string option"
  qi_return_code :: "int option"
  qi_terminate_requested_at :: "string option"
  qi_terminate_reason :: "string option"
  qi_termination_stage :: "stage option"
  qi_termination_signal_epoch :: "rat option"
  qi_contention_detected :: bool
  qi_repo_drift_detected :: bool
  qi_runner_run_dir :: "string option"
  qi_runner_manifest_path :: "string option"
  qi_rsync_pull_command :: "string option"
  qi_preemptible :: bool
  qi_segment :: int
  qi_resume_front :: bool
  qi_yield_requested_at :: "string option"
  qi_yield_requested_by :: "string option"
  qi_yield_request_id :: "string option"
  qi_yield_note :: "string option"
  qi_yield_duration_hours :: "int option"
  qi_checkpoint :: "string option"
  qi_checkpoint_sha256 :: "string option"
  qi_checkpoint_metadata :: "string option"
  qi_checkpoint_metadata_sha256 :: "string option"
  qi_continuation_step :: "int option"
  qi_continuation_wandb_id :: "string option"
  qi_runtime_git_ref :: "string option"
  qi_runtime_worktree_path :: "string option"
  qi_runtime_worktree_created_at :: "string option"
  qi_runtime_worktree_removed_at :: "string option"
  qi_runtime_worktree_cleanup_error :: "string option"

record gpu_row =
  g_uuid :: string
  g_requested_identifier :: string
  g_last_index :: string
  g_name :: string
  g_enabled :: bool
  g_draining :: bool
  g_updated_at :: string

record event_row =
  e_id :: int
  e_created_at :: string
  e_actor :: string
  e_type :: string
  e_item_id :: "int option"
  e_payload :: json
  e_scope :: failure_scope
  e_project_id :: "int option"

record reservation_row =
  v_id :: int
  v_gpu_uuid :: string
  v_item_id :: "int option"
  v_status :: reservation_status
  v_requested_at :: string
  v_requested_by :: string
  v_note :: string
  v_duration_hours :: int
  v_starts_at :: "string option"
  v_expires_at :: "string option"
  v_released_at :: "string option"
  v_released_by :: "string option"
  v_state_detail :: "string option"

datatype artifact_type = File_artifact | Directory_artifact

record artifact_row =
  a_id :: int
  a_item_id :: int
  a_project_id :: int
  a_revision_id :: int
  a_segment :: int
  a_name :: string
  a_type :: artifact_type
  a_root_name :: string
  a_relative_path :: string
  a_absolute_path :: string
  a_size_bytes :: "int option"
  a_recorded_at :: string
  a_metadata :: json

text \<open>
  Admission snapshots: the evidence columns, whose JSON documents are kept as values, and the Git blobs
  of the sources.
\<close>

record submission_policy =
  sp_project_key :: string
  sp_card_path :: string
  sp_job_id :: string
  sp_priority :: int
  sp_hold_reason :: "string option"
  sp_dependencies :: "int list"
  sp_operator :: string
  sp_preemption_authorized :: bool
  sp_bindings :: json

record admission_snapshot =
  as_project_source_name :: string
  as_project_source :: string
  as_project_source_sha256 :: string
  as_project_normalized :: json
  as_project_normalized_sha256 :: string
  as_project_schema :: schema_evidence
  as_card_source_name :: string
  as_card_source :: string
  as_card_source_sha256 :: string
  as_card_document :: json
  as_card_normalized_sha256 :: string
  as_card_schema :: schema_evidence
  as_extension_source_name :: "string option"
  as_extension :: "extension_sources option"
  as_resolved_document :: json
  as_resolved_sha256 :: string
  as_command_kind :: string
  as_command_json :: string
  as_project_revision :: string
  as_git_commit :: string
  as_package_version :: string
  as_policy :: submission_policy

record snapshot_row =
  sn_id :: int
  sn_project_id :: int
  sn_revision_id :: int
  sn_evidence :: admission_snapshot
  sn_project_blob :: stored_blob
  sn_card_blob :: stored_blob
  sn_extension_blob :: "stored_blob option"
  sn_created_at :: string

text \<open>Cooperative-yield evidence: the exact wire bytes and the columns decomposed from them.\<close>

datatype request_kind = Manual_preemption | Gpu_reservation

fun request_kind_name :: "request_kind \<Rightarrow> string" where
  "request_kind_name Manual_preemption = ''manual_preemption''"
| "request_kind_name Gpu_reservation = ''gpu_reservation''"

datatype receipt_status = Ready | Failed_receipt

fun receipt_status_name :: "receipt_status \<Rightarrow> string" where
  "receipt_status_name Ready = ''ready''"
| "receipt_status_name Failed_receipt = ''failed''"

record yield_request_row =
  yr_request_id :: string
  yr_item_id :: int
  yr_project_id :: int
  yr_revision_id :: int
  yr_segment :: int
  yr_kind :: request_kind
  yr_requested_at :: string
  yr_requested_by :: string
  yr_note :: string
  yr_source :: string
  yr_sha256 :: string
  yr_resolved_spec_sha256 :: string
  yr_project_revision :: string
  yr_git_commit :: string
  yr_run_id :: string
  yr_prior_receipt_sha256 :: string
  yr_identity_sha256 :: string

record yield_receipt_row =
  yc_request_id :: string
  yc_item_id :: int
  yc_project_id :: int
  yc_revision_id :: int
  yc_segment :: int
  yc_bound_identity_sha256 :: string
  yc_status :: receipt_status
  yc_written_at :: string
  yc_source :: string
  yc_sha256 :: string
  yc_progress :: "string option"
  yc_progress_sha256 :: "string option"
  yc_artifacts :: "string option"
  yc_artifacts_sha256 :: "string option"
  yc_resume :: "string option"
  yc_resume_bytes :: "int option"
  yc_resume_media_type :: "string option"
  yc_resume_sha256 :: "string option"
  yc_error :: "string option"

record db =
  db_metadata :: "string \<rightharpoonup> string"
  db_projects :: "project_row list"
  db_revisions :: "revision_row list"
  db_mounts :: "mount_row list"
  db_roots :: "root_row list"
  db_environments :: "environment_row list"
  db_runtime :: "runtime_row list"
  db_items :: "queue_item list"
  db_dependencies :: "(int \<times> int) list"
  db_gpus :: "gpu_row list"
  db_events :: "event_row list"
  db_reservations :: "reservation_row list"
  db_artifacts :: "artifact_row list"
  db_snapshots :: "snapshot_row list"
  db_yield_requests :: "yield_request_row list"
  db_yield_receipts :: "yield_receipt_row list"

section \<open>Column constraints\<close>

definition hex_digest :: "string \<Rightarrow> bool" where
  "hex_digest s = list_all (\<lambda>c. c \<in> set ''0123456789abcdef'') s"

definition sha256_text :: "string \<Rightarrow> bool" where
  "sha256_text s = (length s = 64 \<and> hex_digest s)"

definition commit_text :: "string \<Rightarrow> bool" where
  "commit_text s = ((length s = 40 \<or> length s = 64) \<and> hex_digest s)"

definition null_or :: "('a \<Rightarrow> bool) \<Rightarrow> 'a option \<Rightarrow> bool" where
  "null_or P v = (case v of None \<Rightarrow> True | Some x \<Rightarrow> P x)"

text \<open>The identity columns of an admitted item, which a trigger makes immutable.\<close>

definition item_identity_check :: "queue_item \<Rightarrow> bool" where
  "item_identity_check i =
    (qi_id i > 0 \<and> qi_project_id i > 0 \<and> qi_revision_id i > 0
     \<and> null_or (\<lambda>n. n > 0) (qi_snapshot_id i)
     \<and> qi_experiment_id i \<noteq> [] \<and> qi_attempt i > 0 \<and> qi_card_path i \<noteq> []
     \<and> sha256_text (qi_card_sha256 i) \<and> qi_command_text i \<noteq> [] \<and> qi_runner_name i \<noteq> []
     \<and> commit_text (qi_git_commit i) \<and> qi_added_at i \<noteq> [] \<and> qi_added_by i \<noteq> []
     \<and> (case qi_admission_kind i of
          Experiment_card \<Rightarrow> qi_snapshot_id i \<noteq> None \<and> (case qi_job_id i of None \<Rightarrow> False | Some j \<Rightarrow> j \<noteq> [])
        | Legacy_card \<Rightarrow> qi_snapshot_id i = None \<and> qi_job_id i = None))"

definition lease_check :: "queue_item \<Rightarrow> bool" where
  "lease_check i =
    ((qi_gpu_uuid i = None) = (qi_gpu_index i = None)
     \<and> (qi_lease_held i \<longrightarrow> qi_gpu_uuid i \<noteq> None \<and> qi_gpu_index i \<noteq> None
          \<and> qi_lease_released_at i = None)
     \<and> (qi_lease_released_at i \<noteq> None \<longrightarrow> \<not> qi_lease_held i \<and> qi_gpu_uuid i \<noteq> None
          \<and> qi_gpu_index i \<noteq> None)
     \<and> (qi_lease_held i \<longrightarrow> active_state (qi_state i)
          \<or> qi_state i \<in> {Succeeded, Failed, Interrupted, Force_killed})
     \<and> (active_state (qi_state i) \<longrightarrow> qi_lease_held i)
     \<and> (qi_state i = Queued \<longrightarrow> \<not> qi_lease_held i))"

definition runtime_column_check :: "queue_item \<Rightarrow> bool" where
  "runtime_column_check i =
    (null_or (\<lambda>s. s \<noteq> []) (qi_lease_released_at i)
     \<and> null_or (\<lambda>n. n > 0) (qi_pid i) \<and> null_or (\<lambda>n. n > 0) (qi_pgid i)
     \<and> qi_segment i > 0
     \<and> null_or (\<lambda>n. 1 \<le> n \<and> n \<le> 24) (qi_yield_duration_hours i)
     \<and> null_or sha256_text (qi_checkpoint_sha256 i)
     \<and> null_or sha256_text (qi_checkpoint_metadata_sha256 i)
     \<and> null_or (\<lambda>n. n \<ge> 0) (qi_continuation_step i)
     \<and> (qi_checkpoint i = None) = (qi_checkpoint_sha256 i = None)
     \<and> (qi_checkpoint_metadata i = None) = (qi_checkpoint_metadata_sha256 i = None))"

definition item_check :: "queue_item \<Rightarrow> bool" where
  "item_check i = (item_identity_check i \<and> lease_check i \<and> runtime_column_check i)"

text \<open>\<open>queue_items_identity_immutable\<close>: columns no update may touch.\<close>

definition same_identity :: "queue_item \<Rightarrow> queue_item \<Rightarrow> bool" where
  "same_identity i j =
    (qi_id i = qi_id j \<and> qi_project_id i = qi_project_id j \<and> qi_revision_id i = qi_revision_id j
     \<and> qi_admission_kind i = qi_admission_kind j \<and> qi_snapshot_id i = qi_snapshot_id j
     \<and> qi_job_id i = qi_job_id j \<and> qi_experiment_id i = qi_experiment_id j
     \<and> qi_attempt i = qi_attempt j \<and> qi_card_path i = qi_card_path j
     \<and> qi_card_sha256 i = qi_card_sha256 j \<and> qi_command_text i = qi_command_text j
     \<and> qi_runner_name i = qi_runner_name j \<and> qi_git_commit i = qi_git_commit j
     \<and> qi_added_at i = qi_added_at j \<and> qi_added_by i = qi_added_by j
     \<and> qi_git_ref i = qi_git_ref j \<and> qi_worktree_path i = qi_worktree_path j
     \<and> qi_worktree_created_at i = qi_worktree_created_at j
     \<and> qi_worktree_removed_at i = qi_worktree_removed_at j
     \<and> qi_worktree_cleanup_error i = qi_worktree_cleanup_error j)"

text \<open>
  Names of Projects, mounts and environments: \<open>GLOB\<close> and \<open>LIKE\<close> constraints on their text.
\<close>

definition slug_char :: "char \<Rightarrow> bool" where
  "slug_char c = (97 \<le> ord c \<and> ord c \<le> 122 \<or> 48 \<le> ord c \<and> ord c \<le> 57)"

definition slug_check :: "string \<Rightarrow> bool" where
  "slug_check s =
    (1 \<le> length s \<and> length s \<le> 63 \<and> 97 \<le> ord (hd s) \<and> ord (hd s) \<le> 122
     \<and> list_all (\<lambda>c. slug_char c \<or> c = CHR ''-'') s \<and> \<not> sublist ''--'' s \<and> slug_char (last s))"

definition absolute_text :: "string \<Rightarrow> bool" where
  "absolute_text s = (1 < length s \<and> hd s = CHR ''/'')"

definition project_check :: "project_row \<Rightarrow> bool" where
  "project_check p =
    (p_id p > 0 \<and> slug_check (p_key p) \<and> p_display_name p \<noteq> [] \<and> p_current_revision_id p > 0
     \<and> p_current_revision_sequence p > 0 \<and> p_created_at p \<noteq> [] \<and> p_created_by p \<noteq> []
     \<and> p_lifecycle_changed_at p \<noteq> [] \<and> p_lifecycle_actor p \<noteq> [] \<and> p_lifecycle_reason p \<noteq> [])"

definition blob_check :: "stored_blob \<Rightarrow> string \<Rightarrow> bool" where
  "blob_check b source = (commit_text (sb_object_id b) \<and> sb_mode b \<in> {''100644'', ''100755''}
     \<and> sb_size b = length source)"

definition schema_check :: "schema_evidence \<Rightarrow> bool" where
  "schema_check s = (se_api_version s \<noteq> [] \<and> se_kind s \<noteq> [] \<and> se_schema_id s \<noteq> []
     \<and> sha256_text (se_sha256 s))"

text \<open>The extension columns are null together, or all present with the blob of their source.\<close>

definition extension_check :: "extension_sources option \<Rightarrow> stored_blob option \<Rightarrow> bool" where
  "extension_check x b = (case (x, b) of
      (None, None) \<Rightarrow> True
    | (Some e, Some blob) \<Rightarrow> es_path e \<noteq> [] \<and> es_source e \<noteq> [] \<and> sha256_text (es_sha256 e)
        \<and> blob_check blob (es_source e) \<and> sha256_text (es_canonical_sha256 e)
        \<and> null_or (\<lambda>s. s \<noteq> []) (es_schema_id e)
    | _ \<Rightarrow> False)"

text \<open>The manifest path of a typed revision is its source path, relative and without backslashes.\<close>

definition sources_check :: "project_sources \<Rightarrow> stored_blob \<Rightarrow> bool" where
  "sources_check s b = (ps_path s \<noteq> [] \<and> hd (ps_path s) \<noteq> CHR ''/'' \<and> CHR 0x5C \<notin> set (ps_path s)
     \<and> ps_source s \<noteq> [] \<and> sha256_text (ps_sha256 s)
     \<and> blob_check b (ps_source s) \<and> sha256_text (ps_normalized_sha256 s) \<and> schema_check (ps_schema s))"

definition revision_check :: "revision_row \<Rightarrow> bool" where
  "revision_check r =
    (r_id r > 0 \<and> r_project_id r > 0 \<and> r_sequence r > 0 \<and> r_label r \<noteq> [] \<and> r_display_name r \<noteq> []
     \<and> null_or commit_text (r_git_commit r)
     \<and> (case (r_kind r, r_sources r, r_project_blob r) of
          (Project_v1, Some s, Some b) \<Rightarrow> r_git_commit r \<noteq> None \<and> sources_check s b
            \<and> extension_check (ps_extension s) (r_extension_blob r)
        | (Legacy_v4, None, None) \<Rightarrow> r_extension_blob r = None
        | _ \<Rightarrow> False)
     \<and> absolute_text (r_checkout_path r) \<and> r_created_at r \<noteq> [] \<and> r_created_actor r \<noteq> [])"

definition mount_check :: "mount_row \<Rightarrow> bool" where
  "mount_check m =
    (m_project_id m > 0 \<and> m_revision_id m > 0 \<and> slug_check (m_name m) \<and> absolute_text (m_path m)
     \<and> \<not> (m_declared_access m = Read_only \<and> m_access m = Read_write)
     \<and> (m_checkout_descendant m \<longrightarrow> m_git_ignored m))"

definition runtime_check :: "runtime_row \<Rightarrow> bool" where
  "runtime_check r =
    (rs_project_id r > 0 \<and> rs_failure_count r \<ge> 0 \<and> rs_reason r \<noteq> [] \<and> rs_actor r \<noteq> []
     \<and> rs_changed_at r \<noteq> [] \<and> (rs_health r = Closed \<or> rs_failure_count r > 0))"

definition gpu_check :: "gpu_row \<Rightarrow> bool" where
  "gpu_check g = (g_uuid g \<noteq> [] \<and> g_requested_identifier g \<noteq> [] \<and> g_last_index g \<noteq> []
     \<and> g_name g \<noteq> [] \<and> g_updated_at g \<noteq> [])"

definition reservation_check :: "reservation_row \<Rightarrow> bool" where
  "reservation_check v =
    (v_id v > 0 \<and> v_gpu_uuid v \<noteq> [] \<and> v_requested_at v \<noteq> [] \<and> v_requested_by v \<noteq> []
     \<and> 1 \<le> length (v_note v) \<and> length (v_note v) \<le> 200
     \<and> 1 \<le> v_duration_hours v \<and> v_duration_hours v \<le> 24)"

text \<open>\<open>declared-v1\<close> artifact rows: a relative path below a declared artifact root.\<close>

definition contained_path :: "string \<Rightarrow> bool" where
  "contained_path s = (s \<noteq> [] \<and> hd s \<noteq> CHR ''/'' \<and> CHR 0x5C \<notin> set s \<and> s \<noteq> ''..''
     \<and> \<not> prefix ''../'' s \<and> \<not> sublist ''/../'' s \<and> \<not> suffix ''/..'' s)"

definition artifact_check :: "artifact_row \<Rightarrow> bool" where
  "artifact_check a =
    (a_id a > 0 \<and> a_item_id a > 0 \<and> a_project_id a > 0 \<and> a_revision_id a > 0
     \<and> a_segment a > 0 \<and> a_name a \<noteq> [] \<and> a_root_name a \<noteq> []
     \<and> contained_path (a_relative_path a)
     \<and> 1 < length (a_absolute_path a) \<and> hd (a_absolute_path a) = CHR ''/''
     \<and> null_or (\<lambda>n. n \<ge> 0) (a_size_bytes a) \<and> a_recorded_at a \<noteq> [])"

section \<open>Reading rows\<close>

definition find_item :: "queue_item list \<Rightarrow> int \<Rightarrow> queue_item option" where
  "find_item rows k = find (\<lambda>i. qi_id i = k) rows"

definition find_project :: "project_row list \<Rightarrow> int \<Rightarrow> project_row option" where
  "find_project rows k = find (\<lambda>p. p_id p = k) rows"

definition find_runtime :: "runtime_row list \<Rightarrow> int \<Rightarrow> runtime_row option" where
  "find_runtime rows k = find (\<lambda>r. rs_project_id r = k) rows"

definition find_revision :: "revision_row list \<Rightarrow> int \<Rightarrow> revision_row option" where
  "find_revision rows k = find (\<lambda>r. r_id r = k) rows"

definition find_gpu :: "gpu_row list \<Rightarrow> string \<Rightarrow> gpu_row option" where
  "find_gpu rows k = find (\<lambda>g. g_uuid g = k) rows"

definition find_reservation :: "reservation_row list \<Rightarrow> int \<Rightarrow> reservation_row option" where
  "find_reservation rows k = find (\<lambda>v. v_id v = k) rows"

interpretation item_table: keyed_table qi_id find_item
  by unfold_locales (simp add: find_item_def)

interpretation project_table: keyed_table p_id find_project
  by unfold_locales (simp add: find_project_def)

interpretation runtime_table: keyed_table rs_project_id find_runtime
  by unfold_locales (simp add: find_runtime_def)

interpretation revision_table: keyed_table r_id find_revision
  by unfold_locales (simp add: find_revision_def)

interpretation gpu_table: keyed_table g_uuid find_gpu
  by unfold_locales (simp add: find_gpu_def)

interpretation reservation_table: keyed_table v_id find_reservation
  by unfold_locales (simp add: find_reservation_def)

section \<open>Statements\<close>

text \<open>
  \<open>UPDATE ... WHERE\<close>: the rows satisfying \<open>P\<close> are rewritten by \<open>f\<close> when every rewritten row
  satisfies the table's constraints, and the number of rewritten rows is returned.
\<close>

definition guarded_update ::
  "('r \<Rightarrow> 'r \<Rightarrow> bool) \<Rightarrow> ('r \<Rightarrow> bool) \<Rightarrow> ('r \<Rightarrow> 'r) \<Rightarrow> 'r list \<Rightarrow> (nat \<times> 'r list) option" where
  "guarded_update ok P f rows =
    (if list_all (\<lambda>r. P r \<longrightarrow> ok r (f r)) rows
     then Some (length (filter P rows), update_rows P f rows) else None)"

definition update_items ::
  "exn \<Rightarrow> (queue_item \<Rightarrow> bool) \<Rightarrow> (queue_item \<Rightarrow> queue_item) \<Rightarrow> db \<Rightarrow> (nat \<times> db) result" where
  "update_items x P f d =
    (case guarded_update (\<lambda>i j. item_check j \<and> same_identity i j) P f (db_items d) of
       None \<Rightarrow> Inl (x, Constraint_violated)
     | Some (n, rows) \<Rightarrow> Inr (n, d\<lparr>db_items := rows\<rparr>))"

definition update_runtime ::
  "exn \<Rightarrow> (runtime_row \<Rightarrow> bool) \<Rightarrow> (runtime_row \<Rightarrow> runtime_row) \<Rightarrow> db \<Rightarrow> (nat \<times> db) result" where
  "update_runtime x P f d =
    (case guarded_update (\<lambda>r s. runtime_check s \<and> rs_project_id s = rs_project_id r) P f
       (db_runtime d) of
       None \<Rightarrow> Inl (x, Constraint_violated)
     | Some (n, rows) \<Rightarrow> Inr (n, d\<lparr>db_runtime := rows\<rparr>))"

definition update_gpus ::
  "exn \<Rightarrow> (gpu_row \<Rightarrow> bool) \<Rightarrow> (gpu_row \<Rightarrow> gpu_row) \<Rightarrow> db \<Rightarrow> (nat \<times> db) result" where
  "update_gpus x P f d =
    (case guarded_update (\<lambda>g h. gpu_check h \<and> g_uuid h = g_uuid g) P f (db_gpus d) of
       None \<Rightarrow> Inl (x, Constraint_violated)
     | Some (n, rows) \<Rightarrow> Inr (n, d\<lparr>db_gpus := rows\<rparr>))"

text \<open>\<open>gpu_reservations_open_gpu\<close>: at most one pending or active row per GPU.\<close>

definition open_gpus :: "reservation_row list \<Rightarrow> string list" where
  "open_gpus rows = map v_gpu_uuid (filter (\<lambda>v. open_status (v_status v)) rows)"

definition update_reservations ::
  "exn \<Rightarrow> (reservation_row \<Rightarrow> bool) \<Rightarrow> (reservation_row \<Rightarrow> reservation_row) \<Rightarrow> db
    \<Rightarrow> (nat \<times> db) result" where
  "update_reservations x P f d =
    (case guarded_update (\<lambda>v w. reservation_check w \<and> v_id w = v_id v \<and> v_item_id w = v_item_id v)
       P f (db_reservations d) of
       None \<Rightarrow> Inl (x, Constraint_violated)
     | Some (n, rows) \<Rightarrow>
         if distinct (open_gpus rows) then Inr (n, d\<lparr>db_reservations := rows\<rparr>)
         else Inl (x, Constraint_violated))"

definition insert_reservation :: "exn \<Rightarrow> reservation_row \<Rightarrow> db \<Rightarrow> db result" where
  "insert_reservation x v d =
    (if reservation_check v \<and> v_id v \<notin> set (map v_id (db_reservations d))
        \<and> null_or (\<lambda>k. find_item (db_items d) k \<noteq> None) (v_item_id v)
        \<and> distinct (open_gpus (db_reservations d @ [v]))
     then Inr (d\<lparr>db_reservations := db_reservations d @ [v]\<rparr>)
     else Inl (x, Constraint_violated))"

text \<open>
  \<open>UPDATE projects\<close>: the columns named in the statement decide which triggers fire.
\<close>

datatype project_columns = Lifecycle_columns | Revision_columns

text \<open>Checkout cleanup that is not finished: the disjunction in the query and in the trigger.\<close>

definition cleanup_pending :: "queue_item \<Rightarrow> bool" where
  "cleanup_pending i =
    ((qi_worktree_cleanup_error i \<noteq> None
        \<or> qi_worktree_path i \<noteq> None \<and> qi_worktree_removed_at i = None)
       \<and> qi_runtime_worktree_removed_at i = None
     \<or> qi_runtime_worktree_cleanup_error i \<noteq> None
     \<or> qi_runtime_worktree_path i \<noteq> None \<and> qi_runtime_worktree_removed_at i = None)"

definition archive_blocked :: "db \<Rightarrow> int \<Rightarrow> bool" where
  "archive_blocked d project_id =
    (list_ex (\<lambda>i. qi_project_id i = project_id \<and> qi_state i \<in>
        {Queued, Held, Blocked, Starting, Running, Yielding, Terminating, Force_killing}) (db_items d)
     \<or> list_ex (\<lambda>i. qi_project_id i = project_id \<and> cleanup_pending i) (db_items d))"

fun project_triggers :: "project_columns \<Rightarrow> db \<Rightarrow> project_row \<Rightarrow> project_row \<Rightarrow> bool" where
  "project_triggers Lifecycle_columns d p q =
    (\<not> (p_lifecycle p = Archived \<and> p_lifecycle q \<noteq> Archived)
     \<and> \<not> (p_lifecycle q = Archived \<and> p_lifecycle p \<noteq> Paused)
     \<and> \<not> (p_lifecycle q = Archived \<and> archive_blocked d (p_id p)))"
| "project_triggers Revision_columns d p q =
    (\<not> (p_lifecycle q = Archived \<or> p_current_revision_sequence q \<le> p_current_revision_sequence p))"

definition update_projects ::
  "exn \<Rightarrow> project_columns \<Rightarrow> (project_row \<Rightarrow> bool) \<Rightarrow> (project_row \<Rightarrow> project_row) \<Rightarrow> db
    \<Rightarrow> (nat \<times> db) result" where
  "update_projects x columns P f d =
    (case guarded_update (\<lambda>p q. project_check q \<and> p_id q = p_id p \<and> p_key q = p_key p
          \<and> project_triggers columns d p q) P f (db_projects d) of
       None \<Rightarrow> Inl (x, Constraint_violated)
     | Some (n, rows) \<Rightarrow> Inr (n, d\<lparr>db_projects := rows\<rparr>))"

definition insert_project :: "exn \<Rightarrow> project_row \<Rightarrow> db \<Rightarrow> db result" where
  "insert_project x p d =
    (if project_check p \<and> p_id p \<notin> set (map p_id (db_projects d))
        \<and> p_key p \<notin> set (map p_key (db_projects d))
     then Inr (d\<lparr>db_projects := db_projects d @ [p]\<rparr>) else Inl (x, Constraint_violated))"

definition insert_revision_row :: "exn \<Rightarrow> revision_row \<Rightarrow> db \<Rightarrow> db result" where
  "insert_revision_row x r d =
    (if revision_check r \<and> r_id r \<notin> set (map r_id (db_revisions d))
        \<and> r_label r \<notin> set (map r_label (db_revisions d))
        \<and> (r_project_id r, r_sequence r) \<notin> set (map (\<lambda>s. (r_project_id s, r_sequence s)) (db_revisions d))
        \<and> r_project_id r \<in> set (map p_id (db_projects d))
     then Inr (d\<lparr>db_revisions := db_revisions d @ [r]\<rparr>) else Inl (x, Constraint_violated))"

definition revision_exists :: "db \<Rightarrow> int \<Rightarrow> int \<Rightarrow> bool" where
  "revision_exists d project_id revision_id =
    list_ex (\<lambda>r. r_project_id r = project_id \<and> r_id r = revision_id) (db_revisions d)"

definition insert_mount :: "exn \<Rightarrow> mount_row \<Rightarrow> db \<Rightarrow> db result" where
  "insert_mount x m d =
    (if mount_check m \<and> revision_exists d (m_project_id m) (m_revision_id m)
        \<and> \<not> list_ex (\<lambda>n. m_project_id n = m_project_id m \<and> m_revision_id n = m_revision_id m
              \<and> m_name n = m_name m) (db_mounts d)
     then Inr (d\<lparr>db_mounts := db_mounts d @ [m]\<rparr>) else Inl (x, Constraint_violated))"

definition insert_root :: "exn \<Rightarrow> root_row \<Rightarrow> db \<Rightarrow> db result" where
  "insert_root x r d =
    (if ar_project_id r > 0 \<and> ar_revision_id r > 0 \<and> ar_mount_name r \<noteq> []
        \<and> list_ex (\<lambda>m. m_project_id m = ar_project_id r \<and> m_revision_id m = ar_revision_id r
              \<and> m_name m = ar_mount_name r \<and> m_access m = Read_write) (db_mounts d)
        \<and> \<not> list_ex (\<lambda>q. ar_project_id q = ar_project_id r \<and> ar_revision_id q = ar_revision_id r
              \<and> ar_mount_name q = ar_mount_name r) (db_roots d)
     then Inr (d\<lparr>db_roots := db_roots d @ [r]\<rparr>) else Inl (x, Constraint_violated))"

definition insert_environment :: "exn \<Rightarrow> environment_row \<Rightarrow> db \<Rightarrow> db result" where
  "insert_environment x e d =
    (if en_project_id e > 0 \<and> en_revision_id e > 0 \<and> slug_check (en_name e)
        \<and> revision_exists d (en_project_id e) (en_revision_id e)
        \<and> \<not> list_ex (\<lambda>f. en_project_id f = en_project_id e \<and> en_revision_id f = en_revision_id e
              \<and> en_name f = en_name e) (db_environments d)
     then Inr (d\<lparr>db_environments := db_environments d @ [e]\<rparr>) else Inl (x, Constraint_violated))"

definition insert_runtime :: "exn \<Rightarrow> runtime_row \<Rightarrow> db \<Rightarrow> db result" where
  "insert_runtime x r d =
    (if runtime_check r \<and> rs_project_id r \<notin> set (map rs_project_id (db_runtime d))
        \<and> rs_project_id r \<in> set (map p_id (db_projects d))
     then Inr (d\<lparr>db_runtime := db_runtime d @ [r]\<rparr>) else Inl (x, Constraint_violated))"

text \<open>The deferred foreign key from a Project to its current revision, checked at commit.\<close>

definition current_revisions_ok :: "db \<Rightarrow> bool" where
  "current_revisions_ok d = list_all (\<lambda>p.
     list_ex (\<lambda>r. r_project_id r = p_id p \<and> r_id r = p_current_revision_id p
       \<and> r_sequence r = p_current_revision_sequence p \<and> r_display_name r = p_display_name p)
       (db_revisions d)) (db_projects d)"

definition insert_gpu :: "exn \<Rightarrow> gpu_row \<Rightarrow> db \<Rightarrow> db result" where
  "insert_gpu x g d =
    (if gpu_check g \<and> find_gpu (db_gpus d) (g_uuid g) = None
     then Inr (d\<lparr>db_gpus := db_gpus d @ [g]\<rparr>) else Inl (x, Constraint_violated))"

definition insert_artifact :: "exn \<Rightarrow> artifact_row \<Rightarrow> db \<Rightarrow> db result" where
  "insert_artifact x a d =
    (if artifact_check a
        \<and> list_ex (\<lambda>i. qi_id i = a_item_id a \<and> qi_project_id i = a_project_id a
             \<and> qi_revision_id i = a_revision_id a) (db_items d)
        \<and> list_ex (\<lambda>r. ar_project_id r = a_project_id a \<and> ar_revision_id r = a_revision_id a
             \<and> ar_mount_name r = a_root_name a) (db_roots d)
     then Inr (d\<lparr>db_artifacts := db_artifacts d @ [a]\<rparr>) else Inl (x, Constraint_violated))"

section \<open>Admission and cooperative yield\<close>

definition policy_check :: "submission_policy \<Rightarrow> bool" where
  "policy_check p = (sp_project_key p \<noteq> [] \<and> sp_card_path p \<noteq> [] \<and> sp_job_id p \<noteq> [])"

definition snapshot_check :: "snapshot_row \<Rightarrow> bool" where
  "snapshot_check s = (let e = sn_evidence s in
     sn_id s > 0 \<and> sn_project_id s > 0 \<and> sn_revision_id s > 0 \<and> sn_created_at s \<noteq> []
     \<and> as_project_revision e \<noteq> [] \<and> commit_text (as_git_commit e)
     \<and> as_project_source_name e \<noteq> [] \<and> as_project_source e \<noteq> []
     \<and> sha256_text (as_project_source_sha256 e) \<and> blob_check (sn_project_blob s) (as_project_source e)
     \<and> sha256_text (as_project_normalized_sha256 e) \<and> schema_check (as_project_schema e)
     \<and> as_card_source_name e \<noteq> [] \<and> as_card_source e \<noteq> []
     \<and> sha256_text (as_card_source_sha256 e) \<and> blob_check (sn_card_blob s) (as_card_source e)
     \<and> sha256_text (as_card_normalized_sha256 e) \<and> schema_check (as_card_schema e)
     \<and> (case as_extension_source_name e of None \<Rightarrow> as_extension e = None
         | Some name \<Rightarrow> name \<noteq> [] \<and> as_extension e \<noteq> None)
     \<and> extension_check (as_extension e) (sn_extension_blob s)
     \<and> sha256_text (as_resolved_sha256 e) \<and> as_command_kind e \<in> {''argv'', ''wrapper'', ''shell''}
     \<and> as_command_json e \<noteq> [] \<and> as_package_version e \<noteq> [] \<and> policy_check (as_policy e))"

definition insert_snapshot :: "exn \<Rightarrow> snapshot_row \<Rightarrow> db \<Rightarrow> db result" where
  "insert_snapshot x s d =
    (if snapshot_check s \<and> sn_id s \<notin> set (map sn_id (db_snapshots d))
        \<and> list_ex (\<lambda>r. r_project_id r = sn_project_id s \<and> r_id r = sn_revision_id s
             \<and> r_kind r = Project_v1 \<and> r_label r = as_project_revision (sn_evidence s)
             \<and> r_git_commit r = Some (as_git_commit (sn_evidence s))) (db_revisions d)
        \<and> list_ex (\<lambda>p. p_id p = sn_project_id s
             \<and> p_key p = sp_project_key (as_policy (sn_evidence s))) (db_projects d)
     then Inr (d\<lparr>db_snapshots := db_snapshots d @ [s]\<rparr>) else Inl (x, Constraint_violated))"

definition insert_item :: "exn \<Rightarrow> queue_item \<Rightarrow> db \<Rightarrow> db result" where
  "insert_item x i d =
    (if item_check i \<and> qi_id i \<notin> set (map qi_id (db_items d))
        \<and> \<not> list_ex (\<lambda>j. qi_project_id j = qi_project_id i \<and> qi_experiment_id j = qi_experiment_id i
             \<and> qi_attempt j = qi_attempt i) (db_items d)
        \<and> null_or (\<lambda>k. Some k \<notin> set (map qi_snapshot_id (db_items d))
             \<and> list_ex (\<lambda>s. sn_id s = k \<and> sn_project_id s = qi_project_id i
                  \<and> sn_revision_id s = qi_revision_id i) (db_snapshots d)) (qi_snapshot_id i)
        \<and> list_ex (\<lambda>r. r_project_id r = qi_project_id i \<and> r_id r = qi_revision_id i
             \<and> r_git_commit r = Some (qi_git_commit i)) (db_revisions d)
        \<and> \<not> (qi_admission_kind i = Legacy_card \<and> list_ex (\<lambda>r. r_id r = qi_revision_id i
             \<and> r_project_id r = qi_project_id i \<and> r_kind r \<noteq> Legacy_v4) (db_revisions d))
     then Inr (d\<lparr>db_items := db_items d @ [i]\<rparr>) else Inl (x, Constraint_violated))"

definition insert_dependency :: "exn \<Rightarrow> int \<times> int \<Rightarrow> db \<Rightarrow> db result" where
  "insert_dependency x link d =
    (if fst link > 0 \<and> snd link > 0 \<and> fst link \<noteq> snd link \<and> link \<notin> set (db_dependencies d)
        \<and> find_item (db_items d) (fst link) \<noteq> None \<and> find_item (db_items d) (snd link) \<noteq> None
     then Inr (d\<lparr>db_dependencies := db_dependencies d @ [link]\<rparr>) else Inl (x, Constraint_violated))"

definition short_text :: "nat \<Rightarrow> string \<Rightarrow> bool" where
  "short_text maximum s = (1 \<le> length s \<and> length s \<le> maximum)"

definition yield_request_check :: "yield_request_row \<Rightarrow> bool" where
  "yield_request_check r =
    (short_text 256 (yr_request_id r) \<and> yr_item_id r > 0 \<and> yr_project_id r > 0 \<and> yr_revision_id r > 0
     \<and> yr_segment r > 0 \<and> yr_requested_at r \<noteq> [] \<and> yr_requested_by r \<noteq> []
     \<and> short_text 1000 (yr_note r) \<and> yr_source r \<noteq> [] \<and> sha256_text (yr_sha256 r)
     \<and> sha256_text (yr_resolved_spec_sha256 r) \<and> short_text 256 (yr_project_revision r)
     \<and> commit_text (yr_git_commit r) \<and> short_text 256 (yr_run_id r)
     \<and> sha256_text (yr_prior_receipt_sha256 r) \<and> sha256_text (yr_identity_sha256 r))"

definition insert_yield_request :: "exn \<Rightarrow> yield_request_row \<Rightarrow> db \<Rightarrow> db result" where
  "insert_yield_request x r d =
    (if yield_request_check r \<and> yr_request_id r \<notin> set (map yr_request_id (db_yield_requests d))
        \<and> (yr_item_id r, yr_segment r)
             \<notin> set (map (\<lambda>q. (yr_item_id q, yr_segment q)) (db_yield_requests d))
        \<and> list_ex (\<lambda>i. qi_id i = yr_item_id r \<and> qi_project_id i = yr_project_id r
             \<and> qi_revision_id i = yr_revision_id r \<and> qi_admission_kind i = Experiment_card) (db_items d)
     then Inr (d\<lparr>db_yield_requests := db_yield_requests d @ [r]\<rparr>) else Inl (x, Constraint_violated))"

definition yield_receipt_check :: "yield_receipt_row \<Rightarrow> bool" where
  "yield_receipt_check c =
    (short_text 256 (yc_request_id c) \<and> yc_item_id c > 0 \<and> yc_project_id c > 0 \<and> yc_revision_id c > 0
     \<and> yc_segment c > 0 \<and> sha256_text (yc_bound_identity_sha256 c) \<and> yc_written_at c \<noteq> []
     \<and> yc_source c \<noteq> [] \<and> sha256_text (yc_sha256 c)
     \<and> null_or sha256_text (yc_progress_sha256 c) \<and> null_or sha256_text (yc_artifacts_sha256 c)
     \<and> null_or (\<lambda>n. n \<ge> 0) (yc_resume_bytes c) \<and> null_or sha256_text (yc_resume_sha256 c)
     \<and> null_or (short_text 4096) (yc_error c)
     \<and> (yc_progress c = None) = (yc_progress_sha256 c = None)
     \<and> (yc_resume c = None) = (yc_resume_bytes c = None)
     \<and> (yc_resume c = None) = (yc_resume_media_type c = None)
     \<and> (yc_resume c = None) = (yc_resume_sha256 c = None)
     \<and> null_or (\<lambda>s. yc_resume_bytes c = Some (int (length s))) (yc_resume c)
     \<and> (yc_artifacts c = None) = (yc_artifacts_sha256 c = None)
     \<and> (case yc_status c of
          Ready \<Rightarrow> yc_progress c \<noteq> None \<and> yc_artifacts c \<noteq> None \<and> null_or (\<lambda>s. s \<noteq> []) (yc_artifacts c)
            \<and> yc_resume c \<noteq> None \<and> null_or (\<lambda>s. s \<noteq> []) (yc_resume_media_type c) \<and> yc_error c = None
        | Failed_receipt \<Rightarrow> yc_artifacts c = None \<and> yc_resume c = None \<and> yc_error c \<noteq> None))"

definition insert_yield_receipt :: "exn \<Rightarrow> yield_receipt_row \<Rightarrow> db \<Rightarrow> db result" where
  "insert_yield_receipt x c d =
    (if yield_receipt_check c \<and> yc_request_id c \<notin> set (map yc_request_id (db_yield_receipts d))
        \<and> list_ex (\<lambda>r. yr_item_id r = yc_item_id c \<and> yr_project_id r = yc_project_id c
             \<and> yr_revision_id r = yc_revision_id c \<and> yr_segment r = yc_segment c
             \<and> yr_request_id r = yc_request_id c \<and> yr_identity_sha256 r = yc_bound_identity_sha256 c)
             (db_yield_requests d)
     then Inr (d\<lparr>db_yield_receipts := db_yield_receipts d @ [c]\<rparr>) else Inl (x, Constraint_violated))"

section \<open>Events and metadata\<close>

text \<open>\<open>INSERT INTO events\<close> with its scope constraint and foreign keys.\<close>

definition event_references_ok :: "db \<Rightarrow> event_row \<Rightarrow> bool" where
  "event_references_ok d e =
    ((case e_scope e of
        Scope_host \<Rightarrow> e_project_id e = None \<and> e_item_id e = None
      | Scope_project \<Rightarrow> e_project_id e \<noteq> None)
     \<and> null_or (\<lambda>p. find_project (db_projects d) p \<noteq> None) (e_project_id e)
     \<and> (case (e_item_id e, e_project_id e) of
          (Some k, Some p) \<Rightarrow> list_ex (\<lambda>i. qi_id i = k \<and> qi_project_id i = p) (db_items d)
        | _ \<Rightarrow> True))"

definition new_event ::
  "db \<Rightarrow> string \<Rightarrow> string \<Rightarrow> string \<Rightarrow> failure_scope \<Rightarrow> int option \<Rightarrow> int option \<Rightarrow> json \<Rightarrow> event_row"
  where
  "new_event d created_at actor event_type scope project_id item_id payload =
    \<lparr>e_id = next_id (map e_id (db_events d)), e_created_at = created_at, e_actor = actor,
     e_type = event_type, e_item_id = item_id, e_payload = payload, e_scope = scope,
     e_project_id = project_id\<rparr>"

definition insert_event ::
  "exn \<Rightarrow> string \<Rightarrow> string \<Rightarrow> string \<Rightarrow> failure_scope \<Rightarrow> int option \<Rightarrow> int option \<Rightarrow> json \<Rightarrow> db
    \<Rightarrow> db result" where
  "insert_event x created_at actor event_type scope project_id item_id payload d =
    (let e = new_event d created_at actor event_type scope project_id item_id payload in
     if created_at \<noteq> [] \<and> actor \<noteq> [] \<and> event_type \<noteq> [] \<and> event_references_ok d e
     then Inr (d\<lparr>db_events := db_events d @ [e]\<rparr>)
     else Inl (x, Constraint_violated))"

definition set_metadata :: "string \<Rightarrow> string \<Rightarrow> db \<Rightarrow> db" where
  "set_metadata k v d =
    (if db_metadata d k = None then d else d\<lparr>db_metadata := (db_metadata d)(k \<mapsto> v)\<rparr>)"

section \<open>What a successful statement did\<close>

lemma guarded_update_eq_Some:
  "guarded_update ok P f rows = Some (n, rows') \<longleftrightarrow>
     (\<forall>r \<in> set rows. P r \<longrightarrow> ok r (f r)) \<and> n = length (filter P rows)
     \<and> rows' = update_rows P f rows"
  by (auto simp: guarded_update_def list_all_iff)

lemma update_items_eq_Inr [effect_simps]:
  "update_items x P f d = Inr (n, d') \<longleftrightarrow>
     (\<forall>i \<in> set (db_items d). P i \<longrightarrow> item_check (f i) \<and> same_identity i (f i))
     \<and> n = length (filter P (db_items d)) \<and> d' = d\<lparr>db_items := update_rows P f (db_items d)\<rparr>"
  by (auto simp: update_items_def guarded_update_eq_Some split: option.splits)
     (auto simp: guarded_update_def list_all_iff split: if_splits)

lemma update_runtime_eq_Inr [effect_simps]:
  "update_runtime x P f d = Inr (n, d') \<longleftrightarrow>
     (\<forall>r \<in> set (db_runtime d). P r \<longrightarrow> runtime_check (f r) \<and> rs_project_id (f r) = rs_project_id r)
     \<and> n = length (filter P (db_runtime d))
     \<and> d' = d\<lparr>db_runtime := update_rows P f (db_runtime d)\<rparr>"
  by (auto simp: update_runtime_def guarded_update_eq_Some split: option.splits)
     (auto simp: guarded_update_def list_all_iff split: if_splits)

lemma update_gpus_eq_Inr [effect_simps]:
  "update_gpus x P f d = Inr (n, d') \<longleftrightarrow>
     (\<forall>g \<in> set (db_gpus d). P g \<longrightarrow> gpu_check (f g) \<and> g_uuid (f g) = g_uuid g)
     \<and> n = length (filter P (db_gpus d)) \<and> d' = d\<lparr>db_gpus := update_rows P f (db_gpus d)\<rparr>"
  by (auto simp: update_gpus_def guarded_update_eq_Some split: option.splits)
     (auto simp: guarded_update_def list_all_iff split: if_splits)

lemma update_reservations_eq_Inr [effect_simps]:
  "update_reservations x P f d = Inr (n, d') \<longleftrightarrow>
     (\<forall>v \<in> set (db_reservations d). P v \<longrightarrow> reservation_check (f v) \<and> v_id (f v) = v_id v
        \<and> v_item_id (f v) = v_item_id v)
     \<and> distinct (open_gpus (update_rows P f (db_reservations d)))
     \<and> n = length (filter P (db_reservations d))
     \<and> d' = d\<lparr>db_reservations := update_rows P f (db_reservations d)\<rparr>"
  by (auto simp: update_reservations_def guarded_update_eq_Some split: option.splits if_splits)
     (auto simp: guarded_update_def list_all_iff split: if_splits)

lemma insert_reservation_eq_Inr [effect_simps]:
  "insert_reservation x v d = Inr d' \<longleftrightarrow>
     reservation_check v \<and> v_id v \<notin> set (map v_id (db_reservations d))
     \<and> null_or (\<lambda>k. find_item (db_items d) k \<noteq> None) (v_item_id v)
     \<and> distinct (open_gpus (db_reservations d @ [v]))
     \<and> d' = d\<lparr>db_reservations := db_reservations d @ [v]\<rparr>"
  by (auto simp: insert_reservation_def)

lemma insert_gpu_eq_Inr [effect_simps]:
  "insert_gpu x g d = Inr d' \<longleftrightarrow> gpu_check g \<and> find_gpu (db_gpus d) (g_uuid g) = None
     \<and> d' = d\<lparr>db_gpus := db_gpus d @ [g]\<rparr>"
  by (auto simp: insert_gpu_def)

lemma insert_event_eq_Inr [effect_simps]:
  "insert_event x created_at actor event_type scope project_id item_id payload d = Inr d' \<longleftrightarrow>
     created_at \<noteq> [] \<and> actor \<noteq> [] \<and> event_type \<noteq> []
     \<and> event_references_ok d (new_event d created_at actor event_type scope project_id item_id payload)
     \<and> d' = d\<lparr>db_events := db_events d
          @ [new_event d created_at actor event_type scope project_id item_id payload]\<rparr>"
  by (auto simp: insert_event_def Let_def)

section \<open>Rows after an update\<close>

lemma update_one_row:
  assumes "distinct (map qi_id rows)" and "find_item rows k = Some i" and "Q i"
  shows "filter (\<lambda>j. qi_id j = k \<and> Q j) rows = [i]"
  using assms
proof (induction rows)
  case (Cons r rows)
  show ?case
  proof (cases "qi_id r = k")
    case True
    then have "r = i" using Cons.prems(2) by (simp add: find_item_def)
    moreover have "filter (\<lambda>j. qi_id j = k \<and> Q j) rows = []"
      using Cons.prems(1) True by (auto simp: filter_empty_conv image_iff)
    ultimately show ?thesis using True Cons.prems(3) by simp
  next
    case False
    with Cons show ?thesis by (simp add: find_item_def)
  qed
qed (simp add: find_item_def)

lemma find_item_update:
  assumes "\<And>i. P i \<Longrightarrow> qi_id (f i) = qi_id i"
  shows "find_item (update_rows P f rows) k
    = map_option (\<lambda>i. if P i then f i else i) (find_item rows k)"
  using item_table.lookup_update_rows[of P f rows k] assms by simp

lemma identity_check_cong: "same_identity i j \<Longrightarrow> item_identity_check j = item_identity_check i"
  by (auto simp: same_identity_def item_identity_check_def split: admission_kind.splits)

lemma find_runtime_update:
  assumes "\<And>r. P r \<Longrightarrow> rs_project_id (f r) = rs_project_id r"
  shows "find_runtime (update_rows P f rows) k
    = map_option (\<lambda>r. if P r then f r else r) (find_runtime rows k)"
  using runtime_table.lookup_update_rows[of P f rows k] assms by simp

section \<open>A fresh database\<close>

text \<open>\<open>_build_fresh_candidate\<close>: empty tables and the metadata rows it inserts.\<close>

definition fresh_db :: "string \<Rightarrow> string \<Rightarrow> string \<Rightarrow> db" where
  "fresh_db schema_identity ddl_sha256 instance_id =
    \<lparr>db_metadata = [''schema_version'' \<mapsto> ''5'', ''schema_identity'' \<mapsto> schema_identity,
        ''schema_ddl_sha256'' \<mapsto> ddl_sha256, ''database_instance_id'' \<mapsto> instance_id,
        ''dispatch_paused'' \<mapsto> ''0'', ''pause_reason'' \<mapsto> [], ''consecutive_failures'' \<mapsto> ''0''],
     db_projects = [], db_revisions = [], db_mounts = [], db_roots = [],
     db_environments = [], db_runtime = [],
     db_items = [], db_dependencies = [], db_gpus = [], db_events = [], db_reservations = [],
     db_artifacts = [], db_snapshots = [], db_yield_requests = [], db_yield_receipts = []\<rparr>"

end
