(* ===== verification/Contracts_V5.thy ===== *)
theory Contracts_V5
  imports Database_V5
begin

text \<open>
  What every operation of the schema-v5 services promises, stated once.

  \<open>state_edge\<close> is the life cycle of a queue item, \<open>item_wf\<close> the agreement between an item's state
  and its process, termination and yield evidence, and \<open>system_inv\<close> the invariant of the whole
  database: unique identities, constraints, one lease holder per GPU, no lease under an active
  reservation, acyclic dependencies. \<open>history\<close> relates two databases when the later one only
  extends the earlier: identities and evidence kept, life cycles moved forward, events and
  other append-only tables extended.

  A transaction is \<open>quiet\<close> when it neither grants a GPU lease nor touches reservations, items or
  projects other than by updating rows. The locale \<open>safe_operation\<close> is the contract of an operation,
  \<open>quiet_operation\<close> the stronger one most operations meet.
\<close>

section \<open>The life cycle of an item\<close>

fun state_edge :: "item_state \<Rightarrow> item_state \<Rightarrow> bool" where
  "state_edge Queued t = (t \<in> {Starting, Blocked, Held, Removed})"
| "state_edge Held t = (t \<in> {Queued, Removed})"
| "state_edge Blocked t = (t \<in> {Queued, Held, Removed})"
| "state_edge Starting t = (t \<in> {Running, Succeeded, Failed})"
| "state_edge Running t = (t \<in> {Yielding, Terminating, Force_killing, Succeeded, Failed})"
| "state_edge Yielding t = (t \<in> {Queued, Running, Terminating, Force_killing, Failed})"
| "state_edge Terminating t = (t \<in> {Force_killing, Interrupted, Failed})"
| "state_edge Force_killing t = (t \<in> {Force_killed, Failed})"
| "state_edge _ t = False"

abbreviation state_reach :: "item_state \<Rightarrow> item_state \<Rightarrow> bool" where
  "state_reach \<equiv> state_edge\<^sup>*\<^sup>*"

lemma terminal_no_edge: "terminal_state s \<Longrightarrow> \<not> state_edge s t"
  by (cases s) (simp_all add: terminal_state_def)

lemma terminal_absorbing: "state_reach s t \<Longrightarrow> terminal_state s \<Longrightarrow> t = s"
  by (induction rule: converse_rtranclp_induct) (auto dest: terminal_no_edge)

section \<open>Evidence that agrees with the state\<close>

definition process_wf :: "queue_item \<Rightarrow> bool" where
  "process_wf i =
    ((qi_state i = Starting \<longrightarrow> qi_pid i = None \<and> qi_pgid i = None \<and> qi_start_ticks i = None
        \<and> qi_started_at i = None)
     \<and> (qi_state i \<in> {Running, Yielding, Terminating, Force_killing} \<longrightarrow>
          qi_pid i \<noteq> None \<and> qi_pgid i \<noteq> None \<and> qi_started_at i \<noteq> None)
     \<and> null_or (text_ok 256) (qi_start_ticks i))"

definition termination_wf :: "queue_item \<Rightarrow> bool" where
  "termination_wf i =
    ((qi_state i = Terminating \<longrightarrow> qi_termination_stage i \<in> {Some Interrupt, Some Terminate})
     \<and> (qi_state i = Force_killing \<longrightarrow> qi_termination_stage i = Some Kill)
     \<and> (qi_state i \<in> {Terminating, Force_killing} \<longrightarrow>
          (case qi_terminate_requested_at i of None \<Rightarrow> False | Some t \<Rightarrow> timestamp_ok t)
          \<and> (case qi_terminate_reason i of None \<Rightarrow> False | Some r \<Rightarrow> text_ok 4096 r)
          \<and> (case qi_termination_signal_epoch i of None \<Rightarrow> False | Some e \<Rightarrow> 0 \<le> e)))"

definition yield_wf :: "queue_item \<Rightarrow> bool" where
  "yield_wf i = (qi_state i = Yielding \<longrightarrow> qi_yield_request_id i \<noteq> None)"

definition completion_wf :: "queue_item \<Rightarrow> bool" where
  "completion_wf i = (qi_state i = Succeeded \<longrightarrow> qi_return_code i = Some 0 \<and> qi_finished_at i \<noteq> None)"

definition item_wf :: "queue_item \<Rightarrow> bool" where
  "item_wf i = (process_wf i \<and> termination_wf i \<and> yield_wf i \<and> completion_wf i)"

lemmas item_wf_defs =
  item_wf_def process_wf_def termination_wf_def yield_wf_def completion_wf_def

section \<open>The invariant\<close>

definition items_inv :: "queue_item list \<Rightarrow> bool" where
  "items_inv rows = (distinct (map qi_id rows) \<and> (\<forall>i \<in> set rows. item_check i \<and> item_wf i))"

text \<open>The GPUs under a runtime lease, one entry per holder.\<close>

definition leased :: "queue_item list \<Rightarrow> string option list" where
  "leased rows = map qi_gpu_uuid (filter qi_lease_held rows)"

definition reserved :: "reservation_row list \<Rightarrow> string set" where
  "reserved rows = v_gpu_uuid ` set (filter (\<lambda>v. v_status v = Res_active) rows)"

definition lease_inv :: "queue_item list \<Rightarrow> reservation_row list \<Rightarrow> bool" where
  "lease_inv items resvs = (distinct (leased items)
     \<and> (\<forall>i \<in> set items. qi_lease_held i \<longrightarrow> qi_gpu_uuid i \<notin> Some ` reserved resvs))"

definition reservations_inv :: "queue_item list \<Rightarrow> reservation_row list \<Rightarrow> bool" where
  "reservations_inv items rows = (distinct (map v_id rows) \<and> distinct (open_gpus rows)
     \<and> (\<forall>v \<in> set rows. reservation_check v
          \<and> null_or (\<lambda>k. k \<in> qi_id ` set items) (v_item_id v)))"

definition dependencies_inv :: "queue_item list \<Rightarrow> (int \<times> int) list \<Rightarrow> bool" where
  "dependencies_inv items deps = (\<forall>(k, dep) \<in> set deps. dep < k
     \<and> k \<in> qi_id ` set items \<and> dep \<in> qi_id ` set items)"

definition runtime_inv :: "runtime_row list \<Rightarrow> bool" where
  "runtime_inv rows = (distinct (map rs_project_id rows) \<and> (\<forall>r \<in> set rows. runtime_check r))"

definition gpus_inv :: "gpu_row list \<Rightarrow> bool" where
  "gpus_inv rows = (distinct (map g_uuid rows) \<and> (\<forall>g \<in> set rows. gpu_check g))"

text \<open>Every item belongs to a registered Project revision, every Project has a circuit.\<close>

definition owners_inv :: "db \<Rightarrow> bool" where
  "owners_inv d = (distinct (map p_id (db_projects d)) \<and> distinct (map r_id (db_revisions d))
     \<and> (\<forall>i \<in> set (db_items d). qi_project_id i \<in> p_id ` set (db_projects d)
          \<and> (qi_revision_id i, qi_project_id i) \<in> (\<lambda>r. (r_id r, r_project_id r)) ` set (db_revisions d))
     \<and> p_id ` set (db_projects d) \<subseteq> rs_project_id ` set (db_runtime d))"

definition system_inv :: "db \<Rightarrow> bool" where
  "system_inv d = (items_inv (db_items d) \<and> lease_inv (db_items d) (db_reservations d)
     \<and> reservations_inv (db_items d) (db_reservations d)
     \<and> dependencies_inv (db_items d) (db_dependencies d)
     \<and> runtime_inv (db_runtime d) \<and> gpus_inv (db_gpus d) \<and> owners_inv d)"

lemma system_inv_fresh: "system_inv (fresh_db s h k)"
  by (simp add: system_inv_def fresh_db_def items_inv_def lease_inv_def leased_def
      reservations_inv_def open_gpus_def dependencies_inv_def runtime_inv_def gpus_inv_def
      owners_inv_def)

section \<open>One item moving on\<close>

definition item_trace :: "queue_item \<Rightarrow> queue_item \<Rightarrow> bool" where
  "item_trace i j = (same_identity i j \<and> state_reach (qi_state i) (qi_state j)
     \<and> qi_segment i \<le> qi_segment j)"

text \<open>A step that may end a lease but never begins one.\<close>

definition item_step :: "queue_item \<Rightarrow> queue_item \<Rightarrow> bool" where
  "item_step i j = (item_trace i j \<and> (item_check i \<longrightarrow> item_check j) \<and> (item_wf i \<longrightarrow> item_wf j)
     \<and> (qi_lease_held j \<longrightarrow> qi_lease_held i \<and> qi_gpu_uuid j = qi_gpu_uuid i))"

lemma same_identity_refl [simp]: "same_identity i i"
  by (simp add: same_identity_def)

lemma same_identity_id: "same_identity i j \<Longrightarrow> qi_id j = qi_id i"
  by (simp add: same_identity_def)

lemma item_trace_refl [simp]: "item_trace i i"
  by (simp add: item_trace_def)

lemma item_trace_trans [trans]: "item_trace i j \<Longrightarrow> item_trace j k \<Longrightarrow> item_trace i k"
  unfolding item_trace_def same_identity_def by (metis order_trans rtranclp_trans)

lemma item_step_refl [simp]: "item_step i i"
  by (simp add: item_step_def)

lemma item_step_trans [trans]: "item_step i j \<Longrightarrow> item_step j k \<Longrightarrow> item_step i k"
  unfolding item_step_def by (metis item_trace_trans)

lemma item_step_id: "item_step i j \<Longrightarrow> qi_id j = qi_id i"
  by (simp add: item_step_def item_trace_def same_identity_id)

lemma item_step_owner:
  "item_step i j \<Longrightarrow> qi_project_id j = qi_project_id i \<and> qi_revision_id j = qi_revision_id i"
  by (simp add: item_step_def item_trace_def same_identity_def)

section \<open>Histories\<close>

definition identity_keys :: "string set" where
  "identity_keys = {''schema_version'', ''schema_identity'', ''schema_ddl_sha256'',
     ''database_instance_id''}"

text \<open>A Project keeps its identity, its archival and the order of its revisions.\<close>

definition project_trace :: "project_row \<Rightarrow> project_row \<Rightarrow> bool" where
  "project_trace p q =
    (p_id q = p_id p \<and> p_key q = p_key p
     \<and> (p_lifecycle p = Archived \<longrightarrow> p_lifecycle q = Archived
          \<and> p_current_revision_id q = p_current_revision_id p)
     \<and> p_current_revision_sequence p \<le> p_current_revision_sequence q)"

lemma project_trace_refl [simp]: "project_trace p p"
  by (simp add: project_trace_def)

lemma project_trace_trans [trans]: "project_trace p q \<Longrightarrow> project_trace q r \<Longrightarrow> project_trace p r"
  by (auto simp: project_trace_def)

definition history :: "db \<Rightarrow> db \<Rightarrow> bool" where
  "history d d' =
    (list_all2 item_trace (db_items d) (take (length (db_items d)) (db_items d'))
     \<and> list_all2 project_trace (db_projects d) (take (length (db_projects d)) (db_projects d'))
     \<and> prefix (db_events d) (db_events d') \<and> prefix (db_artifacts d) (db_artifacts d')
     \<and> prefix (db_dependencies d) (db_dependencies d')
     \<and> prefix (db_revisions d) (db_revisions d')
     \<and> prefix (db_snapshots d) (db_snapshots d')
     \<and> prefix (db_yield_requests d) (db_yield_requests d')
     \<and> prefix (db_yield_receipts d) (db_yield_receipts d')
     \<and> (\<forall>k \<in> identity_keys. db_metadata d' k = db_metadata d k))"

lemma history_refl [simp]: "history d d"
  by (simp add: history_def list.rel_refl)

lemma list_all2_transp:
  assumes tr: "\<And>x y z. R x y \<Longrightarrow> R y z \<Longrightarrow> R x z"
    and "list_all2 R xs ys" and "list_all2 R ys zs"
  shows "list_all2 R xs zs"
  using tr assms(2,3) by (rule list_all2_trans)

lemma list_all2_take_trans:
  assumes tr: "\<And>x y z. R x y \<Longrightarrow> R y z \<Longrightarrow> R x z"
    and xy: "list_all2 R xs (take (length xs) ys)" and yz: "list_all2 R ys (take (length ys) zs)"
  shows "list_all2 R xs (take (length xs) zs)"
proof -
  have len: "length xs \<le> length ys"
    using list_all2_lengthD[OF xy] by (simp add: min_def split: if_splits)
  have "list_all2 R (take (length xs) ys) (take (length xs) (take (length ys) zs))"
    using yz by (rule list_all2_takeI)
  then have "list_all2 R (take (length xs) ys) (take (length xs) zs)"
    using len by (simp add: min_def)
  with tr xy show ?thesis by (rule list_all2_transp)
qed

lemma history_trans [trans]: "history d e \<Longrightarrow> history e f \<Longrightarrow> history d f"
  unfolding history_def
  by (auto intro: list_all2_take_trans[of item_trace, OF item_trace_trans]
      list_all2_take_trans[of project_trace, OF project_trace_trans] prefix_order.order_trans)

lemma history_item:
  assumes "history d d'" and "i \<in> set (db_items d)"
  shows "\<exists>j \<in> set (db_items d'). item_trace i j"
  using assms unfolding history_def
  by (metis in_set_takeD list_all2_conv_all_nth in_set_conv_nth)

section \<open>Quiet transactions\<close>

definition quiet :: "db \<Rightarrow> db \<Rightarrow> bool" where
  "quiet d d' =
    (list_all2 item_step (db_items d) (db_items d')
     \<and> list_all2 (\<lambda>r s. rs_project_id s = rs_project_id r \<and> (runtime_check r \<longrightarrow> runtime_check s))
         (db_runtime d) (db_runtime d')
     \<and> (gpus_inv (db_gpus d) \<longrightarrow> gpus_inv (db_gpus d'))
     \<and> db_reservations d' = db_reservations d \<and> db_projects d' = db_projects d
     \<and> db_revisions d' = db_revisions d \<and> db_dependencies d' = db_dependencies d
     \<and> prefix (db_events d) (db_events d') \<and> prefix (db_artifacts d) (db_artifacts d')
     \<and> prefix (db_snapshots d) (db_snapshots d')
     \<and> prefix (db_yield_requests d) (db_yield_requests d')
     \<and> prefix (db_yield_receipts d) (db_yield_receipts d')
     \<and> (\<forall>k \<in> identity_keys. db_metadata d' k = db_metadata d k))"

lemma quiet_refl [simp, vcg]: "quiet d d"
  by (simp add: quiet_def list.rel_refl)

lemma quiet_items: "quiet d d' \<Longrightarrow> list_all2 item_step (db_items d) (db_items d')"
  by (simp add: quiet_def)

lemma quiet_runtime:
  "quiet d d' \<Longrightarrow> list_all2 (\<lambda>r s. rs_project_id s = rs_project_id r
     \<and> (runtime_check r \<longrightarrow> runtime_check s)) (db_runtime d) (db_runtime d')"
  by (simp add: quiet_def)

lemma quiet_trans [trans]:
  assumes "quiet d e" and "quiet e f"
  shows "quiet d f"
proof -
  have "list_all2 item_step (db_items d) (db_items f)"
    using item_step_trans quiet_items[OF assms(1)] quiet_items[OF assms(2)]
    by (rule list_all2_transp)
  moreover have "list_all2 (\<lambda>r s. rs_project_id s = rs_project_id r
      \<and> (runtime_check r \<longrightarrow> runtime_check s)) (db_runtime d) (db_runtime f)"
    by (rule list_all2_transp[OF _ quiet_runtime[OF assms(1)] quiet_runtime[OF assms(2)]]) simp
  ultimately show ?thesis
    using assms by (auto simp: quiet_def intro: prefix_order.order_trans)
qed

text \<open>The building blocks: what one statement contributes to a quiet transaction.\<close>

lemma item_stepI:
  assumes "same_identity i j" and "item_check j" and "state_reach (qi_state i) (qi_state j)"
    and "qi_segment i \<le> qi_segment j" and "item_wf i \<Longrightarrow> item_wf j"
    and "qi_lease_held j \<Longrightarrow> qi_lease_held i \<and> qi_gpu_uuid j = qi_gpu_uuid i"
  shows "item_step i j"
  using assms by (simp add: item_step_def item_trace_def)

lemma quiet_update_items:
  assumes "update_items x P f d = Inr (n, d')"
    and "\<And>i. i \<in> set (db_items d) \<Longrightarrow> P i \<Longrightarrow> item_check (f i) \<Longrightarrow> same_identity i (f i) \<Longrightarrow>
      item_step i (f i)"
  shows "quiet d d'"
  using assms by (auto simp: update_items_eq_Inr quiet_def list.rel_refl
      intro!: list_all2_update_rows)

lemma quiet_update_runtime:
  assumes "update_runtime x P f d = Inr (n, d')"
  shows "quiet d d'"
  using assms by (auto simp: update_runtime_eq_Inr quiet_def list.rel_refl
      intro!: list_all2_update_rows)

lemma gpus_inv_update:
  assumes "gpus_inv rows" and "\<And>g. g \<in> set rows \<Longrightarrow> P g \<Longrightarrow> gpu_check (f g) \<and> g_uuid (f g) = g_uuid g"
  shows "gpus_inv (update_rows P f rows)"
proof -
  have "map g_uuid (update_rows P f rows) = map g_uuid rows"
    using assms(2) by (auto simp: update_rows_def)
  with assms show ?thesis by (auto simp: gpus_inv_def set_update_rows)
qed

lemma quiet_update_gpus:
  assumes "update_gpus x P f d = Inr (n, d')"
  shows "quiet d d'"
  using assms by (auto simp: update_gpus_eq_Inr quiet_def list.rel_refl intro!: gpus_inv_update)

lemma quiet_insert_gpu: "insert_gpu x g d = Inr d' \<Longrightarrow> quiet d d'"
  by (auto simp: insert_gpu_eq_Inr quiet_def list.rel_refl gpus_inv_def dest: gpu_table.lookup_NoneD)

lemma quiet_insert_event:
  "insert_event x created_at actor event_type scope project_id item_id payload d = Inr d' \<Longrightarrow> quiet d d'"
  by (auto simp: insert_event_eq_Inr quiet_def list.rel_refl)

lemma quiet_insert_artifact: "insert_artifact x a d = Inr d' \<Longrightarrow> quiet d d'"
  by (auto simp: insert_artifact_def quiet_def list.rel_refl split: if_splits)

lemma quiet_set_metadata: "k \<notin> identity_keys \<Longrightarrow> quiet d (set_metadata k v d)"
  by (auto simp: set_metadata_def quiet_def list.rel_refl)

section \<open>Taking a transaction apart\<close>

text \<open>
  \<open>ensures R m\<close>: when \<open>m\<close> commits, the committed database satisfies \<open>R\<close>. The rules below follow the
  statements of an operation; what they leave are the row updates, with the guards passed so far.
\<close>

definition ensures :: "('s \<Rightarrow> bool) \<Rightarrow> 'e + 'v \<times> 's \<Rightarrow> bool" where
  "ensures R m = (\<forall>v d'. m = Inr (v, d') \<longrightarrow> R d')"

lemma ensuresD: "ensures R m \<Longrightarrow> m = Inr (v, d') \<Longrightarrow> R d'"
  by (simp add: ensures_def)

lemma ensures_require [vcg]: "(c \<Longrightarrow> ensures R m) \<Longrightarrow> ensures R (require c e m)"
  by (simp add: ensures_def)

lemma ensures_fetch [vcg]: "(\<And>r. v = Some r \<Longrightarrow> ensures R (k r)) \<Longrightarrow> ensures R (fetch v e k)"
  by (auto simp: ensures_def)

lemma ensures_if [vcg]:
  "(c \<Longrightarrow> ensures R a) \<Longrightarrow> (\<not> c \<Longrightarrow> ensures R b) \<Longrightarrow> ensures R (if c then a else b)"
  by simp

lemma ensures_let [vcg]: "(\<And>x. x = e \<Longrightarrow> ensures R (k x)) \<Longrightarrow> ensures R (let x = e in k x)"
  by simp

lemma ensures_option [vcg]:
  "(v = None \<Longrightarrow> ensures R a) \<Longrightarrow> (\<And>x. v = Some x \<Longrightarrow> ensures R (k x)) \<Longrightarrow>
     ensures R (case v of None \<Rightarrow> a | Some x \<Rightarrow> k x)"
  by (cases v) simp_all

lemma ensures_pair [vcg]:
  "(\<And>x y. p = (x, y) \<Longrightarrow> ensures R (k x y)) \<Longrightarrow> ensures R (case p of (x, y) \<Rightarrow> k x y)"
  by (cases p) simp

lemma ensures_return [vcg]: "R d' \<Longrightarrow> ensures R (Inr (v, d'))"
  by (simp add: ensures_def)

lemma ensures_value:
  "(\<And>a. m = Inr a \<Longrightarrow> ensures R (k a)) \<Longrightarrow> ensures R (and_then m k)"
  by (auto simp: ensures_def)

lemma ensures_rows_trans:
  assumes tr: "\<And>a b c. R a b \<Longrightarrow> R b c \<Longrightarrow> R a c" and "R d d0"
    and "\<And>n d1. m = Inr (n, d1) \<Longrightarrow> R d0 d1" and "\<And>n d1. R d d1 \<Longrightarrow> ensures (R d) (k n d1)"
  shows "ensures (R d) (and_then m (\<lambda>(n, d1). k n d1))"
  unfolding ensures_def
proof (intro allI impI)
  fix v d'
  assume "and_then m (\<lambda>(n, d1). k n d1) = Inr (v, d')"
  then obtain n d1 where m: "m = Inr (n, d1)" and k: "k n d1 = Inr (v, d')" by auto
  from assms(2) assms(3)[OF m] have "R d d1" by (rule tr)
  from ensuresD[OF assms(4)[OF this] k] show "R d d'" .
qed

lemma ensures_row_trans:
  assumes tr: "\<And>a b c. R a b \<Longrightarrow> R b c \<Longrightarrow> R a c" and "R d d0"
    and "\<And>d1. m = Inr d1 \<Longrightarrow> R d0 d1" and "\<And>d1. R d d1 \<Longrightarrow> ensures (R d) (k d1)"
  shows "ensures (R d) (and_then m k)"
proof (rule ensures_value)
  fix d1
  assume m: "m = Inr d1"
  from assms(2) assms(3)[OF m] have "R d d1" by (rule tr)
  then show "ensures (R d) (k d1)" by (rule assms(4))
qed

lemma ensures_rows:
  assumes "quiet d d0" and "\<And>n d1. m = Inr (n, d1) \<Longrightarrow> quiet d0 d1"
    and "\<And>n d1. quiet d d1 \<Longrightarrow> ensures (quiet d) (k n d1)"
  shows "ensures (quiet d) (and_then m (\<lambda>(n, d1). k n d1))"
  using quiet_trans assms by (rule ensures_rows_trans)

lemma ensures_row:
  assumes "quiet d d0" and "\<And>d1. m = Inr d1 \<Longrightarrow> quiet d0 d1"
    and "\<And>d1. quiet d d1 \<Longrightarrow> ensures (quiet d) (k d1)"
  shows "ensures (quiet d) (and_then m k)"
  using quiet_trans assms by (rule ensures_row_trans)

lemma ensures_update_items [vcg]:
  assumes "quiet d d0"
    and "\<And>i. i \<in> set (db_items d0) \<Longrightarrow> P i \<Longrightarrow> item_check (f i) \<Longrightarrow> same_identity i (f i) \<Longrightarrow>
      item_step i (f i)"
    and "\<And>n d1. quiet d d1 \<Longrightarrow> ensures (quiet d) (k n d1)"
  shows "ensures (quiet d) (and_then (update_items x P f d0) (\<lambda>(n, d1). k n d1))"
  using assms(1) quiet_update_items[OF _ assms(2)] assms(3) by (rule ensures_rows)

lemma ensures_update_runtime [vcg]:
  assumes "quiet d d0" and "\<And>n d1. quiet d d1 \<Longrightarrow> ensures (quiet d) (k n d1)"
  shows "ensures (quiet d) (and_then (update_runtime x P f d0) (\<lambda>(n, d1). k n d1))"
  using assms(1) quiet_update_runtime assms(2) by (rule ensures_rows)

lemma ensures_update_gpus [vcg]:
  assumes "quiet d d0" and "\<And>n d1. quiet d d1 \<Longrightarrow> ensures (quiet d) (k n d1)"
  shows "ensures (quiet d) (and_then (update_gpus x P f d0) (\<lambda>(n, d1). k n d1))"
  using assms(1) quiet_update_gpus assms(2) by (rule ensures_rows)

lemma ensures_insert_gpu [vcg]:
  assumes "quiet d d0" and "\<And>d1. quiet d d1 \<Longrightarrow> ensures (quiet d) (k d1)"
  shows "ensures (quiet d) (and_then (insert_gpu x g d0) k)"
  using assms(1) quiet_insert_gpu assms(2) by (rule ensures_row)

section \<open>A quiet transaction keeps the invariant and extends history\<close>

lemma list_all2_preimage:
  assumes "list_all2 R xs ys" and "y \<in> set ys"
  shows "\<exists>x \<in> set xs. R x y"
  using assms by (induction rule: list_all2_induct) auto

lemma distinct_subseq: "subseq xs ys \<Longrightarrow> distinct ys \<Longrightarrow> distinct xs"
proof (induction rule: list_emb.induct)
  case (list_emb_Cons2 x y xs ys)
  then show ?case by (auto dest: list_emb_set)
qed auto

lemma item_steps_ids: "list_all2 item_step xs ys \<Longrightarrow> map qi_id ys = map qi_id xs"
  by (induction rule: list_all2_induct) (auto dest: item_step_id)

lemma item_steps_items_inv: "list_all2 item_step xs ys \<Longrightarrow> items_inv xs \<Longrightarrow> items_inv ys"
  using item_steps_ids list_all2_preimage[of item_step xs ys]
  by (fastforce simp: items_inv_def item_step_def)

lemma item_steps_leased:
  "list_all2 item_step xs ys \<Longrightarrow> subseq (leased ys) (leased xs)"
  by (induction rule: list_all2_induct) (auto simp: leased_def item_step_def)

lemma item_steps_lease_inv:
  assumes "list_all2 item_step xs ys" and "lease_inv xs resvs"
  shows "lease_inv ys resvs"
proof -
  have "distinct (leased ys)"
    using assms item_steps_leased distinct_subseq unfolding lease_inv_def by blast
  moreover have "\<forall>j \<in> set ys. qi_lease_held j \<longrightarrow>
      (\<exists>i \<in> set xs. qi_lease_held i \<and> qi_gpu_uuid i = qi_gpu_uuid j)"
    using list_all2_preimage[OF assms(1)] by (fastforce simp: item_step_def)
  ultimately show ?thesis using assms(2) unfolding lease_inv_def by metis
qed

lemma ids_set_eq: "map qi_id ys = map qi_id xs \<Longrightarrow> qi_id ` set ys = qi_id ` set xs"
  by (metis list.set_map)

lemma runtime_steps_keys:
  "list_all2 (\<lambda>r s. rs_project_id s = rs_project_id r \<and> (runtime_check r \<longrightarrow> runtime_check s)) xs ys
     \<Longrightarrow> map rs_project_id ys = map rs_project_id xs"
  by (induction rule: list_all2_induct) auto

lemma runtime_steps_inv:
  assumes "list_all2 (\<lambda>r s. rs_project_id s = rs_project_id r \<and> (runtime_check r \<longrightarrow> runtime_check s))
    xs ys" and "runtime_inv xs"
  shows "runtime_inv ys"
proof -
  have "map rs_project_id ys = map rs_project_id xs"
    using assms(1) by (rule runtime_steps_keys)
  moreover have "\<forall>s \<in> set ys. runtime_check s"
    using assms(2) list_all2_preimage[OF assms(1)] by (fastforce simp: runtime_inv_def)
  ultimately show ?thesis using assms(2) by (simp add: runtime_inv_def)
qed

lemma quiet_owners_inv:
  assumes "quiet d d'" and "owners_inv d"
  shows "owners_inv d'"
proof -
  have "rs_project_id ` set (db_runtime d') = rs_project_id ` set (db_runtime d)"
    using runtime_steps_keys[OF quiet_runtime[OF assms(1)]] by (metis list.set_map)
  moreover have "\<exists>i \<in> set (db_items d). qi_project_id j = qi_project_id i
      \<and> qi_revision_id j = qi_revision_id i" if "j \<in> set (db_items d')" for j
    using list_all2_preimage[OF quiet_items[OF assms(1)] that] item_step_owner by metis
  ultimately show ?thesis
    using assms by (fastforce simp: owners_inv_def quiet_def)
qed

lemma quiet_system_inv:
  assumes "quiet d d'" and "system_inv d"
  shows "system_inv d'"
proof -
  note items = quiet_items[OF assms(1)]
  have ids: "qi_id ` set (db_items d') = qi_id ` set (db_items d)"
    by (rule ids_set_eq[OF item_steps_ids[OF items]])
  have "items_inv (db_items d')" and "lease_inv (db_items d') (db_reservations d)"
    using item_steps_items_inv[OF items] item_steps_lease_inv[OF items] assms(2)
    by (simp_all add: system_inv_def)
  moreover have "runtime_inv (db_runtime d')"
    using runtime_steps_inv[OF quiet_runtime[OF assms(1)]] assms(2) by (simp add: system_inv_def)
  ultimately show ?thesis
    using assms ids quiet_owners_inv[OF assms(1)]
    by (simp add: system_inv_def quiet_def reservations_inv_def dependencies_inv_def)
qed

lemma quiet_history:
  assumes "quiet d d'"
  shows "history d d'"
proof -
  have "length (db_items d') = length (db_items d)"
    using quiet_items[OF assms] by (simp add: list_all2_lengthD)
  moreover have "list_all2 item_trace (db_items d) (db_items d')"
    using quiet_items[OF assms] by (rule list_all2_mono) (simp add: item_step_def)
  ultimately show ?thesis using assms by (simp add: history_def quiet_def list.rel_refl)
qed

section \<open>The contracts\<close>

locale safe_operation =
  fixes run :: "db \<Rightarrow> ('v \<times> db) result"
  assumes keeps_inv: "run d = Inr (v, d') \<Longrightarrow> system_inv d \<Longrightarrow> system_inv d'"
    and extends_history: "run d = Inr (v, d') \<Longrightarrow> system_inv d \<Longrightarrow> history d d'"
begin

lemma one_lease_per_gpu:
  "run d = Inr (v, d') \<Longrightarrow> system_inv d \<Longrightarrow> distinct (leased (db_items d'))"
  using keeps_inv by (simp add: system_inv_def lease_inv_def)

lemma terminal_kept:
  assumes "run d = Inr (v, d')" and "system_inv d"
    and "i \<in> set (db_items d)" and "terminal_state (qi_state i)"
  shows "\<exists>j \<in> set (db_items d'). same_identity i j \<and> qi_state j = qi_state i"
  using history_item[OF extends_history[OF assms(1,2)] assms(3)] terminal_absorbing assms(4)
  by (auto simp: item_trace_def)

end

locale quiet_operation =
  fixes run :: "db \<Rightarrow> ('v \<times> db) result"
  assumes run_quiet: "run d = Inr (v, d') \<Longrightarrow> system_inv d \<Longrightarrow> quiet d d'"
begin

lemma no_lease_granted:
  assumes "run d = Inr (v, d')" and "system_inv d"
  shows "subseq (leased (db_items d')) (leased (db_items d))"
  using quiet_items[OF run_quiet[OF assms]] by (rule item_steps_leased)

lemma reservations_untouched:
  "run d = Inr (v, d') \<Longrightarrow> system_inv d \<Longrightarrow> db_reservations d' = db_reservations d"
  using run_quiet by (simp add: quiet_def)

end

sublocale quiet_operation \<subseteq> safe_operation run
  by unfold_locales (use run_quiet quiet_system_inv quiet_history in blast)+

text \<open>Facts about the one row an operation reads and updates.\<close>

lemma inv_ids: "system_inv d \<Longrightarrow> distinct (map qi_id (db_items d))"
  by (simp add: system_inv_def items_inv_def)

lemma inv_item:
  "system_inv d \<Longrightarrow> i \<in> set (db_items d) \<Longrightarrow> item_check i \<and> item_wf i"
  by (simp add: system_inv_def items_inv_def)

lemma inv_row:
  assumes "system_inv d" and "find_item (db_items d) k = Some row"
    and "i \<in> set (db_items d)" and "qi_id i = k"
  shows "i = row"
  using item_table.rows_with_key[OF inv_ids[OF assms(1)] assms(2-4)] .

lemma terminal_wf:
  "terminal_state (qi_state j) \<Longrightarrow> null_or (text_ok 256) (qi_start_ticks j) \<Longrightarrow> completion_wf j
     \<Longrightarrow> item_wf j"
  by (cases "qi_state j") (simp_all add: item_wf_defs terminal_state_def)

lemma finish_step:
  assumes "same_identity i j" and "item_check j" and "state_edge (qi_state i) (qi_state j)"
    and "terminal_state (qi_state j)" and "qi_segment j = qi_segment i"
    and "qi_start_ticks j = qi_start_ticks i" and "qi_lease_held j = qi_lease_held i"
    and "qi_gpu_uuid j = qi_gpu_uuid i" and "completion_wf j"
  shows "item_step i j"
  using assms r_into_rtranclp[of state_edge, OF assms(3)] terminal_wf[OF assms(4)]
  by (intro item_stepI) (simp_all add: item_wf_def process_wf_def)

text \<open>The update of the one row with a given key succeeds and changes that row only.\<close>

lemma update_one:
  assumes "system_inv d" and "find_item (db_items d) k = Some i" and "Q i"
    and "item_check (f i)" and "same_identity i (f i)"
  shows "update_items x (\<lambda>j. qi_id j = k \<and> Q j) f d
    = Inr (1, d\<lparr>db_items := update_rows (\<lambda>j. qi_id j = k \<and> Q j) f (db_items d)\<rparr>)"
  using assms inv_row[OF assms(1,2)] update_one_row[OF inv_ids[OF assms(1)] assms(2), of Q]
  by (auto simp: update_items_eq_Inr)

lemma update_count_one:
  assumes "system_inv d" and "find_item (db_items d) k = Some i" and "Q i"
    and "update_items x (\<lambda>j. qi_id j = k \<and> Q j) f d = Inr (n, d1)"
  shows "n = 1 \<and> d1 = d\<lparr>db_items := update_rows (\<lambda>j. qi_id j = k \<and> Q j) f (db_items d)\<rparr>"
  using assms(4) update_one_row[OF inv_ids[OF assms(1)] assms(2), of Q] assms(3)
  by (simp add: update_items_eq_Inr)

lemma update_one_found:
  assumes "find_item rows k = Some i" and "Q i" and "\<And>j. qi_id (f j) = qi_id j"
  shows "find_item (update_rows (\<lambda>j. qi_id j = k \<and> Q j) f rows) k = Some (f i)"
  using assms item_table.lookup_SomeD[OF assms(1)] by (simp add: find_item_update)

lemma update_one_others:
  assumes "k' \<noteq> k" and "\<And>j. qi_id (f j) = qi_id j"
  shows "find_item (update_rows (\<lambda>j. qi_id j = k \<and> Q j) f rows) k' = find_item rows k'"
  using assms item_table.lookup_SomeD[of rows k']
  by (cases "find_item rows k'") (auto simp: find_item_update)

lemma inv_project:
  assumes "system_inv d" and "i \<in> set (db_items d)"
  shows "\<exists>p. find_project (db_projects d) (qi_project_id i) = Some p"
proof -
  obtain p where "p \<in> set (db_projects d)" "qi_project_id i = p_id p"
    using assms by (auto simp: system_inv_def owners_inv_def)
  then show ?thesis
    using assms project_table.lookup_unique[of "db_projects d" p]
    by (auto simp: system_inv_def owners_inv_def)
qed

lemma item_event_ok:
  assumes "find_project (db_projects d) p = Some pr"
    and "find_item (db_items d) k = Some i" and "qi_project_id i = p"
  shows "event_references_ok d (new_event d t a e Scope_project (Some p) (Some k) payload)"
  using assms item_table.lookup_SomeD[OF assms(2)]
  by (auto simp: event_references_ok_def new_event_def null_or_def list_ex_iff)

end
