(* ===== verification/Example_V5.thy ===== *)
theory Example_V5
  imports Contracts_V5
begin

text \<open>
  A small database on which the properties' witnesses are evaluated: one active Project with a
  closed circuit, two enabled GPUs, and items in the states a witness needs.
\<close>

definition ex_time :: string where
  "ex_time = ''2026-03-01T12:00:00+00:00''"

definition ex_sha :: string where
  "ex_sha = replicate 64 (CHR ''a'')"

definition ex_commit :: string where
  "ex_commit = replicate 40 (CHR ''b'')"

definition ex_project :: project_row where
  "ex_project = \<lparr>p_id = 1, p_key = ''alpha'', p_display_name = ''Alpha'', p_lifecycle = Active,
     p_current_revision_id = 1, p_current_revision_sequence = 1, p_created_at = ex_time,
     p_created_by = ''operator'', p_lifecycle_changed_at = ex_time, p_lifecycle_actor = ''operator'',
     p_lifecycle_reason = ''registered''\<rparr>"

definition ex_schema :: schema_evidence where
  "ex_schema = \<lparr>se_api_version = ''experiment-queue/v1'', se_kind = ''Project'', se_schema_id = ''schema'',
     se_sha256 = ex_sha\<rparr>"

definition ex_blob :: stored_blob where
  "ex_blob = \<lparr>sb_object_id = ex_commit, sb_mode = ''100644'', sb_size = 13\<rparr>"

definition ex_sources :: project_sources where
  "ex_sources = \<lparr>ps_path = ''project.yaml'', ps_source = ''kind: Project'', ps_sha256 = ex_sha,
     ps_normalized = JObj [(''kind'', JStr ''Project'')], ps_normalized_sha256 = ex_sha,
     ps_schema = ex_schema, ps_extension = None\<rparr>"

definition ex_revision :: revision_row where
  "ex_revision = \<lparr>r_id = 1, r_project_id = 1, r_sequence = 1, r_label = ''alpha:r1'',
     r_kind = Project_v1, r_display_name = ''Alpha'', r_git_commit = Some ex_commit,
     r_checkout_path = ''/work/alpha'', r_created_at = ex_time, r_created_actor = ''operator'',
     r_sources = Some ex_sources, r_project_blob = Some ex_blob, r_extension_blob = None\<rparr>"

definition ex_runtime :: runtime_row where
  "ex_runtime = \<lparr>rs_project_id = 1, rs_health = Closed, rs_failure_count = 0,
     rs_reason = ''registered'', rs_actor = ''operator'', rs_changed_at = ex_time\<rparr>"

definition ex_gpu :: "string \<Rightarrow> string \<Rightarrow> gpu_row" where
  "ex_gpu uuid index = \<lparr>g_uuid = uuid, g_requested_identifier = uuid, g_last_index = index,
     g_name = ''A100'', g_enabled = True, g_draining = False, g_updated_at = ex_time\<rparr>"

text \<open>A queued item as admission leaves it.\<close>

definition ex_item :: "int \<Rightarrow> queue_item" where
  "ex_item k = \<lparr>qi_id = k, qi_project_id = 1, qi_revision_id = 1,
     qi_admission_kind = Experiment_card, qi_snapshot_id = Some k, qi_job_id = Some ''train'',
     qi_experiment_id = ''exp'' @ str_int k, qi_attempt = 1, qi_card_path = ''cards/exp.yaml'',
     qi_card_sha256 = ex_sha, qi_command_text = ''python train.py'', qi_runner_name = ''argv'',
     qi_git_commit = ex_commit, qi_added_at = ex_time, qi_added_by = ''operator'',
     qi_git_ref = None, qi_worktree_path = None, qi_worktree_created_at = None,
     qi_worktree_removed_at = None, qi_worktree_cleanup_error = None,
     qi_state = Queued, qi_priority = 0, qi_state_detail = None, qi_gpu_uuid = None,
     qi_gpu_index = None, qi_lease_held = False, qi_lease_released_at = None, qi_pid = None,
     qi_pgid = None, qi_start_ticks = None, qi_started_at = None, qi_finished_at = None,
     qi_return_code = None, qi_terminate_requested_at = None, qi_terminate_reason = None,
     qi_termination_stage = None, qi_termination_signal_epoch = None,
     qi_contention_detected = False, qi_repo_drift_detected = False, qi_runner_run_dir = None,
     qi_runner_manifest_path = None, qi_rsync_pull_command = None, qi_preemptible = True,
     qi_segment = 1, qi_resume_front = False, qi_yield_requested_at = None,
     qi_yield_requested_by = None, qi_yield_request_id = None, qi_yield_note = None,
     qi_yield_duration_hours = None, qi_checkpoint = None, qi_checkpoint_sha256 = None,
     qi_checkpoint_metadata = None, qi_checkpoint_metadata_sha256 = None,
     qi_continuation_step = None, qi_continuation_wandb_id = None, qi_runtime_git_ref = None,
     qi_runtime_worktree_path = None, qi_runtime_worktree_created_at = None,
     qi_runtime_worktree_removed_at = None, qi_runtime_worktree_cleanup_error = None\<rparr>"

definition ex_running :: "int \<Rightarrow> string \<Rightarrow> queue_item" where
  "ex_running k gpu = (ex_item k)\<lparr>qi_state := Running, qi_gpu_uuid := Some gpu,
     qi_gpu_index := Some ''0'', qi_lease_held := True, qi_pid := Some 4242, qi_pgid := Some 4242,
     qi_start_ticks := Some ''99'', qi_started_at := Some ex_time\<rparr>"

definition ex_db :: "queue_item list \<Rightarrow> db" where
  "ex_db items = (fresh_db ''schema'' ex_sha ''instance'')\<lparr>db_projects := [ex_project],
     db_revisions := [ex_revision], db_runtime := [ex_runtime],
     db_gpus := [ex_gpu ''GPU-a'' ''0'', ex_gpu ''GPU-b'' ''1''], db_items := items\<rparr>"

lemma ex_db_invariant:
  "system_inv (ex_db [ex_item 1])" "system_inv (ex_db [ex_running 1 ''GPU-a''])"
  "system_inv (ex_db [ex_running 1 ''GPU-a'', ex_item 2])"
  by code_simp+

end
