(* ===== verification/Dispatch_V5.thy ===== *)
theory Dispatch_V5
  imports Example_V5
begin

text \<open>
  The dispatch half of \<open>V5SchedulingController\<close> (\<open>scheduler_v5.py\<close>): the host dispatch gate, the
  Project circuits, the blocking of dependants of failed work, the candidate query with its
  global order, and the atomic claim of one item on one GPU.

  An operation takes its arguments and the database and returns a \<open>result\<close>: \<open>Inr (v, d')\<close> when
  the method returns \<open>v\<close> and commits \<open>d'\<close>, \<open>Inl\<close> when it raises and rolls back. The argument
  checks stand in the order the code performs them. A Python \<open>type(...) is not\<close> test on an
  argument is the argument's HOL type.
\<close>

section \<open>Argument checks and events\<close>

abbreviation sched_error :: "reason \<Rightarrow> error" where
  "sched_error r \<equiv> (V5SchedulerError, r)"

definition sched_event ::
  "string \<Rightarrow> string \<Rightarrow> string \<Rightarrow> failure_scope \<Rightarrow> int option \<Rightarrow> int option \<Rightarrow> json \<Rightarrow> db \<Rightarrow> db result"
  where
  "sched_event created_at actor event_type scope project_id item_id payload d =
    require (case scope of Scope_host \<Rightarrow> project_id = None \<and> item_id = None
               | Scope_project \<Rightarrow> project_id \<noteq> None) (sched_error Bad_scope)
    (require (timestamp_ok created_at) (sched_error Bad_timestamp)
    (require (text_ok 256 actor) (sched_error Bad_text)
    (require (text_ok 256 event_type) (sched_error Bad_text)
    (require (json_ok 0 payload) (sched_error Bad_payload)
    (insert_event V5SchedulerError created_at actor event_type scope project_id item_id payload d)))))"

section \<open>The host dispatch gate\<close>

definition host_dispatch_state :: "db \<Rightarrow> (bool \<times> string) result" where
  "host_dispatch_state d =
    fetch (db_metadata d ''dispatch_paused'') (sched_error Metadata_incomplete) (\<lambda>paused.
    fetch (db_metadata d ''pause_reason'') (sched_error Metadata_incomplete) (\<lambda>why.
    Inr (paused = ''1'', why)))"

definition pause_host :: "string \<Rightarrow> string \<Rightarrow> string \<Rightarrow> db \<Rightarrow> (bool \<times> db) result" where
  "pause_host why actor changed_at d =
    require (text_ok 4096 why) (sched_error Bad_text)
    (fetch (db_metadata d ''dispatch_paused'') (sched_error Metadata_incomplete) (\<lambda>paused.
     fetch (db_metadata d ''pause_reason'') (sched_error Metadata_incomplete) (\<lambda>previous.
     if paused = ''1'' \<and> previous = why then Inr (False, d)
     else and_then
       (sched_event changed_at actor ''HOST_DISPATCH_PAUSED'' Scope_host None None
          (JObj [(''reason'', JStr why)])
          (set_metadata ''pause_reason'' why (set_metadata ''dispatch_paused'' ''1'' d)))
       (\<lambda>d'. Inr (True, d')))))"

definition resume_host :: "string \<Rightarrow> string \<Rightarrow> db \<Rightarrow> (bool \<times> db) result" where
  "resume_host actor changed_at d =
    fetch (db_metadata d ''dispatch_paused'') (sched_error Metadata_incomplete) (\<lambda>paused.
    if paused = ''0'' then Inr (False, d)
    else and_then
      (sched_event changed_at actor ''HOST_DISPATCH_RESUMED'' Scope_host None None (JObj [])
         (set_metadata ''pause_reason'' [] (set_metadata ''dispatch_paused'' ''0'' d)))
      (\<lambda>d'. Inr (True, d')))"

section \<open>Project circuits\<close>

definition quarantine_project ::
  "int \<Rightarrow> string \<Rightarrow> string \<Rightarrow> string \<Rightarrow> int option \<Rightarrow> db \<Rightarrow> (bool \<times> db) result" where
  "quarantine_project project_id why actor changed_at item_id d =
    require (project_id > 0) (sched_error Bad_integer)
    (require (text_ok 4096 why) (sched_error Bad_text)
    (fetch (find_runtime (db_runtime d) project_id) (sched_error Row_missing) (\<lambda>row.
     if rs_health row = Open then Inr (False, d)
     else
       require (text_ok 256 actor) (sched_error Bad_text)
       (require (timestamp_ok changed_at) (sched_error Bad_timestamp)
       (and_then
         (update_runtime V5SchedulerError (\<lambda>r. rs_project_id r = project_id)
           (\<lambda>r. r\<lparr>rs_health := Open, rs_failure_count := rs_failure_count r + 1,
                  rs_reason := why, rs_actor := actor, rs_changed_at := changed_at\<rparr>) d)
         (\<lambda>(_, d'). and_then
           (sched_event changed_at actor ''PROJECT_CIRCUIT_OPENED'' Scope_project
              (Some project_id) item_id (JObj [(''reason'', JStr why)]) d')
           (\<lambda>d''. Inr (True, d''))))))))"

definition close_project_circuit ::
  "int \<Rightarrow> string \<Rightarrow> string \<Rightarrow> string \<Rightarrow> db \<Rightarrow> (bool \<times> db) result" where
  "close_project_circuit project_id why actor changed_at d =
    require (project_id > 0) (sched_error Bad_integer)
    (require (text_ok 4096 why) (sched_error Bad_text)
    (fetch (find_runtime (db_runtime d) project_id) (sched_error Row_missing) (\<lambda>row.
     if rs_health row = Closed then Inr (False, d)
     else
       require (text_ok 256 actor) (sched_error Bad_text)
       (require (timestamp_ok changed_at) (sched_error Bad_timestamp)
       (and_then
         (update_runtime V5SchedulerError (\<lambda>r. rs_project_id r = project_id)
           (\<lambda>r. r\<lparr>rs_health := Closed, rs_failure_count := 0,
                  rs_reason := why, rs_actor := actor, rs_changed_at := changed_at\<rparr>) d)
         (\<lambda>(_, d'). and_then
           (sched_event changed_at actor ''PROJECT_CIRCUIT_CLOSED'' Scope_project
              (Some project_id) None (JObj [(''reason'', JStr why)]) d')
           (\<lambda>d''. Inr (True, d''))))))))"

section \<open>Dependants of failed work\<close>

definition terminal_non_success :: "item_state \<Rightarrow> bool" where
  "terminal_non_success s = (s \<in> {Failed, Interrupted, Force_killed, Removed})"

text \<open>The rows of the join for one queued item, ordered by dependency identifier.\<close>

definition failed_dependencies :: "db \<Rightarrow> int \<Rightarrow> (int \<times> item_state) list" where
  "failed_dependencies d k =
    sort_key fst (concat (map (\<lambda>link.
      map (\<lambda>dep. (qi_id dep, qi_state dep))
        (filter (\<lambda>dep. qi_id dep = snd link \<and> terminal_non_success (qi_state dep)) (db_items d)))
      (filter (\<lambda>link. fst link = k) (db_dependencies d))))"

definition failed_dependency_groups :: "db \<Rightarrow> (int \<times> int \<times> (int \<times> item_state) list) list" where
  "failed_dependency_groups d =
    filter (\<lambda>(_, _, failures). failures \<noteq> [])
      (map (\<lambda>i. (qi_id i, qi_project_id i, failed_dependencies d (qi_id i)))
        (sort_key qi_id (filter (\<lambda>i. qi_state i = Queued) (db_items d))))"

fun join_text :: "string \<Rightarrow> string list \<Rightarrow> string" where
  "join_text sep [] = []"
| "join_text sep [x] = x"
| "join_text sep (x # xs) = x @ sep @ join_text sep xs"

definition dependency_detail :: "(int \<times> item_state) list \<Rightarrow> string" where
  "dependency_detail failures = ''dependency ended without success: '' @
     join_text '', '' (map (\<lambda>(k, s). str_int k @ ''='' @ state_name s) failures)"

fun block_dependants ::
  "string \<Rightarrow> string \<Rightarrow> (int \<times> int \<times> (int \<times> item_state) list) list \<Rightarrow> nat \<Rightarrow> db \<Rightarrow> (nat \<times> db) result"
  where
  "block_dependants actor changed_at [] changed d = Inr (changed, d)"
| "block_dependants actor changed_at ((item_id, project_id, failures) # groups) changed d =
    (let detail = dependency_detail failures in
     and_then
       (update_items V5SchedulerError (\<lambda>i. qi_id i = item_id \<and> qi_state i = Queued)
         (\<lambda>i. i\<lparr>qi_state := Blocked, qi_state_detail := Some detail\<rparr>) d)
       (\<lambda>(n, d'). if n \<noteq> 1 then block_dependants actor changed_at groups changed d'
         else and_then
           (sched_event changed_at actor ''QUEUE_DEPENDENCY_BLOCKED'' Scope_project
             (Some project_id) (Some item_id)
             (JObj [(''reason'', JStr detail),
                    (''dependencies'', JList (map (\<lambda>(k, s).
                       JObj [(''id'', JInt k), (''state'', JStr (state_name s))]) failures))]) d')
           (block_dependants actor changed_at groups (changed + 1))))"

definition reconcile_failed_dependencies :: "string \<Rightarrow> string \<Rightarrow> db \<Rightarrow> (nat \<times> db) result" where
  "reconcile_failed_dependencies actor changed_at d =
    block_dependants actor changed_at (failed_dependency_groups d) 0 d"

section \<open>Dispatch candidates\<close>

record dispatch_candidate =
  c_id :: int
  c_project_id :: int
  c_project_key :: string
  c_revision_id :: int
  c_revision_label :: string
  c_revision_kind :: revision_kind
  c_admission_kind :: admission_kind
  c_snapshot_id :: "int option"
  c_experiment_id :: string
  c_attempt :: int
  c_priority :: int
  c_resume_front :: bool
  c_segment :: int
  c_git_commit :: string

definition candidate_from_row :: "queue_item \<Rightarrow> project_row \<Rightarrow> revision_row \<Rightarrow> dispatch_candidate" where
  "candidate_from_row i p r =
    \<lparr>c_id = qi_id i, c_project_id = qi_project_id i, c_project_key = p_key p,
     c_revision_id = qi_revision_id i, c_revision_label = r_label r, c_revision_kind = r_kind r,
     c_admission_kind = qi_admission_kind i, c_snapshot_id = qi_snapshot_id i,
     c_experiment_id = qi_experiment_id i, c_attempt = qi_attempt i, c_priority = qi_priority i,
     c_resume_front = qi_resume_front i, c_segment = qi_segment i, c_git_commit = qi_git_commit i\<rparr>"

definition dependencies_satisfied :: "db \<Rightarrow> int \<Rightarrow> bool" where
  "dependencies_satisfied d k = list_all (\<lambda>link. fst link = k \<longrightarrow>
     list_all (\<lambda>dep. qi_id dep = snd link \<longrightarrow> qi_state dep = Succeeded) (db_items d))
     (db_dependencies d)"

text \<open>The row of one item in the candidate query, when its joins and predicates hold.\<close>

definition candidate_row :: "db \<Rightarrow> queue_item \<Rightarrow> dispatch_candidate option" where
  "candidate_row d i =
    (case (find_project (db_projects d) (qi_project_id i),
           find (\<lambda>r. r_id r = qi_revision_id i \<and> r_project_id r = qi_project_id i) (db_revisions d),
           find_runtime (db_runtime d) (qi_project_id i)) of
       (Some p, Some r, Some rs) \<Rightarrow>
         if qi_state i = Queued \<and> p_lifecycle p = Active \<and> rs_health rs = Closed
            \<and> dependencies_satisfied d (qi_id i)
         then Some (candidate_from_row i p r) else None
     | _ \<Rightarrow> None)"

definition candidate_key :: "dispatch_candidate \<Rightarrow> int \<times> int \<times> int" where
  "candidate_key c = (- c_priority c, if c_resume_front c then 0 else 1, c_id c)"

definition candidate_query :: "db \<Rightarrow> dispatch_candidate list" where
  "candidate_query d = sort_key candidate_key (List.map_filter (candidate_row d) (db_items d))"

definition list_dispatch_candidates :: "int option \<Rightarrow> db \<Rightarrow> dispatch_candidate list result" where
  "list_dispatch_candidates limit d =
    and_then (host_dispatch_state d) (\<lambda>(paused, _).
      if paused then Inr []
      else case limit of
          None \<Rightarrow> Inr (candidate_query d)
        | Some n \<Rightarrow> require (n > 0) (sched_error Bad_integer)
            (Inr (take (nat n) (candidate_query d))))"

section \<open>The claim\<close>

definition lease_holders :: "db \<Rightarrow> string \<Rightarrow> queue_item list" where
  "lease_holders d gpu = filter (\<lambda>i. qi_gpu_uuid i = Some gpu \<and> qi_lease_held i) (db_items d)"

definition open_reservations :: "db \<Rightarrow> string \<Rightarrow> reservation_row list" where
  "open_reservations d gpu =
    filter (\<lambda>v. v_gpu_uuid v = gpu \<and> open_status (v_status v)) (db_reservations d)"

definition gpu_dispatchable :: "db \<Rightarrow> string \<Rightarrow> bool" where
  "gpu_dispatchable d gpu =
    (list_ex (\<lambda>g. g_uuid g = gpu \<and> g_enabled g \<and> \<not> g_draining g) (db_gpus d)
     \<and> open_reservations d gpu = [] \<and> lease_holders d gpu = [])"

definition claim_update :: "string \<Rightarrow> string \<Rightarrow> queue_item \<Rightarrow> queue_item" where
  "claim_update gpu_uuid gpu_index i =
    i\<lparr>qi_state := Starting, qi_gpu_uuid := Some gpu_uuid, qi_gpu_index := Some gpu_index,
      qi_lease_held := True, qi_lease_released_at := None, qi_state_detail := None,
      qi_resume_front := False, qi_pid := None, qi_pgid := None, qi_start_ticks := None,
      qi_started_at := None, qi_finished_at := None, qi_return_code := None\<rparr>"

definition claim ::
  "int \<Rightarrow> string \<Rightarrow> string \<Rightarrow> string \<Rightarrow> string \<Rightarrow> db \<Rightarrow> (dispatch_candidate option \<times> db) result" where
  "claim item_id gpu_uuid gpu_index actor changed_at d =
    require (item_id > 0) (sched_error Bad_integer)
    (require (text_ok 256 gpu_uuid) (sched_error Bad_text)
    (require (text_ok 64 gpu_index) (sched_error Bad_text)
    (fetch (db_metadata d ''dispatch_paused'') (sched_error Metadata_incomplete) (\<lambda>paused.
     if paused = ''1'' then Inr (None, d)
     else if \<not> gpu_dispatchable d gpu_uuid then Inr (None, d)
     else case Option.bind (find_item (db_items d) item_id) (candidate_row d) of
         None \<Rightarrow> Inr (None, d)
       | Some c \<Rightarrow>
           and_then
             (update_items V5SchedulerError (\<lambda>i. qi_id i = item_id \<and> qi_state i = Queued)
                (claim_update gpu_uuid gpu_index) d)
             (\<lambda>(n, d'). if n \<noteq> 1 then Inr (None, d')
               else and_then
                 (sched_event changed_at actor ''EXPERIMENT_STARTING'' Scope_project
                   (Some (c_project_id c)) (Some item_id)
                   (JObj [(''gpu_uuid'', JStr gpu_uuid), (''gpu_index'', JStr gpu_index),
                          (''project_key'', JStr (c_project_key c)),
                          (''project_revision'', JStr (c_revision_label c)),
                          (''segment'', JInt (c_segment c))]) d')
                 (\<lambda>d''. Inr (Some c, d'')))))))"

section \<open>Host gate, circuits and dependency blocking are quiet\<close>

lemma sched_event_eq_Inr [effect_simps]:
  "sched_event created_at actor event_type scope project_id item_id payload d = Inr d' \<longleftrightarrow>
     (case scope of Scope_host \<Rightarrow> project_id = None \<and> item_id = None
        | Scope_project \<Rightarrow> project_id \<noteq> None)
     \<and> timestamp_ok created_at \<and> text_ok 256 actor \<and> text_ok 256 event_type \<and> json_ok 0 payload
     \<and> event_references_ok d
         (new_event d created_at actor event_type scope project_id item_id payload)
     \<and> d' = d\<lparr>db_events := db_events d
          @ [new_event d created_at actor event_type scope project_id item_id payload]\<rparr>"
  by (auto simp: sched_event_def insert_event_eq_Inr timestamp_ok_def text_ok_def)

lemma item_sched_event:
  assumes "find_project (db_projects d) p = Some pr" and "find_item (db_items d) k = Some i"
    and "qi_project_id i = p" and "timestamp_ok t" and "text_ok 256 actor" and "text_ok 256 e"
    and "json_ok 0 payload"
  shows "\<exists>ev. sched_event t actor e Scope_project (Some p) (Some k) payload d
    = Inr (d\<lparr>db_events := db_events d @ [ev]\<rparr>) \<and> e_type ev = e \<and> e_item_id ev = Some k"
  using assms item_event_ok[OF assms(1-3)] by (auto simp: sched_event_eq_Inr new_event_def)

lemma quiet_sched_event:
  "sched_event created_at actor event_type scope project_id item_id payload d = Inr d' \<Longrightarrow> quiet d d'"
  by (auto simp: sched_event_def intro: quiet_insert_event)

lemma gate_keys [simp]: "''dispatch_paused'' \<notin> identity_keys" "''pause_reason'' \<notin> identity_keys"
  by (simp_all add: identity_keys_def)

lemma ensures_sched_event [vcg]:
  assumes "quiet d d0" and "\<And>d1. quiet d d1 \<Longrightarrow> ensures (quiet d) (k d1)"
  shows "ensures (quiet d) (and_then
    (sched_event created_at actor event_type scope project_id item_id payload d0) k)"
  using assms(1) quiet_sched_event assms(2) by (rule ensures_row)

lemma quiet_gate:
  "quiet d (set_metadata ''pause_reason'' why (set_metadata ''dispatch_paused'' flag d))"
  by (meson quiet_set_metadata quiet_trans gate_keys)

interpretation pausing: quiet_operation "pause_host why actor changed_at" for why actor changed_at
  by (unfold_locales, erule ensuresD[rotated], unfold pause_host_def, intro vcg)
    (auto intro: quiet_gate)

interpretation resuming: quiet_operation "resume_host actor changed_at" for actor changed_at
  by (unfold_locales, erule ensuresD[rotated], unfold resume_host_def, intro vcg)
    (auto intro: quiet_gate)

interpretation quarantining:
  quiet_operation "quarantine_project project_id why actor changed_at item_id"
  for project_id why actor changed_at item_id
  by (unfold_locales, erule ensuresD[rotated], unfold quarantine_project_def, intro vcg) auto

interpretation circuit_closing:
  quiet_operation "close_project_circuit project_id why actor changed_at"
  for project_id why actor changed_at
  by (unfold_locales, erule ensuresD[rotated], unfold close_project_circuit_def, intro vcg) auto

lemma block_step:
  assumes "qi_state i = Queued" and "item_check j" and "same_identity i j"
    and "j = i\<lparr>qi_state := Blocked, qi_state_detail := detail\<rparr>"
  shows "item_step i j"
  using assms by (intro item_stepI) (auto simp: item_wf_defs intro: r_into_rtranclp)

lemma block_dependants_quiet:
  "block_dependants actor changed_at groups n d = Inr (v, d') \<Longrightarrow> quiet d d'"
proof (induction groups arbitrary: n d)
  case (Cons g groups)
  obtain item_id project_id failures where g: "g = (item_id, project_id, failures)"
    by (cases g)
  let ?P = "\<lambda>i. qi_id i = item_id \<and> qi_state i = Queued"
  let ?f = "\<lambda>i. i\<lparr>qi_state := Blocked, qi_state_detail := Some (dependency_detail failures)\<rparr>"
  from Cons.prems obtain k d1 where upd: "update_items V5SchedulerError ?P ?f d = Inr (k, d1)"
    by (auto simp: Let_def g)
  have "quiet d d1"
    by (rule quiet_update_items[OF upd]) (auto intro: block_step)
  also have "quiet d1 d'"
    using Cons.prems upd
    by (auto simp: Let_def g split: if_splits dest!: Cons.IH quiet_sched_event intro: quiet_trans)
  finally show ?case .
qed simp

interpretation dependency_blocking:
  quiet_operation "reconcile_failed_dependencies actor changed_at" for actor changed_at
  by unfold_locales (auto simp: reconcile_failed_dependencies_def intro: block_dependants_quiet)

section \<open>A claim grants exactly one lease\<close>

lemma claim_cases:
  assumes "claim item_id gpu gpu_index actor changed_at d = Inr (v, d')"
  obtains (refused) "v = None" and "d' = d"
  | (ambiguous) n where "n \<noteq> 1" and "v = None" and "gpu_dispatchable d gpu"
      and "update_items V5SchedulerError (\<lambda>i. qi_id i = item_id \<and> qi_state i = Queued)
             (claim_update gpu gpu_index) d = Inr (n, d')"
  | (claimed) i c d1 payload where "v = Some c" and "find_item (db_items d) item_id = Some i"
      and "candidate_row d i = Some c" and "gpu_dispatchable d gpu"
      and "update_items V5SchedulerError (\<lambda>i. qi_id i = item_id \<and> qi_state i = Queued)
             (claim_update gpu gpu_index) d = Inr (1, d1)"
      and "sched_event changed_at actor ''EXPERIMENT_STARTING'' Scope_project
             (Some (c_project_id c)) (Some item_id) payload d1 = Inr d'"
  using assms
  by (auto simp: claim_def bind_eq_Some_conv split: if_splits option.splits)

lemma candidate_row_SomeD:
  "candidate_row d i = Some c \<Longrightarrow> qi_state i = Queued \<and> dependencies_satisfied d (qi_id i)"
  by (auto simp: candidate_row_def split: option.splits if_splits)

lemma claim_trace:
  "qi_state i = Queued \<Longrightarrow> same_identity i (claim_update gpu gpu_index i) \<Longrightarrow>
     item_trace i (claim_update gpu gpu_index i)"
  by (auto simp: item_trace_def claim_update_def intro: r_into_rtranclp)

lemma claim_wf: "item_wf i \<Longrightarrow> item_wf (claim_update gpu gpu_index i)"
  by (simp add: item_wf_defs claim_update_def null_or_def)

lemma claim_update_history:
  assumes "update_items x (\<lambda>i. qi_id i = k \<and> qi_state i = Queued) (claim_update gpu gpu_index) d
    = Inr (n, d')"
  shows "history d d'"
proof -
  have "list_all2 item_trace (db_items d) (db_items d')"
    using assms by (auto simp: update_items_eq_Inr intro!: list_all2_update_rows claim_trace)
  moreover from this have "length (db_items d') = length (db_items d)" by (simp add: list_all2_lengthD)
  moreover obtain rows where "d' = d\<lparr>db_items := rows\<rparr>" using assms by (auto simp: update_items_eq_Inr)
  ultimately show ?thesis by (simp add: history_def list.rel_refl)
qed

lemma leased_Cons:
  "leased (i # rows) = (if qi_lease_held i then [qi_gpu_uuid i] else []) @ leased rows"
  by (simp add: leased_def)

lemma leased_grant:
  assumes "distinct (map qi_id rows)" and "\<And>i. P i \<Longrightarrow> qi_id i = k"
    and "\<And>i. P i \<Longrightarrow> qi_lease_held (f i) \<and> qi_gpu_uuid (f i) = Some gpu"
    and "Some gpu \<notin> set (leased rows)" and "distinct (leased rows)"
  shows "distinct (leased (update_rows P f rows))
    \<and> set (leased (update_rows P f rows)) \<subseteq> insert (Some gpu) (set (leased rows))"
  using assms(1,4,5)
proof (induction rows)
  case (Cons r rows)
  show ?case
  proof (cases "P r")
    case True
    have "update_rows P f rows = rows"
      using Cons.prems(1) True assms(2) by (intro update_rows_absent) fastforce
    with True Cons.prems assms(3)[OF True] show ?thesis by (auto simp: leased_Cons split: if_splits)
  next
    case False
    with Cons show ?thesis by (auto simp: leased_Cons split: if_splits)
  qed
qed (simp add: leased_def)

lemma dispatchable_unleased: "gpu_dispatchable d gpu \<Longrightarrow> Some gpu \<notin> set (leased (db_items d))"
  by (auto simp: gpu_dispatchable_def lease_holders_def leased_def filter_empty_conv)

lemma dispatchable_unreserved: "gpu_dispatchable d gpu \<Longrightarrow> gpu \<notin> reserved (db_reservations d)"
  by (auto simp: gpu_dispatchable_def open_reservations_def reserved_def filter_empty_conv
      open_status_def)

lemma holders_leased:
  "map qi_gpu_uuid (filter (\<lambda>j. qi_gpu_uuid j = Some g \<and> qi_lease_held j) rows)
     = filter (\<lambda>u. u = Some g) (leased rows)"
  by (induction rows) (auto simp: leased_def)

lemma unique_holder:
  assumes "system_inv d" and "i \<in> set (db_items d)" and "qi_lease_held i" and "qi_gpu_uuid i = Some gpu"
  shows "lease_holders d gpu = [i]"
proof -
  have "length (filter (\<lambda>u. u = Some gpu) (leased (db_items d))) \<le> 1"
    using assms(1) distinct_length_filter[of "leased (db_items d)" "\<lambda>u. u = Some gpu"]
    by (simp add: system_inv_def lease_inv_def card_le_Suc0_iff_eq)
  then have "length (lease_holders d gpu) \<le> 1"
    unfolding lease_holders_def holders_leased[symmetric] by simp
  moreover have "i \<in> set (lease_holders d gpu)" using assms by (simp add: lease_holders_def)
  ultimately show ?thesis by (cases "lease_holders d gpu") auto
qed

lemma claim_update_inv:
  assumes upd: "update_items x (\<lambda>i. qi_id i = k \<and> qi_state i = Queued) (claim_update gpu gpu_index) d
      = Inr (n, d')" (is "update_items x ?P ?f d = _")
    and inv: "system_inv d" and free: "gpu_dispatchable d gpu"
  shows "system_inv d'"
proof -
  have d': "d' = d\<lparr>db_items := update_rows ?P ?f (db_items d)\<rparr>"
    and check: "\<And>i. i \<in> set (db_items d) \<Longrightarrow> ?P i \<Longrightarrow> item_check (?f i)"
    using upd by (auto simp: update_items_eq_Inr)
  have key: "\<And>i. ?P i \<Longrightarrow> qi_id (?f i) = qi_id i" by (simp add: claim_update_def)
  have ids: "map qi_id (db_items d') = map qi_id (db_items d)"
    using item_table.map_key_update_rows[of ?P ?f] key by (simp add: d')
  have "items_inv (db_items d')"
    using inv ids check claim_wf by (auto simp: system_inv_def items_inv_def d' set_update_rows)
  moreover have "lease_inv (db_items d') (db_reservations d)"
  proof -
    have "distinct (leased (db_items d')) \<and>
        set (leased (db_items d')) \<subseteq> insert (Some gpu) (set (leased (db_items d)))"
      unfolding d' using inv
      by simp (intro leased_grant[where k = k] dispatchable_unleased[OF free];
        simp add: claim_update_def system_inv_def items_inv_def lease_inv_def)
    moreover have "\<forall>i \<in> set (db_items d). qi_lease_held i \<longrightarrow>
        qi_gpu_uuid i \<notin> Some ` reserved (db_reservations d)"
      using inv by (simp add: system_inv_def lease_inv_def)
    then have "set (leased (db_items d)) \<inter> Some ` reserved (db_reservations d) = {}"
      by (auto simp: leased_def)
    ultimately have "set (leased (db_items d')) \<inter> Some ` reserved (db_reservations d) = {}"
      using dispatchable_unreserved[OF free] by auto
    then show ?thesis
      using \<open>distinct (leased (db_items d')) \<and> _\<close> by (auto simp: lease_inv_def leased_def)
  qed
  moreover have "owners_inv d'"
    using inv by (auto simp: system_inv_def owners_inv_def d' set_update_rows claim_update_def)
  ultimately show ?thesis
    using inv ids_set_eq[OF ids]
    by (simp add: system_inv_def reservations_inv_def dependencies_inv_def) (simp add: d')
qed

interpretation claiming:
  safe_operation "claim item_id gpu gpu_index actor changed_at"
  for item_id gpu gpu_index actor changed_at
proof unfold_locales
  fix d v d'
  assume run: "claim item_id gpu gpu_index actor changed_at d = Inr (v, d')"
  show "system_inv d'" if "system_inv d"
    using run
  proof (cases rule: claim_cases)
    case (ambiguous n)
    with that show ?thesis by (blast intro: claim_update_inv)
  next
    case (claimed i c d1 payload)
    then have "system_inv d1" using that by (blast intro: claim_update_inv)
    with claimed(6) show ?thesis by (blast intro: quiet_sched_event quiet_system_inv)
  qed (use that in simp)
  show "history d d'"
    using run
  proof (cases rule: claim_cases)
    case (claimed i c d1 payload)
    have "history d d1" using claimed(5) by (rule claim_update_history)
    also have "history d1 d'" using claimed(6) by (blast intro: quiet_sched_event quiet_history)
    finally show ?thesis .
  qed (auto intro: claim_update_history)
qed

section \<open>What a claim did\<close>

lemma candidate_row_eq_Some:
  "candidate_row d i = Some c \<longleftrightarrow>
    (\<exists>p r rs. find_project (db_projects d) (qi_project_id i) = Some p
      \<and> find (\<lambda>r. r_id r = qi_revision_id i \<and> r_project_id r = qi_project_id i) (db_revisions d) = Some r
      \<and> find_runtime (db_runtime d) (qi_project_id i) = Some rs
      \<and> qi_state i = Queued \<and> p_lifecycle p = Active \<and> rs_health rs = Closed
      \<and> dependencies_satisfied d (qi_id i) \<and> c = candidate_from_row i p r)"
  by (auto simp: candidate_row_def split: option.splits)

text \<open>
  (C7) A successful claim is sound: the host gate was open, the GPU was enabled, undrained, unreserved
  and without a lease holder, the item was a dispatch candidate (queued, its Project active and its
  circuit closed, its dependencies succeeded); afterwards that item is the one lease holder of the GPU,
  no other item changed, and exactly one \<open>EXPERIMENT_STARTING\<close> event was appended for it.
\<close>

theorem claim_sound:
  assumes "system_inv d"
    and "claim item_id gpu gpu_index actor changed_at d = Inr (Some c, d')"
  shows "\<exists>i. find_item (db_items d) item_id = Some i \<and> candidate_row d i = Some c
    \<and> db_metadata d ''dispatch_paused'' \<noteq> Some ''1'' \<and> gpu_dispatchable d gpu
    \<and> find_item (db_items d') item_id = Some (claim_update gpu gpu_index i)
    \<and> lease_holders d' gpu = [claim_update gpu gpu_index i]
    \<and> (\<forall>k. k \<noteq> item_id \<longrightarrow> find_item (db_items d') k = find_item (db_items d) k)
    \<and> length (db_events d') = length (db_events d) + 1
    \<and> e_type (last (db_events d')) = ''EXPERIMENT_STARTING''
    \<and> e_item_id (last (db_events d')) = Some item_id"
  using assms(2)
proof (cases rule: claim_cases)
  case (claimed i c' d1 payload)
  let ?P = "\<lambda>i. qi_id i = item_id \<and> qi_state i = Queued"
  let ?f = "claim_update gpu gpu_index"
  have d1: "d1 = d\<lparr>db_items := update_rows ?P ?f (db_items d)\<rparr>"
    using claimed(5) by (simp add: update_items_eq_Inr)
  have keep: "\<And>i. qi_id (?f i) = qi_id i" by (simp add: claim_update_def)
  have items: "db_items d' = update_rows ?P ?f (db_items d)"
    and events: "\<exists>e. db_events d' = db_events d @ [e] \<and> e_type e = ''EXPERIMENT_STARTING''
      \<and> e_item_id e = Some item_id"
    using claimed(6) by (auto simp: sched_event_eq_Inr d1 new_event_def)
  have i: "i \<in> set (db_items d)" "qi_id i = item_id" "qi_state i = Queued"
    using item_table.lookup_SomeD[OF claimed(2)] claimed(3) candidate_row_SomeD by auto
  have look: "find_item (db_items d') k
      = map_option (\<lambda>i. if ?P i then ?f i else i) (find_item (db_items d) k)" for k
    unfolding items using keep by (intro find_item_update) simp
  have dist: "distinct (map qi_id (db_items d))"
    using assms(1) by (simp add: system_inv_def items_inv_def)
  have "lease_holders d' gpu = [?f i]"
  proof -
    have "filter (\<lambda>j. qi_gpu_uuid j = Some gpu \<and> qi_lease_held j) (update_rows ?P ?f rows)
        = map ?f (filter ?P rows)"
      if "filter (\<lambda>j. qi_gpu_uuid j = Some gpu \<and> qi_lease_held j) rows = []" for rows
      using that by (induction rows) (auto simp: claim_update_def split: if_splits)
    moreover have "filter ?P (db_items d) = [i]"
      using dist claimed(2) i(3) by (rule update_one_row)
    ultimately show ?thesis
      using claimed(4) by (simp add: lease_holders_def items gpu_dispatchable_def)
  qed
  moreover have "find_item (db_items d') k = find_item (db_items d) k" if "k \<noteq> item_id" for k
    using that item_table.lookup_SomeD[of "db_items d" k]
    by (cases "find_item (db_items d) k") (auto simp: look)
  moreover have "db_metadata d ''dispatch_paused'' \<noteq> Some ''1''"
    using assms(2) by (auto simp: claim_def split: if_splits)
  ultimately show ?thesis
    using claimed(1-4) i events look[of item_id] by auto
qed (use assms(2) in auto)

lemma claim_sound_witness:
  "\<exists>c d'. claim 1 ''GPU-a'' ''0'' ''scheduler'' ex_time (ex_db [ex_item 1]) = Inr (Some c, d')
     \<and> lease_holders d' ''GPU-a'' = [claim_update ''GPU-a'' ''0'' (ex_item 1)]"
proof -
  have "succeeds (claim 1 ''GPU-a'' ''0'' ''scheduler'' ex_time (ex_db [ex_item 1])) (\<lambda>v. v \<noteq> None)"
    by code_simp
  then obtain c d' where
    run: "claim 1 ''GPU-a'' ''0'' ''scheduler'' ex_time (ex_db [ex_item 1]) = Inr (Some c, d')"
    using succeedsD by blast
  have "find_item (db_items (ex_db [ex_item 1])) 1 = Some (ex_item 1)" by code_simp
  with claim_sound[OF ex_db_invariant(1) run] run show ?thesis by auto
qed

lemma claim_identity [simp]: "same_identity i (claim_update gpu gpu_index i)"
  by (simp add: same_identity_def claim_update_def)

lemma claim_check:
  assumes "item_check i" and "gpu \<noteq> []"
  shows "item_check (claim_update gpu gpu_index i)"
  using assms
  by (simp add: item_check_def identity_check_cong[of i "claim_update gpu gpu_index i"])
    (simp add: lease_check_def runtime_column_check_def claim_update_def null_or_def active_state_def)

text \<open>
  (C11) A claim makes progress: for every dispatch candidate and every dispatchable GPU, an open gate and
  well-formed arguments, the claim commits and returns that candidate; no constraint, trigger or event
  check of the schema can refuse it.
\<close>

theorem claim_progress:
  assumes inv: "system_inv d" and i: "find_item (db_items d) item_id = Some i"
    and c: "candidate_row d i = Some c"
    and gate: "db_metadata d ''dispatch_paused'' = Some ''0''" and gpu: "gpu_dispatchable d gpu"
    and args: "item_id > 0" "text_ok 256 gpu" "text_ok 64 gpu_index" "text_ok 256 actor"
      "timestamp_ok changed_at" "safe_integer (qi_segment i)"
  shows "\<exists>d'. claim item_id gpu gpu_index actor changed_at d = Inr (Some c, d')"
proof -
  let ?P = "\<lambda>i. qi_id i = item_id \<and> qi_state i = Queued"
  let ?f = "claim_update gpu gpu_index"
  have q: "qi_state i = Queued" "qi_id i = item_id" "i \<in> set (db_items d)"
    using candidate_row_SomeD[OF c] item_table.lookup_SomeD[OF i] by auto
  have one: "filter ?P (db_items d) = [i]"
    using inv i q(1) by (intro update_one_row) (simp_all add: system_inv_def items_inv_def)
  obtain p r rs where p: "find_project (db_projects d) (qi_project_id i) = Some p"
    and cc: "c = candidate_from_row i p r"
    using c by (auto simp: candidate_row_eq_Some)
  define d1 where "d1 = d\<lparr>db_items := update_rows ?P ?f (db_items d)\<rparr>"
  have upd: "update_items V5SchedulerError ?P ?f d = Inr (1, d1)"
    using inv one args(2)
    by (auto simp: update_items_eq_Inr d1_def system_inv_def items_inv_def text_ok_def
        intro: claim_check)
  have "?f i \<in> set (db_items d1)"
    using q by (force simp: d1_def set_update_rows)
  then have ref: "list_ex (\<lambda>j. qi_id j = item_id \<and> qi_project_id j = qi_project_id i) (db_items d1)"
    using q(2) claim_identity[of i gpu gpu_index]
    by (auto simp: list_ex_iff same_identity_def intro!: bexI[of _ "?f i"])
  have "text_ok 256 ''EXPERIMENT_STARTING''" by code_simp
  then have "\<exists>d'. sched_event changed_at actor ''EXPERIMENT_STARTING'' Scope_project
       (Some (c_project_id c)) (Some item_id)
       (JObj [(''gpu_uuid'', JStr gpu), (''gpu_index'', JStr gpu_index),
          (''project_key'', JStr (c_project_key c)),
          (''project_revision'', JStr (c_revision_label c)), (''segment'', JInt (c_segment c))]) d1
       = Inr d'"
    using args p ref
    by (simp add: sched_event_eq_Inr event_references_ok_def new_event_def null_or_def cc
        candidate_from_row_def) (simp add: d1_def)
  then show ?thesis
    using i c gate gpu args upd by (simp add: claim_def)
qed

lemma claim_progress_witness:
  "\<exists>d'. claim 1 ''GPU-a'' ''0'' ''scheduler'' ex_time (ex_db [ex_item 1])
     = Inr (Some (candidate_from_row (ex_item 1) ex_project ex_revision), d')"
  by (rule claim_progress[OF ex_db_invariant(1), where i = "ex_item 1"]) code_simp+

section \<open>The candidate list\<close>

definition dispatch_before :: "dispatch_candidate \<Rightarrow> dispatch_candidate \<Rightarrow> bool" where
  "dispatch_before a b = (c_priority b < c_priority a \<or> c_priority a = c_priority b \<and>
     (c_resume_front a \<and> \<not> c_resume_front b
      \<or> c_resume_front a = c_resume_front b \<and> c_id a \<le> c_id b))"

lemma candidate_key_le: "candidate_key a \<le> candidate_key b \<longleftrightarrow> dispatch_before a b"
  by (auto simp: candidate_key_def dispatch_before_def less_eq_prod_def)

lemma candidate_query_sorted: "sorted_wrt dispatch_before (candidate_query d)"
proof -
  have "sorted (map candidate_key (candidate_query d))"
    by (simp add: candidate_query_def)
  then show ?thesis by (simp add: sorted_map candidate_key_le)
qed

text \<open>
  (C14) The candidate list is ordered by falling priority, then continuations first, then admission order; it
  holds only candidates, all of them when the gate is open and no limit is given, and never more than
  the limit.
\<close>

theorem list_dispatch_candidates_ordered:
  assumes "list_dispatch_candidates limit d = Inr cs"
  shows "sorted_wrt dispatch_before cs
    \<and> (\<forall>c \<in> set cs. \<exists>i \<in> set (db_items d). candidate_row d i = Some c)
    \<and> (limit = None \<longrightarrow> db_metadata d ''dispatch_paused'' \<noteq> Some ''1'' \<longrightarrow>
         (\<forall>i \<in> set (db_items d). \<forall>c. candidate_row d i = Some c \<longrightarrow> c \<in> set cs))
    \<and> (\<forall>n. limit = Some n \<longrightarrow> int (length cs) \<le> max n 0)"
proof -
  have prefix: "\<exists>n. cs = take n (candidate_query d)"
    using assms by (auto simp: list_dispatch_candidates_def split: if_splits option.splits)
      (metis take0 take_all order_refl)+
  then have "sorted_wrt dispatch_before cs"
    using candidate_query_sorted by (auto simp: sorted_wrt_take)
  moreover have "set cs \<subseteq> set (candidate_query d)"
    using prefix by (auto dest: in_set_takeD)
  moreover have "set (candidate_query d) = {c. \<exists>i \<in> set (db_items d). candidate_row d i = Some c}"
    by (simp add: candidate_query_def set_map_filter)
  ultimately show ?thesis
    using assms
    by (auto simp: list_dispatch_candidates_def host_dispatch_state_def split: if_splits option.splits)
qed

lemma list_dispatch_candidates_ordered_witness:
  "\<exists>cs. list_dispatch_candidates None (ex_db [ex_item 1, (ex_item 2)\<lparr>qi_priority := 5\<rparr>]) = Inr cs
     \<and> map c_id cs = [2, 1] \<and> sorted_wrt dispatch_before cs"
proof -
  let ?d = "ex_db [ex_item 1, (ex_item 2)\<lparr>qi_priority := 5\<rparr>]"
  have run: "list_dispatch_candidates None ?d = Inr (candidate_query ?d)" by code_simp
  have ids: "map c_id (candidate_query ?d) = [2, 1]" by code_simp
  note sorted = list_dispatch_candidates_ordered[OF run, THEN conjunct1]
  show ?thesis by (intro exI conjI, rule run, rule ids, rule sorted)
qed

section \<open>Failure isolation\<close>

lemma candidate_row_project: "candidate_row d i = Some c \<Longrightarrow> c_project_id c = qi_project_id i"
  by (auto simp: candidate_row_eq_Some candidate_from_row_def)

lemma candidate_row_cong:
  assumes "db_projects d' = db_projects d" and "db_revisions d' = db_revisions d"
    and "db_items d' = db_items d" and "db_dependencies d' = db_dependencies d"
    and "find_runtime (db_runtime d') (qi_project_id i) = find_runtime (db_runtime d) (qi_project_id i)"
  shows "candidate_row d' i = candidate_row d i"
proof -
  have "dependencies_satisfied d' k = dependencies_satisfied d k" for k
    using assms(3,4) by (simp add: dependencies_satisfied_def)
  with assms show ?thesis by (simp add: candidate_row_def split: option.splits)
qed

lemma open_circuit_candidates:
  assumes frame: "db_items d' = db_items d" "db_projects d' = db_projects d"
      "db_revisions d' = db_revisions d" "db_dependencies d' = db_dependencies d"
    and open_row: "\<exists>r. find_runtime (db_runtime d') k = Some r \<and> rs_health r = Open"
    and other: "\<And>j. j \<noteq> k \<Longrightarrow> find_runtime (db_runtime d') j = find_runtime (db_runtime d) j"
  shows "candidate_query d' = filter (\<lambda>c. c_project_id c \<noteq> k) (candidate_query d)"
proof -
  have "candidate_row d' i = (case candidate_row d i of None \<Rightarrow> None
      | Some c \<Rightarrow> if c_project_id c \<noteq> k then Some c else None)" for i
  proof (cases "qi_project_id i = k")
    case True
    then have "candidate_row d' i = None"
      using open_row by (auto simp: candidate_row_def split: option.splits)
    then show ?thesis using True candidate_row_project[of d i] by (auto split: option.splits)
  next
    case False
    then have "candidate_row d' i = candidate_row d i"
      using frame other by (intro candidate_row_cong) auto
    then show ?thesis using False candidate_row_project[of d i] by (auto split: option.splits)
  qed
  then show ?thesis
    unfolding candidate_query_def filter_sort using frame
    by (simp add: map_filter_restrict[where f = "candidate_row d" and P = "\<lambda>c. c_project_id c \<noteq> k"])
qed

lemma quarantine_projectD:
  assumes "quarantine_project project_id why actor changed_at item_id d = Inr (changed, d')"
  shows "\<exists>row es. find_runtime (db_runtime d) project_id = Some row \<and> changed = (rs_health row = Closed)
    \<and> d' = d\<lparr>db_runtime := update_rows (\<lambda>r. rs_project_id r = project_id \<and> changed)
          (\<lambda>r. r\<lparr>rs_health := Open, rs_failure_count := rs_failure_count r + 1, rs_reason := why,
             rs_actor := actor, rs_changed_at := changed_at\<rparr>) (db_runtime d), db_events := db_events d @ es\<rparr>
    \<and> length es = (if changed then 1 else 0)
    \<and> (\<forall>e \<in> set es. e_type e = ''PROJECT_CIRCUIT_OPENED'' \<and> e_actor e = actor \<and> e_scope e = Scope_project
         \<and> e_project_id e = Some project_id \<and> e_item_id e = item_id)"
proof -
  obtain row where row: "find_runtime (db_runtime d) project_id = Some row"
    using assms by (auto simp: quarantine_project_def)
  show ?thesis
  proof (cases "rs_health row")
    case Open
    with assms row have "\<not> changed" "d' = d" by (auto simp: quarantine_project_def)
    with Open row show ?thesis by (simp add: update_rows_def)
  next
    case Closed
    let ?d1 = "d\<lparr>db_runtime := update_rows (\<lambda>r. rs_project_id r = project_id) (\<lambda>r. r\<lparr>rs_health := Open,
        rs_failure_count := rs_failure_count r + 1, rs_reason := why, rs_actor := actor, rs_changed_at := changed_at\<rparr>)
        (db_runtime d)\<rparr>"
    let ?e = "new_event ?d1 changed_at actor ''PROJECT_CIRCUIT_OPENED'' Scope_project (Some project_id) item_id
        (JObj [(''reason'', JStr why)])"
    from Closed assms row have eff: "changed" "d' = ?d1\<lparr>db_events := db_events d @ [?e]\<rparr>"
      by (simp_all add: quarantine_project_def sched_event_def effect_simps split: if_splits)
    show ?thesis
      by (rule exI[of _ row], rule exI[of _ "[?e]"]) (simp add: eff(1) Closed row, simp add: eff(2) new_event_def)
  qed
qed

text \<open>
  (C15) Quarantine is confined to its Project. It removes exactly that Project's items from the candidate list
  and keeps the order of the others. The whole effect on the database: when the circuit was closed, the Project's
  own runtime row becomes open with one more failure and the given reason, and one event of that Project is
  appended; when it was open already, nothing changes. No other Project's runtime row and no other table (items,
  Projects, revisions, GPUs, reservations, yield evidence, host metadata) is touched.
\<close>

theorem quarantine_isolates_project:
  assumes "quarantine_project project_id why actor changed_at item_id d = Inr (changed, d')"
  shows "candidate_query d' = filter (\<lambda>c. c_project_id c \<noteq> project_id) (candidate_query d)
    \<and> (\<exists>row rows es. d' = d\<lparr>db_runtime := rows, db_events := db_events d @ es\<rparr>
        \<and> find_runtime (db_runtime d) project_id = Some row \<and> changed = (rs_health row = Closed)
        \<and> find_runtime rows project_id = Some (if changed then row\<lparr>rs_health := Open,
             rs_failure_count := rs_failure_count row + 1, rs_reason := why, rs_actor := actor,
             rs_changed_at := changed_at\<rparr> else row)
        \<and> map rs_project_id rows = map rs_project_id (db_runtime d)
        \<and> (\<forall>k. k \<noteq> project_id \<longrightarrow> find_runtime rows k = find_runtime (db_runtime d) k)
        \<and> length es = (if changed then 1 else 0)
        \<and> (\<forall>e \<in> set es. e_type e = ''PROJECT_CIRCUIT_OPENED'' \<and> e_actor e = actor \<and> e_scope e = Scope_project
             \<and> e_project_id e = Some project_id \<and> e_item_id e = item_id))"
proof -
  let ?f = "\<lambda>r. r\<lparr>rs_health := Open, rs_failure_count := rs_failure_count r + 1, rs_reason := why,
      rs_actor := actor, rs_changed_at := changed_at\<rparr>"
  let ?rows = "update_rows (\<lambda>r. rs_project_id r = project_id \<and> changed) ?f (db_runtime d)"
  obtain row es where row: "find_runtime (db_runtime d) project_id = Some row" "changed = (rs_health row = Closed)"
    and d': "d' = d\<lparr>db_runtime := ?rows, db_events := db_events d @ es\<rparr>"
    and es: "length es = (if changed then 1 else 0)" "\<forall>e \<in> set es. e_type e = ''PROJECT_CIRCUIT_OPENED''
        \<and> e_actor e = actor \<and> e_scope e = Scope_project \<and> e_project_id e = Some project_id \<and> e_item_id e = item_id"
    using quarantine_projectD[OF assms] by blast
  have "rs_project_id row = project_id" using runtime_table.lookup_SomeD[OF row(1)] by simp
  then have own: "find_runtime ?rows project_id = Some (if changed then ?f row else row)"
    using row by (simp add: find_runtime_update)
  have other: "find_runtime ?rows k = find_runtime (db_runtime d) k" if "k \<noteq> project_id" for k
    using that runtime_table.lookup_SomeD[of "db_runtime d" k]
    by (cases "find_runtime (db_runtime d) k") (simp_all add: find_runtime_update)
  have opened: "rs_health (if changed then ?f row else row) = Open"
    using row(2) by (cases "rs_health row") auto
  have "candidate_query d' = filter (\<lambda>c. c_project_id c \<noteq> project_id) (candidate_query d)"
    using own other opened by (intro open_circuit_candidates) (simp_all add: d')
  moreover have "map rs_project_id ?rows = map rs_project_id (db_runtime d)"
    by (simp add: update_rows_def)
  ultimately show ?thesis using d' row own other es by blast
qed

lemma quarantine_isolates_project_witness:
  "\<exists>d'. quarantine_project 1 ''disk full'' ''scheduler'' ex_time None (ex_db [ex_item 1]) = Inr (True, d')
     \<and> candidate_query d' = [] \<and> db_gpus d' = db_gpus (ex_db [ex_item 1]) \<and> length (db_events d') = 1"
proof -
  let ?r = "quarantine_project 1 ''disk full'' ''scheduler'' ex_time None (ex_db [ex_item 1])"
  have run: "?r = Inr (True, after ?r)" by (rule succeeds_value) code_simp
  have "filter (\<lambda>c. c_project_id c \<noteq> 1) (candidate_query (ex_db [ex_item 1])) = []" by code_simp
  moreover have "db_events (ex_db [ex_item 1]) = []" by code_simp
  ultimately have "candidate_query (after ?r) = [] \<and> db_gpus (after ?r) = db_gpus (ex_db [ex_item 1])
      \<and> length (db_events (after ?r)) = 1"
    using quarantine_isolates_project[OF run] by auto
  with run show ?thesis by blast
qed

text \<open>
  (C16) After the host is paused no candidate is listed and no claim succeeds, whatever its arguments; running
  items, circuits and Projects are untouched.
\<close>

theorem pause_host_stops_dispatch:
  assumes "pause_host why actor changed_at d = Inr (changed, d')"
  shows "list_dispatch_candidates limit d' = Inr []
    \<and> (\<forall>k gpu gpu_index a t c d''. claim k gpu gpu_index a t d' \<noteq> Inr (Some c, d''))
    \<and> db_items d' = db_items d \<and> db_runtime d' = db_runtime d \<and> db_projects d' = db_projects d"
proof -
  have gate: "db_metadata d' ''dispatch_paused'' = Some ''1''"
    and reason: "db_metadata d' ''pause_reason'' = Some why"
    and frame: "db_items d' = db_items d" "db_runtime d' = db_runtime d" "db_projects d' = db_projects d"
    using assms by (auto simp: pause_host_def effect_simps set_metadata_def split: if_splits)
  then show ?thesis
    by (auto simp: list_dispatch_candidates_def host_dispatch_state_def claim_def)
qed

lemma pause_host_stops_dispatch_witness:
  "\<exists>d'. pause_host ''maintenance'' ''operator'' ex_time (ex_db [ex_item 1]) = Inr (True, d')
     \<and> list_dispatch_candidates None d' = Inr []"
proof -
  let ?r = "pause_host ''maintenance'' ''operator'' ex_time (ex_db [ex_item 1])"
  have run: "?r = Inr (True, after ?r)" by (rule succeeds_value) code_simp
  with pause_host_stops_dispatch[OF run] show ?thesis by blast
qed

section \<open>Dependants of failed work\<close>

lemma failed_dependencies_cong:
  assumes "db_dependencies d' = db_dependencies d"
    and "list_all2 (\<lambda>i j. j = i \<or> qi_state i = Queued \<and> qi_state j = Blocked) (db_items d) (db_items d')"
  shows "failed_dependencies d' k = failed_dependencies d k"
proof -
  have "map (\<lambda>dep. (qi_id dep, qi_state dep))
      (filter (\<lambda>dep. qi_id dep = n \<and> terminal_non_success (qi_state dep)) (db_items d'))
    = map (\<lambda>dep. (qi_id dep, qi_state dep))
      (filter (\<lambda>dep. qi_id dep = n \<and> terminal_non_success (qi_state dep)) (db_items d))" for n
    using assms(2)
    by (induction rule: list_all2_induct) (auto simp: terminal_non_success_def)
  then show ?thesis using assms(1) by (simp add: failed_dependencies_def)
qed

definition blocked_by_dependency :: "int set \<Rightarrow> queue_item \<Rightarrow> queue_item \<Rightarrow> bool" where
  "blocked_by_dependency ids i j =
    (if qi_state i = Queued \<and> qi_id i \<in> ids
     then (\<exists>detail. j = i\<lparr>qi_state := Blocked, qi_state_detail := Some detail\<rparr>) else j = i)"

lemma blocked_still_queued:
  "blocked_by_dependency ids i j \<Longrightarrow> qi_state j = Queued \<Longrightarrow> j = i \<and> qi_id i \<notin> ids"
  by (cases "qi_state i = Queued \<and> qi_id i \<in> ids") (auto simp: blocked_by_dependency_def)

lemma block_dependants_effect:
  "block_dependants actor changed_at groups n d = Inr (m, d') \<Longrightarrow>
     list_all2 (blocked_by_dependency (fst ` set groups)) (db_items d) (db_items d')
     \<and> db_dependencies d' = db_dependencies d"
proof (induction groups arbitrary: n d)
  case Nil
  then show ?case by (simp add: blocked_by_dependency_def list.rel_refl)
next
  case (Cons g groups)
  obtain k p failures where g: "g = (k, p, failures)" by (cases g)
  let ?P = "\<lambda>i. qi_id i = k \<and> qi_state i = Queued"
  let ?f = "\<lambda>i. i\<lparr>qi_state := Blocked, qi_state_detail := Some (dependency_detail failures)\<rparr>"
  let ?d1 = "d\<lparr>db_items := update_rows ?P ?f (db_items d)\<rparr>"
  have first: "list_all2 (blocked_by_dependency {k}) (db_items d) (db_items ?d1)"
    by simp (rule list_all2_update_rows; auto simp: blocked_by_dependency_def)
  obtain n' d2 where rest: "block_dependants actor changed_at groups n' d2 = Inr (m, d')"
    and d2: "db_items d2 = db_items ?d1" "db_dependencies d2 = db_dependencies d"
    using Cons.prems by (auto simp: g Let_def effect_simps split: if_splits)
  have later: "list_all2 (blocked_by_dependency (fst ` set groups)) (db_items ?d1) (db_items d')"
    and deps: "db_dependencies d' = db_dependencies d"
    using Cons.IH[OF rest] d2 by simp_all
  have "blocked_by_dependency (fst ` set (g # groups)) i l"
    if "blocked_by_dependency {k} i j" and "blocked_by_dependency (fst ` set groups) j l" for i j l
  proof (cases "qi_state i = Queued \<and> qi_id i = k")
    case True
    with that(1) have "\<exists>detail. j = i\<lparr>qi_state := Blocked, qi_state_detail := Some detail\<rparr>"
      by (simp add: blocked_by_dependency_def)
    then obtain detail where j: "j = i\<lparr>qi_state := Blocked, qi_state_detail := Some detail\<rparr>" ..
    then have "l = j" using that(2) by (simp add: blocked_by_dependency_def)
    with True j show ?thesis by (auto simp: blocked_by_dependency_def g)
  next
    case False
    then have "j = i" using that(1) by (simp add: blocked_by_dependency_def)
    moreover have "(qi_state i = Queued \<and> qi_id i \<in> fst ` set (g # groups))
        = (qi_state i = Queued \<and> qi_id i \<in> fst ` set groups)"
      using False by (auto simp: g)
    ultimately show ?thesis using that(2) by (simp only: blocked_by_dependency_def)
  qed
  then have "list_all2 (blocked_by_dependency (fst ` set (g # groups))) (db_items d) (db_items d')"
    using first later by (rule list_all2_trans)
  with deps show ?case by simp
qed

definition ex_failed :: db where
  "ex_failed = (ex_db [(ex_item 1)\<lparr>qi_state := Failed\<rparr>, ex_item 2])\<lparr>db_dependencies := [(2, 1)]\<rparr>"

text \<open>
  (C17) Dependency reconciliation is complete and idempotent: it blocks exactly the queued items with a
  dependency that ended without success and changes nothing else; none is left queued, and a second
  run changes nothing.
\<close>

theorem reconcile_failed_dependencies_complete:
  assumes run: "reconcile_failed_dependencies actor changed_at d = Inr (n, d')"
  shows "(\<forall>i \<in> set (db_items d'). qi_state i = Queued \<longrightarrow> failed_dependencies d' (qi_id i) = [])
    \<and> list_all2 (blocked_by_dependency {k. failed_dependencies d k \<noteq> []}) (db_items d) (db_items d')
    \<and> reconcile_failed_dependencies actor changed_at d' = Inr (0, d')"
proof -
  have eff: "list_all2 (blocked_by_dependency (fst ` set (failed_dependency_groups d)))
      (db_items d) (db_items d')" and deps: "db_dependencies d' = db_dependencies d"
    using block_dependants_effect run by (auto simp: reconcile_failed_dependencies_def)
  have groups: "k \<in> fst ` set (failed_dependency_groups d) \<longleftrightarrow>
      failed_dependencies d k \<noteq> []" if "qi_id i = k" "qi_state i = Queued" "i \<in> set (db_items d)" for k i
    using that by (force simp: failed_dependency_groups_def image_iff)
  have blocked: "list_all2 (blocked_by_dependency {k. failed_dependencies d k \<noteq> []}) (db_items d) (db_items d')"
    using eff by (rule list.rel_mono_strong) (auto simp: blocked_by_dependency_def groups split: if_splits)
  have same: "failed_dependencies d' k = failed_dependencies d k" for k
    by (rule failed_dependencies_cong[OF deps list.rel_mono_strong[OF blocked]])
      (auto simp: blocked_by_dependency_def split: if_splits)
  have none: "failed_dependencies d' (qi_id j) = []" if "j \<in> set (db_items d')" "qi_state j = Queued" for j
    using list_all2_preimage[OF blocked that(1)] that(2) same blocked_still_queued by fastforce
  then have "failed_dependency_groups d' = []"
    by (auto simp: failed_dependency_groups_def filter_empty_conv)
  with none blocked show ?thesis by (simp add: reconcile_failed_dependencies_def)
qed

lemma reconcile_failed_dependencies_complete_witness:
  "\<exists>d'. reconcile_failed_dependencies ''scheduler'' ex_time ex_failed = Inr (1, d')
     \<and> reconcile_failed_dependencies ''scheduler'' ex_time d' = Inr (0, d')"
proof -
  let ?r = "reconcile_failed_dependencies ''scheduler'' ex_time ex_failed"
  have run: "?r = Inr (1, after ?r)" by (rule succeeds_value) code_simp
  with reconcile_failed_dependencies_complete[OF run] show ?thesis by blast
qed

end
