(* ===== verification/Reservation_V5.thy ===== *)
theory Reservation_V5
  imports Dispatch_V5
begin

text \<open>
  The reservation service (\<open>reservation_v5.py\<close>): passive, time-bounded reservations of whole GPUs.
  A request on a GPU that runs an item waits as \<open>pending\<close> until the lease is released; the scheduler
  activates and expires rows in \<open>reconcile\<close>. The service never touches a queue item.

  A stored row is authenticated every time it is read (\<open>reservation_from_row\<close>). Times are compared as
  UTC instants; \<open>OverflowError\<close> is what \<open>astimezone\<close> and \<open>timedelta\<close> raise outside the range of
  \<open>datetime\<close>, which the service does not catch.
\<close>

section \<open>Argument checks\<close>

abbreviation res_error :: "reason \<Rightarrow> error" where
  "res_error r \<equiv> (V5ReservationError, r)"

abbreviation res_evidence_error :: "reason \<Rightarrow> error" where
  "res_evidence_error r \<equiv> (V5ReservationEvidenceError, r)"

text \<open>\<open>_text\<close> of this module: unlike the scheduler's it accepts surrounding spaces.\<close>

definition res_text :: "nat \<Rightarrow> string \<Rightarrow> bool" where
  "res_text maximum s = (s \<noteq> [] \<and> log_safe maximum s)"

definition gpu_uuid_ok :: "string \<Rightarrow> bool" where
  "gpu_uuid_ok s = (res_text 256 s \<and> s = strip s)"

definition duration_ok :: "int \<Rightarrow> bool" where
  "duration_ok h = (1 \<le> h \<and> h \<le> 24)"

text \<open>\<open>str.split()\<close> without a separator, and the normalized note.\<close>

function py_split :: "string \<Rightarrow> string list" where
  "py_split s = (let t = dropWhile py_space s in
     if t = [] then []
     else takeWhile (\<lambda>c. \<not> py_space c) t # py_split (dropWhile (\<lambda>c. \<not> py_space c) t))"
  by pat_completeness auto
termination
proof (relation "measure length")
  fix s t :: string
  assume t: "t = dropWhile py_space s" and "t \<noteq> []"
  then have "\<not> py_space (hd t)" by (simp add: hd_dropWhile)
  then have "length (dropWhile (\<lambda>c. \<not> py_space c) t) < length t"
    using \<open>t \<noteq> []\<close> by (cases t) (auto intro: le_imp_less_Suc length_dropWhile_le)
  also have "\<dots> \<le> length s" by (simp add: t length_dropWhile_le)
  finally show "(dropWhile (\<lambda>c. \<not> py_space c) t, s) \<in> measure length" by simp
qed simp

declare py_split.simps [simp del]

definition normalized_note :: "string \<Rightarrow> string" where
  "normalized_note s = join_text '' '' (py_split s)"

definition parse_time :: "string \<Rightarrow> int result" where
  "parse_time s =
    require (res_text 64 s) (res_error Bad_text)
    (case fromisoformat (z_suffix_expanded s) of
       Some (local, Some off) \<Rightarrow>
         (if 0 \<le> local - off \<and> local - off \<le> max_instant then Inr (local - off)
          else Inl (OverflowError, Bad_timestamp))
     | _ \<Rightarrow> Inl (res_error Bad_timestamp))"

definition res_timestamp :: "string \<Rightarrow> (string \<times> int) result" where
  "res_timestamp s = and_then (parse_time s) (\<lambda>t. Inr (isoformat t, t))"

definition add_hours :: "int \<Rightarrow> int \<Rightarrow> int result" where
  "add_hours t h = (if t + hours_us h \<le> max_instant then Inr (t + hours_us h)
     else Inl (OverflowError, Bad_timestamp))"

text \<open>\<open>except V5ReservationError as exc: raise V5ReservationEvidenceError\<close>.\<close>

definition as_evidence :: "'a result \<Rightarrow> 'a result" where
  "as_evidence m = (case m of
      Inl (V5ReservationError, r) \<Rightarrow> Inl (res_evidence_error r) | _ \<Rightarrow> m)"

section \<open>Reading a stored reservation\<close>

definition open_period :: "reservation_row \<Rightarrow> int \<Rightarrow> int option result" where
  "open_period v requested = (case (v_starts_at v, v_expires_at v) of
      (Some s, Some e) \<Rightarrow>
        and_then (as_evidence (and_then (parse_time s) (\<lambda>start.
            and_then (parse_time e) (\<lambda>expiry. Inr (start, expiry))))) (\<lambda>(start, expiry).
        require (requested \<le> start) (res_evidence_error Corrupt_evidence)
        (and_then (add_hours start (v_duration_hours v)) (\<lambda>due.
         require (expiry = due) (res_evidence_error Corrupt_evidence) (Inr (Some start)))))
    | _ \<Rightarrow> Inr None)"

definition status_fields_ok :: "reservation_row \<Rightarrow> bool" where
  "status_fields_ok v = (case v_status v of
      Res_pending \<Rightarrow> v_item_id v \<noteq> None \<and> v_starts_at v = None \<and> v_released_at v = None
    | Res_active \<Rightarrow> v_starts_at v \<noteq> None \<and> v_released_at v = None \<and> v_released_by v = None
    | Res_expired \<Rightarrow> v_starts_at v \<noteq> None \<and> v_released_at v = None \<and> v_released_by v = None
    | Res_released \<Rightarrow> v_released_at v \<noteq> None \<and> v_released_by v \<noteq> None
    | Res_failed \<Rightarrow> True)"

definition request_fields :: "reservation_row \<Rightarrow> int result" where
  "request_fields v =
    require (v_id v > 0) (res_error Bad_integer)
    (require (gpu_uuid_ok (v_gpu_uuid v)) (res_error Bad_text)
    (and_then (parse_time (v_requested_at v)) (\<lambda>requested.
     require (res_text 256 (v_requested_by v)) (res_error Bad_text)
    (require (res_text 200 (v_note v)) (res_error Bad_text)
    (require (duration_ok (v_duration_hours v)) (res_error Bad_integer) (Inr requested))))))"

definition reservation_from_row :: "reservation_row \<Rightarrow> reservation_row result" where
  "reservation_from_row v =
    and_then (as_evidence (request_fields v)) (\<lambda>requested.
    require (null_or (\<lambda>k. k > 0) (v_item_id v)) (res_evidence_error Bad_integer)
    (require (null_or (res_text 64) (v_starts_at v) \<and> null_or (res_text 64) (v_expires_at v)
        \<and> null_or (res_text 64) (v_released_at v) \<and> null_or (res_text 256) (v_released_by v)
        \<and> null_or (res_text 4000) (v_state_detail v)) (res_evidence_error Bad_text)
    (require ((v_starts_at v = None) = (v_expires_at v = None)) (res_evidence_error Corrupt_evidence)
    (and_then (open_period v requested) (\<lambda>start.
     require (status_fields_ok v) (res_evidence_error Corrupt_evidence)
    (require ((v_released_at v = None) = (v_released_by v = None)) (res_evidence_error Corrupt_evidence)
    (case v_released_at v of
       None \<Rightarrow> Inr v
     | Some r \<Rightarrow> and_then (as_evidence (parse_time r)) (\<lambda>released.
         require ((case start of Some s \<Rightarrow> s | None \<Rightarrow> requested) \<le> released)
           (res_evidence_error Corrupt_evidence) (Inr v))))))))) "

fun read_rows :: "reservation_row list \<Rightarrow> reservation_row list result" where
  "read_rows [] = Inr []"
| "read_rows (v # vs) = and_then (reservation_from_row v) (\<lambda>r.
     and_then (read_rows vs) (\<lambda>rs. Inr (r # rs)))"

definition get_reservation :: "int \<Rightarrow> db \<Rightarrow> reservation_row result" where
  "get_reservation k d =
    require (k > 0) (res_error Bad_integer)
    (fetch (find_reservation (db_reservations d) k) (V5ReservationNotFoundError, Row_missing)
       reservation_from_row)"

definition list_reservations ::
  "string option \<Rightarrow> string option \<Rightarrow> bool \<Rightarrow> db \<Rightarrow> reservation_row list result" where
  "list_reservations gpu by open_only d =
    require (null_or gpu_uuid_ok gpu) (res_error Bad_text)
    (require (null_or (res_text 256) by) (res_error Bad_text)
    (read_rows (rev (sort_key v_id (filter (\<lambda>v. null_or (\<lambda>g. v_gpu_uuid v = g) gpu
       \<and> null_or (\<lambda>a. v_requested_by v = a) by \<and> (open_only \<longrightarrow> open_status (v_status v)))
       (db_reservations d))))))"

definition open_gpu_uuids :: "db \<Rightarrow> string set result" where
  "open_gpu_uuids d = and_then (list_reservations None None True d) (\<lambda>rs. Inr (v_gpu_uuid ` set rs))"

section \<open>Requests and releases\<close>

definition res_event :: "string \<Rightarrow> string \<Rightarrow> string \<Rightarrow> json \<Rightarrow> db \<Rightarrow> db result" where
  "res_event created_at actor event_type payload d =
    require (json_ok 0 payload) (res_error Bad_payload)
      (insert_event V5ReservationError created_at actor event_type Scope_host None None payload d)"

definition active_assignments :: "db \<Rightarrow> string \<Rightarrow> int list" where
  "active_assignments d gpu = sort (map qi_id (lease_holders d gpu))"

definition reread_reservation :: "int \<Rightarrow> db \<Rightarrow> (reservation_row \<times> db) result" where
  "reread_reservation k d = fetch (find_reservation (db_reservations d) k) (res_error Row_missing) (\<lambda>v.
     and_then (reservation_from_row v) (\<lambda>r. Inr (r, d)))"

definition new_reservation ::
  "int \<Rightarrow> string \<Rightarrow> int list \<Rightarrow> string \<Rightarrow> int \<Rightarrow> string \<Rightarrow> string \<Rightarrow> int \<Rightarrow> reservation_row result" where
  "new_reservation k gpu assignments stamp requested by note duration =
    (let v = \<lparr>v_id = k, v_gpu_uuid = gpu, v_item_id = None, v_status = Res_active,
        v_requested_at = stamp, v_requested_by = by, v_note = note, v_duration_hours = duration,
        v_starts_at = None, v_expires_at = None, v_released_at = None, v_released_by = None,
        v_state_detail = None\<rparr> in
     case assignments of
       item # _ \<Rightarrow> Inr (v\<lparr>v_item_id := Some item, v_status := Res_pending,
           v_state_detail := Some (''waiting for queue item '' @ str_int item @ '' to finish on GPU '' @ gpu)\<rparr>)
     | [] \<Rightarrow> and_then (add_hours requested duration) (\<lambda>due.
         Inr (v\<lparr>v_starts_at := Some stamp, v_expires_at := Some (isoformat due)\<rparr>)))"

definition same_request :: "string \<Rightarrow> string \<Rightarrow> string \<Rightarrow> string \<Rightarrow> int \<Rightarrow> reservation_row \<Rightarrow> bool" where
  "same_request gpu stamp by note duration v = (v_gpu_uuid v = gpu \<and> v_requested_at v = stamp
     \<and> v_requested_by v = by \<and> v_note v = note \<and> v_duration_hours v = duration)"

definition request_reservation ::
  "string \<Rightarrow> int \<Rightarrow> string \<Rightarrow> string \<Rightarrow> string \<Rightarrow> db \<Rightarrow> (reservation_row \<times> db) result" where
  "request_reservation gpu duration note by requested_at d =
    require (gpu_uuid_ok gpu) (res_error Bad_text)
    (require (duration_ok duration) (res_error Bad_integer)
    (require (normalized_note note \<noteq> [] \<and> length (normalized_note note) \<le> 200) (res_error Bad_text)
    (require (res_text 256 by) (res_error Bad_text)
    (and_then (res_timestamp requested_at) (\<lambda>(stamp, requested).
     let cleaned = normalized_note note;
       duplicates = filter (same_request gpu stamp by cleaned duration) (db_reservations d) in
     require (length duplicates \<le> 1) (res_evidence_error Conflicting_evidence)
    (case duplicates of
       v # _ \<Rightarrow> and_then (reservation_from_row v) (\<lambda>r. Inr (r, d))
     | [] \<Rightarrow>
        fetch (find_gpu (db_gpus d) gpu) (res_error Row_missing) (\<lambda>g.
        require (g_enabled g \<and> \<not> g_draining g) (res_error Not_allowed)
       (require (open_reservations d gpu = []) (res_error Conflicting_evidence)
       (require (length (active_assignments d gpu) \<le> 1) (res_evidence_error Conflicting_evidence)
       (and_then (new_reservation (next_id (map v_id (db_reservations d))) gpu (active_assignments d gpu)
          stamp requested by cleaned duration) (\<lambda>v.
        and_then (insert_reservation V5ReservationError v d) (\<lambda>d1.
        and_then (res_event stamp by ''gpu_reservation_requested''
          (JObj [(''reservationId'', JInt (v_id v)), (''gpuUuid'', JStr gpu),
                 (''status'', JStr (status_name (v_status v))), (''durationHours'', JInt duration),
                 (''waitingForQueueItemId'', json_opt JInt (v_item_id v))]) d1)
        (reread_reservation (v_id v)))))))))))))) "

definition release_reservation ::
  "int \<Rightarrow> string \<Rightarrow> string \<Rightarrow> db \<Rightarrow> (reservation_row \<times> db) result" where
  "release_reservation k by released_at d =
    require (k > 0) (res_error Bad_integer)
    (require (res_text 256 by) (res_error Bad_text)
    (and_then (res_timestamp released_at) (\<lambda>(stamp, released).
     fetch (find_reservation (db_reservations d) k) (V5ReservationNotFoundError, Row_missing) (\<lambda>row.
     and_then (reservation_from_row row) (\<lambda>v.
     if v_status v = Res_released
     then require (v_released_by v = Some by \<and> v_released_at v = Some stamp) (res_error Conflicting_evidence)
       (Inr (v, d))
     else
     require (open_status (v_status v)) (res_error Wrong_state)
    (and_then (parse_time (case v_starts_at v of Some s \<Rightarrow> s | None \<Rightarrow> v_requested_at v)) (\<lambda>earliest.
     require (earliest \<le> released) (res_error Bad_argument)
    (and_then
      (update_reservations V5ReservationError (\<lambda>w. v_id w = k \<and> open_status (v_status w))
        (\<lambda>w. w\<lparr>v_status := Res_released, v_released_at := Some stamp, v_released_by := Some by,
           v_state_detail := Some (if v_status v = Res_pending
             then ''released while waiting for the assigned queue item'' else ''released early'')\<rparr>) d)
      (\<lambda>(n, d1). require (n = 1) (res_error Lost_update)
       (and_then (res_event stamp by ''gpu_reservation_released''
          (JObj [(''reservationId'', JInt k), (''gpuUuid'', JStr (v_gpu_uuid v)),
                 (''previousStatus'', JStr (status_name (v_status v)))]) d1)
         (reread_reservation k)))))))))))"

section \<open>Reconciliation\<close>

datatype transition = Activated reservation_row | Expired reservation_row | Failed_row reservation_row

definition expired_row :: "reservation_row \<Rightarrow> reservation_row" where
  "expired_row w = w\<lparr>v_status := Res_expired, v_state_detail := Some ''reservation duration elapsed''\<rparr>"

definition absent_detail :: "string \<Rightarrow> string" where
  "absent_detail gpu = ''GPU '' @ gpu @ '' is no longer present in the allowlist''"

definition failed_row :: "string \<Rightarrow> reservation_row \<Rightarrow> reservation_row" where
  "failed_row detail w = w\<lparr>v_status := Res_failed, v_state_detail := Some detail\<rparr>"

definition activated_row :: "string \<Rightarrow> int \<Rightarrow> reservation_row \<Rightarrow> reservation_row" where
  "activated_row stamp due w = w\<lparr>v_status := Res_active, v_starts_at := Some stamp,
     v_expires_at := Some (isoformat due),
     v_state_detail := Some ''assigned queue item finished; reservation duration started''\<rparr>"

text \<open>The body of the loop for one open row: the transition it made, if any.\<close>

definition expire_row ::
  "string \<Rightarrow> string \<Rightarrow> reservation_row \<Rightarrow> db \<Rightarrow> (transition option \<times> db) result" where
  "expire_row stamp actor v d =
    and_then
      (update_reservations V5ReservationError (\<lambda>w. v_id w = v_id v \<and> v_status w = Res_active)
        expired_row d)
      (\<lambda>(_, d1). and_then (res_event stamp actor ''gpu_reservation_expired''
          (JObj [(''reservationId'', JInt (v_id v)), (''gpuUuid'', JStr (v_gpu_uuid v)),
                 (''expiresAt'', json_opt JStr (v_expires_at v))]) d1)
        (\<lambda>d2. and_then (reread_reservation (v_id v) d2) (\<lambda>(r, d3). Inr (Some (Expired r), d3))))"

definition fail_row ::
  "string \<Rightarrow> string \<Rightarrow> reservation_row \<Rightarrow> db \<Rightarrow> (transition option \<times> db) result" where
  "fail_row stamp actor v d =
    (let detail = absent_detail (v_gpu_uuid v) in
     and_then
      (update_reservations V5ReservationError (\<lambda>w. v_id w = v_id v \<and> v_status w = Res_pending)
        (failed_row detail) d)
      (\<lambda>(_, d1). and_then (res_event stamp actor ''gpu_reservation_failed''
          (JObj [(''reservationId'', JInt (v_id v)), (''gpuUuid'', JStr (v_gpu_uuid v)),
                 (''reason'', JStr detail)]) d1)
        (\<lambda>d2. and_then (reread_reservation (v_id v) d2) (\<lambda>(r, d3). Inr (Some (Failed_row r), d3)))))"

definition activate_row ::
  "string \<Rightarrow> int \<Rightarrow> string \<Rightarrow> reservation_row \<Rightarrow> db \<Rightarrow> (transition option \<times> db) result" where
  "activate_row stamp now actor v d =
    and_then (add_hours now (v_duration_hours v)) (\<lambda>due.
    and_then
      (update_reservations V5ReservationError (\<lambda>w. v_id w = v_id v \<and> v_status w = Res_pending)
        (activated_row stamp due) d)
      (\<lambda>(n, d1). require (n = 1) (res_error Lost_update)
        (and_then (res_event stamp actor ''gpu_reservation_activated''
          (JObj [(''reservationId'', JInt (v_id v)), (''gpuUuid'', JStr (v_gpu_uuid v)),
                 (''startsAt'', JStr stamp), (''expiresAt'', JStr (isoformat due))]) d1)
        (\<lambda>d2. and_then (reread_reservation (v_id v) d2) (\<lambda>(r, d3). Inr (Some (Activated r), d3))))))"

definition reconcile_row ::
  "string \<Rightarrow> int \<Rightarrow> string \<Rightarrow> reservation_row \<Rightarrow> db \<Rightarrow> (transition option \<times> db) result" where
  "reconcile_row stamp now actor row d =
    and_then (reservation_from_row row) (\<lambda>v.
    if v_status v = Res_active
    then and_then (parse_time (case v_expires_at v of Some e \<Rightarrow> e | None \<Rightarrow> [])) (\<lambda>expiry.
      if now < expiry then Inr (None, d) else expire_row stamp actor v d)
    else and_then (parse_time (v_requested_at v)) (\<lambda>requested.
      if now < requested then Inr (None, d)
      else if find_gpu (db_gpus d) (v_gpu_uuid v) = None then fail_row stamp actor v d
      else require (length (active_assignments d (v_gpu_uuid v)) \<le> 1)
          (res_evidence_error Conflicting_evidence)
        (if active_assignments d (v_gpu_uuid v) \<noteq> [] then Inr (None, d)
         else activate_row stamp now actor v d)))"

fun reconcile_rows ::
  "string \<Rightarrow> int \<Rightarrow> string \<Rightarrow> reservation_row list \<Rightarrow> db \<Rightarrow> (transition list \<times> db) result" where
  "reconcile_rows stamp now actor [] d = Inr ([], d)"
| "reconcile_rows stamp now actor (v # vs) d =
    and_then (reconcile_row stamp now actor v d) (\<lambda>(change, d1).
    and_then (reconcile_rows stamp now actor vs d1) (\<lambda>(changes, d2).
    Inr ((case change of None \<Rightarrow> changes | Some c \<Rightarrow> c # changes), d2)))"

definition open_rows :: "db \<Rightarrow> reservation_row list" where
  "open_rows d = sort_key v_id (filter (\<lambda>v. open_status (v_status v)) (db_reservations d))"

record reconciliation =
  rc_reconciled_at :: string
  rc_activated :: "reservation_row list"
  rc_expired :: "reservation_row list"
  rc_failed :: "reservation_row list"

definition reconciliation_of :: "string \<Rightarrow> transition list \<Rightarrow> reconciliation" where
  "reconciliation_of stamp changes =
    \<lparr>rc_reconciled_at = stamp,
     rc_activated = List.map_filter (\<lambda>c. case c of Activated v \<Rightarrow> Some v | _ \<Rightarrow> None) changes,
     rc_expired = List.map_filter (\<lambda>c. case c of Expired v \<Rightarrow> Some v | _ \<Rightarrow> None) changes,
     rc_failed = List.map_filter (\<lambda>c. case c of Failed_row v \<Rightarrow> Some v | _ \<Rightarrow> None) changes\<rparr>"

definition reconcile :: "string \<Rightarrow> string \<Rightarrow> db \<Rightarrow> (reconciliation \<times> db) result" where
  "reconcile reconciled_at actor d =
    and_then (res_timestamp reconciled_at) (\<lambda>(stamp, now).
    require (res_text 256 actor) (res_error Bad_text)
    (and_then (reconcile_rows stamp now actor (open_rows d) d) (\<lambda>(changes, d').
     Inr (reconciliation_of stamp changes, d'))))"

section \<open>Transactions on reservations only\<close>

text \<open>
  What the service may change: reservations and events. \<open>reserves\<close> relates the databases before and
  after; its last conjunct is the part of the invariant that speaks of reservations.
\<close>

definition reserves :: "db \<Rightarrow> db \<Rightarrow> bool" where
  "reserves d d' =
    (db_items d' = db_items d \<and> db_gpus d' = db_gpus d \<and> db_runtime d' = db_runtime d
     \<and> db_projects d' = db_projects d \<and> db_revisions d' = db_revisions d
     \<and> db_dependencies d' = db_dependencies d \<and> db_artifacts d' = db_artifacts d
     \<and> db_metadata d' = db_metadata d \<and> db_snapshots d' = db_snapshots d
     \<and> db_yield_requests d' = db_yield_requests d \<and> db_yield_receipts d' = db_yield_receipts d
     \<and> prefix (db_events d) (db_events d')
     \<and> (reservations_inv (db_items d) (db_reservations d) \<and> lease_inv (db_items d) (db_reservations d)
         \<longrightarrow> reservations_inv (db_items d) (db_reservations d')
           \<and> lease_inv (db_items d) (db_reservations d')))"

lemma reserves_refl [simp, vcg]: "reserves d d"
  by (simp add: reserves_def)

lemma reserves_trans [trans]: "reserves d e \<Longrightarrow> reserves e f \<Longrightarrow> reserves d f"
  by (auto simp: reserves_def intro: prefix_order.order_trans)

lemma reserves_system_inv: "reserves d d' \<Longrightarrow> system_inv d \<Longrightarrow> system_inv d'"
  by (simp add: reserves_def system_inv_def owners_inv_def)

lemma reserves_history: "reserves d d' \<Longrightarrow> history d d'"
  by (simp add: reserves_def history_def list.rel_refl)

locale reservation_operation =
  fixes run :: "db \<Rightarrow> ('v \<times> db) result"
  assumes run_reserves: "run d = Inr (v, d') \<Longrightarrow> system_inv d \<Longrightarrow> reserves d d'"
begin

lemma items_untouched: "run d = Inr (v, d') \<Longrightarrow> system_inv d \<Longrightarrow> db_items d' = db_items d"
  using run_reserves by (simp add: reserves_def)

lemma gpus_untouched: "run d = Inr (v, d') \<Longrightarrow> system_inv d \<Longrightarrow> db_gpus d' = db_gpus d"
  using run_reserves by (simp add: reserves_def)

end

sublocale reservation_operation \<subseteq> safe_operation run
  by unfold_locales (use run_reserves reserves_system_inv reserves_history in blast)+

lemma lease_inv_reserved:
  assumes "lease_inv items rows"
    and "\<And>w. w \<in> set rows' \<Longrightarrow> v_status w = Res_active \<Longrightarrow> v_gpu_uuid w \<in> reserved rows
      \<or> (\<forall>i \<in> set items. qi_lease_held i \<longrightarrow> qi_gpu_uuid i \<noteq> Some (v_gpu_uuid w))"
  shows "lease_inv items rows'"
  using assms by (fastforce simp: lease_inv_def reserved_def)

lemma no_holder:
  "lease_holders d g = [] \<Longrightarrow> i \<in> set (db_items d) \<Longrightarrow> qi_lease_held i \<Longrightarrow> qi_gpu_uuid i \<noteq> Some g"
  by (auto simp: lease_holders_def filter_empty_conv)

lemma active_reserved: "w \<in> set rows \<Longrightarrow> v_status w = Res_active \<Longrightarrow> v_gpu_uuid w \<in> reserved rows"
  by (auto simp: reserved_def)

lemma reserves_insert_reservation:
  assumes "insert_reservation x v d = Inr d'"
    and "v_status v = Res_active \<Longrightarrow> lease_holders d (v_gpu_uuid v) = []"
  shows "reserves d d'"
proof -
  have d': "d' = d\<lparr>db_reservations := db_reservations d @ [v]\<rparr>"
    and ok: "reservation_check v" "v_id v \<notin> set (map v_id (db_reservations d))"
      "null_or (\<lambda>k. find_item (db_items d) k \<noteq> None) (v_item_id v)"
      "distinct (open_gpus (db_reservations d @ [v]))"
    using assms(1) by (auto simp: insert_reservation_eq_Inr)
  have "null_or (\<lambda>k. k \<in> qi_id ` set (db_items d)) (v_item_id v)"
    using ok(3) item_table.lookup_SomeD[of "db_items d"]
    by (auto simp: null_or_def split: option.splits)
  moreover have "lease_inv (db_items d) (db_reservations d @ [v])"
    if "lease_inv (db_items d) (db_reservations d)"
    by (rule lease_inv_reserved[OF that]) (use assms(2) in \<open>auto simp: active_reserved dest: no_holder\<close>)
  ultimately show ?thesis using ok by (auto simp: reserves_def d' reservations_inv_def)
qed

lemma reserves_update_reservations:
  assumes "update_reservations x P f d = Inr (n, d')"
    and "\<And>v. v \<in> set (db_reservations d) \<Longrightarrow> P v \<Longrightarrow> v_status (f v) = Res_active \<Longrightarrow>
      lease_holders d (v_gpu_uuid (f v)) = []"
  shows "reserves d d'"
proof -
  let ?rows = "update_rows P f (db_reservations d)"
  have d': "d' = d\<lparr>db_reservations := ?rows\<rparr>" and dist: "distinct (open_gpus ?rows)"
    and ok: "\<And>v. v \<in> set (db_reservations d) \<Longrightarrow> P v \<Longrightarrow>
      reservation_check (f v) \<and> v_id (f v) = v_id v \<and> v_item_id (f v) = v_item_id v"
    using assms(1) by (auto simp: update_reservations_eq_Inr)
  have ids: "map v_id ?rows = map v_id (db_reservations d)"
    using ok by (auto simp: update_rows_def)
  have "lease_inv (db_items d) ?rows" if "lease_inv (db_items d) (db_reservations d)"
  proof (rule lease_inv_reserved[OF that])
    fix w
    assume w: "w \<in> set ?rows" and active: "v_status w = Res_active"
    from w consider v where "v \<in> set (db_reservations d)" "P v" "w = f v" | "w \<in> set (db_reservations d)"
      unfolding in_update_rows by blast
    then show "v_gpu_uuid w \<in> reserved (db_reservations d)
        \<or> (\<forall>i \<in> set (db_items d). qi_lease_held i \<longrightarrow> qi_gpu_uuid i \<noteq> Some (v_gpu_uuid w))"
    proof cases
      case 1
      then have "lease_holders d (v_gpu_uuid w) = []" using active assms(2) by simp
      then show ?thesis using no_holder by blast
    next
      case 2
      then show ?thesis using active by (simp add: active_reserved)
    qed
  qed
  moreover have "reservations_inv (db_items d) ?rows"
    if inv: "reservations_inv (db_items d) (db_reservations d)"
  proof -
    have "reservation_check w \<and> null_or (\<lambda>k. k \<in> qi_id ` set (db_items d)) (v_item_id w)"
      if "w \<in> set ?rows" for w
      using that ok inv unfolding in_update_rows reservations_inv_def by fastforce
    then show ?thesis using inv dist by (simp add: reservations_inv_def ids)
  qed
  ultimately show ?thesis by (simp add: reserves_def d')
qed

lemma reserves_res_event: "res_event t actor event_type payload d = Inr d' \<Longrightarrow> reserves d d'"
  by (auto simp: res_event_def insert_event_eq_Inr reserves_def)

lemma reserves_holders: "reserves d d' \<Longrightarrow> lease_holders d' g = lease_holders d g"
  by (simp add: reserves_def lease_holders_def)

lemma reread_reservation_state: "reread_reservation k d = Inr (r, d') \<Longrightarrow> d' = d"
  by (auto simp: reread_reservation_def)

lemma ensures_res_event [vcg]:
  assumes "reserves d d0" and "\<And>d1. reserves d d1 \<Longrightarrow> ensures (reserves d) (k d1)"
  shows "ensures (reserves d) (and_then (res_event t actor event_type payload d0) k)"
  using reserves_trans assms(1) reserves_res_event assms(2) by (rule ensures_row_trans)

lemma ensures_insert_reservation [vcg]:
  assumes "reserves d d0" and "v_status v = Res_active \<Longrightarrow> lease_holders d0 (v_gpu_uuid v) = []"
    and "\<And>d1. reserves d d1 \<Longrightarrow> ensures (reserves d) (k d1)"
  shows "ensures (reserves d) (and_then (insert_reservation x v d0) k)"
  using reserves_trans assms(1) reserves_insert_reservation[OF _ assms(2)] assms(3)
  by (rule ensures_row_trans)

lemma ensures_update_reservations [vcg]:
  assumes "reserves d d0"
    and "\<And>v. v \<in> set (db_reservations d0) \<Longrightarrow> P v \<Longrightarrow> v_status (f v) = Res_active \<Longrightarrow>
      lease_holders d0 (v_gpu_uuid (f v)) = []"
    and "\<And>n d1. reserves d d1 \<Longrightarrow> ensures (reserves d) (k n d1)"
  shows "ensures (reserves d) (and_then (update_reservations x P f d0) (\<lambda>(n, d1). k n d1))"
  using reserves_trans assms(1) reserves_update_reservations[OF _ assms(2)] assms(3)
  by (rule ensures_rows_trans)

lemma ensures_reread_reservation [vcg]: "R d \<Longrightarrow> ensures R (reread_reservation k d)"
  by (auto simp: ensures_def dest: reread_reservation_state)

lemma ensures_reread_reservation_then [vcg]:
  "(\<And>a. ensures R (k a d)) \<Longrightarrow> ensures R (and_then (reread_reservation i d) (\<lambda>(a, d'). k a d'))"
  by (auto simp: ensures_def dest!: reread_reservation_state)

lemma ensures_list [vcg]:
  "(xs = [] \<Longrightarrow> ensures R a) \<Longrightarrow> (\<And>y ys. xs = y # ys \<Longrightarrow> ensures R (k y ys)) \<Longrightarrow>
     ensures R (case xs of [] \<Rightarrow> a | y # ys \<Rightarrow> k y ys)"
  by (cases xs) simp_all

lemma length_active_assignments [simp]: "length (active_assignments d g) = length (lease_holders d g)"
  by (simp add: active_assignments_def)

lemma active_assignments_Nil [simp]: "active_assignments d g = [] \<longleftrightarrow> lease_holders d g = []"
  using length_active_assignments[of d g] by (metis length_0_conv)

lemma new_reservation_gpu:
  "new_reservation k gpu assignments stamp requested who remark duration = Inr v \<Longrightarrow>
     v_gpu_uuid v = gpu \<and> v_id v = k \<and> (v_status v = Res_active \<longrightarrow> assignments = [])"
  by (auto simp: new_reservation_def Let_def split: list.splits)

interpretation reserving: reservation_operation "request_reservation gpu duration remark who requested_at"
  for gpu duration remark who requested_at
  by (unfold_locales, erule ensuresD[rotated], unfold request_reservation_def res_timestamp_def,
      intro vcg ensures_value) (auto dest!: new_reservation_gpu)


interpretation releasing: reservation_operation "release_reservation k who released_at"
  for k who released_at
  by (unfold_locales, erule ensuresD[rotated], unfold release_reservation_def res_timestamp_def,
      intro vcg ensures_value) auto

text \<open>The update of the one row with a given identifier.\<close>

definition replace_row :: "reservation_row \<Rightarrow> reservation_row \<Rightarrow> reservation_row list \<Rightarrow> reservation_row list"
  where "replace_row v w rows = update_rows (\<lambda>u. u = v) (\<lambda>_. w) rows"

lemma in_replace_row: "u \<in> set (replace_row v w rows) \<longleftrightarrow> v \<in> set rows \<and> u = w \<or> u \<in> set rows \<and> u \<noteq> v"
  by (auto simp: replace_row_def in_update_rows)

lemma inv_reservation_ids: "system_inv d \<Longrightarrow> distinct (map v_id (db_reservations d))"
  by (simp add: system_inv_def reservations_inv_def)

lemma update_reservation_row:
  assumes "distinct (map v_id rows)" and "v \<in> set rows" and "Q v"
  shows "update_rows (\<lambda>u. v_id u = v_id v \<and> Q u) f rows = replace_row v (f v) rows"
    and "v_id (f v) = v_id v \<Longrightarrow> find_reservation (replace_row v (f v) rows) (v_id v) = Some (f v)"
proof -
  have same: "v_id u = v_id v \<longleftrightarrow> u = v" if "u \<in> set rows" for u
    using assms(1,2) that by (metis reservation_table.lookup_unique option.inject)
  show "update_rows (\<lambda>u. v_id u = v_id v \<and> Q u) f rows = replace_row v (f v) rows"
    using same assms(3) by (auto simp: update_rows_def replace_row_def)
  show "find_reservation (replace_row v (f v) rows) (v_id v) = Some (f v)" if "v_id (f v) = v_id v"
  proof -
    have "find_reservation (replace_row v (f v) rows) (v_id v)
        = map_option (\<lambda>u. if u = v then f v else u) (find_reservation rows (v_id v))"
      unfolding replace_row_def using that by (intro reservation_table.lookup_update_rows) simp
    then show ?thesis using reservation_table.lookup_unique[OF assms(1,2)] by simp
  qed
qed

lemma reservation_from_row_same: "reservation_from_row v = Inr w \<Longrightarrow> w = v"
  by (auto simp: reservation_from_row_def split: option.splits)

lemma reread_found:
  assumes "find_reservation (db_reservations d) k = Some w" and "reread_reservation k d = Inr (r, d')"
  shows "r = w \<and> d' = d \<and> reservation_from_row w = Inr w"
  using assms reservation_from_row_same by (auto simp: reread_reservation_def)

text \<open>A transition of one row: what it wrote.\<close>

definition row_moved :: "db \<Rightarrow> db \<Rightarrow> reservation_row \<Rightarrow> reservation_row \<Rightarrow> bool" where
  "row_moved d d' v w = (\<exists>ev. d' = d\<lparr>db_reservations := replace_row v w (db_reservations d),
     db_events := db_events d @ [ev]\<rparr> \<and> v_id w = v_id v \<and> v_gpu_uuid w = v_gpu_uuid v
     \<and> reservation_from_row w = Inr w \<and> reserves d d')"

lemma transition_moves:
  assumes inv: "system_inv d" and v: "v \<in> set (db_reservations d)" and Q: "Q v"
    and run: "update_reservations x (\<lambda>w. v_id w = v_id v \<and> Q w) f d = Inr (n, d1)"
      "res_event t actor event_type payload d1 = Inr d2" "reread_reservation (v_id v) d2 = Inr (r, d3)"
    and f: "v_gpu_uuid (f v) = v_gpu_uuid v"
    and idle: "v_status (f v) = Res_active \<longrightarrow> lease_holders d (v_gpu_uuid v) = []"
  shows "row_moved d d3 v (f v) \<and> r = f v"
proof -
  note row = update_reservation_row[of _ v Q f, OF inv_reservation_ids[OF inv] v Q]
  have id: "v_id (f v) = v_id v" and d1: "d1 = d\<lparr>db_reservations := replace_row v (f v) (db_reservations d)\<rparr>"
    using run(1) v Q row(1) by (auto simp: update_reservations_eq_Inr)
  obtain ev where d2: "d2 = d1\<lparr>db_events := db_events d1 @ [ev]\<rparr>"
    using run(2) by (auto simp: res_event_def insert_event_eq_Inr)
  have "find_reservation (db_reservations d2) (v_id v) = Some (f v)"
    using row(2)[OF id] by (simp add: d1 d2)
  note found = reread_found[OF this run(3)]
  have only: "w = v" if "w \<in> set (db_reservations d)" "v_id w = v_id v" for w
    using that v inv_reservation_ids[OF inv] by (metis reservation_table.lookup_unique option.inject)
  have "reserves d d1"
    by (rule reserves_update_reservations[OF run(1)]) (use only idle f in metis)
  then have "reserves d d2" using run(2) reserves_res_event reserves_trans by blast
  with found show ?thesis using id f by (auto simp: row_moved_def d1 d2)
qed

lemma transition_gpu [simp]:
  "v_gpu_uuid (expired_row v) = v_gpu_uuid v" "v_gpu_uuid (failed_row detail v) = v_gpu_uuid v"
  "v_gpu_uuid (activated_row stamp due v) = v_gpu_uuid v"
  "v_status (expired_row v) = Res_expired" "v_status (failed_row detail v) = Res_failed"
  by (simp_all add: expired_row_def failed_row_def activated_row_def)

lemma reconcile_row_cases:
  assumes inv: "system_inv d" and v: "v \<in> set (db_reservations d)" and opn: "open_status (v_status v)"
    and run: "reconcile_row stamp now actor v d = Inr (c, d')"
  obtains (kept) "c = None" and "d' = d"
  | (closed) w where "c \<noteq> None" and "row_moved d d' v w" and "\<not> open_status (v_status w)"
  | (activated) w where "c = Some (Activated w)" and "row_moved d d' v w" and "v_status v = Res_pending"
      and "v_status w = Res_active" and "v_duration_hours w = v_duration_hours v"
      and "v_starts_at w = Some stamp"
      and "now + hours_us (v_duration_hours v) \<le> max_instant"
      and "v_expires_at w = Some (isoformat (now + hours_us (v_duration_hours v)))"
      and "lease_holders d (v_gpu_uuid v) = []" and "find_gpu (db_gpus d) (v_gpu_uuid v) \<noteq> None"
proof -
  have row: "reservation_from_row v = Inr v"
    using run reservation_from_row_same by (auto simp: reconcile_row_def)
  show thesis
  proof (cases "c = None \<and> d' = d")
    case True
    then show ?thesis using kept by blast
  next
    case changed: False
    show ?thesis
    proof (cases "v_status v = Res_active")
      case True
      then have "expire_row stamp actor v d = Inr (c, d')"
        using run row changed by (auto simp: reconcile_row_def split: if_splits)
      then have "row_moved d d' v (expired_row v) \<and> c \<noteq> None"
        using transition_moves[OF inv v, of "\<lambda>w. v_status w = Res_active" _ expired_row] True
        by (auto simp: expire_row_def) blast
      then show ?thesis by (intro closed) (auto simp: open_status_def expired_row_def)
    next
      case False
      then have pending: "v_status v = Res_pending" using opn by (auto simp: open_status_def)
      show ?thesis
      proof (cases "find_gpu (db_gpus d) (v_gpu_uuid v) = None")
        case True
        then have "fail_row stamp actor v d = Inr (c, d')"
          using run row changed False by (auto simp: reconcile_row_def split: if_splits)
        then have "row_moved d d' v (failed_row (absent_detail (v_gpu_uuid v)) v) \<and> c \<noteq> None"
          using transition_moves[OF inv v, of "\<lambda>w. v_status w = Res_pending" _ "failed_row (absent_detail (v_gpu_uuid v))"] pending
          by (auto simp: fail_row_def Let_def) blast
        then show ?thesis by (intro closed) (auto simp: open_status_def failed_row_def)
      next
        case known: False
        then have act: "activate_row stamp now actor v d = Inr (c, d')"
          and free: "lease_holders d (v_gpu_uuid v) = []"
          using run row changed False by (auto simp: reconcile_row_def split: if_splits)
        obtain due where due: "add_hours now (v_duration_hours v) = Inr due"
          using act by (auto simp: activate_row_def)
        have "c = Some (Activated (activated_row stamp due v)) \<and> row_moved d d' v (activated_row stamp due v)"
          using act transition_moves[OF inv v, of "\<lambda>w. v_status w = Res_pending" _ "activated_row stamp due"]
            pending due free
          by (auto simp: activate_row_def) blast+
        then show ?thesis
          using due free known pending
          by (intro activated[of "activated_row stamp due v"])
            (auto simp: add_hours_def activated_row_def split: if_splits)
      qed
    qed
  qed
qed

lemma reconcile_row_reserves:
  assumes "system_inv d" and "v \<in> set (db_reservations d)" and "open_status (v_status v)"
    and "reconcile_row stamp now actor v d = Inr (c, d')"
  shows "reserves d d'"
  by (rule reconcile_row_cases[OF assms]) (auto simp: row_moved_def)

text \<open>A row the loop would leave alone; this depends on leases and the allowlist only.\<close>

definition settled :: "string \<Rightarrow> int \<Rightarrow> string \<Rightarrow> db \<Rightarrow> reservation_row \<Rightarrow> bool" where
  "settled stamp now actor d v = (reconcile_row stamp now actor v d = Inr (None, d))"

lemma settled_eq:
  "settled stamp now actor d v \<longleftrightarrow> reservation_from_row v = Inr v \<and>
    (if v_status v = Res_active
     then \<exists>e. parse_time (case v_expires_at v of Some e \<Rightarrow> e | None \<Rightarrow> []) = Inr e \<and> now < e
     else \<exists>r. parse_time (v_requested_at v) = Inr r \<and>
       (now < r \<or> find_gpu (db_gpus d) (v_gpu_uuid v) \<noteq> None
          \<and> length (active_assignments d (v_gpu_uuid v)) = 1))"
proof -
  have "expire_row stamp actor v d \<noteq> Inr (None, d)" "fail_row stamp actor v d \<noteq> Inr (None, d)"
    "activate_row stamp now actor v d \<noteq> Inr (None, d)" for v
    by (auto simp: expire_row_def fail_row_def activate_row_def Let_def)
  moreover have "length xs = 1 \<longleftrightarrow> length xs \<le> 1 \<and> xs \<noteq> []" for xs :: "int list"
    by (cases xs) auto
  ultimately have step: "reconcile_row stamp now actor v d = Inr (None, d) \<longleftrightarrow>
      (if v_status v = Res_active
       then \<exists>e. parse_time (case v_expires_at v of Some e \<Rightarrow> e | None \<Rightarrow> []) = Inr e \<and> now < e
       else \<exists>r. parse_time (v_requested_at v) = Inr r \<and>
         (now < r \<or> find_gpu (db_gpus d) (v_gpu_uuid v) \<noteq> None
            \<and> length (active_assignments d (v_gpu_uuid v)) = 1))"
    if "reservation_from_row v = Inr v"
    by (simp add: reconcile_row_def that del: active_assignments_Nil length_active_assignments) fastforce
  show ?thesis
  proof (cases "reservation_from_row v")
    case (Inl e)
    then show ?thesis by (simp add: settled_def reconcile_row_def)
  next
    case (Inr w)
    then have "reservation_from_row v = Inr v" using reservation_from_row_same by blast
    with step show ?thesis by (simp add: settled_def)
  qed
qed

lemma settled_cong:
  "db_items d' = db_items d \<Longrightarrow> db_gpus d' = db_gpus d \<Longrightarrow>
     settled stamp now actor d' v = settled stamp now actor d v"
  by (simp add: settled_eq active_assignments_def lease_holders_def)

section \<open>Times printed by the service are read back\<close>

lemma pad_log_safe: "c \<in> set (pad k n) \<Longrightarrow> \<not> control_char c"
  using pad_digits[of k n] by (auto simp: list_all_iff is_digit_def control_char_def)

lemma isoformat_text: "res_text 64 (isoformat t)"
proof -
  have "\<not> list_ex control_char (isoformat t)"
    by (auto simp: isoformat_def Let_def list_ex_iff split: prod.splits if_splits dest: pad_log_safe)
      (auto simp: control_char_def)
  moreover have "isoformat t \<noteq> [] \<and> length (isoformat t) \<le> 64"
    by (auto simp: isoformat_def Let_def split: prod.splits)
  ultimately show ?thesis by (simp add: res_text_def log_safe_def)
qed

lemma parse_time_utc: "parse_time s = Inr t \<longleftrightarrow> res_text 64 s \<and> utc_instant s = Some t"
  by (auto simp: parse_time_def utc_instant_def split: option.splits)

lemma parse_time_printed: "0 \<le> t \<Longrightarrow> t \<le> max_instant \<Longrightarrow> parse_time (isoformat t) = Inr t"
  using isoformat_text utc_instant_isoformat by (simp add: parse_time_utc)

lemma parse_time_Nil [simp]: "parse_time [] = Inl (res_error Bad_text)"
  by (simp add: parse_time_def res_text_def)

lemma parse_time_bounds: "parse_time s = Inr t \<Longrightarrow> 0 \<le> t \<and> t \<le> max_instant"
  by (auto simp: parse_time_def split: option.splits if_splits)

section \<open>Reconciliation is complete\<close>

lemma reservation_row_duration: "reservation_from_row v = Inr w \<Longrightarrow> duration_ok (v_duration_hours v)"
  by (auto simp: reservation_from_row_def request_fields_def as_evidence_def
      split: sum.splits prod.splits exn.splits)

lemma activated_settled:
  assumes "reservation_from_row w = Inr w" and "v_status w = Res_active"
    and "v_expires_at w = Some (isoformat (now + hours_us (v_duration_hours w)))"
    and "0 \<le> now" and "now + hours_us (v_duration_hours w) \<le> max_instant"
  shows "settled stamp now actor d w"
proof -
  have "0 < hours_us (v_duration_hours w)"
    using reservation_row_duration[OF assms(1)] by (simp add: duration_ok_def hours_us_def)
  with assms parse_time_printed[OF _ assms(5)] show ?thesis by (simp add: settled_eq)
qed

lemma reconcile_rows_settles:
  assumes "system_inv d" and "set vs \<subseteq> set (db_reservations d)" and "distinct (map v_id vs)"
    and "\<forall>v \<in> set vs. open_status (v_status v)" and "0 \<le> now"
    and "reconcile_rows stamp now actor vs d = Inr (cs, d')"
  shows "reserves d d' \<and> (\<forall>w \<in> set (db_reservations d'). if v_id w \<in> v_id ` set vs
      then open_status (v_status w) \<longrightarrow> settled stamp now actor d' w else w \<in> set (db_reservations d))"
  using assms
proof (induction vs arbitrary: d cs)
  case (Cons v vs)
  obtain c d1 cs' where one: "reconcile_row stamp now actor v d = Inr (c, d1)"
    and rest: "reconcile_rows stamp now actor vs d1 = Inr (cs', d')"
    using Cons.prems(6) by auto
  have v: "v \<in> set (db_reservations d)" "open_status (v_status v)" "v_id v \<notin> v_id ` set vs"
    using Cons.prems(2-4) by auto
  have unique: "w = v" if "w \<in> set (db_reservations d)" "v_id w = v_id v" for w
    using that v(1) inv_reservation_ids[OF Cons.prems(1)]
    by (metis reservation_table.lookup_unique option.inject)
  have first: "reserves d d1" using reconcile_row_reserves[OF Cons.prems(1) v(1,2) one] .
  have after: "u \<in> set (db_reservations d1) \<Longrightarrow> v_id u \<noteq> v_id v \<Longrightarrow> u \<in> set (db_reservations d)"
    "u \<in> set (db_reservations d1) \<Longrightarrow> v_id u = v_id v \<Longrightarrow> open_status (v_status u) \<Longrightarrow>
       settled stamp now actor d1 u"
    "u \<in> set (db_reservations d) \<Longrightarrow> v_id u \<noteq> v_id v \<Longrightarrow> u \<in> set (db_reservations d1)" for u
  proof -
    show "u \<in> set (db_reservations d)" if "u \<in> set (db_reservations d1)" "v_id u \<noteq> v_id v"
      by (rule reconcile_row_cases[OF Cons.prems(1) v(1,2) one])
        (use that in \<open>auto simp: row_moved_def in_replace_row\<close>)
    show "u \<in> set (db_reservations d1)" if "u \<in> set (db_reservations d)" "v_id u \<noteq> v_id v"
      by (rule reconcile_row_cases[OF Cons.prems(1) v(1,2) one])
        (use that in \<open>auto simp: row_moved_def in_replace_row\<close>)
    assume u: "u \<in> set (db_reservations d1)" "v_id u = v_id v" "open_status (v_status u)"
    show "settled stamp now actor d1 u"
    proof (rule reconcile_row_cases[OF Cons.prems(1) v(1,2) one])
      assume "c = None" "d1 = d"
      with u unique one show ?thesis by (auto simp: settled_def)
    next
      fix w
      assume w: "row_moved d d1 v w" "\<not> open_status (v_status w)"
      then have "u = w" using u unique by (auto simp: row_moved_def in_replace_row)
      with w u show ?thesis by simp
    next
      fix w
      assume w: "row_moved d d1 v w" "v_status w = Res_active"
        "v_duration_hours w = v_duration_hours v"
        "now + hours_us (v_duration_hours v) \<le> max_instant"
        "v_expires_at w = Some (isoformat (now + hours_us (v_duration_hours v)))"
      then have "u = w" using u unique by (auto simp: row_moved_def in_replace_row)
      with w Cons.prems(5) show ?thesis by (intro activated_settled) (auto simp: row_moved_def)
    qed
  qed
  have "system_inv d1" using first Cons.prems(1) by (rule reserves_system_inv)
  moreover have "set vs \<subseteq> set (db_reservations d1)"
  proof
    fix x
    assume x: "x \<in> set vs"
    then have "v_id x \<noteq> v_id v" using v(3) by (metis image_eqI)
    then show "x \<in> set (db_reservations d1)" using after(3) x Cons.prems(2) by auto
  qed
  ultimately have IH: "reserves d1 d'" "\<And>w. w \<in> set (db_reservations d') \<Longrightarrow> if v_id w \<in> v_id ` set vs
      then open_status (v_status w) \<longrightarrow> settled stamp now actor d' w else w \<in> set (db_reservations d1)"
    using Cons.IH[of d1 cs'] rest Cons.prems(3-5) by auto
  have cong: "settled stamp now actor d' u = settled stamp now actor d1 u" for u
    using IH(1) by (intro settled_cong) (simp_all add: reserves_def)
  have "if v_id w \<in> v_id ` set (v # vs) then open_status (v_status w) \<longrightarrow> settled stamp now actor d' w
      else w \<in> set (db_reservations d)" if "w \<in> set (db_reservations d')" for w
    using IH(2)[OF that] after[of w] v(3) cong by (auto split: if_splits)
  with reserves_trans[OF first IH(1)] show ?case by blast
qed simp

lemma open_rows_facts:
  assumes "system_inv d"
  shows "set (open_rows d) \<subseteq> set (db_reservations d)" "distinct (map v_id (open_rows d))"
    "\<forall>v \<in> set (open_rows d). open_status (v_status v)"
proof -
  have "inj_on v_id (set (db_reservations d))" "distinct (db_reservations d)"
    using inv_reservation_ids[OF assms] by (simp_all add: distinct_map)
  then show "distinct (map v_id (open_rows d))"
    by (auto simp: open_rows_def distinct_map intro: inj_on_subset)
qed (auto simp: open_rows_def)

interpretation reconciling: reservation_operation "reconcile reconciled_at actor"
  for reconciled_at actor
proof unfold_locales
  fix d v d'
  assume "reconcile reconciled_at actor d = Inr (v, d')" and inv: "system_inv d"
  then obtain now cs where "parse_time reconciled_at = Inr now"
    and "reconcile_rows (isoformat now) now actor (open_rows d) d = Inr (cs, d')"
    by (auto simp: reconcile_def res_timestamp_def)
  with reconcile_rows_settles[OF inv open_rows_facts[OF inv]] parse_time_bounds
  show "reserves d d'" by blast
qed

lemma reconcile_rows_settled:
  "\<forall>v \<in> set vs. settled stamp now actor d v \<Longrightarrow> reconcile_rows stamp now actor vs d = Inr ([], d)"
  by (induction vs) (auto simp: settled_def)

text \<open>
  (C9) A reconciliation pass is complete and idempotent: afterwards every active reservation expires later
  than the pass (expiry is inclusive), every pending one was requested later or still waits for a lease
  holder, no item was touched, and a second pass at the same time reports no transition and changes
  nothing.
\<close>

theorem reconcile_complete:
  assumes inv: "system_inv d" and run: "reconcile reconciled_at actor d = Inr (rc, d')"
    and now: "parse_time reconciled_at = Inr now"
  shows "(\<forall>v \<in> set (db_reservations d'). v_status v = Res_active \<longrightarrow>
      (\<exists>t e. v_expires_at v = Some t \<and> parse_time t = Inr e \<and> now < e))
    \<and> (\<forall>v \<in> set (db_reservations d'). v_status v = Res_pending \<longrightarrow>
      (\<exists>r. parse_time (v_requested_at v) = Inr r \<and> (now < r \<or> lease_holders d' (v_gpu_uuid v) \<noteq> [])))
    \<and> db_items d' = db_items d
    \<and> reconcile reconciled_at actor d' = Inr (reconciliation_of (isoformat now) [], d')"
proof -
  obtain cs where rows: "reconcile_rows (isoformat now) now actor (open_rows d) d = Inr (cs, d')"
    and actor: "res_text 256 actor"
    using run now by (auto simp: reconcile_def res_timestamp_def)
  note bounds = parse_time_bounds[OF now]
  note loop = reconcile_rows_settles[OF inv open_rows_facts[OF inv] conjunct1[OF bounds] rows]
  have settled: "settled (isoformat now) now actor d' v"
    if v: "v \<in> set (db_reservations d')" "open_status (v_status v)" for v
  proof (cases "v_id v \<in> v_id ` set (open_rows d)")
    case True
    with loop v show ?thesis by fastforce
  next
    case False
    then have "v \<in> set (db_reservations d)" using loop v by fastforce
    then have "v \<in> set (open_rows d)" using v(2) by (simp add: open_rows_def)
    with False show ?thesis by blast
  qed
  have "\<exists>t e. v_expires_at v = Some t \<and> parse_time t = Inr e \<and> now < e"
    if "v \<in> set (db_reservations d')" "v_status v = Res_active" for v
    using settled[OF that(1)] that(2) by (cases "v_expires_at v") (simp_all add: settled_eq open_status_def)
  moreover have "\<exists>r. parse_time (v_requested_at v) = Inr r \<and> (now < r \<or> lease_holders d' (v_gpu_uuid v) \<noteq> [])"
    if "v \<in> set (db_reservations d')" "v_status v = Res_pending" for v
    using settled[OF that(1)] that(2) active_assignments_Nil[of d' "v_gpu_uuid v"]
    by (auto simp: settled_eq open_status_def)
  moreover have "\<forall>v \<in> set (open_rows d'). settled (isoformat now) now actor d' v"
    using settled by (auto simp: open_rows_def)
  then have "reconcile reconciled_at actor d' = Inr (reconciliation_of (isoformat now) [], d')"
    using now actor reconcile_rows_settled by (simp add: reconcile_def res_timestamp_def)
  ultimately show ?thesis using loop by (simp add: reserves_def)
qed

section \<open>What a request grants\<close>

lemma request_cases:
  assumes run: "request_reservation gpu duration remark who requested_at d = Inr (r, d')"
  obtains (replayed) "r \<in> set (db_reservations d)" and "d' = d" and "reservation_from_row r = Inr r"
      and "\<exists>t. parse_time requested_at = Inr t
        \<and> filter (same_request gpu (isoformat t) who (normalized_note remark) duration) (db_reservations d) = [r]"
  | (created) t ev where "parse_time requested_at = Inr t"
      and "filter (same_request gpu (isoformat t) who (normalized_note remark) duration) (db_reservations d) = []"
      and "new_reservation (next_id (map v_id (db_reservations d))) gpu (active_assignments d gpu)
        (isoformat t) t who (normalized_note remark) duration = Inr r"
      and "d' = d\<lparr>db_reservations := db_reservations d @ [r], db_events := db_events d @ [ev]\<rparr>"
      and "reservation_from_row r = Inr r" and "open_reservations d gpu = []"
      and "length (active_assignments d gpu) \<le> 1"
proof -
  obtain t where t: "parse_time requested_at = Inr t"
    using run by (auto simp: request_reservation_def res_timestamp_def)
  let ?dups = "filter (same_request gpu (isoformat t) who (normalized_note remark) duration) (db_reservations d)"
  show thesis
  proof (cases ?dups)
    case (Cons v vs)
    then have "?dups = [v]" "reservation_from_row v = Inr r" "d' = d"
      using run t by (auto simp: request_reservation_def res_timestamp_def Let_def)
    moreover have "v \<in> set ?dups" using Cons by (metis list.set_intros(1))
    then have "v \<in> set (db_reservations d)" by simp
    ultimately show thesis using replayed t reservation_from_row_same by blast
  next
    case Nil
    then obtain v d1 d2 where new: "new_reservation (next_id (map v_id (db_reservations d))) gpu
        (active_assignments d gpu) (isoformat t) t who (normalized_note remark) duration = Inr v"
      and ins: "insert_reservation V5ReservationError v d = Inr d1"
      and ev: "\<exists>e. d2 = d1\<lparr>db_events := db_events d1 @ [e]\<rparr>"
      and re: "reread_reservation (v_id v) d2 = Inr (r, d')"
      and guards: "open_reservations d gpu = []" "length (active_assignments d gpu) \<le> 1"
      using run t
      by (auto simp: request_reservation_def res_timestamp_def Let_def res_event_def insert_event_eq_Inr)
    have d1: "d1 = d\<lparr>db_reservations := db_reservations d @ [v]\<rparr>" "v_id v \<notin> set (map v_id (db_reservations d))"
      using ins by (simp_all add: insert_reservation_eq_Inr)
    have "find_reservation (db_reservations d) (v_id v) = None"
      using d1(2) reservation_table.lookup_SomeD[of "db_reservations d" "v_id v"]
      by (metis image_eqI list.set_map not_None_eq)
    then have "find_reservation (db_reservations d @ [v]) (v_id v) = Some v"
      by (simp add: reservation_table.lookup_append) (simp add: find_reservation_def)
    with ev d1(1) have "find_reservation (db_reservations d2) (v_id v) = Some v" by fastforce
    note read = reread_found[OF this re]
    obtain e where "d2 = d1\<lparr>db_events := db_events d1 @ [e]\<rparr>" using ev ..
    then have "d' = d\<lparr>db_reservations := db_reservations d @ [r], db_events := db_events d @ [e]\<rparr>"
      using read d1 by simp
    with created[OF t Nil _ this] new read guards show thesis by simp
  qed
qed

text \<open>
  (C21) A request never preempts: items are untouched; on a GPU without a lease holder the new reservation is
  active from the requested instant for exactly the requested hours, otherwise it is pending and names
  the holder; either way the GPU is no longer dispatchable, and repeating the request returns the same
  reservation and changes nothing.
\<close>

theorem request_reservation_grants:
  assumes inv: "system_inv d"
    and run: "request_reservation gpu duration remark who requested_at d = Inr (r, d')"
  shows "r \<in> set (db_reservations d') \<and> v_gpu_uuid r = gpu \<and> v_duration_hours r = duration
    \<and> db_items d' = db_items d
    \<and> request_reservation gpu duration remark who requested_at d' = Inr (r, d')
    \<and> (d' \<noteq> d \<longrightarrow> \<not> gpu_dispatchable d' gpu \<and> (case lease_holders d gpu of
          [] \<Rightarrow> v_status r = Res_active \<and> (\<exists>t. parse_time requested_at = Inr t
            \<and> v_starts_at r = Some (isoformat t) \<and> v_expires_at r = Some (isoformat (t + hours_us duration)))
        | i # _ \<Rightarrow> v_status r = Res_pending \<and> v_item_id r = Some (qi_id i)))"
  using run
proof (cases rule: request_cases)
  case replayed
  then obtain t where "filter (same_request gpu (isoformat t) who (normalized_note remark) duration)
      (db_reservations d) = [r]" by blast
  then have "same_request gpu (isoformat t) who (normalized_note remark) duration r"
    by (metis filter_eq_ConsD list.set_intros(1) mem_Collect_eq set_filter)
  with replayed run show ?thesis by (simp add: same_request_def)
next
  case (created t ev)
  have same: "same_request gpu (isoformat t) who (normalized_note remark) duration r"
    using created(3) by (auto simp: new_reservation_def same_request_def Let_def split: list.splits)
  have args: "gpu_uuid_ok gpu" "duration_ok duration" "normalized_note remark \<noteq> []"
    "length (normalized_note remark) \<le> 200" "res_text 256 who"
    using run by (auto simp: request_reservation_def)
  have again: "request_reservation gpu duration remark who requested_at d' = Inr (r, d')"
    using args created(1,2,4,5) same
    by (simp add: request_reservation_def res_timestamp_def)
  have "\<not> gpu_dispatchable d' gpu"
    using created(3,4) by (auto simp: gpu_dispatchable_def open_reservations_def new_reservation_def
        open_status_def Let_def filter_empty_conv split: list.splits)
  moreover have "case lease_holders d gpu of
      [] \<Rightarrow> v_status r = Res_active \<and> (\<exists>t. parse_time requested_at = Inr t
        \<and> v_starts_at r = Some (isoformat t) \<and> v_expires_at r = Some (isoformat (t + hours_us duration)))
    | i # _ \<Rightarrow> v_status r = Res_pending \<and> v_item_id r = Some (qi_id i)"
  proof (cases "lease_holders d gpu")
    case Nil
    then have "active_assignments d gpu = []" by simp
    with Nil created(1,3) show ?thesis
      by (auto simp: new_reservation_def Let_def add_hours_def split: if_splits)
  next
    case (Cons i rest)
    moreover have "rest = []" using created(7) Cons by (simp add: active_assignments_def)
    ultimately have "active_assignments d gpu = [qi_id i]" by (simp add: active_assignments_def)
    with Cons created(3) show ?thesis by (auto simp: new_reservation_def Let_def)
  qed
  ultimately show ?thesis using again same created(4) by (simp add: same_request_def)
qed

section \<open>Releases, round trips and refusals\<close>

text \<open>
  Every UTC instant the service prints is read back unchanged, and normalizing a printed time is the
  identity.
\<close>

theorem printed_time_roundtrip:
  assumes "0 \<le> t" and "t \<le> max_instant"
  shows "res_timestamp (isoformat t) = Inr (isoformat t, t)"
  using parse_time_printed[OF assms] by (simp add: res_timestamp_def)

lemma printed_time_roundtrip_witness: "res_timestamp (isoformat 63829123200000000)
    = Inr (isoformat 63829123200000000, 63829123200000000)"
  using printed_time_roundtrip[of 63829123200000000] by (simp add: max_instant_def)

lemma open_gpu_unique:
  assumes "distinct (open_gpus rows)" and "v \<in> set rows" and "w \<in> set rows"
    and "open_status (v_status v)" and "open_status (v_status w)" and "v_gpu_uuid v = v_gpu_uuid w"
  shows "v = w"
  using assms by (auto simp: open_gpus_def distinct_map dest: inj_onD)

text \<open>
  A release closes the reservation and with it every claim of the GPU by a reservation, leaves the
  reservations of other GPUs and all items alone, and is idempotent.
\<close>

theorem release_reservation_frees:
  assumes inv: "system_inv d" and run: "release_reservation k who released_at d = Inr (r, d')"
  shows "v_id r = k \<and> v_status r = Res_released \<and> r \<in> set (db_reservations d')
    \<and> db_items d' = db_items d
    \<and> release_reservation k who released_at d' = Inr (r, d')
    \<and> (d' \<noteq> d \<longrightarrow> open_reservations d' (v_gpu_uuid r) = [])
    \<and> (\<forall>g. g \<noteq> v_gpu_uuid r \<longrightarrow> open_reservations d' g = open_reservations d g)"
proof -
  obtain t v where t: "parse_time released_at = Inr t"
    and found: "find_reservation (db_reservations d) k = Some v" and read: "reservation_from_row v = Inr v"
    and args: "k > 0" "res_text 256 who"
    using run reservation_from_row_same by (auto simp: release_reservation_def res_timestamp_def)
  have v: "v \<in> set (db_reservations d)" "v_id v = k"
    using reservation_table.lookup_SomeD[OF found] by simp_all
  show ?thesis
  proof (cases "v_status v = Res_released")
    case True
    then have "r = v" "d' = d" using run t found read args
      by (auto simp: release_reservation_def res_timestamp_def)
    with True v run show ?thesis by simp
  next
    case False
    let ?f = "\<lambda>w. w\<lparr>v_status := Res_released, v_released_at := Some (isoformat t), v_released_by := Some who,
       v_state_detail := Some (if v_status v = Res_pending
         then ''released while waiting for the assigned queue item'' else ''released early'')\<rparr>"
    obtain n d1 d2 earliest payload where opn: "open_status (v_status v)"
      and upd: "update_reservations V5ReservationError (\<lambda>w. v_id w = v_id v \<and> open_status (v_status w)) ?f d
        = Inr (n, d1)"
      and ev: "res_event (isoformat t) who ''gpu_reservation_released'' payload d1 = Inr d2"
      and re: "reread_reservation (v_id v) d2 = Inr (r, d')"
      using run t found read args False v(2)
      by (auto simp: release_reservation_def res_timestamp_def)
    have moved: "row_moved d d' v (?f v)" "r = ?f v"
      using transition_moves[OF inv v(1), of "\<lambda>w. open_status (v_status w)" _ ?f, OF opn upd ev re] by simp_all
    obtain e where d': "d' = d\<lparr>db_reservations := replace_row v r (db_reservations d),
        db_events := db_events d @ [e]\<rparr>" and read': "reservation_from_row r = Inr r"
      using moved by (auto simp: row_moved_def)
    have "find_reservation (db_reservations d') k = Some r"
      using update_reservation_row(2)[of "db_reservations d" v "\<lambda>_. True" ?f] v
        inv_reservation_ids[OF inv] moved(2) by (simp add: d')
    then have again: "release_reservation k who released_at d' = Inr (r, d')"
      using args t read' moved(2) by (simp add: release_reservation_def res_timestamp_def)
    have "distinct (open_gpus (db_reservations d))"
      using inv by (simp add: system_inv_def reservations_inv_def)
    then have unique: "x = v" if "x \<in> set (db_reservations d)" "open_status (v_status x)"
        "v_gpu_uuid x = v_gpu_uuid v" for x
      using open_gpu_unique that v(1) opn by metis
    have closed: "v_gpu_uuid r = v_gpu_uuid v" "\<not> open_status (v_status r)"
      by (simp_all add: moved(2) open_status_def)
    have "open_reservations d' (v_gpu_uuid r) = []"
      using unique closed by (auto simp: open_reservations_def filter_empty_conv d' in_replace_row)
    moreover have "open_reservations d' g = open_reservations d g" if "g \<noteq> v_gpu_uuid r" for g
    proof -
      have "filter (\<lambda>w. v_gpu_uuid w = g \<and> open_status (v_status w)) (replace_row v r rows)
          = filter (\<lambda>w. v_gpu_uuid w = g \<and> open_status (v_status w)) rows" for rows
        using that moved(2) by (induction rows) (auto simp: replace_row_def)
      then show ?thesis by (simp add: open_reservations_def d')
    qed
    ultimately show ?thesis using again moved(2) v by (simp add: d' in_replace_row)
  qed
qed

text \<open>
  (C22) A request whose note keeps a control character after whitespace normalization passes the argument
  checks and is refused only when the inserted row is read back, as \<open>V5ReservationEvidenceError\<close>: the
  error that means stored evidence is inconsistent.
\<close>

theorem control_note_blamed_on_evidence:
  assumes inv: "system_inv d" and args: "gpu_uuid_ok gpu" "duration_ok duration" "res_text 256 who"
      "parse_time requested_at = Inr t" "t + hours_us duration \<le> max_instant"
      "safe_integer (next_id (map v_id (db_reservations d)))"
    and remark: "list_ex control_char (normalized_note remark)" "length (normalized_note remark) \<le> 200"
    and gpu: "find_gpu (db_gpus d) gpu = Some g" "g_enabled g" "\<not> g_draining g"
      "open_reservations d gpu = []" "lease_holders d gpu = []"
    and fresh: "filter (same_request gpu (isoformat t) who (normalized_note remark) duration)
      (db_reservations d) = []"
  shows "request_reservation gpu duration remark who requested_at d
    = Inl (V5ReservationEvidenceError, Bad_text)"
proof -
  let ?rows = "db_reservations d" and ?n = "normalized_note remark"
  let ?k = "next_id (map v_id ?rows)"
  define v where "v = \<lparr>v_id = ?k, v_gpu_uuid = gpu, v_item_id = None, v_status = Res_active,
      v_requested_at = isoformat t, v_requested_by = who, v_note = ?n, v_duration_hours = duration,
      v_starts_at = Some (isoformat t), v_expires_at = Some (isoformat (t + hours_us duration)),
      v_released_at = None, v_released_by = None, v_state_detail = None\<rparr>"
  have v: "v_id v = ?k" "v_gpu_uuid v = gpu" "v_item_id v = None" "v_status v = Res_active"
      "v_requested_at v = isoformat t" "v_requested_by v = who" "v_note v = ?n" "v_duration_hours v = duration"
    by (simp_all add: v_def)
  have nonempty: "?n \<noteq> []" "isoformat t \<noteq> []" "who \<noteq> []" "gpu \<noteq> []"
    using remark(1) isoformat_text args(1,3) by (auto simp: res_text_def gpu_uuid_ok_def)
  have none: "active_assignments d gpu = []" using gpu(5) by simp
  have new: "new_reservation ?k gpu [] (isoformat t) t who ?n duration = Inr v"
    using args(5) by (simp add: new_reservation_def add_hours_def Let_def v_def)
  have unused: "?k \<notin> set (map v_id ?rows)"
    using next_id_fresh[of ?k "map v_id ?rows"] by blast
  have "reservation_check v"
    using args(2) remark(2) nonempty next_id_positive
    by (simp add: reservation_check_def duration_ok_def Suc_le_eq v)
  moreover have "gpu \<notin> set (open_gpus ?rows)"
    using gpu(4) by (auto simp: open_gpus_def open_reservations_def filter_empty_conv)
  then have "distinct (open_gpus (?rows @ [v]))"
    using inv by (simp add: open_gpus_def system_inv_def reservations_inv_def v)
  ultimately have ins: "insert_reservation V5ReservationError v d = Inr (d\<lparr>db_reservations := ?rows @ [v]\<rparr>)"
    using unused by (simp add: insert_reservation_eq_Inr null_or_def v)
  have "find_reservation ?rows ?k = None"
    using unused reservation_table.lookup_SomeD[of ?rows ?k] by (metis image_eqI list.set_map not_None_eq)
  then have found: "find_reservation (?rows @ [v]) ?k = Some v"
    by (simp add: reservation_table.lookup_append) (simp add: find_reservation_def v)
  have "parse_time (isoformat t) = Inr t"
    using parse_time_printed parse_time_bounds[OF args(4)] by simp
  then have bad: "reservation_from_row v = Inl (V5ReservationEvidenceError, Bad_text)"
    using args(1,3) remark(1) next_id_positive[of "map v_id ?rows"]
    by (simp add: reservation_from_row_def request_fields_def as_evidence_def res_text_def log_safe_def v
        require_def)
  have safe: "safe_integer duration" using args(2) by (simp add: duration_ok_def safe_integer_def)
  have event: "\<exists>e. res_event (isoformat t) who ''gpu_reservation_requested''
      (JObj [(''reservationId'', JInt ?k), (''gpuUuid'', JStr gpu), (''status'', JStr (status_name Res_active)),
             (''durationHours'', JInt duration), (''waitingForQueueItemId'', json_opt JInt None)])
      (d\<lparr>db_reservations := ?rows @ [v]\<rparr>)
      = Inr (d\<lparr>db_reservations := ?rows @ [v], db_events := db_events d @ [e]\<rparr>)"
    using args(6) nonempty safe
    by (simp add: res_event_def insert_event_def Let_def event_references_ok_def null_or_def new_event_def)
      (rule exI, rule refl)
  then obtain e where event: "res_event (isoformat t) who ''gpu_reservation_requested''
      (JObj [(''reservationId'', JInt ?k), (''gpuUuid'', JStr gpu), (''status'', JStr (status_name Res_active)),
             (''durationHours'', JInt duration), (''waitingForQueueItemId'', json_opt JInt None)])
      (d\<lparr>db_reservations := ?rows @ [v]\<rparr>)
      = Inr (d\<lparr>db_reservations := ?rows @ [v], db_events := db_events d @ [e]\<rparr>)" ..
  have reread: "reread_reservation ?k (d\<lparr>db_reservations := ?rows @ [v], db_events := db_events d @ [e]\<rparr>)
      = Inl (V5ReservationEvidenceError, Bad_text)"
    using found bad by (simp add: reread_reservation_def)
  show ?thesis
    unfolding request_reservation_def res_timestamp_def
    by (simp only: args(1-4) remark(2) nonempty gpu(1-4) fresh none new ins event reread v Let_def list.case
        list.size le0 simp_thms and_then_Inr require_True fetch_Some prod.case option.case)
qed

section \<open>Witnesses\<close>

definition ex_reserved :: reservation_row where
  "ex_reserved = \<lparr>v_id = 1, v_gpu_uuid = ''GPU-b'', v_item_id = None, v_status = Res_active,
     v_requested_at = ex_time, v_requested_by = ''alice'', v_note = ''debugging'', v_duration_hours = 2,
     v_starts_at = Some ex_time, v_expires_at = Some ''2026-03-01T14:00:00+00:00'',
     v_released_at = None, v_released_by = None, v_state_detail = None\<rparr>"

definition ex_reserved_db :: db where
  "ex_reserved_db = (ex_db [ex_running 1 ''GPU-a''])\<lparr>db_reservations := [ex_reserved]\<rparr>"

lemma ex_reserved_inv: "system_inv ex_reserved_db"
  by code_simp

lemma request_reservation_grants_witness:
  "\<exists>r d'. request_reservation ''GPU-a'' 2 ''debugging'' ''alice'' ex_time (ex_db [ex_running 1 ''GPU-a''])
      = Inr (r, d') \<and> v_gpu_uuid r = ''GPU-a''
    \<and> request_reservation ''GPU-a'' 2 ''debugging'' ''alice'' ex_time d' = Inr (r, d')"
proof -
  let ?r = "request_reservation ''GPU-a'' 2 ''debugging'' ''alice'' ex_time (ex_db [ex_running 1 ''GPU-a''])"
  have "succeeds ?r (\<lambda>_. True)" by code_simp
  then obtain r where run: "?r = Inr (r, after ?r)" using succeedsD by blast
  with request_reservation_grants[OF ex_db_invariant(2) run] show ?thesis by blast
qed

lemma release_reservation_frees_witness:
  "\<exists>r d'. release_reservation 1 ''alice'' ''2026-03-01T13:00:00Z'' ex_reserved_db = Inr (r, d')
    \<and> v_status r = Res_released"
proof -
  let ?r = "release_reservation 1 ''alice'' ''2026-03-01T13:00:00Z'' ex_reserved_db"
  have "succeeds ?r (\<lambda>_. True)" by code_simp
  then obtain r where run: "?r = Inr (r, after ?r)" using succeedsD by blast
  with release_reservation_frees[OF ex_reserved_inv run] show ?thesis by blast
qed

lemma reconcile_complete_witness:
  "\<exists>rc d'. reconcile ''2026-03-01T14:00:00Z'' ''scheduler'' ex_reserved_db = Inr (rc, d')
    \<and> rc_expired rc \<noteq> [] \<and> (\<forall>v \<in> set (db_reservations d'). v_status v = Res_active \<longrightarrow>
       (\<exists>t e. v_expires_at v = Some t \<and> parse_time t = Inr e \<and> 63907970400000000 < e))"
proof -
  let ?r = "reconcile ''2026-03-01T14:00:00Z'' ''scheduler'' ex_reserved_db"
  have "succeeds ?r (\<lambda>rc. rc_expired rc \<noteq> [])" by code_simp
  then obtain rc where run: "?r = Inr (rc, after ?r)" and rc: "rc_expired rc \<noteq> []" using succeedsD by blast
  have now: "parse_time ''2026-03-01T14:00:00Z'' = Inr 63907970400000000" by code_simp
  have "\<forall>v \<in> set (db_reservations (after ?r)). v_status v = Res_active \<longrightarrow>
      (\<exists>t e. v_expires_at v = Some t \<and> parse_time t = Inr e \<and> 63907970400000000 < e)"
    by (rule reconcile_complete[OF ex_reserved_inv run now, THEN conjunct1])
  with run rc show ?thesis by blast
qed

lemma control_note_blamed_on_evidence_witness:
  "request_reservation ''GPU-a'' 2 [CHR ''a'', CHR 0x01] ''alice'' ex_time (ex_db [ex_item 1])
     = Inl (V5ReservationEvidenceError, Bad_text)"
  by (rule control_note_blamed_on_evidence[OF ex_db_invariant(1), where t = 63907963200000000
        and g = "ex_gpu ''GPU-a'' ''0''"]) code_simp+

end
