(* ===== verification/Operator_V5.thy ===== *)
theory Operator_V5
  imports Dispatch_V5 Example_V5
begin

text \<open>
  The operator commands of \<open>v5_operator_repository.py\<close> that change state: hold, release, reprioritize
  and remove one queue item, and the GPU allowlist. A command on an item is authorized by an earlier
  read of the item through its Project; \<open>trusted\<close> is the item that read returned, and the transaction
  refuses to act when the row has changed since. The read of the item or of the allowlist that a
  method returns after its transaction has committed changes nothing and is not part of the operation.
\<close>

section \<open>Argument checks and events\<close>

abbreviation op_error :: "reason \<Rightarrow> error" where
  "op_error r \<equiv> (V5OperatorError, r)"

definition op_timestamp_ok :: "string \<Rightarrow> bool" where
  "op_timestamp_ok s = (text_ok 64 s \<and> aware_timestamp s)"

definition priority_ok :: "int \<Rightarrow> bool" where
  "priority_ok n = (- (2 ^ 63) \<le> n \<and> n \<le> 2 ^ 63 - 1)"

definition op_event ::
  "string \<Rightarrow> string \<Rightarrow> string \<Rightarrow> int option \<Rightarrow> int option \<Rightarrow> json \<Rightarrow> db \<Rightarrow> db result" where
  "op_event created_at actor event_type project_id item_id payload d =
    require (project_id = None \<longrightarrow> item_id = None) (op_error Bad_scope)
    (require (null_or (\<lambda>p. p > 0) project_id \<and> null_or (\<lambda>k. k > 0) item_id) (op_error Bad_integer)
    (require (op_timestamp_ok created_at) (op_error Bad_timestamp)
    (require (text_ok 256 actor) (op_error Bad_text)
    (require (text_ok 256 event_type) (op_error Bad_text)
    (require (json_ok 0 payload) (op_error Bad_payload)
    (insert_event V5OperatorError created_at actor event_type
       (if project_id = None then Scope_host else Scope_project) project_id item_id payload d))))))"

section \<open>Commands on one item\<close>

text \<open>\<open>_item_core_tuple_from_row(row) = _item_core_tuple(trusted)\<close>.\<close>

definition same_core :: "queue_item \<Rightarrow> queue_item \<Rightarrow> bool" where
  "same_core i j = (qi_id i = qi_id j \<and> qi_project_id i = qi_project_id j
     \<and> qi_revision_id i = qi_revision_id j \<and> qi_admission_kind i = qi_admission_kind j
     \<and> qi_snapshot_id i = qi_snapshot_id j \<and> qi_job_id i = qi_job_id j
     \<and> qi_experiment_id i = qi_experiment_id j \<and> qi_attempt i = qi_attempt j
     \<and> qi_state i = qi_state j \<and> qi_priority i = qi_priority j \<and> qi_card_path i = qi_card_path j
     \<and> qi_card_sha256 i = qi_card_sha256 j \<and> qi_command_text i = qi_command_text j
     \<and> qi_runner_name i = qi_runner_name j \<and> qi_git_commit i = qi_git_commit j
     \<and> qi_added_at i = qi_added_at j \<and> qi_added_by i = qi_added_by j
     \<and> qi_state_detail i = qi_state_detail j \<and> qi_preemptible i = qi_preemptible j
     \<and> qi_segment i = qi_segment j \<and> qi_resume_front i = qi_resume_front j)"

datatype command = Move_to item_state | Prioritize int

definition moved_item :: "item_state \<Rightarrow> string option \<Rightarrow> string \<Rightarrow> queue_item \<Rightarrow> queue_item" where
  "moved_item target detail stamp i =
    i\<lparr>qi_state := target, qi_state_detail := detail,
      qi_finished_at := (if target = Removed then Some stamp else qi_finished_at i)\<rparr>"

definition apply_command ::
  "command \<Rightarrow> string option \<Rightarrow> string \<Rightarrow> int \<Rightarrow> int \<Rightarrow> queue_item \<Rightarrow> db \<Rightarrow> (json \<times> db) result" where
  "apply_command cmd detail stamp item_id project_id row d = (case cmd of
      Move_to target \<Rightarrow>
        and_then (update_items V5OperatorError (\<lambda>i. qi_id i = item_id \<and> qi_project_id i = project_id)
           (moved_item target detail stamp) d)
         (\<lambda>(_, d1). Inr (JObj [(''oldState'', JStr (state_name (qi_state row))),
             (''newState'', JStr (state_name target)), (''reason'', json_opt JStr detail)], d1))
    | Prioritize priority \<Rightarrow>
        require (qi_priority row \<noteq> priority) (op_error No_change)
        (and_then (update_items V5OperatorError (\<lambda>i. qi_id i = item_id \<and> qi_project_id i = project_id)
           (\<lambda>i. i\<lparr>qi_priority := priority\<rparr>) d)
         (\<lambda>(_, d1). Inr (JObj [(''oldPriority'', JInt (qi_priority row)),
             (''newPriority'', JInt priority)], d1))))"

definition waiting_dependants :: "db \<Rightarrow> int \<Rightarrow> queue_item list" where
  "waiting_dependants d k =
    sort_key qi_id (concat (map (\<lambda>link.
      filter (\<lambda>c. qi_id c = fst link \<and> qi_state c \<in> {Queued, Blocked}) (db_items d))
      (filter (\<lambda>link. snd link = k) (db_dependencies d))))"

definition removed_detail :: "int \<Rightarrow> string" where
  "removed_detail k = ''dependency global queue item '' @ str_int k @ '' was removed''"

definition held_item :: "string \<Rightarrow> queue_item \<Rightarrow> queue_item" where
  "held_item detail i = i\<lparr>qi_state := Held, qi_state_detail := Some detail\<rparr>"

fun hold_dependants :: "int \<Rightarrow> string \<Rightarrow> string \<Rightarrow> queue_item list \<Rightarrow> db \<Rightarrow> (unit \<times> db) result" where
  "hold_dependants k actor stamp [] d = Inr ((), d)"
| "hold_dependants k actor stamp (c # cs) d =
    and_then (update_items V5OperatorError
        (\<lambda>i. qi_id i = qi_id c \<and> qi_project_id i = qi_project_id c) (held_item (removed_detail k)) d)
      (\<lambda>(_, d1). and_then
        (op_event stamp actor ''queue_dependency_held'' (Some (qi_project_id c)) (Some (qi_id c))
           (JObj [(''dependencyQueueItemId'', JInt k), (''reason'', JStr (removed_detail k))]) d1)
        (hold_dependants k actor stamp cs))"

definition mutate_item ::
  "queue_item \<Rightarrow> int \<Rightarrow> int \<Rightarrow> command \<Rightarrow> item_state set \<Rightarrow> string option \<Rightarrow> string \<Rightarrow> string \<Rightarrow> string \<Rightarrow> db
    \<Rightarrow> (unit \<times> db) result" where
  "mutate_item trusted item_id project_id cmd allowed why actor changed_at event_type d =
    require (item_id > 0 \<and> project_id > 0) (op_error Bad_integer)
    (require (text_ok 256 actor) (op_error Bad_text)
    (require (op_timestamp_ok changed_at) (op_error Bad_timestamp)
    (require (null_or (text_ok 4096) why) (op_error Bad_text)
    (fetch (find (\<lambda>i. qi_id i = item_id \<and> qi_project_id i = project_id) (db_items d))
       (V5OperatorNotFoundError, Row_missing) (\<lambda>row.
     require (same_core row trusted) (op_error Stale_evidence)
    (require (qi_state row \<in> allowed) (op_error Wrong_state)
    (and_then (apply_command cmd why changed_at item_id project_id row d) (\<lambda>(payload, d1).
     and_then (op_event changed_at actor event_type (Some project_id) (Some item_id) payload d1) (\<lambda>d2.
     if cmd = Move_to Removed
     then hold_dependants item_id actor changed_at (waiting_dependants d2 item_id) d2
     else Inr ((), d2))))))))))"

definition hold_item ::
  "queue_item \<Rightarrow> int \<Rightarrow> int \<Rightarrow> string \<Rightarrow> string \<Rightarrow> string \<Rightarrow> db \<Rightarrow> (unit \<times> db) result" where
  "hold_item trusted item_id project_id why actor changed_at =
    mutate_item trusted item_id project_id (Move_to Held) {Queued, Blocked} (Some why) actor changed_at
      ''queue_item_held''"

definition release_item ::
  "queue_item \<Rightarrow> int \<Rightarrow> int \<Rightarrow> string \<Rightarrow> string \<Rightarrow> db \<Rightarrow> (unit \<times> db) result" where
  "release_item trusted item_id project_id actor changed_at =
    mutate_item trusted item_id project_id (Move_to Queued) {Held, Blocked} None actor changed_at
      ''queue_item_released''"

definition set_item_priority ::
  "queue_item \<Rightarrow> int \<Rightarrow> int \<Rightarrow> int \<Rightarrow> string \<Rightarrow> string \<Rightarrow> db \<Rightarrow> (unit \<times> db) result" where
  "set_item_priority trusted item_id project_id priority actor changed_at d =
    require (priority_ok priority) (op_error Bad_integer)
    (mutate_item trusted item_id project_id (Prioritize priority)
       {Queued, Held, Blocked, Starting, Running, Yielding} None actor changed_at
       ''queue_item_priority_changed'' d)"

definition remove_item ::
  "queue_item \<Rightarrow> int \<Rightarrow> int \<Rightarrow> string \<Rightarrow> string \<Rightarrow> string \<Rightarrow> db \<Rightarrow> (unit \<times> db) result" where
  "remove_item trusted item_id project_id why actor changed_at =
    mutate_item trusted item_id project_id (Move_to Removed) {Queued, Held, Blocked} (Some why) actor
      changed_at ''queue_item_removed''"

section \<open>The GPU allowlist\<close>

record gpu_entry =
  ge_uuid :: string
  ge_requested_identifier :: string
  ge_last_index :: string
  ge_name :: string
  ge_enabled :: bool
  ge_draining :: bool
  ge_updated_at :: string
  ge_assigned :: "int list"

definition gpu_entry_of :: "db \<Rightarrow> gpu_row \<Rightarrow> gpu_entry result" where
  "gpu_entry_of d g =
    require (text_ok 256 (g_uuid g) \<and> text_ok 256 (g_requested_identifier g)
        \<and> text_ok 64 (g_last_index g) \<and> text_ok 256 (g_name g)) (op_error Bad_text)
    (require (op_timestamp_ok (g_updated_at g)) (op_error Bad_timestamp)
    (Inr \<lparr>ge_uuid = g_uuid g, ge_requested_identifier = g_requested_identifier g,
       ge_last_index = g_last_index g, ge_name = g_name g, ge_enabled = g_enabled g,
       ge_draining = g_draining g, ge_updated_at = g_updated_at g,
       ge_assigned = sort (map qi_id (lease_holders d (g_uuid g)))\<rparr>))"

fun gpu_entries :: "db \<Rightarrow> gpu_row list \<Rightarrow> gpu_entry list result" where
  "gpu_entries d [] = Inr []"
| "gpu_entries d (g # gs) = and_then (gpu_entry_of d g) (\<lambda>e.
     and_then (gpu_entries d gs) (\<lambda>es. Inr (e # es)))"

definition list_gpus :: "db \<Rightarrow> gpu_entry list result" where
  "list_gpus d = gpu_entries d (sort_key (\<lambda>g. (g_last_index g, g_uuid g)) (db_gpus d))"

definition add_gpu ::
  "string \<Rightarrow> string \<Rightarrow> string \<Rightarrow> string \<Rightarrow> string \<Rightarrow> string \<Rightarrow> db \<Rightarrow> (unit \<times> db) result" where
  "add_gpu uuid requested index name actor changed_at d =
    require (text_ok 256 uuid \<and> text_ok 256 requested \<and> text_ok 64 index \<and> text_ok 256 name)
      (op_error Bad_text)
    (require (op_timestamp_ok changed_at) (op_error Bad_timestamp)
    (require (text_ok 256 actor) (op_error Bad_text)
    (require (find_gpu (db_gpus d) uuid = None) (op_error No_change)
    (and_then
      (insert_gpu V5OperatorError
        \<lparr>g_uuid = uuid, g_requested_identifier = requested, g_last_index = index, g_name = name,
         g_enabled = True, g_draining = False, g_updated_at = changed_at\<rparr> d)
      (\<lambda>d1. and_then
        (op_event changed_at actor ''gpu_allowlist_added'' None None
          (JObj [(''gpuUuid'', JStr uuid), (''requestedIdentifier'', JStr requested),
                 (''lastIndex'', JStr index), (''name'', JStr name)]) d1)
        (\<lambda>d2. Inr ((), d2)))))))"

datatype gpu_flag = Enabled_flag | Draining_flag

fun flag_name :: "gpu_flag \<Rightarrow> string" where
  "flag_name Enabled_flag = ''enabled''"
| "flag_name Draining_flag = ''draining''"

fun gpu_flag_value :: "gpu_flag \<Rightarrow> gpu_row \<Rightarrow> bool" where
  "gpu_flag_value Enabled_flag g = g_enabled g"
| "gpu_flag_value Draining_flag g = g_draining g"

fun set_gpu_flag :: "gpu_flag \<Rightarrow> bool \<Rightarrow> string \<Rightarrow> gpu_row \<Rightarrow> gpu_row" where
  "set_gpu_flag Enabled_flag b stamp g = g\<lparr>g_enabled := b, g_updated_at := stamp\<rparr>"
| "set_gpu_flag Draining_flag b stamp g = g\<lparr>g_draining := b, g_updated_at := stamp\<rparr>"

definition transition_gpu ::
  "string \<Rightarrow> gpu_flag \<Rightarrow> bool \<Rightarrow> bool \<Rightarrow> string \<Rightarrow> string \<Rightarrow> string \<Rightarrow> db \<Rightarrow> (unit \<times> db) result" where
  "transition_gpu uuid flag current target actor changed_at event_type d =
    require (text_ok 256 uuid) (op_error Bad_text)
    (require (text_ok 256 actor) (op_error Bad_text)
    (require (op_timestamp_ok changed_at) (op_error Bad_timestamp)
    (fetch (find_gpu (db_gpus d) uuid) (V5OperatorNotFoundError, Row_missing) (\<lambda>row.
     require (gpu_flag_value flag row = current) (op_error No_change)
    (and_then (update_gpus V5OperatorError (\<lambda>g. g_uuid g = uuid) (set_gpu_flag flag target changed_at) d)
      (\<lambda>(_, d1). and_then
        (op_event changed_at actor event_type None None
          (JObj [(''gpuUuid'', JStr uuid), (flag_name flag, JBool target)]) d1)
        (\<lambda>d2. Inr ((), d2))))))))"

definition enable_gpu :: "string \<Rightarrow> string \<Rightarrow> string \<Rightarrow> db \<Rightarrow> (unit \<times> db) result" where
  "enable_gpu uuid actor changed_at =
    transition_gpu uuid Enabled_flag False True actor changed_at ''gpu_allowlist_enabled''"

definition disable_gpu :: "string \<Rightarrow> string \<Rightarrow> string \<Rightarrow> db \<Rightarrow> (unit \<times> db) result" where
  "disable_gpu uuid actor changed_at =
    transition_gpu uuid Enabled_flag True False actor changed_at ''gpu_allowlist_disabled''"

definition drain_gpu :: "string \<Rightarrow> string \<Rightarrow> string \<Rightarrow> db \<Rightarrow> (unit \<times> db) result" where
  "drain_gpu uuid actor changed_at =
    transition_gpu uuid Draining_flag False True actor changed_at ''gpu_allowlist_draining''"

definition undrain_gpu :: "string \<Rightarrow> string \<Rightarrow> string \<Rightarrow> db \<Rightarrow> (unit \<times> db) result" where
  "undrain_gpu uuid actor changed_at =
    transition_gpu uuid Draining_flag True False actor changed_at ''gpu_allowlist_undrained''"

section \<open>Operator commands are quiet\<close>

lemma op_event_eq_Inr [effect_simps]:
  "op_event t actor e p k payload d = Inr d' \<longleftrightarrow>
     (p = None \<longrightarrow> k = None) \<and> null_or (\<lambda>p. p > 0) p \<and> null_or (\<lambda>k. k > 0) k
     \<and> op_timestamp_ok t \<and> text_ok 256 actor \<and> text_ok 256 e \<and> json_ok 0 payload
     \<and> event_references_ok d
         (new_event d t actor e (if p = None then Scope_host else Scope_project) p k payload)
     \<and> d' = d\<lparr>db_events := db_events d
          @ [new_event d t actor e (if p = None then Scope_host else Scope_project) p k payload]\<rparr>"
  by (auto simp: op_event_def insert_event_eq_Inr op_timestamp_ok_def text_ok_def)

lemma quiet_op_event: "op_event t actor e p k payload d = Inr d' \<Longrightarrow> quiet d d'"
  by (auto simp: op_event_def intro: quiet_insert_event)

lemma ensures_op_event [vcg]:
  assumes "quiet d d0" and "\<And>d1. quiet d d1 \<Longrightarrow> ensures (quiet d) (k d1)"
  shows "ensures (quiet d) (and_then (op_event t actor e p i payload d0) k)"
  using assms(1) quiet_op_event assms(2) by (rule ensures_row)

lemma pending_move_wf:
  assumes "item_wf i" and "qi_state j \<in> {Queued, Held, Removed}"
    and "qi_start_ticks j = qi_start_ticks i"
  shows "item_wf j"
proof -
  have "null_or (text_ok 256) (qi_start_ticks j)"
    using assms(1,3) by (simp add: item_wf_def process_wf_def)
  with assms(2) show ?thesis by (auto simp: item_wf_defs)
qed

lemma moved_step:
  assumes "state_edge (qi_state i) target" and "target \<in> {Queued, Held, Removed}"
    and "item_check (moved_item target detail stamp i)"
    and "same_identity i (moved_item target detail stamp i)"
  shows "item_step i (moved_item target detail stamp i)"
  using assms(4,3)
proof (rule item_stepI)
  show "state_reach (qi_state i) (qi_state (moved_item target detail stamp i))"
    using assms(1) by (simp add: moved_item_def)
  show "item_wf (moved_item target detail stamp i)" if "item_wf i"
    using that by (rule pending_move_wf) (use assms(2) in \<open>simp_all add: moved_item_def\<close>)
qed (simp_all add: moved_item_def)

lemma held_step:
  assumes "qi_state i \<in> {Queued, Blocked, Held}" and "item_check (held_item detail i)"
    and "same_identity i (held_item detail i)"
  shows "item_step i (held_item detail i)"
  using assms(3,2)
proof (rule item_stepI)
  have "qi_state i = Held \<or> state_edge (qi_state i) Held" using assms(1) by auto
  then show "state_reach (qi_state i) (qi_state (held_item detail i))"
    by (auto simp: held_item_def)
  show "item_wf (held_item detail i)" if "item_wf i"
    using that by (rule pending_move_wf) (simp_all add: held_item_def)
qed (simp_all add: held_item_def)

lemma priority_step:
  "item_check (i\<lparr>qi_priority := n\<rparr>) \<Longrightarrow> same_identity i (i\<lparr>qi_priority := n\<rparr>) \<Longrightarrow>
     item_step i (i\<lparr>qi_priority := n\<rparr>)"
  by (intro item_stepI) (simp_all add: item_wf_defs)

text \<open>The children that \<open>hold_dependants\<close> holds still wait when their turn comes.\<close>

definition holdable :: "db \<Rightarrow> queue_item list \<Rightarrow> bool" where
  "holdable d cs = (\<forall>c \<in> set cs. \<forall>i \<in> set (db_items d). qi_id i = qi_id c \<longrightarrow>
     qi_state i \<in> {Queued, Blocked, Held})"

lemma holdable_next:
  assumes "holdable d (c # cs)"
    and "db_items d1 = update_rows P (held_item detail) (db_items d)"
  shows "holdable d1 cs"
  using assms by (auto simp: holdable_def set_update_rows held_item_def)

lemma hold_dependants_ConsE:
  assumes "hold_dependants k actor stamp (c # cs) d = Inr (v, d')"
  obtains d2 where "quiet d d2 \<or> \<not> holdable d [c]"
    and "db_items d2 = update_rows (\<lambda>i. qi_id i = qi_id c \<and> qi_project_id i = qi_project_id c)
      (held_item (removed_detail k)) (db_items d)"
    and "db_dependencies d2 = db_dependencies d"
    and "hold_dependants k actor stamp cs d2 = Inr (v, d')"
proof -
  let ?P = "\<lambda>i. qi_id i = qi_id c \<and> qi_project_id i = qi_project_id c"
  from assms obtain n d1 d2 where
    upd: "update_items V5OperatorError ?P (held_item (removed_detail k)) d = Inr (n, d1)" and
    ev: "op_event stamp actor ''queue_dependency_held'' (Some (qi_project_id c)) (Some (qi_id c))
           (JObj [(''dependencyQueueItemId'', JInt k), (''reason'', JStr (removed_detail k))]) d1
         = Inr d2" and
    rest: "hold_dependants k actor stamp cs d2 = Inr (v, d')"
    by auto
  have "quiet d d1" if "holdable d [c]"
    using upd by (rule quiet_update_items, intro held_step)
      (use that in \<open>auto simp: holdable_def\<close>)
  with quiet_op_event[OF ev] have "quiet d d2 \<or> \<not> holdable d [c]" by (blast intro: quiet_trans)
  moreover have "db_items d2 = update_rows ?P (held_item (removed_detail k)) (db_items d)"
    "db_dependencies d2 = db_dependencies d"
    using upd ev by (auto simp: update_items_eq_Inr op_event_eq_Inr)
  ultimately show thesis using rest by (rule that)
qed

lemma hold_dependants_quiet:
  "hold_dependants k actor stamp cs d = Inr (v, d') \<Longrightarrow> holdable d cs \<Longrightarrow> quiet d d'"
proof (induction cs arbitrary: d)
  case (Cons c cs)
  from Cons.prems(1) obtain d2 where d2: "quiet d d2 \<or> \<not> holdable d [c]"
    "db_items d2 = update_rows (\<lambda>i. qi_id i = qi_id c \<and> qi_project_id i = qi_project_id c)
      (held_item (removed_detail k)) (db_items d)" "hold_dependants k actor stamp cs d2 = Inr (v, d')"
    by (rule hold_dependants_ConsE)
  have "holdable d [c]" using Cons.prems(2) by (simp add: holdable_def)
  moreover have "quiet d2 d'"
    using d2(3) holdable_next[OF Cons.prems(2) d2(2)] by (rule Cons.IH)
  ultimately show ?case using d2(1) by (blast intro: quiet_trans)
qed simp

lemma waiting_dependants_iff:
  "c \<in> set (waiting_dependants d k) \<longleftrightarrow> c \<in> set (db_items d) \<and> (qi_id c, k) \<in> set (db_dependencies d)
     \<and> qi_state c \<in> {Queued, Blocked}"
  by (auto simp: waiting_dependants_def)

lemma waiting_holdable:
  assumes "distinct (map qi_id (db_items d))"
  shows "holdable d (waiting_dependants d k)"
  unfolding holdable_def
proof (intro ballI impI)
  fix c i
  assume c: "c \<in> set (waiting_dependants d k)" and i: "i \<in> set (db_items d)" "qi_id i = qi_id c"
  with assms have "i = c" by (simp add: waiting_dependants_iff distinct_map inj_on_def)
  with c show "qi_state i \<in> {Queued, Blocked, Held}" by (auto simp: waiting_dependants_iff)
qed

text \<open>The commands the public methods issue: every allowed state has an edge to the target.\<close>

definition lawful_command :: "command \<Rightarrow> item_state set \<Rightarrow> bool" where
  "lawful_command cmd allowed = (case cmd of Prioritize n \<Rightarrow> True
     | Move_to target \<Rightarrow> target \<in> {Queued, Held, Removed} \<and> (\<forall>s \<in> allowed. state_edge s target))"

lemma apply_command_quiet:
  assumes "apply_command cmd detail stamp k p row d = Inr (payload, d1)"
    and "lawful_command cmd allowed" and "qi_state row \<in> allowed"
    and only: "\<And>i. i \<in> set (db_items d) \<Longrightarrow> qi_id i = k \<Longrightarrow> i = row"
  shows "quiet d d1"
proof (cases cmd)
  case (Move_to target)
  with assms(1) obtain n where
    "update_items V5OperatorError (\<lambda>i. qi_id i = k \<and> qi_project_id i = p)
       (moved_item target detail stamp) d = Inr (n, d1)"
    by (auto simp: apply_command_def)
  then show ?thesis
  proof (rule quiet_update_items, intro moved_step)
    fix i
    assume "i \<in> set (db_items d)" and "qi_id i = k \<and> qi_project_id i = p"
    then have "i = row" by (simp add: only)
    then show "state_edge (qi_state i) target"
      using Move_to assms(2,3) by (simp add: lawful_command_def)
    show "target \<in> {Queued, Held, Removed}"
      using Move_to assms(2) by (simp add: lawful_command_def)
  qed
next
  case (Prioritize m)
  with assms(1) obtain n where
    "update_items V5OperatorError (\<lambda>i. qi_id i = k \<and> qi_project_id i = p)
       (\<lambda>i. i\<lparr>qi_priority := m\<rparr>) d = Inr (n, d1)"
    by (auto simp: apply_command_def)
  then show ?thesis by (rule quiet_update_items) (rule priority_step)
qed

lemma mutate_item_eq_Inr:
  "mutate_item trusted k p cmd allowed why actor t e d = Inr (v, d') \<longleftrightarrow>
    k > 0 \<and> p > 0 \<and> text_ok 256 actor \<and> op_timestamp_ok t \<and> null_or (text_ok 4096) why
    \<and> (\<exists>row payload d1 d2. find (\<lambda>i. qi_id i = k \<and> qi_project_id i = p) (db_items d) = Some row
        \<and> same_core row trusted \<and> qi_state row \<in> allowed
        \<and> apply_command cmd why t k p row d = Inr (payload, d1)
        \<and> op_event t actor e (Some p) (Some k) payload d1 = Inr d2
        \<and> (if cmd = Move_to Removed
           then hold_dependants k actor t (waiting_dependants d2 k) d2 = Inr (v, d') else d' = d2))"
  by (auto simp: mutate_item_def split: if_splits)

lemma mutate_item_quiet:
  assumes "mutate_item trusted k p cmd allowed why actor t e d = Inr (v, d')"
    and "system_inv d" and "lawful_command cmd allowed"
  shows "quiet d d'"
proof -
  from assms(1) obtain row payload d1 d2 where
    row: "find (\<lambda>i. qi_id i = k \<and> qi_project_id i = p) (db_items d) = Some row" "qi_state row \<in> allowed" and
    app: "apply_command cmd why t k p row d = Inr (payload, d1)" and
    ev: "op_event t actor e (Some p) (Some k) payload d1 = Inr d2" and
    last: "if cmd = Move_to Removed
       then hold_dependants k actor t (waiting_dependants d2 k) d2 = Inr (v, d') else d' = d2"
    unfolding mutate_item_eq_Inr by blast
  have only: "i = row" if "i \<in> set (db_items d)" "qi_id i = k" for i
    using inv_ids[OF assms(2)] find_SomeD[OF row(1)] that by (auto simp: distinct_map inj_on_def)
  have "quiet d d1" using app assms(3) row(2) only by (rule apply_command_quiet)
  also have "quiet d1 d2" using ev by (rule quiet_op_event)
  finally have q: "quiet d d2" .
  then have "distinct (map qi_id (db_items d2))" by (intro inv_ids quiet_system_inv[OF _ assms(2)])
  then have "holdable d2 (waiting_dependants d2 k)" by (rule waiting_holdable)
  with q last show ?thesis using hold_dependants_quiet quiet_trans by (metis (full_types))
qed

interpretation holding: quiet_operation "hold_item trusted k p why actor changed_at"
  for trusted k p why actor changed_at
  by unfold_locales (auto simp: hold_item_def lawful_command_def elim!: mutate_item_quiet)

interpretation releasing_item: quiet_operation "release_item trusted k p actor changed_at"
  for trusted k p actor changed_at
  by unfold_locales (auto simp: release_item_def lawful_command_def elim!: mutate_item_quiet)

interpretation prioritizing: quiet_operation "set_item_priority trusted k p n actor changed_at"
  for trusted k p n actor changed_at
  by unfold_locales (auto simp: set_item_priority_def lawful_command_def elim!: mutate_item_quiet)

interpretation removing: quiet_operation "remove_item trusted k p why actor changed_at"
  for trusted k p why actor changed_at
  by unfold_locales (auto simp: remove_item_def lawful_command_def elim!: mutate_item_quiet)

interpretation gpu_adding: quiet_operation "add_gpu uuid requested index label actor changed_at"
  for uuid requested index label actor changed_at
  by (unfold_locales, erule ensuresD[rotated], unfold add_gpu_def, intro vcg)

interpretation gpu_switching: quiet_operation
  "transition_gpu uuid flag current target actor changed_at event_type"
  for uuid flag current target actor changed_at event_type
  by (unfold_locales, erule ensuresD[rotated], unfold transition_gpu_def, intro vcg)

section \<open>Hold and release\<close>

lemma find_owned:
  assumes "system_inv d"
  shows "find (\<lambda>i. qi_id i = k \<and> qi_project_id i = p) (db_items d) = Some row \<longleftrightarrow>
    find_item (db_items d) k = Some row \<and> qi_project_id row = p"
proof
  assume "find (\<lambda>i. qi_id i = k \<and> qi_project_id i = p) (db_items d) = Some row"
  then have "row \<in> set (db_items d)" "qi_id row = k" "qi_project_id row = p"
    by (auto dest: find_SomeD)
  then show "find_item (db_items d) k = Some row \<and> qi_project_id row = p"
    using item_table.lookup_unique[OF inv_ids[OF assms]] by auto
next
  assume r: "find_item (db_items d) k = Some row \<and> qi_project_id row = p"
  then have "row \<in> set (db_items d)" "qi_id row = k" using item_table.lookup_SomeD by auto
  then obtain row' where f: "find (\<lambda>i. qi_id i = k \<and> qi_project_id i = p) (db_items d) = Some row'"
    using r by (cases "find (\<lambda>i. qi_id i = k \<and> qi_project_id i = p) (db_items d)")
      (auto simp: find_None_iff)
  from find_SomeD[OF this] have "row' = row" using r by (auto intro: inv_row[OF assms])
  with f show "find (\<lambda>i. qi_id i = k \<and> qi_project_id i = p) (db_items d) = Some row" by simp
qed

lemma moved_identity: "same_identity i (moved_item target detail stamp i)"
  by (simp add: same_identity_def moved_item_def)

lemma moved_check:
  assumes "item_check i" and "qi_state i \<in> {Queued, Held, Blocked}"
    and "target \<in> {Queued, Held, Removed}"
  shows "item_check (moved_item target detail stamp i)"
proof -
  have "\<not> qi_lease_held i"
    using assms(1,2) by (cases "qi_state i") (simp_all add: item_check_def lease_check_def active_state_def)
  moreover have "\<not> active_state target"
    using assms(3) by (cases target) (simp_all add: active_state_def)
  ultimately have "lease_check (moved_item target detail stamp i)"
    using assms(1) by (simp add: item_check_def lease_check_def moved_item_def)
  moreover have "item_identity_check (moved_item target detail stamp i)"
    using assms(1) identity_check_cong[OF moved_identity] by (simp add: item_check_def)
  moreover have "runtime_column_check (moved_item target detail stamp i)"
    using assms(1) by (simp add: item_check_def runtime_column_check_def moved_item_def)
  ultimately show ?thesis by (simp add: item_check_def)
qed

lemma moved_keeps:
  "qi_id (moved_item target detail stamp i) = qi_id i"
  "qi_project_id (moved_item target detail stamp i) = qi_project_id i"
  by (simp_all add: moved_item_def)

text \<open>The database after a hold or a release: one row moved, one event appended.\<close>

definition moved_db ::
  "item_state \<Rightarrow> string option \<Rightarrow> string \<Rightarrow> string \<Rightarrow> string \<Rightarrow> int \<Rightarrow> int \<Rightarrow> queue_item \<Rightarrow> db \<Rightarrow> db" where
  "moved_db target why t actor e k p row d =
    (let d1 = d\<lparr>db_items := update_rows (\<lambda>i. qi_id i = k \<and> qi_project_id i = p)
                 (moved_item target why t) (db_items d)\<rparr>
     in d1\<lparr>db_events := db_events d @ [new_event d1 t actor e Scope_project (Some p) (Some k)
          (JObj [(''oldState'', JStr (state_name (qi_state row))),
             (''newState'', JStr (state_name target)), (''reason'', json_opt JStr why)])]\<rparr>)"

lemma moved_event_ok:
  assumes "system_inv d" and "find_item (db_items d) k = Some row" and "qi_project_id row = p"
    and "db_projects d1 = db_projects d"
    and "db_items d1 = update_rows (\<lambda>i. qi_id i = k \<and> qi_project_id i = p)
      (moved_item target why t) (db_items d)"
  shows "event_references_ok d1 (new_event d1 t' actor e Scope_project (Some p) (Some k) payload)"
proof -
  obtain pr where "find_project (db_projects d) p = Some pr"
    using inv_project[OF assms(1)] item_table.lookup_SomeD[OF assms(2)] assms(3) by blast
  moreover have "find_item (db_items d1) k = Some (moved_item target why t row)"
    unfolding assms(5) using assms(2,3) by (rule update_one_found) (simp add: moved_item_def)
  ultimately show ?thesis
    using assms(3,4) item_event_ok[of d1 p pr k "moved_item target why t row"]
    by (simp add: moved_item_def)
qed

lemma mutate_move_exact:
  assumes inv: "system_inv d" and "target \<in> {Queued, Held}" and "allowed \<subseteq> {Queued, Held, Blocked}"
    and "text_ok 256 e"
  shows "mutate_item trusted k p (Move_to target) allowed why actor t e d = Inr (v, d') \<longleftrightarrow>
    k > 0 \<and> p > 0 \<and> text_ok 256 actor \<and> op_timestamp_ok t \<and> null_or (text_ok 4096) why
    \<and> (\<exists>row. find_item (db_items d) k = Some row \<and> qi_project_id row = p \<and> same_core row trusted
         \<and> qi_state row \<in> allowed \<and> d' = moved_db target why t actor e k p row d)"
    (is "?L \<longleftrightarrow> ?A \<and> ?B \<and> ?C \<and> ?D \<and> ?E \<and> (\<exists>row. ?R row)")
proof -
  let ?P = "\<lambda>i. qi_id i = k \<and> qi_project_id i = p"
  let ?d1 = "d\<lparr>db_items := update_rows ?P (moved_item target why t) (db_items d)\<rparr>"
  have upd: "update_items V5OperatorError ?P (moved_item target why t) d = Inr (n, d1) \<longleftrightarrow>
      n = 1 \<and> d1 = ?d1"
    if "find_item (db_items d) k = Some row" "qi_project_id row = p" "qi_state row \<in> allowed" for row n d1
  proof -
    have "item_check (moved_item target why t row)"
      using inv_item[OF inv] item_table.lookup_SomeD[OF that(1)] that(3) assms(2,3)
      by (intro moved_check) auto
    from update_one[where x = V5OperatorError and Q = "\<lambda>i. qi_project_id i = p"
        and f = "moved_item target why t", OF inv that(1,2) this moved_identity]
    show ?thesis by auto
  qed
  have step: "(\<exists>payload d1 d2. apply_command (Move_to target) why t k p row d = Inr (payload, d1)
      \<and> op_event t actor e (Some p) (Some k) payload d1 = Inr d2 \<and> d' = d2) \<longleftrightarrow>
      d' = moved_db target why t actor e k p row d"
    if r: "find_item (db_items d) k = Some row" "qi_project_id row = p" "qi_state row \<in> allowed"
      and ok: ?A ?B ?C ?D ?E for row
    using upd[OF r] moved_event_ok[OF inv r(1,2), of ?d1] ok assms(4)
    by (auto simp: apply_command_def op_event_eq_Inr moved_db_def Let_def null_or_def
        split: option.splits)
  have "?L \<longleftrightarrow> ?A \<and> ?B \<and> ?C \<and> ?D \<and> ?E \<and> (\<exists>row. find_item (db_items d) k = Some row
      \<and> qi_project_id row = p \<and> same_core row trusted \<and> qi_state row \<in> allowed
      \<and> (\<exists>payload d1 d2. apply_command (Move_to target) why t k p row d = Inr (payload, d1)
        \<and> op_event t actor e (Some p) (Some k) payload d1 = Inr d2 \<and> d' = d2))"
    using assms(2) unfolding mutate_item_eq_Inr find_owned[OF inv] by auto
  also have "\<dots> \<longleftrightarrow> ?A \<and> ?B \<and> ?C \<and> ?D \<and> ?E \<and> (\<exists>row. ?R row)"
    using step by blast
  finally show ?thesis .
qed

lemma hold_item_eq_Inr:
  assumes "system_inv d"
  shows "hold_item trusted k p why actor t d = Inr (v, d') \<longleftrightarrow>
    k > 0 \<and> p > 0 \<and> text_ok 256 actor \<and> op_timestamp_ok t \<and> text_ok 4096 why
    \<and> (\<exists>row. find_item (db_items d) k = Some row \<and> qi_project_id row = p \<and> same_core row trusted
         \<and> qi_state row \<in> {Queued, Blocked}
         \<and> d' = moved_db Held (Some why) t actor ''queue_item_held'' k p row d)"
proof -
  have "text_ok 256 ''queue_item_held''" by code_simp
  then show ?thesis
    unfolding hold_item_def by (subst mutate_move_exact[OF assms]) (simp_all add: null_or_def)
qed


lemma moved_db_frame:
  "db_projects (moved_db target why t actor e k p row d) = db_projects d"
  "db_revisions (moved_db target why t actor e k p row d) = db_revisions d"
  "db_runtime (moved_db target why t actor e k p row d) = db_runtime d"
  "db_dependencies (moved_db target why t actor e k p row d) = db_dependencies d"
  "db_metadata (moved_db target why t actor e k p row d) = db_metadata d"
  "db_items (moved_db target why t actor e k p row d)
     = update_rows (\<lambda>i. qi_id i = k \<and> qi_project_id i = p) (moved_item target why t) (db_items d)"
  by (simp_all add: moved_db_def Let_def)

lemma release_item_eq_Inr:
  assumes "system_inv d"
  shows "release_item trusted k p actor t d = Inr (v, d') \<longleftrightarrow>
    k > 0 \<and> p > 0 \<and> text_ok 256 actor \<and> op_timestamp_ok t
    \<and> (\<exists>row. find_item (db_items d) k = Some row \<and> qi_project_id row = p \<and> same_core row trusted
         \<and> qi_state row \<in> {Held, Blocked}
         \<and> d' = moved_db Queued None t actor ''queue_item_released'' k p row d)"
proof -
  have "text_ok 256 ''queue_item_released''" by code_simp
  then show ?thesis
    unfolding release_item_def by (subst mutate_move_exact[OF assms]) (simp_all add: null_or_def)
qed

lemma dependencies_cong:
  assumes "db_dependencies d' = db_dependencies d"
    and "list_all2 (\<lambda>i j. qi_id j = qi_id i \<and> (qi_state j = Succeeded \<longleftrightarrow> qi_state i = Succeeded))
      (db_items d) (db_items d')"
  shows "dependencies_satisfied d' k = dependencies_satisfied d k"
proof -
  have "list_all (\<lambda>dep. qi_id dep = n \<longrightarrow> qi_state dep = Succeeded) (db_items d')
      = list_all (\<lambda>dep. qi_id dep = n \<longrightarrow> qi_state dep = Succeeded) (db_items d)" for n
    using assms(2) by (induction rule: list_all2_induct) auto
  with assms(1) show ?thesis by (simp add: dependencies_satisfied_def)
qed

lemma candidate_row_tables_cong:
  assumes "db_projects d' = db_projects d" and "db_revisions d' = db_revisions d"
    and "db_runtime d' = db_runtime d" and "\<And>k. dependencies_satisfied d' k = dependencies_satisfied d k"
  shows "candidate_row d' i = candidate_row d i"
  using assms by (simp add: candidate_row_def split: option.splits)

lemma candidate_row_id: "candidate_row d i = Some c \<Longrightarrow> c_id c = qi_id i"
  by (auto simp: candidate_row_eq_Some candidate_from_row_def)

lemma map_filter_map_eq: "List.map_filter g (map h xs) = List.map_filter (\<lambda>x. g (h x)) xs"
  by (induction xs) (simp_all add: List.map_filter_simps split: option.split)

lemma hold_candidates:
  assumes inv: "system_inv d" and row: "find_item (db_items d) k = Some row" "qi_project_id row = p"
    and pending: "qi_state row \<in> {Queued, Blocked}"
  shows "candidate_query (moved_db Held why t actor e k p row d) = filter (\<lambda>c. c_id c \<noteq> k) (candidate_query d)"
proof -
  let ?P = "\<lambda>i. qi_id i = k \<and> qi_project_id i = p" and ?f = "moved_item Held why t"
  let ?d = "moved_db Held why t actor e k p row d"
  have only: "?P i \<longleftrightarrow> qi_id i = k" "qi_id i = k \<Longrightarrow> i = row" if "i \<in> set (db_items d)" for i
    using inv_row[OF inv row(1) that] row(2) by auto
  have "dependencies_satisfied ?d n = dependencies_satisfied d n" for n
    using only pending by (intro dependencies_cong)
      (auto simp: moved_db_frame moved_item_def intro!: list_all2_update_rows)
  then have same: "candidate_row ?d i = candidate_row d i" for i
    by (intro candidate_row_tables_cong) (simp_all add: moved_db_frame)
  have held: "candidate_row d (?f i) = None" for i
    using candidate_row_SomeD[of d "?f i"] by (cases "candidate_row d (?f i)") (auto simp: moved_item_def)
  have "candidate_row ?d (if ?P i then ?f i else i) = (case candidate_row d i of None \<Rightarrow> None
      | Some c \<Rightarrow> if c_id c \<noteq> k then Some c else None)" if "i \<in> set (db_items d)" for i
    using only[OF that] same held candidate_row_id[of d i] by (auto split: option.splits)
  then have "List.map_filter (candidate_row ?d) (db_items ?d)
      = filter (\<lambda>c. c_id c \<noteq> k) (List.map_filter (candidate_row d) (db_items d))"
    unfolding moved_db_frame update_rows_def map_filter_map_eq by (intro map_filter_restrict) simp
  then show ?thesis by (simp add: candidate_query_def filter_sort)
qed

text \<open>The candidate query does not read the state detail of an item.\<close>

lemma candidate_query_detail:
  assumes tables: "db_projects d' = db_projects d" "db_revisions d' = db_revisions d" "db_runtime d' = db_runtime d"
      "db_dependencies d' = db_dependencies d"
    and items: "db_items d' = map (\<lambda>i. if qi_id i = k then i\<lparr>qi_state_detail := None\<rparr> else i) (db_items d)"
  shows "candidate_query d' = candidate_query d"
proof -
  have "dependencies_satisfied d' n = dependencies_satisfied d n" for n
    using tables(4) by (rule dependencies_cong) (simp add: items list_all2_map2 list_all2_same)
  then have "candidate_row d' i = candidate_row d i" for i
    using tables by (intro candidate_row_tables_cong)
  moreover have "candidate_row d (i\<lparr>qi_state_detail := None\<rparr>) = candidate_row d i" for i
    by (simp add: candidate_row_def candidate_from_row_def split: option.split)
  ultimately have "(\<lambda>i. candidate_row d' (if qi_id i = k then i\<lparr>qi_state_detail := None\<rparr> else i)) = candidate_row d"
    by (intro ext) simp
  then show ?thesis by (simp add: candidate_query_def items map_filter_map_eq)
qed

text \<open>
  (C24) Holding a queued item takes exactly that item out of the dispatch candidates; releasing it, with the item as
  read after the hold as authorization, commits, and the candidate list is then what it was before. The items are
  restored too, but for one column: the hold overwrites the item's state detail with its reason and the release
  clears it, so a detail the queued item had before (an imported item requeued after a yield has one) is lost.
\<close>

theorem hold_release_roundtrip:
  assumes inv: "system_inv d" and row: "find_item (db_items d) k = Some row"
    and queued: "qi_state row = Queued"
    and hold: "hold_item row k p why actor t d = Inr ((), d1)"
  shows "candidate_query d1 = filter (\<lambda>c. c_id c \<noteq> k) (candidate_query d)
    \<and> (\<exists>held. find_item (db_items d1) k = Some held \<and> qi_state held = Held \<and> qi_state_detail held = Some why
        \<and> (\<exists>d2. release_item held k p actor t d1 = Inr ((), d2)
             \<and> db_items d2 = map (\<lambda>i. if qi_id i = k then i\<lparr>qi_state_detail := None\<rparr> else i) (db_items d)
             \<and> candidate_query d2 = candidate_query d))"
proof -
  let ?P = "\<lambda>i. qi_id i = k \<and> qi_project_id i = p"
  let ?clear = "\<lambda>i. if qi_id i = k then i\<lparr>qi_state_detail := None\<rparr> else i"
  have d1: "d1 = moved_db Held (Some why) t actor ''queue_item_held'' k p row d"
    and args: "k > 0" "p > 0" "text_ok 256 actor" "op_timestamp_ok t" and proj: "qi_project_id row = p"
    using hold row unfolding hold_item_eq_Inr[OF inv] by auto
  let ?held = "moved_item Held (Some why) t row"
  have held: "find_item (db_items d1) k = Some ?held"
    unfolding d1 moved_db_frame using row proj by (rule update_one_found) (simp add: moved_item_def)
  have inv1: "system_inv d1"
    using hold inv by (rule holding.keeps_inv)
  define d2 where "d2 = moved_db Queued None t actor ''queue_item_released'' k p ?held d1"
  have freed: "release_item ?held k p actor t d1 = Inr ((), d2)"
    unfolding release_item_eq_Inr[OF inv1] d2_def using args proj held
    by (auto simp: moved_item_def same_core_def)
  have items: "db_items d2 = map ?clear (db_items d)"
    unfolding d2_def d1 moved_db_frame update_rows_def map_map
  proof (rule map_cong[OF refl])
    fix i
    assume i: "i \<in> set (db_items d)"
    show "((\<lambda>r. if ?P r then moved_item Queued None t r else r)
        \<circ> (\<lambda>r. if ?P r then moved_item Held (Some why) t r else r)) i = ?clear i"
    proof (cases "qi_id i = k")
      case True
      with i have "i = row" by (rule inv_row[OF inv row])
      with True proj queued show ?thesis by (simp add: moved_item_def)
    qed simp
  qed
  have "candidate_query d2 = candidate_query d"
    by (rule candidate_query_detail[OF _ _ _ _ items]) (simp_all add: d2_def d1 moved_db_frame)
  moreover have "candidate_query d1 = filter (\<lambda>c. c_id c \<noteq> k) (candidate_query d)"
    unfolding d1 using inv row proj queued by (intro hold_candidates) auto
  ultimately show ?thesis using held freed items by (auto simp: moved_item_def)
qed

definition ex_requeued :: queue_item where
  "ex_requeued = (ex_item 1)\<lparr>qi_state_detail := Some ''resume from verified checkpoint''\<rparr>"

lemma hold_release_roundtrip_witness:
  "\<exists>d1 held d2. hold_item ex_requeued 1 1 ''inspect'' ''operator'' ex_time (ex_db [ex_requeued, ex_item 2]) = Inr ((), d1)
     \<and> map c_id (candidate_query d1) = [2] \<and> release_item held 1 1 ''operator'' ex_time d1 = Inr ((), d2)
     \<and> db_items d2 = [ex_item 1, ex_item 2] \<and> map c_id (candidate_query d2) = [1, 2]"
proof -
  let ?d = "ex_db [ex_requeued, ex_item 2]"
  let ?r = "hold_item ex_requeued 1 1 ''inspect'' ''operator'' ex_time ?d"
  have inv: "system_inv ?d" by code_simp
  have row: "find_item (db_items ?d) 1 = Some ex_requeued" by code_simp
  have queued: "qi_state ex_requeued = Queued" by code_simp
  have run: "?r = Inr ((), after ?r)" by (rule succeeds_value) code_simp
  have "map c_id (filter (\<lambda>c. c_id c \<noteq> 1) (candidate_query ?d)) = [2]" "map c_id (candidate_query ?d) = [1, 2]"
      "map (\<lambda>i. if qi_id i = 1 then i\<lparr>qi_state_detail := None\<rparr> else i) (db_items ?d) = [ex_item 1, ex_item 2]"
    by code_simp+
  note vals = this
  from hold_release_roundtrip[OF inv row queued run] obtain held d2
    where "release_item held 1 1 ''operator'' ex_time (after ?r) = Inr ((), d2)"
      "db_items d2 = [ex_item 1, ex_item 2]" "candidate_query d2 = candidate_query ?d"
    unfolding vals(3) by blast
  with vals run hold_release_roundtrip[OF inv row queued run] show ?thesis
    by (intro exI[of _ "after ?r"] exI[of _ held] exI[of _ d2]) (intro conjI, simp_all)
qed

section \<open>Remove\<close>

lemma update_rows_twice:
  assumes "\<And>i. P i \<Longrightarrow> f (f i) = f i" and "\<And>i. Q (f i) = Q i"
  shows "update_rows Q f (update_rows P f rows) = update_rows (\<lambda>i. P i \<or> Q i) f rows"
  using assms by (induction rows) auto

lemma held_item_keeps:
  "held_item x (held_item x i) = held_item x i" "qi_id (held_item x i) = qi_id i"
  "qi_project_id (held_item x i) = qi_project_id i"
  by (simp_all add: held_item_def)

lemma hold_dependants_items:
  "hold_dependants k actor t cs d = Inr (v, d') \<Longrightarrow> db_items d' =
     update_rows (\<lambda>i. \<exists>c \<in> set cs. qi_id i = qi_id c \<and> qi_project_id i = qi_project_id c)
       (held_item (removed_detail k)) (db_items d)"
proof (induction cs arbitrary: d)
  case Nil
  then show ?case by (simp add: update_rows_def)
next
  case (Cons c cs)
  from Cons.prems obtain d2 where
    "db_items d2 = update_rows (\<lambda>i. qi_id i = qi_id c \<and> qi_project_id i = qi_project_id c)
       (held_item (removed_detail k)) (db_items d)" and "hold_dependants k actor t cs d2 = Inr (v, d')"
    by (rule hold_dependants_ConsE)
  then show ?case using Cons.IH by (simp add: update_rows_twice held_item_keeps)
qed

lemma hold_dependants_deps:
  "hold_dependants k actor t cs d = Inr (v, d') \<Longrightarrow> db_dependencies d' = db_dependencies d"
  by (induction cs arbitrary: d) (simp, metis hold_dependants_ConsE)

text \<open>
  (C25) Removing an item: it was pending and unchanged since it was read, and becomes removed with the
  operator's reason and the time; every queued or blocked item that depends on it is held with a detail
  naming it, so none is left to wait forever; every other item is unchanged.
\<close>

theorem remove_item_holds_dependants:
  assumes inv: "system_inv d" and run: "remove_item trusted k p why actor t d = Inr (v, d')"
  shows "(\<exists>row. find_item (db_items d) k = Some row \<and> same_core row trusted
      \<and> qi_state row \<in> {Queued, Held, Blocked}
      \<and> find_item (db_items d') k = Some (moved_item Removed (Some why) t row))
    \<and> (\<forall>i. qi_id i \<noteq> k \<longrightarrow> find_item (db_items d) (qi_id i) = Some i \<longrightarrow>
        find_item (db_items d') (qi_id i) =
          Some (if (qi_id i, k) \<in> set (db_dependencies d) \<and> qi_state i \<in> {Queued, Blocked}
                then held_item (removed_detail k) i else i))
    \<and> db_dependencies d' = db_dependencies d"
proof -
  let ?P = "\<lambda>i. qi_id i = k \<and> qi_project_id i = p" and ?f = "moved_item Removed (Some why) t"
  from run obtain row payload d1 d2 where
    row: "find ?P (db_items d) = Some row" "same_core row trusted"
      "qi_state row \<in> {Queued, Held, Blocked}" and
    app: "apply_command (Move_to Removed) (Some why) t k p row d = Inr (payload, d1)" and
    ev: "op_event t actor ''queue_item_removed'' (Some p) (Some k) payload d1 = Inr d2" and
    hold: "hold_dependants k actor t (waiting_dependants d2 k) d2 = Inr (v, d')"
    unfolding remove_item_def mutate_item_eq_Inr by auto
  obtain n where upd: "update_items V5OperatorError ?P ?f d = Inr (n, d1)"
    using app by (auto simp: apply_command_def)
  have same: "db_items d2 = db_items d1" "db_dependencies d2 = db_dependencies d1"
    using ev by (auto simp: op_event_eq_Inr)
  have deps: "db_dependencies d2 = db_dependencies d" "db_dependencies d' = db_dependencies d2"
    using upd same hold_dependants_deps[OF hold] by (auto simp: update_items_eq_Inr)
  have found: "find_item (db_items d) k = Some row" "qi_project_id row = p"
    using row(1) find_owned[OF inv] by auto
  have items: "db_items d2 = update_rows ?P ?f (db_items d)"
    using upd same by (simp add: update_items_eq_Inr)
  have row2: "find_item (db_items d2) k = Some (?f row)"
    unfolding items using found by (rule update_one_found) (rule moved_keeps)
  have others2: "find_item (db_items d2) n = find_item (db_items d) n" if "n \<noteq> k" for n
    unfolding items using that by (rule update_one_others) (rule moved_keeps)
  have ids2: "distinct (map qi_id (db_items d2))"
    using inv_ids[OF inv] unfolding items by (simp add: item_table.map_key_update_rows moved_keeps)
  have after: "find_item (db_items d') n = Some (if (n, k) \<in> set (db_dependencies d)
      \<and> qi_state i \<in> {Queued, Blocked} then held_item (removed_detail k) i else i)"
    if f: "find_item (db_items d2) n = Some i" for n i
  proof -
    have "(\<exists>c \<in> set (waiting_dependants d2 k). qi_id i = qi_id c \<and> qi_project_id i = qi_project_id c)
        \<longleftrightarrow> i \<in> set (waiting_dependants d2 k)"
      using item_table.rows_with_key[OF ids2 f] item_table.lookup_SomeD[OF f] waiting_dependants_iff
      by metis
    then show ?thesis
      using f item_table.lookup_SomeD[OF f] deps(1)
      by (simp add: hold_dependants_items[OF hold] find_item_update waiting_dependants_iff held_item_keeps)
  qed
  have "find_item (db_items d') k = Some (?f row)"
    using after[OF row2] by (simp add: moved_item_def)
  moreover have "find_item (db_items d') (qi_id i) =
      Some (if (qi_id i, k) \<in> set (db_dependencies d) \<and> qi_state i \<in> {Queued, Blocked}
            then held_item (removed_detail k) i else i)"
    if "qi_id i \<noteq> k" "find_item (db_items d) (qi_id i) = Some i" for i
    using that others2 by (intro after) simp
  ultimately show ?thesis using row found deps(2)[unfolded deps(1)] by blast
qed

lemma remove_item_holds_dependants_witness:
  "\<exists>d'. remove_item (ex_item 1) 1 1 ''obsolete'' ''operator'' ex_time
         ((ex_db [ex_item 1, ex_item 2, ex_item 3])\<lparr>db_dependencies := [(2, 1)]\<rparr>) = Inr ((), d')
     \<and> find_item (db_items d') 2
         = Some (held_item ''dependency global queue item 1 was removed'' (ex_item 2))
     \<and> find_item (db_items d') 3 = Some (ex_item 3)"
proof -
  let ?d = "(ex_db [ex_item 1, ex_item 2, ex_item 3])\<lparr>db_dependencies := [(2, 1)]\<rparr>"
  let ?r = "remove_item (ex_item 1) 1 1 ''obsolete'' ''operator'' ex_time ?d"
  have inv: "system_inv ?d" by code_simp
  have run: "?r = Inr ((), after ?r)" by (rule succeeds_value) code_simp
  have rows: "qi_id (ex_item 2) = 2" "find_item (db_items ?d) 2 = Some (ex_item 2)" "qi_state (ex_item 2) = Queued"
    "qi_id (ex_item 3) = 3" "find_item (db_items ?d) 3 = Some (ex_item 3)"
    "removed_detail 1 = ''dependency global queue item 1 was removed''"
    by code_simp+
  have all: "\<forall>i. qi_id i \<noteq> 1 \<longrightarrow> find_item (db_items ?d) (qi_id i) = Some i \<longrightarrow>
      find_item (db_items (after ?r)) (qi_id i) =
        Some (if (qi_id i, 1) \<in> set (db_dependencies ?d) \<and> qi_state i \<in> {Queued, Blocked}
              then held_item (removed_detail 1) i else i)"
    using remove_item_holds_dependants[OF inv run] by blast
  have "find_item (db_items (after ?r)) 2 = Some (held_item (removed_detail 1) (ex_item 2))"
    "find_item (db_items (after ?r)) 3 = Some (ex_item 3)"
    using all[rule_format, of "ex_item 2"] all[rule_format, of "ex_item 3"] rows by simp_all
  then show ?thesis using run rows(6) by metis
qed

section \<open>Switching a GPU\<close>

text \<open>
  Draining or disabling a GPU closes it to dispatch and nothing else: no item, lease or reservation
  changes (running work goes on), every other GPU is as dispatchable as before, one event is appended.
\<close>

theorem switch_gates_gpu:
  assumes "transition_gpu uuid flag current target actor changed_at event_type d = Inr ((), d')"
  shows "db_items d' = db_items d \<and> db_reservations d' = db_reservations d
    \<and> (target = (flag = Draining_flag) \<longrightarrow> \<not> gpu_dispatchable d' uuid)
    \<and> (\<forall>gpu. gpu \<noteq> uuid \<longrightarrow> gpu_dispatchable d' gpu = gpu_dispatchable d gpu)
    \<and> length (db_events d') = length (db_events d) + 1"
proof -
  from assms obtain n d1 where
    upd: "update_gpus V5OperatorError (\<lambda>g. g_uuid g = uuid) (set_gpu_flag flag target changed_at) d = Inr (n, d1)"
    and ev: "op_event changed_at actor event_type None None
          (JObj [(''gpuUuid'', JStr uuid), (flag_name flag, JBool target)]) d1 = Inr d'"
    by (auto simp: transition_gpu_def)
  have gpus: "db_gpus d' = update_rows (\<lambda>g. g_uuid g = uuid) (set_gpu_flag flag target changed_at) (db_gpus d)"
    and frame: "db_items d' = db_items d" "db_reservations d' = db_reservations d"
      "length (db_events d') = length (db_events d) + 1"
    using upd ev by (auto simp: update_gpus_eq_Inr op_event_eq_Inr)
  have kept: "g_uuid (set_gpu_flag flag target changed_at g) = g_uuid g" for g by (cases flag) simp_all
  have closed: "\<not> (g_enabled (set_gpu_flag flag target changed_at g)
      \<and> \<not> g_draining (set_gpu_flag flag target changed_at g))" if "target = (flag = Draining_flag)" for g
    using that by (cases flag) simp_all
  have "gpu_dispatchable d' gpu = gpu_dispatchable d gpu" if "gpu \<noteq> uuid" for gpu
    using that kept by (auto simp: gpu_dispatchable_def gpus frame list_ex_iff set_update_rows
        open_reservations_def lease_holders_def)
  moreover have "\<not> gpu_dispatchable d' uuid" if "target = (flag = Draining_flag)"
    using closed[OF that] kept by (auto simp: gpu_dispatchable_def gpus list_ex_iff set_update_rows)
  ultimately show ?thesis using frame by blast
qed

lemma switch_gates_gpu_witness:
  "\<exists>d'. drain_gpu ''GPU-a'' ''operator'' ex_time (ex_db [ex_running 1 ''GPU-a'']) = Inr ((), d')
     \<and> \<not> gpu_dispatchable d' ''GPU-a'' \<and> gpu_dispatchable d' ''GPU-b''
     \<and> db_items d' = [ex_running 1 ''GPU-a'']"
proof -
  let ?d = "ex_db [ex_running 1 ''GPU-a'']"
  let ?r = "drain_gpu ''GPU-a'' ''operator'' ex_time ?d"
  have run: "?r = Inr ((), after ?r)" by (rule succeeds_value) code_simp
  have "gpu_dispatchable ?d ''GPU-b''" "db_items ?d = [ex_running 1 ''GPU-a'']" by code_simp+
  with switch_gates_gpu[OF run[unfolded drain_gpu_def]] run show ?thesis
    by (auto simp: drain_gpu_def)
qed

section \<open>Priorities beyond the safe integers\<close>

lemma priority_check: "item_check (i\<lparr>qi_priority := n\<rparr>) = item_check i"
proof -
  have "same_identity i (i\<lparr>qi_priority := n\<rparr>)" by (simp add: same_identity_def)
  then show ?thesis
    by (simp add: item_check_def identity_check_cong lease_check_def runtime_column_check_def)
qed

text \<open>
  (C26) A priority that the argument check accepts as a signed 64-bit integer but that lies beyond the
  integers canonical JSON can carry is always refused: the audit event of the change cannot be encoded,
  so the command fails although every guard of its own is passed. The same holds for any new priority
  of an item whose present priority is beyond that range.
\<close>

theorem large_priority_refused:
  assumes inv: "system_inv d" and row: "find_item (db_items d) k = Some row" "qi_project_id row = p"
    and guards: "same_core row trusted"
      "qi_state row \<in> {Queued, Held, Blocked, Starting, Running, Yielding}"
      "qi_priority row \<noteq> n" "priority_ok n"
    and args: "p > 0" "text_ok 256 actor" "op_timestamp_ok t"
    and large: "\<not> safe_integer n \<or> \<not> safe_integer (qi_priority row)"
  shows "set_item_priority trusted k p n actor t d = Inl (V5OperatorError, Bad_payload)"
proof -
  let ?P = "\<lambda>i. qi_id i = k \<and> qi_project_id i = p" and ?f = "\<lambda>i. i\<lparr>qi_priority := n\<rparr>"
  have k: "k > 0" "item_check row"
    using inv_item[OF inv] item_table.lookup_SomeD[OF row(1)]
    by (auto simp: item_check_def item_identity_check_def)
  have upd: "update_items V5OperatorError ?P ?f d = Inr (1, d\<lparr>db_items := update_rows ?P ?f (db_items d)\<rparr>)"
    using inv row by (rule update_one) (simp_all add: priority_check k same_identity_def)
  have event: "text_ok 256 ''queue_item_priority_changed''" by code_simp
  have "find ?P (db_items d) = Some row" using find_owned[OF inv] row by simp
  then show ?thesis
    using guards args k large event upd
    by (auto simp: set_item_priority_def mutate_item_def apply_command_def op_event_def null_or_def
        require_def fetch_def and_then_def)
qed

lemma large_priority_refused_witness:
  "priority_ok (2 ^ 60) \<and> set_item_priority (ex_item 1) 1 1 (2 ^ 60) ''operator'' ex_time (ex_db [ex_item 1])
     = Inl (V5OperatorError, Bad_payload)"
proof -
  let ?d = "ex_db [ex_item 1]"
  have row: "system_inv ?d" "find_item (db_items ?d) 1 = Some (ex_item 1)" "qi_project_id (ex_item 1) = 1"
    "same_core (ex_item 1) (ex_item 1)"
    "qi_state (ex_item 1) \<in> {Queued, Held, Blocked, Starting, Running, Yielding}"
    by code_simp+
  have n: "qi_priority (ex_item 1) \<noteq> 2 ^ 60" "priority_ok (2 ^ 60)"
    and args: "(1::int) > 0" "text_ok 256 ''operator''" "op_timestamp_ok ex_time"
    and large: "\<not> safe_integer (2 ^ 60) \<or> \<not> safe_integer (qi_priority (ex_item 1))"
    by code_simp+
  from large_priority_refused[OF row n args large] n(2) show ?thesis by blast
qed

end
