(* ===== verification/Lifecycle_V5.thy ===== *)
theory Lifecycle_V5
  imports Database_V5
begin

text \<open>
  The Project model of \<open>project_lifecycle.py\<close>: the lifecycle of a registered Project, its current
  revision and its health circuit, as the factory functions and methods of \<open>RegisteredProject\<close> and
  \<open>ProjectRuntimeState\<close> compute them. A value that a factory refuses is the error
  \<open>LifecycleValidationError\<close>. A queue-item state is one of the enumerated states, so the check for an
  unknown state name does not arise; text has code points below 256, so it always encodes as UTF-8.
\<close>

section \<open>Argument checks\<close>

abbreviation life_error :: "reason \<Rightarrow> error" where
  "life_error r \<equiv> (LifecycleValidationError, r)"

text \<open>\<open>PROJECT_KEY_PATTERN\<close>: lowercase words joined by single hyphens, the first starting with a letter.\<close>

definition lower_letter :: "char \<Rightarrow> bool" where
  "lower_letter c = (97 \<le> ord c \<and> ord c \<le> 122)"

fun key_tail :: "string \<Rightarrow> bool" where
  "key_tail [] = True"
| "key_tail (c # s) = (if c = CHR ''-''
     then (case s of [] \<Rightarrow> False | e # _ \<Rightarrow> (lower_letter e \<or> is_digit e) \<and> key_tail s)
     else (lower_letter c \<or> is_digit c) \<and> key_tail s)"

definition project_key_ok :: "string \<Rightarrow> bool" where
  "project_key_ok s = (length s \<le> 63 \<and> s \<noteq> [] \<and> lower_letter (hd s) \<and> key_tail (tl s))"

text \<open>A literal pattern in which \<open>9\<close> stands for any digit; the rest of the text after it.\<close>

fun match_digits :: "string \<Rightarrow> string \<Rightarrow> string option" where
  "match_digits [] s = Some s"
| "match_digits (p # ps) [] = None"
| "match_digits (p # ps) (c # s) =
     (if (if p = CHR ''9'' then is_digit c else c = p) then match_digits ps s else None)"

text \<open>\<open>(?:\.[0-9]+)?\<close>, greedy: nothing that follows can start with a digit.\<close>

definition skip_fraction :: "string \<Rightarrow> string" where
  "skip_fraction s = (case s of
      [] \<Rightarrow> s
    | c # r \<Rightarrow> if c = CHR ''.'' \<and> takeWhile is_digit r \<noteq> [] then dropWhile is_digit r else s)"

definition zone_suffix :: "string \<Rightarrow> bool" where
  "zone_suffix s = (s = ''Z'' \<or> match_digits ''+99:99'' s = Some [] \<or> match_digits ''-99:99'' s = Some [])"

definition rfc3339_shape :: "string \<Rightarrow> bool" where
  "rfc3339_shape s = (case match_digits ''9999-99-99T99:99:99'' s of
      None \<Rightarrow> False | Some rest \<Rightarrow> zone_suffix (skip_fraction rest))"

definition clock_fields_ok :: "string \<Rightarrow> bool" where
  "clock_fields_ok s = (digits_value (take 2 (drop 11 s)) \<le> 23 \<and> digits_value (take 2 (drop 14 s)) \<le> 59
     \<and> digits_value (take 2 (drop 17 s)) \<le> 59)"

definition life_timestamp_ok :: "string \<Rightarrow> bool" where
  "life_timestamp_ok s = (text_ok 64 s \<and> rfc3339_shape s \<and> clock_fields_ok s \<and> aware_timestamp s)"

section \<open>Lifecycle transitions\<close>

fun lifecycle_edge :: "lifecycle \<Rightarrow> lifecycle \<Rightarrow> bool" where
  "lifecycle_edge Active t = (t = Paused)"
| "lifecycle_edge Paused t = (t = Active \<or> t = Archived)"
| "lifecycle_edge Archived t = False"

definition archive_blocking :: "item_state \<Rightarrow> bool" where
  "archive_blocking s =
    (s \<in> {Queued, Held, Blocked, Starting, Running, Yielding, Terminating, Force_killing})"

definition validate_lifecycle_transition ::
  "lifecycle \<Rightarrow> lifecycle \<Rightarrow> item_state list \<Rightarrow> bool \<Rightarrow> lifecycle result" where
  "validate_lifecycle_transition current target states incomplete_cleanup =
    require (lifecycle_edge current target)
      (life_error (if target = current \<and> current \<noteq> Archived then No_change else Not_allowed))
    (if target \<noteq> Archived then Inr target
     else require (\<not> list_ex archive_blocking states) (life_error Wrong_state)
       (require (\<not> incomplete_cleanup) (life_error Not_allowed) (Inr target)))"

record project_revision =
  pv_id :: int
  pv_project_id :: int
  pv_project_key :: string
  pv_sequence :: int
  pv_label :: string
  pv_display_name :: string
  pv_git_commit :: string
  pv_created_actor :: string
  pv_created_at :: string

record registered_project =
  rp_id :: int
  rp_key :: string
  rp_display_name :: string
  rp_lifecycle :: lifecycle
  rp_current_revision_id :: int
  rp_current_revision_sequence :: int
  rp_lifecycle_reason :: string
  rp_lifecycle_actor :: string
  rp_lifecycle_changed_at :: string

definition lifecycle_fields :: "string \<Rightarrow> string \<Rightarrow> string \<Rightarrow> 'a result \<Rightarrow> 'a result" where
  "lifecycle_fields why actor changed_at k =
    require (text_ok 4000 why) (life_error Bad_text)
    (require (text_ok 256 actor) (life_error Bad_text)
    (require (life_timestamp_ok changed_at) (life_error Bad_timestamp) k))"

definition project_of_revision ::
  "'r project_revision_scheme \<Rightarrow> lifecycle \<Rightarrow> string \<Rightarrow> string \<Rightarrow> string \<Rightarrow> registered_project" where
  "project_of_revision v state why actor changed_at =
    \<lparr>rp_id = pv_project_id v, rp_key = pv_project_key v, rp_display_name = pv_display_name v,
     rp_lifecycle = state, rp_current_revision_id = pv_id v,
     rp_current_revision_sequence = pv_sequence v, rp_lifecycle_reason = why,
     rp_lifecycle_actor = actor, rp_lifecycle_changed_at = changed_at\<rparr>"

definition register ::
  "'r project_revision_scheme \<Rightarrow> lifecycle \<Rightarrow> string \<Rightarrow> string \<Rightarrow> string \<Rightarrow> registered_project result" where
  "register v state why actor changed_at =
    require (state \<noteq> Archived) (life_error Not_allowed)
    (require (pv_sequence v = 1) (life_error Bad_integer)
    (lifecycle_fields why actor changed_at
       (Inr (project_of_revision v state why actor changed_at))))"

definition adopt_imported_history ::
  "'r project_revision_scheme \<Rightarrow> lifecycle \<Rightarrow> string \<Rightarrow> string \<Rightarrow> string \<Rightarrow> registered_project result" where
  "adopt_imported_history v state why actor changed_at =
    require (pv_sequence v > 1) (life_error Bad_integer)
    (lifecycle_fields why actor changed_at
       (Inr (project_of_revision v state why actor changed_at)))"

definition with_current_revision ::
  "registered_project \<Rightarrow> 'r project_revision_scheme \<Rightarrow> registered_project result" where
  "with_current_revision p v =
    require (rp_lifecycle p \<noteq> Archived) (life_error Not_allowed)
    (require (pv_project_id v = rp_id p \<and> pv_project_key v = rp_key p) (life_error Wrong_identity)
    (require (pv_sequence v > rp_current_revision_sequence p) (life_error Bad_integer)
    (require (pv_id v \<noteq> rp_current_revision_id p) (life_error Wrong_identity)
    (Inr (p\<lparr>rp_display_name := pv_display_name v, rp_current_revision_id := pv_id v,
        rp_current_revision_sequence := pv_sequence v\<rparr>)))))"

definition transition_value ::
  "registered_project \<Rightarrow> lifecycle \<Rightarrow> string \<Rightarrow> string \<Rightarrow> string \<Rightarrow> item_state list \<Rightarrow> bool
    \<Rightarrow> registered_project result" where
  "transition_value p target why actor changed_at states incomplete_cleanup =
    and_then (validate_lifecycle_transition (rp_lifecycle p) target states incomplete_cleanup)
      (\<lambda>state. lifecycle_fields why actor changed_at
        (Inr (p\<lparr>rp_lifecycle := state, rp_lifecycle_reason := why, rp_lifecycle_actor := actor,
           rp_lifecycle_changed_at := changed_at\<rparr>)))"

definition admission_allowed :: "registered_project \<Rightarrow> bool" where
  "admission_allowed p = (rp_lifecycle p \<noteq> Archived)"

definition revision_creation_allowed :: "registered_project \<Rightarrow> bool" where
  "revision_creation_allowed p = (rp_lifecycle p \<noteq> Archived)"

definition dispatch_allowed_by_lifecycle :: "registered_project \<Rightarrow> bool" where
  "dispatch_allowed_by_lifecycle p = (rp_lifecycle p = Active)"

section \<open>The health circuit\<close>

record runtime_state =
  hs_project_id :: int
  hs_project_key :: string
  hs_health :: health
  hs_failure_count :: int
  hs_reason :: string
  hs_actor :: string
  hs_changed_at :: string

definition create_runtime_state ::
  "int \<Rightarrow> string \<Rightarrow> health \<Rightarrow> int \<Rightarrow> string \<Rightarrow> string \<Rightarrow> string \<Rightarrow> runtime_state result" where
  "create_runtime_state project_id project_key health count why actor changed_at =
    require (count \<ge> 0) (life_error Bad_integer)
    (require (health = Open \<longrightarrow> count \<noteq> 0) (life_error Bad_integer)
    (require (project_id > 0) (life_error Bad_integer)
    (require (project_key_ok project_key) (life_error Bad_text)
    (lifecycle_fields why actor changed_at
      (Inr \<lparr>hs_project_id = project_id, hs_project_key = project_key, hs_health = health,
         hs_failure_count = count, hs_reason = why, hs_actor = actor,
         hs_changed_at = changed_at\<rparr>)))))"

definition blocks_dispatch :: "runtime_state \<Rightarrow> bool" where
  "blocks_dispatch h = (hs_health h = Open)"

definition record_failure ::
  "runtime_state \<Rightarrow> string \<Rightarrow> string \<Rightarrow> string \<Rightarrow> bool \<Rightarrow> runtime_state result" where
  "record_failure h why actor changed_at open_circuit =
    create_runtime_state (hs_project_id h) (hs_project_key h)
      (if open_circuit then Open else hs_health h) (hs_failure_count h + 1) why actor changed_at"

definition close_circuit :: "runtime_state \<Rightarrow> string \<Rightarrow> string \<Rightarrow> string \<Rightarrow> runtime_state result" where
  "close_circuit h why actor changed_at =
    create_runtime_state (hs_project_id h) (hs_project_key h) Closed 0 why actor changed_at"

definition dispatch_allowed :: "registered_project \<Rightarrow> runtime_state \<Rightarrow> bool result" where
  "dispatch_allowed p h =
    require (hs_project_id h = rp_id p \<and> hs_project_key h = rp_key p) (life_error Wrong_identity)
    (Inr (dispatch_allowed_by_lifecycle p \<and> \<not> blocks_dispatch h))"

section \<open>Facts\<close>

lemma archive_blocking_iff: "archive_blocking s \<longleftrightarrow> \<not> terminal_state s"
  by (cases s) (simp_all add: archive_blocking_def terminal_state_def)

lemma validate_eq_Inr [effect_simps]:
  "validate_lifecycle_transition current target states incomplete = Inr r \<longleftrightarrow>
     lifecycle_edge current target \<and> r = target
     \<and> (target = Archived \<longrightarrow> list_all terminal_state states \<and> \<not> incomplete)"
  by (auto simp: validate_lifecycle_transition_def archive_blocking_iff list_ex_iff list_all_iff
      split: if_splits)

lemma lifecycle_fields_eq_Inr [effect_simps]:
  "lifecycle_fields why actor t k = Inr r \<longleftrightarrow>
     text_ok 4000 why \<and> text_ok 256 actor \<and> life_timestamp_ok t \<and> k = Inr r"
  by (simp add: lifecycle_fields_def)

lemma lifecycle_edge_irrefl: "lifecycle_edge s t \<Longrightarrow> s \<noteq> t \<and> s \<noteq> Archived"
  by (cases s; cases t) simp_all

lemma life_timestamp_text: "life_timestamp_ok t \<Longrightarrow> t \<noteq> []"
  by (simp add: life_timestamp_ok_def text_ok_def)

lemma life_timestamp_event: "life_timestamp_ok t \<Longrightarrow> text_ok 64 t \<and> aware_timestamp t"
  by (simp add: life_timestamp_ok_def)

end
