(* ===== verification/Projects_V5.thy ===== *)
theory Projects_V5
  imports Lifecycle_V5 Dispatch_V5 Example_V5
begin

text \<open>
  The Project registry of \<open>v5_repository.py\<close>: registering a Project with its first revision, appending
  and activating revisions, lifecycle transitions, the health circuit, and the typed view every method
  returns from inside its transaction.

  Stored source bytes, digests and schemas are re-verified whenever a revision is loaded
  (\<open>Project.from_yaml\<close>, \<open>ProjectRevision.from_recorded_evidence\<close>, the check of the child rows and of
  the host paths). That verification needs a YAML parser and the file system; it is the argument
  \<open>verify\<close>, which gives the Project key that the evidence of a revision row declares, or nothing when
  the evidence is refused. \<open>sha1\<close> and \<open>sha256\<close> are the digests, \<open>paths_current\<close> the outcome of
  \<open>Enrollment.validate_current_paths\<close>, \<open>state_dir\<close> the resolved state directory.
\<close>

abbreviation repo_error :: "reason \<Rightarrow> error" where
  "repo_error r \<equiv> (V5RepositoryError, r)"

abbreviation evidence_error :: "reason \<Rightarrow> error" where
  "evidence_error r \<equiv> (V5EvidenceError, r)"

text \<open>\<open>except (...) as exc: raise x(...) from exc\<close>.\<close>

definition reraise :: "exn \<Rightarrow> 'a result \<Rightarrow> 'a result" where
  "reraise x m = (case m of Inl (_, r) \<Rightarrow> Inl (x, r) | Inr v \<Rightarrow> Inr v)"

declare reraise_def [code_unfold]

lemma reraise_eq_Inr [simp]: "reraise x m = Inr v \<longleftrightarrow> m = Inr v"
  by (auto simp: reraise_def split: sum.splits)

type_synonym verifier = "db \<Rightarrow> revision_row \<Rightarrow> string option"

definition repo_timestamp_ok :: "string \<Rightarrow> bool" where
  "repo_timestamp_ok s = (text_ok 64 s \<and> aware_timestamp s)"

definition repo_event ::
  "string \<Rightarrow> string \<Rightarrow> string \<Rightarrow> failure_scope \<Rightarrow> int option \<Rightarrow> int option \<Rightarrow> json \<Rightarrow> db \<Rightarrow> db result" where
  "repo_event created_at actor event_type scope project_id item_id payload d =
    require (repo_timestamp_ok created_at) (repo_error Bad_timestamp)
    (require (text_ok 256 actor) (repo_error Bad_text)
    (require (text_ok 256 event_type) (repo_error Bad_text)
    (require (if scope = Scope_host then project_id = None \<and> item_id = None
              else (case project_id of None \<Rightarrow> False | Some p \<Rightarrow> p > 0) \<and> null_or (\<lambda>k. k > 0) item_id)
       (repo_error Bad_scope)
    (require (json_ok 0 payload) (repo_error Bad_payload)
    (insert_event V5RepositoryError created_at actor event_type scope project_id item_id payload d)))))"

section \<open>Reading a Project\<close>

definition revision_label :: "string \<Rightarrow> int \<Rightarrow> string" where
  "revision_label key sequence = key @ '':r'' @ str_int sequence"

definition load_revision :: "verifier \<Rightarrow> db \<Rightarrow> int \<Rightarrow> project_revision result" where
  "load_revision verify d revision_id =
    require (revision_id > 0) (repo_error Bad_integer)
    (fetch (find_revision (db_revisions d) revision_id) (V5NotFoundError, Row_missing) (\<lambda>r.
     require (r_kind r = Project_v1) (evidence_error Corrupt_evidence)
    (fetch (r_git_commit r) (evidence_error Corrupt_evidence) (\<lambda>commit.
     fetch (verify d r) (evidence_error Corrupt_evidence) (\<lambda>key.
     require (r_label r = revision_label key (r_sequence r)) (evidence_error Corrupt_evidence)
    (Inr \<lparr>pv_id = r_id r, pv_project_id = r_project_id r, pv_project_key = key,
       pv_sequence = r_sequence r, pv_label = r_label r, pv_display_name = r_display_name r,
       pv_git_commit = commit, pv_created_actor = r_created_actor r,
       pv_created_at = r_created_at r\<rparr>))))))"

definition load_runtime_state :: "db \<Rightarrow> int \<Rightarrow> string \<Rightarrow> runtime_state result" where
  "load_runtime_state d project_id project_key =
    fetch (find_runtime (db_runtime d) project_id) (evidence_error Row_missing) (\<lambda>r.
      reraise V5EvidenceError (create_runtime_state project_id project_key (rs_health r)
        (rs_failure_count r) (rs_reason r) (rs_actor r) (rs_changed_at r)))"

definition project_states :: "db \<Rightarrow> int \<Rightarrow> item_state list" where
  "project_states d project_id =
    map qi_state (sort_key qi_id (filter (\<lambda>i. qi_project_id i = project_id) (db_items d)))"

definition cleanup_incomplete :: "db \<Rightarrow> int \<Rightarrow> bool" where
  "cleanup_incomplete d project_id =
    list_ex (\<lambda>i. qi_project_id i = project_id \<and> cleanup_pending i) (db_items d)"

text \<open>The first revision, or the first typed one of a Project whose history was imported.\<close>

definition first_typed_revision :: "verifier \<Rightarrow> db \<Rightarrow> int \<Rightarrow> (bool \<times> project_revision) result" where
  "first_typed_revision verify d project_id =
    fetch (find (\<lambda>r. r_project_id r = project_id \<and> r_sequence r = 1) (db_revisions d))
      (evidence_error Row_missing) (\<lambda>first.
      if r_kind first = Legacy_v4 then
        fetch (find (\<lambda>r. True) (sort_key r_sequence
                (filter (\<lambda>r. r_project_id r = project_id \<and> r_kind r = Project_v1) (db_revisions d))))
          (evidence_error Row_missing)
          (\<lambda>typed. and_then (load_revision verify d (r_id typed)) (\<lambda>v. Inr (True, v)))
      else and_then (load_revision verify d (r_id first)) (\<lambda>v. Inr (False, v)))"

definition rehydrate ::
  "bool \<Rightarrow> project_revision \<Rightarrow> project_revision \<Rightarrow> project_row \<Rightarrow> item_state list \<Rightarrow> bool
    \<Rightarrow> registered_project result" where
  "rehydrate imported first current row states incomplete =
    (let initial = (if p_lifecycle row = Archived then Paused else p_lifecycle row);
         why = p_lifecycle_reason row; actor = p_lifecycle_actor row;
         changed_at = p_lifecycle_changed_at row in
     and_then (if imported then adopt_imported_history first initial why actor changed_at
               else register first initial why actor changed_at) (\<lambda>p.
     and_then (if pv_id current \<noteq> pv_id first then with_current_revision p current else Inr p) (\<lambda>q.
     if p_lifecycle row = Archived
     then transition_value q Archived why actor changed_at states incomplete
     else Inr q)))"

definition project_from_row :: "verifier \<Rightarrow> db \<Rightarrow> project_row \<Rightarrow> registered_project result" where
  "project_from_row verify d row =
    and_then (first_typed_revision verify d (p_id row)) (\<lambda>(imported, first).
    fetch (find (\<lambda>r. r_id r = p_current_revision_id row \<and> r_project_id r = p_id row) (db_revisions d))
      (evidence_error Row_missing) (\<lambda>current_row.
    require (r_kind current_row = Project_v1) (evidence_error Corrupt_evidence)
    (and_then (if pv_id first = p_current_revision_id row then Inr first
               else load_revision verify d (p_current_revision_id row)) (\<lambda>current.
     and_then (reraise V5EvidenceError (rehydrate imported first current row
         (project_states d (p_id row)) (cleanup_incomplete d (p_id row)))) (\<lambda>p.
     require (rp_key p = p_key row \<and> rp_display_name p = p_display_name row
         \<and> rp_lifecycle p = p_lifecycle row
         \<and> rp_current_revision_id p = p_current_revision_id row
         \<and> rp_current_revision_sequence p = p_current_revision_sequence row)
       (evidence_error Corrupt_evidence)
     (Inr p))))))"

record project_view =
  pw_project :: registered_project
  pw_runtime :: runtime_state
  pw_revision :: project_revision
  pw_counts :: "(string \<times> nat) list"

definition queue_counts :: "db \<Rightarrow> int \<Rightarrow> (string \<times> nat) list" where
  "queue_counts d project_id =
    (let names = map state_name (project_states d project_id) in
     map (\<lambda>n. (n, count_list names n)) (remdups (sort names)))"

definition project_view_from_row :: "verifier \<Rightarrow> db \<Rightarrow> project_row \<Rightarrow> project_view result" where
  "project_view_from_row verify d row =
    and_then (project_from_row verify d row) (\<lambda>p.
    and_then (load_runtime_state d (rp_id p) (rp_key p)) (\<lambda>h.
    and_then (load_revision verify d (rp_current_revision_id p)) (\<lambda>v.
    Inr \<lparr>pw_project = p, pw_runtime = h, pw_revision = v, pw_counts = queue_counts d (rp_id p)\<rparr>)))"

definition select_project_row :: "db \<Rightarrow> int \<Rightarrow> project_row result" where
  "select_project_row d project_id =
    require (project_id > 0) (repo_error Bad_integer)
    (fetch (find_project (db_projects d) project_id) (V5NotFoundError, Row_missing) Inr)"

definition view_dispatch_allowed :: "project_view \<Rightarrow> bool result" where
  "view_dispatch_allowed w = dispatch_allowed (pw_project w) (pw_runtime w)"

fun read_views :: "verifier \<Rightarrow> db \<Rightarrow> project_row list \<Rightarrow> project_view list result" where
  "read_views verify d [] = Inr []"
| "read_views verify d (r # rs) = and_then (project_view_from_row verify d r) (\<lambda>w.
     and_then (read_views verify d rs) (\<lambda>ws. Inr (w # ws)))"

definition list_projects :: "verifier \<Rightarrow> db \<Rightarrow> project_view list result" where
  "list_projects verify d = read_views verify d (sort_key p_key (db_projects d))"

definition get_project :: "verifier \<Rightarrow> int option \<Rightarrow> string option \<Rightarrow> db \<Rightarrow> project_view result" where
  "get_project verify project_id project_key d = (case (project_id, project_key) of
      (Some k, None) \<Rightarrow> and_then (select_project_row d k) (project_view_from_row verify d)
    | (None, Some key) \<Rightarrow>
        require (text_ok 63 key) (repo_error Bad_text)
        (fetch (find (\<lambda>p. p_key p = key) (db_projects d)) (V5NotFoundError, Row_missing)
          (project_view_from_row verify d))
    | _ \<Rightarrow> Inl (repo_error Bad_argument))"

text \<open>The end of a write: the view is read, then the transaction commits with its deferred constraint.\<close>

definition commit_view :: "verifier \<Rightarrow> int \<Rightarrow> db \<Rightarrow> (project_view \<times> db) result" where
  "commit_view verify project_id d =
    and_then (select_project_row d project_id) (\<lambda>row.
    and_then (project_view_from_row verify d row) (\<lambda>w.
    require (current_revisions_ok d) (repo_error Constraint_violated)
    (Inr (w, d))))"

section \<open>Lifecycle and health\<close>

definition transition_project ::
  "verifier \<Rightarrow> int \<Rightarrow> lifecycle \<Rightarrow> string \<Rightarrow> string \<Rightarrow> string \<Rightarrow> db \<Rightarrow> (project_view \<times> db) result" where
  "transition_project verify project_id target why actor changed_at d =
    and_then (select_project_row d project_id) (\<lambda>row.
    and_then (project_from_row verify d row) (\<lambda>p.
    and_then (reraise V5RepositoryError (transition_value p target why actor changed_at
        (project_states d (rp_id p)) (cleanup_incomplete d (rp_id p)))) (\<lambda>q.
    and_then (update_projects V5RepositoryError Lifecycle_columns (\<lambda>r. p_id r = rp_id q)
        (\<lambda>r. r\<lparr>p_lifecycle := rp_lifecycle q, p_lifecycle_reason := rp_lifecycle_reason q,
           p_lifecycle_actor := rp_lifecycle_actor q,
           p_lifecycle_changed_at := rp_lifecycle_changed_at q\<rparr>) d) (\<lambda>(_, d1).
    and_then (repo_event (rp_lifecycle_changed_at q) (rp_lifecycle_actor q) ''project_lifecycle_changed''
        Scope_project (Some (rp_id q)) None
        (JObj [(''from'', JStr (lifecycle_name (rp_lifecycle p))),
               (''to'', JStr (lifecycle_name (rp_lifecycle q))),
               (''reason'', JStr (rp_lifecycle_reason q))]) d1)
      (commit_view verify (rp_id p))))))"

text \<open>\<open>UPDATE projects SET current_revision_id, current_revision_sequence, display_name\<close>.\<close>

definition set_current_revision :: "registered_project \<Rightarrow> db \<Rightarrow> (nat \<times> db) result" where
  "set_current_revision q =
    update_projects V5RepositoryError Revision_columns (\<lambda>r. p_id r = rp_id q)
      (\<lambda>r. r\<lparr>p_current_revision_id := rp_current_revision_id q,
         p_current_revision_sequence := rp_current_revision_sequence q,
         p_display_name := rp_display_name q\<rparr>)"

definition revision_payload :: "'r project_revision_scheme \<Rightarrow> bool \<Rightarrow> (string \<times> json) list" where
  "revision_payload v activated =
    [(''revisionId'', JInt (pv_id v)), (''revisionLabel'', JStr (pv_label v)),
     (''sequence'', JInt (pv_sequence v)), (''activated'', JBool activated)]"

definition activate_revision ::
  "verifier \<Rightarrow> int \<Rightarrow> int \<Rightarrow> string \<Rightarrow> string \<Rightarrow> db \<Rightarrow> (project_view \<times> db) result" where
  "activate_revision verify project_id revision_id actor changed_at d =
    require (repo_timestamp_ok changed_at) (repo_error Bad_timestamp)
    (require (text_ok 256 actor) (repo_error Bad_text)
    (and_then (select_project_row d project_id) (\<lambda>row.
     and_then (project_from_row verify d row) (\<lambda>p.
     and_then (load_revision verify d revision_id) (\<lambda>v.
     and_then (reraise V5RepositoryError (with_current_revision p v)) (\<lambda>q.
     and_then (set_current_revision q d) (\<lambda>(_, d1).
     and_then (repo_event changed_at actor ''project_revision_activated'' Scope_project
         (Some (rp_id p)) None (JObj (revision_payload v True)) d1)
       (commit_view verify (rp_id p)))))))))"

definition update_runtime_state :: "runtime_state \<Rightarrow> db \<Rightarrow> db result" where
  "update_runtime_state h d =
    and_then (update_runtime V5RepositoryError (\<lambda>r. rs_project_id r = hs_project_id h)
      (\<lambda>r. r\<lparr>rs_health := hs_health h, rs_failure_count := hs_failure_count h,
         rs_reason := hs_reason h, rs_actor := hs_actor h, rs_changed_at := hs_changed_at h\<rparr>) d)
      (\<lambda>(n, d1). require (n = 1) (evidence_error Lost_update) (Inr d1))"

fun health_text :: "health \<Rightarrow> string" where
  "health_text Closed = ''closed''"
| "health_text Open = ''open''"

definition write_circuit ::
  "verifier \<Rightarrow> int \<Rightarrow> (runtime_state \<Rightarrow> runtime_state result) \<Rightarrow> string \<Rightarrow> db
    \<Rightarrow> (project_view \<times> db) result" where
  "write_circuit verify project_id change event_type d =
    and_then (select_project_row d project_id) (\<lambda>row.
    and_then (project_from_row verify d row) (\<lambda>p.
    and_then (load_runtime_state d (rp_id p) (rp_key p)) (\<lambda>current.
    and_then (reraise V5RepositoryError (change current)) (\<lambda>h.
    and_then (update_runtime_state h d) (\<lambda>d1.
    and_then (repo_event (hs_changed_at h) (hs_actor h) event_type Scope_project (Some (rp_id p)) None
        (JObj [(''health'', JStr (health_text (hs_health h))),
               (''failureCount'', JInt (hs_failure_count h)), (''reason'', JStr (hs_reason h))]) d1)
      (commit_view verify (rp_id p)))))))"

definition record_project_failure ::
  "verifier \<Rightarrow> int \<Rightarrow> string \<Rightarrow> string \<Rightarrow> string \<Rightarrow> bool \<Rightarrow> db \<Rightarrow> (project_view \<times> db) result" where
  "record_project_failure verify project_id why actor changed_at open_circuit =
    write_circuit verify project_id (\<lambda>h. record_failure h why actor changed_at open_circuit)
      ''project_failure_recorded''"

definition repo_close_project_circuit ::
  "verifier \<Rightarrow> int \<Rightarrow> string \<Rightarrow> string \<Rightarrow> string \<Rightarrow> db \<Rightarrow> (project_view \<times> db) result" where
  "repo_close_project_circuit verify project_id why actor changed_at =
    write_circuit verify project_id (\<lambda>h. close_circuit h why actor changed_at)
      ''project_circuit_closed''"

definition record_event ::
  "string \<Rightarrow> string \<Rightarrow> string \<Rightarrow> failure_scope \<Rightarrow> json \<Rightarrow> int option \<Rightarrow> int option \<Rightarrow> db
    \<Rightarrow> (event_row \<times> db) result" where
  "record_event created_at actor event_type scope payload project_id item_id d =
    and_then (repo_event created_at actor event_type scope project_id item_id payload d)
      (\<lambda>d1. Inr (last (db_events d1), d1))"

definition list_events ::
  "int option \<Rightarrow> int option \<Rightarrow> int \<Rightarrow> int \<Rightarrow> db \<Rightarrow> event_row list result" where
  "list_events project_id item_id after_id limit d =
    require (after_id \<ge> 0) (repo_error Bad_integer)
    (require (1 \<le> limit \<and> limit \<le> 10000) (repo_error Bad_integer)
    (require (null_or (\<lambda>k. k > 0) project_id) (repo_error Bad_integer)
    (require (null_or (\<lambda>k. k > 0) item_id) (repo_error Bad_integer)
    (Inr (take (nat limit) (sort_key e_id (filter (\<lambda>e. e_id e > after_id
        \<and> (project_id \<noteq> None \<longrightarrow> e_project_id e = project_id)
        \<and> (item_id \<noteq> None \<longrightarrow> e_item_id e = item_id)) (db_events d))))))))"

section \<open>Roots of a revision\<close>

definition in_parents :: "string \<Rightarrow> string \<Rightarrow> bool" where
  "in_parents a b = strict_prefix (path_parts a) (path_parts b)"

definition same_path :: "string \<Rightarrow> string \<Rightarrow> bool" where
  "same_path a b = (path_parts a = path_parts b)"

definition paths_overlap :: "string \<Rightarrow> string \<Rightarrow> bool" where
  "paths_overlap a b = (same_path a b \<or> in_parents a b \<or> in_parents b a)"

record volume =
  vo_name :: string
  vo_access :: access
  vo_required :: bool

record mount_binding =
  mb_name :: string
  mb_path :: string
  mb_access :: access

record environment_binding =
  eb_name :: string
  eb_search_directories :: "string list"
  eb_command_prefix :: "string list option"
  eb_inherit_variables :: "string list"

record enrolled_revision = project_revision +
  er_sources :: project_sources
  er_volumes :: "volume list"
  er_checkout :: string
  er_mounts :: "mount_binding list"
  er_artifact_roots :: "string list"
  er_environments :: "environment_binding list"
  er_ignored :: "string list"

definition revision_roots :: "enrolled_revision \<Rightarrow> string list" where
  "revision_roots v = er_checkout v # map mb_path (er_mounts v)
     @ concat (map eb_search_directories (er_environments v))"

definition stored_roots :: "db \<Rightarrow> (int \<Rightarrow> bool) \<Rightarrow> string list" where
  "stored_roots d P =
    map r_checkout_path (filter (\<lambda>r. P (r_project_id r)) (db_revisions d))
    @ map m_path (filter (\<lambda>m. P (m_project_id m)) (db_mounts d))
    @ concat (map en_search_directories (filter (\<lambda>e. P (en_project_id e)) (db_environments d)))"

definition assert_root_isolation ::
  "bool \<Rightarrow> string \<Rightarrow> enrolled_revision \<Rightarrow> db \<Rightarrow> unit result" where
  "assert_root_isolation paths_current state_dir v d =
    require paths_current (life_error Not_allowed)
    (require (\<not> list_ex (paths_overlap state_dir) (revision_roots v)) (repo_error Not_allowed)
    (require (\<not> list_ex (\<lambda>a. list_ex (paths_overlap a)
         (stored_roots d (\<lambda>k. k \<noteq> pv_project_id v))) (revision_roots v)) (repo_error Not_allowed)
    (Inr ())))"

section \<open>Git evidence\<close>

record git_blob =
  gb_path :: string
  gb_object_id :: string
  gb_mode :: string
  gb_size :: nat
  gb_source_sha256 :: string

definition git_blob_object_id :: "(string \<Rightarrow> string) \<Rightarrow> (string \<Rightarrow> string) \<Rightarrow> string \<Rightarrow> string \<Rightarrow> string" where
  "git_blob_object_id sha1 sha256 source object_id =
    (let header = ''blob '' @ digits (length source) @ [char_of (0::nat)] in
     if length object_id = 40 then sha1 (header @ source)
     else if length object_id = 64 then sha256 (header @ source) else [])"

definition validate_git_blob ::
  "(string \<Rightarrow> string) \<Rightarrow> (string \<Rightarrow> string) \<Rightarrow> git_blob \<Rightarrow> string \<Rightarrow> string \<Rightarrow> unit result" where
  "validate_git_blob sha1 sha256 blob source expected_path =
    require (gb_path blob = expected_path) (evidence_error Wrong_identity)
    (require (commit_text (gb_object_id blob)) (evidence_error Bad_text)
    (require (gb_mode blob \<in> {''100644'', ''100755''}) (evidence_error Bad_text)
    (require (gb_size blob = length source) (evidence_error Wrong_identity)
    (require (gb_source_sha256 blob = sha256 source) (evidence_error Wrong_identity)
    (require (git_blob_object_id sha1 sha256 source (gb_object_id blob) = gb_object_id blob)
      (evidence_error Wrong_identity)
    (Inr ()))))))"

record resolved_revision =
  gr_revision :: enrolled_revision
  gr_project_id :: int
  gr_revision_id :: int
  gr_project_key :: string
  gr_label :: string
  gr_repository_root :: string
  gr_git_commit :: string
  gr_project_blob :: git_blob
  gr_extension_blob :: "git_blob option"

definition validate_resolved_revision ::
  "(string \<Rightarrow> string) \<Rightarrow> (string \<Rightarrow> string) \<Rightarrow> resolved_revision \<Rightarrow> enrolled_revision result" where
  "validate_resolved_revision sha1 sha256 g =
    (let v = gr_revision g in
     require ((gr_project_id g, gr_revision_id g, gr_project_key g, gr_label g, gr_repository_root g,
           gr_git_commit g)
         = (pv_project_id v, pv_id v, pv_project_key v, pv_label v, er_checkout v, pv_git_commit v))
       (evidence_error Wrong_identity)
     (and_then (validate_git_blob sha1 sha256 (gr_project_blob g) (ps_source (er_sources v))
         (ps_path (er_sources v))) (\<lambda>_.
      case ps_extension (er_sources v) of
        None \<Rightarrow> require (gr_extension_blob g = None) (evidence_error Conflicting_evidence) (Inr v)
      | Some e \<Rightarrow>
          fetch (gr_extension_blob g) (evidence_error Row_missing) (\<lambda>blob.
          and_then (validate_git_blob sha1 sha256 blob (es_source e) (es_path e)) (\<lambda>_. Inr v)))))"

section \<open>Writing a revision\<close>

text \<open>A statement per element of a list, in order.\<close>

fun each :: "('x \<Rightarrow> db \<Rightarrow> db result) \<Rightarrow> 'x list \<Rightarrow> db \<Rightarrow> db result" where
  "each f [] d = Inr d"
| "each f (x # xs) d = and_then (f x d) (each f xs)"

definition stored_blob_of :: "git_blob \<Rightarrow> stored_blob" where
  "stored_blob_of b = \<lparr>sb_object_id = gb_object_id b, sb_mode = gb_mode b, sb_size = gb_size b\<rparr>"

definition revision_row_of :: "resolved_revision \<Rightarrow> revision_row" where
  "revision_row_of g =
    (let v = gr_revision g in
    \<lparr>r_id = pv_id v, r_project_id = pv_project_id v, r_sequence = pv_sequence v, r_label = pv_label v,
     r_kind = Project_v1, r_display_name = pv_display_name v, r_git_commit = Some (pv_git_commit v),
     r_checkout_path = er_checkout v, r_created_at = pv_created_at v,
     r_created_actor = pv_created_actor v, r_sources = Some (er_sources v),
     r_project_blob = Some (stored_blob_of (gr_project_blob g)),
     r_extension_blob = map_option stored_blob_of (gr_extension_blob g)\<rparr>)"

definition mount_row_of :: "enrolled_revision \<Rightarrow> mount_binding \<Rightarrow> volume \<Rightarrow> mount_row" where
  "mount_row_of v m declaration =
    (let descendant = in_parents (er_checkout v) (mb_path m) in
     \<lparr>m_project_id = pv_project_id v, m_revision_id = pv_id v, m_name = mb_name m, m_path = mb_path m,
      m_declared_access = vo_access declaration, m_access = mb_access m,
      m_required = vo_required declaration, m_checkout_descendant = descendant,
      m_git_ignored = (descendant \<and> list_ex (\<lambda>proof_path. same_path proof_path (mb_path m)
         \<or> in_parents proof_path (mb_path m)) (er_ignored v))\<rparr>)"

text \<open>\<open>declarations[mount.name]\<close>: the last volume of that name, \<open>KeyError\<close> without one.\<close>

definition insert_mount_of :: "enrolled_revision \<Rightarrow> mount_binding \<Rightarrow> db \<Rightarrow> db result" where
  "insert_mount_of v m d =
    fetch (find (\<lambda>vol. vo_name vol = mb_name m) (rev (er_volumes v))) (KeyError, Row_missing)
      (\<lambda>declaration. insert_mount V5RepositoryError (mount_row_of v m declaration) d)"

definition insert_root_of :: "enrolled_revision \<Rightarrow> string \<Rightarrow> db \<Rightarrow> db result" where
  "insert_root_of v root_name =
    insert_root V5RepositoryError
      \<lparr>ar_project_id = pv_project_id v, ar_revision_id = pv_id v, ar_mount_name = root_name\<rparr>"

definition insert_environment_of :: "enrolled_revision \<Rightarrow> environment_binding \<Rightarrow> db \<Rightarrow> db result" where
  "insert_environment_of v e =
    insert_environment V5RepositoryError
      \<lparr>en_project_id = pv_project_id v, en_revision_id = pv_id v, en_name = eb_name e,
       en_search_directories = eb_search_directories e, en_command_prefix = eb_command_prefix e,
       en_inherit_variables = eb_inherit_variables e\<rparr>"

definition insert_revision ::
  "(string \<Rightarrow> string) \<Rightarrow> (string \<Rightarrow> string) \<Rightarrow> bool \<Rightarrow> string \<Rightarrow> resolved_revision \<Rightarrow> db \<Rightarrow> db result" where
  "insert_revision sha1 sha256 paths_current state_dir g d =
    and_then (validate_resolved_revision sha1 sha256 g) (\<lambda>v.
    and_then (assert_root_isolation paths_current state_dir v d) (\<lambda>_.
    and_then (insert_revision_row V5RepositoryError (revision_row_of g) d) (\<lambda>d1.
    and_then (each (insert_mount_of v) (er_mounts v) d1) (\<lambda>d2.
    and_then (each (insert_root_of v) (er_artifact_roots v) d2)
      (each (insert_environment_of v) (er_environments v))))))"

definition project_row_of :: "registered_project \<Rightarrow> enrolled_revision \<Rightarrow> project_row" where
  "project_row_of p v =
    \<lparr>p_id = rp_id p, p_key = rp_key p, p_display_name = rp_display_name p,
     p_lifecycle = rp_lifecycle p, p_current_revision_id = rp_current_revision_id p,
     p_current_revision_sequence = rp_current_revision_sequence p, p_created_at = pv_created_at v,
     p_created_by = pv_created_actor v, p_lifecycle_changed_at = rp_lifecycle_changed_at p,
     p_lifecycle_actor = rp_lifecycle_actor p, p_lifecycle_reason = rp_lifecycle_reason p\<rparr>"

definition runtime_row_of :: "int \<Rightarrow> runtime_state \<Rightarrow> runtime_row" where
  "runtime_row_of project_id h =
    \<lparr>rs_project_id = project_id, rs_health = hs_health h, rs_failure_count = hs_failure_count h,
     rs_reason = hs_reason h, rs_actor = hs_actor h, rs_changed_at = hs_changed_at h\<rparr>"

definition register_project ::
  "verifier \<Rightarrow> (string \<Rightarrow> string) \<Rightarrow> (string \<Rightarrow> string) \<Rightarrow> bool \<Rightarrow> string \<Rightarrow> registered_project
    \<Rightarrow> resolved_revision \<Rightarrow> runtime_state \<Rightarrow> db \<Rightarrow> (project_view \<times> db) result" where
  "register_project verify sha1 sha256 paths_current state_dir p g h d =
    and_then (validate_resolved_revision sha1 sha256 g) (\<lambda>v.
    and_then (reraise V5RepositoryError (register v (rp_lifecycle p) (rp_lifecycle_reason p)
        (rp_lifecycle_actor p) (rp_lifecycle_changed_at p))) (\<lambda>expected.
    require (expected = p) (repo_error Conflicting_evidence)
    (require (hs_project_id h = rp_id p \<and> hs_project_key h = rp_key p) (repo_error Wrong_identity)
    (and_then (insert_project V5RepositoryError (project_row_of p v) d) (\<lambda>d1.
     and_then (insert_revision sha1 sha256 paths_current state_dir g d1) (\<lambda>d2.
     and_then (insert_runtime V5RepositoryError (runtime_row_of (rp_id p) h) d2) (\<lambda>d3.
     and_then (repo_event (pv_created_at v) (pv_created_actor v) ''project_registered'' Scope_project
         (Some (rp_id p)) None
         (JObj [(''projectKey'', JStr (rp_key p)), (''revisionId'', JInt (pv_id v)),
                (''revisionLabel'', JStr (pv_label v)),
                (''lifecycle'', JStr (lifecycle_name (rp_lifecycle p)))]) d3)
       (commit_view verify (rp_id p)))))))))"

definition adopt_revision ::
  "verifier \<Rightarrow> (string \<Rightarrow> string) \<Rightarrow> (string \<Rightarrow> string) \<Rightarrow> bool \<Rightarrow> string \<Rightarrow> resolved_revision \<Rightarrow> bool
    \<Rightarrow> project_row \<Rightarrow> revision_row \<Rightarrow> enrolled_revision \<Rightarrow> db \<Rightarrow> (project_view \<times> db) result" where
  "adopt_revision verify sha1 sha256 paths_current state_dir g activate row current v d =
    require activate (repo_error Not_allowed)
    (require (p_key row = pv_project_key v) (repo_error Wrong_identity)
    (require (p_lifecycle row \<noteq> Archived) (repo_error Not_allowed)
    (require (pv_sequence v > r_sequence current) (repo_error Bad_integer)
    (and_then (insert_revision sha1 sha256 paths_current state_dir g d) (\<lambda>d1.
     and_then (update_projects V5RepositoryError Revision_columns (\<lambda>r. p_id r = pv_project_id v)
         (\<lambda>r. r\<lparr>p_current_revision_id := pv_id v, p_current_revision_sequence := pv_sequence v,
            p_display_name := pv_display_name v\<rparr>) d1) (\<lambda>(_, d2).
     and_then (repo_event (pv_created_at v) (pv_created_actor v) ''project_revision_activated''
         Scope_project (Some (pv_project_id v)) None
         (JObj (revision_payload v True @ [(''adoptedImportedHistory'', JBool True)])) d2)
       (commit_view verify (pv_project_id v))))))))"

definition append_revision ::
  "verifier \<Rightarrow> (string \<Rightarrow> string) \<Rightarrow> (string \<Rightarrow> string) \<Rightarrow> bool \<Rightarrow> string \<Rightarrow> resolved_revision \<Rightarrow> bool
    \<Rightarrow> db \<Rightarrow> (project_view \<times> db) result" where
  "append_revision verify sha1 sha256 paths_current state_dir g activate d =
    and_then (validate_resolved_revision sha1 sha256 g) (\<lambda>v.
    and_then (select_project_row d (pv_project_id v)) (\<lambda>row.
    fetch (find (\<lambda>r. r_id r = p_current_revision_id row \<and> r_project_id r = pv_project_id v)
        (db_revisions d)) (evidence_error Row_missing) (\<lambda>current.
    if r_kind current = Legacy_v4
    then adopt_revision verify sha1 sha256 paths_current state_dir g activate row current v d
    else
      and_then (project_from_row verify d row) (\<lambda>p.
      require (revision_creation_allowed p) (repo_error Not_allowed)
      (and_then (reraise V5RepositoryError (with_current_revision p v)) (\<lambda>q.
       and_then (insert_revision sha1 sha256 paths_current state_dir g d) (\<lambda>d1.
       and_then (if activate then set_current_revision q d1 else Inr (0, d1)) (\<lambda>(_, d2).
       and_then (repo_event (pv_created_at v) (pv_created_actor v)
           (if activate then ''project_revision_activated'' else ''project_revision_appended'')
           Scope_project (Some (rp_id p)) None (JObj (revision_payload v activate)) d2)
         (commit_view verify (rp_id p)))))))))) "

section \<open>What a registry statement did\<close>

lemma update_projects_eq_Inr [effect_simps]:
  "update_projects x columns P f d = Inr (n, d') \<longleftrightarrow>
    (\<forall>p \<in> set (db_projects d). P p \<longrightarrow> project_check (f p) \<and> p_id (f p) = p_id p
       \<and> p_key (f p) = p_key p \<and> project_triggers columns d p (f p))
    \<and> n = length (filter P (db_projects d)) \<and> d' = d\<lparr>db_projects := update_rows P f (db_projects d)\<rparr>"
  by (auto simp: update_projects_def guarded_update_eq_Some split: option.splits)
    (auto simp: guarded_update_def list_all_iff split: if_splits)

lemma repo_event_eq_Inr [effect_simps]:
  "repo_event t actor e scope p k payload d = Inr d' \<longleftrightarrow>
     repo_timestamp_ok t \<and> text_ok 256 actor \<and> text_ok 256 e
     \<and> (if scope = Scope_host then p = None \<and> k = None
        else (case p of None \<Rightarrow> False | Some n \<Rightarrow> n > 0) \<and> null_or (\<lambda>n. n > 0) k)
     \<and> json_ok 0 payload \<and> event_references_ok d (new_event d t actor e scope p k payload)
     \<and> d' = d\<lparr>db_events := db_events d @ [new_event d t actor e scope p k payload]\<rparr>"
  by (auto simp: repo_event_def insert_event_eq_Inr repo_timestamp_ok_def text_ok_def)

lemma commit_view_eq_Inr [effect_simps]:
  "commit_view verify k d = Inr (w, d') \<longleftrightarrow> d' = d \<and> current_revisions_ok d
     \<and> (\<exists>row. select_project_row d k = Inr row \<and> project_view_from_row verify d row = Inr w)"
  by (auto simp: commit_view_def)

section \<open>The contract of the registry\<close>

text \<open>
  A registry transaction leaves items, reservations and GPUs alone, appends revisions and events, and
  moves Projects forward. \<open>S\<close> holds the Projects inserted so far that have no circuit yet.
\<close>

definition registry :: "int set \<Rightarrow> db \<Rightarrow> db \<Rightarrow> bool" where
  "registry S d d' =
    (db_items d' = db_items d \<and> db_reservations d' = db_reservations d
     \<and> db_dependencies d' = db_dependencies d \<and> db_gpus d' = db_gpus d
     \<and> db_artifacts d' = db_artifacts d \<and> db_metadata d' = db_metadata d
     \<and> db_snapshots d' = db_snapshots d \<and> db_yield_requests d' = db_yield_requests d
     \<and> db_yield_receipts d' = db_yield_receipts d
     \<and> prefix (db_events d) (db_events d') \<and> prefix (db_revisions d) (db_revisions d')
     \<and> list_all2 project_trace (db_projects d) (take (length (db_projects d)) (db_projects d'))
     \<and> (distinct (map p_id (db_projects d)) \<longrightarrow> distinct (map p_id (db_projects d')))
     \<and> (distinct (map r_id (db_revisions d)) \<longrightarrow> distinct (map r_id (db_revisions d')))
     \<and> (runtime_inv (db_runtime d) \<longrightarrow> runtime_inv (db_runtime d'))
     \<and> rs_project_id ` set (db_runtime d) \<subseteq> rs_project_id ` set (db_runtime d')
     \<and> p_id ` set (db_projects d') \<subseteq> p_id ` set (db_projects d) \<union> rs_project_id ` set (db_runtime d') \<union> S)"

lemma registry_refl [simp, vcg]: "registry S d d"
  by (auto simp: registry_def list.rel_refl)

lemma registryD:
  assumes "registry S d d'"
  shows "db_items d' = db_items d" "db_reservations d' = db_reservations d"
    "db_dependencies d' = db_dependencies d" "db_gpus d' = db_gpus d"
    "db_artifacts d' = db_artifacts d" "db_metadata d' = db_metadata d"
    "prefix (db_events d) (db_events d')" "prefix (db_revisions d) (db_revisions d')"
    "list_all2 project_trace (db_projects d) (take (length (db_projects d)) (db_projects d'))"
    "distinct (map p_id (db_projects d)) \<Longrightarrow> distinct (map p_id (db_projects d'))"
    "distinct (map r_id (db_revisions d)) \<Longrightarrow> distinct (map r_id (db_revisions d'))"
    "runtime_inv (db_runtime d) \<Longrightarrow> runtime_inv (db_runtime d')"
    "rs_project_id ` set (db_runtime d) \<subseteq> rs_project_id ` set (db_runtime d')"
    "p_id ` set (db_projects d') \<subseteq> p_id ` set (db_projects d) \<union> rs_project_id ` set (db_runtime d') \<union> S"
    "db_snapshots d' = db_snapshots d" "db_yield_requests d' = db_yield_requests d"
    "db_yield_receipts d' = db_yield_receipts d"
  using assms unfolding registry_def by simp_all

lemma covered_trans: "X \<subseteq> Y \<union> U \<union> S \<Longrightarrow> Y \<subseteq> Z \<union> W \<union> S \<Longrightarrow> W \<subseteq> U \<Longrightarrow> X \<subseteq> Z \<union> U \<union> S"
  by blast

lemma registry_trans [trans]:
  assumes a: "registry S d e" and b: "registry S e f"
  shows "registry S d f"
proof -
  have "list_all2 project_trace (db_projects d) (take (length (db_projects d)) (db_projects f))"
    using project_trace_trans registryD(9)[OF a] registryD(9)[OF b] by (rule list_all2_take_trans)
  moreover have "p_id ` set (db_projects f)
      \<subseteq> p_id ` set (db_projects d) \<union> rs_project_id ` set (db_runtime f) \<union> S"
    using registryD(14)[OF b] registryD(14)[OF a] registryD(13)[OF b] by (rule covered_trans)
  moreover have "prefix (db_events d) (db_events f)" "prefix (db_revisions d) (db_revisions f)"
    using registryD(7,8)[OF a] registryD(7,8)[OF b] by (auto intro: prefix_order.order_trans)
  moreover have "rs_project_id ` set (db_runtime d) \<subseteq> rs_project_id ` set (db_runtime f)"
    using registryD(13)[OF a] registryD(13)[OF b] by simp
  moreover have "db_items f = db_items d" "db_reservations f = db_reservations d"
    "db_dependencies f = db_dependencies d" "db_gpus f = db_gpus d"
    "db_artifacts f = db_artifacts d" "db_metadata f = db_metadata d" "db_snapshots f = db_snapshots d"
    "db_yield_requests f = db_yield_requests d" "db_yield_receipts f = db_yield_receipts d"
    using registryD(1-6,15-17)[OF a] registryD(1-6,15-17)[OF b] by (simp_all only:)
  moreover have "distinct (map p_id (db_projects d)) \<longrightarrow> distinct (map p_id (db_projects f))"
    "distinct (map r_id (db_revisions d)) \<longrightarrow> distinct (map r_id (db_revisions f))"
    "runtime_inv (db_runtime d) \<longrightarrow> runtime_inv (db_runtime f)"
    using registryD(10-12)[OF a] registryD(10-12)[OF b] by blast+
  ultimately show ?thesis unfolding registry_def by (intro conjI)
qed

lemma registry_done:
  assumes "registry {k} d d'" and "k \<in> rs_project_id ` set (db_runtime d')"
  shows "registry {} d d'"
  using assms unfolding registry_def by auto

lemma registry_owners_inv:
  assumes r: "registry {} d d'" and "owners_inv d"
  shows "owners_inv d'"
proof -
  note reg = registryD[OF r]
  have ids: "map p_id (take (length (db_projects d)) (db_projects d')) = map p_id (db_projects d)"
    using reg(9) by (induction rule: list_all2_induct) (auto simp: project_trace_def)
  have "p_id ` set (db_projects d) \<subseteq> p_id ` set (db_projects d')"
    using arg_cong[OF ids, of set] by (auto dest: in_set_takeD)
  moreover have "set (db_revisions d) \<subseteq> set (db_revisions d')"
    using reg(8) by (rule set_mono_prefix)
  moreover have "p_id ` set (db_projects d') \<subseteq> rs_project_id ` set (db_runtime d')"
    using covered_trans[OF reg(14) _ reg(13), of "{}"] assms(2) by (simp add: owners_inv_def)
  moreover have "distinct (map p_id (db_projects d'))" "distinct (map r_id (db_revisions d'))"
    using reg(10,11) assms(2) by (simp_all add: owners_inv_def)
  ultimately show ?thesis
    using assms(2) unfolding owners_inv_def reg(1) by blast
qed

lemma registry_system_inv:
  assumes r: "registry {} d d'" and "system_inv d"
  shows "system_inv d'"
  using assms(2) registryD(1-4,12)[OF r] registry_owners_inv[OF r] by (simp add: system_inv_def)

lemma registry_history:
  assumes r: "registry S d d'"
  shows "history d d'"
  using registryD[OF r] by (simp add: history_def list.rel_refl)

text \<open>The contract of an operation on the registry.\<close>

locale registry_operation =
  fixes run :: "db \<Rightarrow> ('v \<times> db) result"
  assumes run_registry: "run d = Inr (v, d') \<Longrightarrow> registry {} d d'"
begin

lemma items_untouched:
  "run d = Inr (v, d') \<Longrightarrow> db_items d' = db_items d \<and> db_reservations d' = db_reservations d
     \<and> db_gpus d' = db_gpus d \<and> db_metadata d' = db_metadata d"
  using run_registry by (simp add: registry_def)

lemma archived_for_good:
  assumes "run d = Inr (v, d')" and "p \<in> set (db_projects d)" and "p_lifecycle p = Archived"
  shows "\<exists>q \<in> set (db_projects d'). p_id q = p_id p \<and> p_lifecycle q = Archived
    \<and> p_current_revision_id q = p_current_revision_id p"
proof -
  obtain i where "i < length (db_projects d)" "p = db_projects d ! i"
    using assms(2) by (auto simp: in_set_conv_nth)
  with registryD(9)[OF run_registry[OF assms(1)]] assms(3) show ?thesis
    by (force simp: list_all2_conv_all_nth project_trace_def)
qed

end

sublocale registry_operation \<subseteq> safe_operation run
  by unfold_locales (use run_registry registry_system_inv registry_history in blast)+

section \<open>Statements within the contract\<close>

lemma registry_update_projects:
  assumes "update_projects x columns P f d = Inr (n, d')"
    and "\<And>p. columns = Lifecycle_columns \<Longrightarrow> p_current_revision_id (f p) = p_current_revision_id p
      \<and> p_current_revision_sequence (f p) = p_current_revision_sequence p"
    and "\<And>p. columns = Revision_columns \<Longrightarrow> p_lifecycle (f p) = p_lifecycle p"
  shows "registry S d d'"
proof -
  from assms(1) have ok: "\<And>p. p \<in> set (db_projects d) \<Longrightarrow> P p \<Longrightarrow> p_id (f p) = p_id p
      \<and> p_key (f p) = p_key p \<and> project_triggers columns d p (f p)"
    and d': "d' = d\<lparr>db_projects := update_rows P f (db_projects d)\<rparr>"
    by (simp_all add: update_projects_eq_Inr)
  have "project_trace p (f p)" if "p \<in> set (db_projects d)" "P p" for p
    using ok[OF that] assms(2,3)[of p] by (cases columns) (auto simp: project_trace_def)
  then have "list_all2 project_trace (db_projects d) (update_rows P f (db_projects d))"
    by (intro list_all2_update_rows) simp_all
  moreover have ids: "map p_id (update_rows P f (db_projects d)) = map p_id (db_projects d)"
    using ok by (simp add: update_rows_def)
  moreover from ids have "p_id ` set (update_rows P f (db_projects d)) = p_id ` set (db_projects d)"
    by (metis list.set_map)
  ultimately show ?thesis unfolding registry_def d' by auto
qed

lemma registry_insert_project:
  assumes "insert_project x p d = Inr d'" and "p_id p \<in> S"
  shows "registry S d d'"
  using assms by (auto simp: insert_project_def registry_def list.rel_refl split: if_splits)

lemma registry_insert_revision_row:
  "insert_revision_row x r d = Inr d' \<Longrightarrow> registry S d d'"
  by (auto simp: insert_revision_row_def registry_def list.rel_refl split: if_splits)

lemma registry_insert_mount: "insert_mount x m d = Inr d' \<Longrightarrow> registry S d d'"
  by (auto simp: insert_mount_def registry_def list.rel_refl split: if_splits)

lemma registry_insert_root: "insert_root x m d = Inr d' \<Longrightarrow> registry S d d'"
  by (auto simp: insert_root_def registry_def list.rel_refl split: if_splits)

lemma registry_insert_environment: "insert_environment x m d = Inr d' \<Longrightarrow> registry S d d'"
  by (auto simp: insert_environment_def registry_def list.rel_refl split: if_splits)

lemma registry_insert_runtime: "insert_runtime x r d = Inr d' \<Longrightarrow> registry S d d'"
  by (auto simp: insert_runtime_def registry_def runtime_inv_def list.rel_refl split: if_splits)

lemma registry_repo_event: "repo_event t actor e scope p k payload d = Inr d' \<Longrightarrow> registry S d d'"
  by (auto simp: repo_event_eq_Inr registry_def list.rel_refl)

lemma registry_update_runtime:
  assumes "update_runtime x P f d = Inr (n, d')"
  shows "registry S d d'"
proof -
  from assms have ok: "\<And>r. r \<in> set (db_runtime d) \<Longrightarrow> P r \<Longrightarrow> runtime_check (f r) \<and> rs_project_id (f r) = rs_project_id r"
    and d': "d' = d\<lparr>db_runtime := update_rows P f (db_runtime d)\<rparr>"
    by (simp_all add: update_runtime_eq_Inr)
  have ids: "map rs_project_id (update_rows P f (db_runtime d)) = map rs_project_id (db_runtime d)"
    using ok by (simp add: update_rows_def)
  moreover from ids have "rs_project_id ` set (update_rows P f (db_runtime d)) = rs_project_id ` set (db_runtime d)"
    by (metis list.set_map)
  moreover have "runtime_inv (db_runtime d) \<longrightarrow> runtime_inv (update_rows P f (db_runtime d))"
    using ids ok by (auto simp: runtime_inv_def set_update_rows)
  ultimately show ?thesis unfolding registry_def d' by (auto simp: list.rel_refl)
qed

text \<open>The rules that follow a registry operation: reads pass a value on, writes stay in the contract.\<close>

lemmas registry_reads [vcg] =
  ensures_value[where m = "select_project_row e k" for e k]
  ensures_value[where m = "project_from_row verify e row" for verify e row]
  ensures_value[where m = "load_revision verify e k" for verify e k]
  ensures_value[where m = "load_runtime_state e k key" for e k key]
  ensures_value[where m = "reraise x m" for x m]
  ensures_value[where m = "validate_resolved_revision sha1 sha256 g" for sha1 sha256 g]

lemma ensures_commit_view [vcg]: "R d0 \<Longrightarrow> ensures R (commit_view verify k d0)"
  by (simp add: ensures_def commit_view_eq_Inr)

lemma ensures_update_projects [vcg]:
  assumes "registry S d d0"
    and "\<And>p. columns = Lifecycle_columns \<Longrightarrow> p_current_revision_id (f p) = p_current_revision_id p
      \<and> p_current_revision_sequence (f p) = p_current_revision_sequence p"
    and "\<And>p. columns = Revision_columns \<Longrightarrow> p_lifecycle (f p) = p_lifecycle p"
    and "\<And>n d1. registry S d d1 \<Longrightarrow> ensures (registry S d) (k n d1)"
  shows "ensures (registry S d) (and_then (update_projects x columns P f d0) (\<lambda>(n, d1). k n d1))"
  using registry_trans assms(1) registry_update_projects[OF _ assms(2,3)] assms(4)
  by (rule ensures_rows_trans)

lemma ensures_update_runtime_state [vcg]:
  assumes "registry S d d0" and "\<And>d1. registry S d d1 \<Longrightarrow> ensures (registry S d) (k d1)"
  shows "ensures (registry S d) (and_then (update_runtime_state h d0) k)"
  using registry_trans assms(1) _ assms(2)
proof (rule ensures_row_trans)
  show "registry S d0 d1" if "update_runtime_state h d0 = Inr d1" for d1
    using that by (auto simp: update_runtime_state_def intro: registry_update_runtime)
qed

lemma ensures_repo_event [vcg]:
  assumes "registry S d d0" and "\<And>d1. registry S d d1 \<Longrightarrow> ensures (registry S d) (k d1)"
  shows "ensures (registry S d) (and_then (repo_event t actor e scope p i payload d0) k)"
  using registry_trans assms(1) registry_repo_event assms(2) by (rule ensures_row_trans)

lemma registry_each:
  assumes "\<And>x d d'. f x d = Inr d' \<Longrightarrow> registry S d d'"
  shows "each f xs d = Inr d' \<Longrightarrow> registry S d d'"
proof (induction xs arbitrary: d)
  case (Cons x xs)
  then obtain d1 where "f x d = Inr d1" "each f xs d1 = Inr d'" by auto
  with assms Cons.IH show ?case by (blast intro: registry_trans)
qed simp

lemma insert_revision_eq_Inr:
  "insert_revision sha1 sha256 paths_current state_dir g d = Inr d' \<longleftrightarrow>
    (\<exists>v d1 d2 d3. validate_resolved_revision sha1 sha256 g = Inr v
      \<and> assert_root_isolation paths_current state_dir v d = Inr ()
      \<and> insert_revision_row V5RepositoryError (revision_row_of g) d = Inr d1
      \<and> each (insert_mount_of v) (er_mounts v) d1 = Inr d2
      \<and> each (insert_root_of v) (er_artifact_roots v) d2 = Inr d3
      \<and> each (insert_environment_of v) (er_environments v) d3 = Inr d')"
  by (auto simp: insert_revision_def)

lemma registry_insert_revision:
  assumes "insert_revision sha1 sha256 paths_current state_dir g d = Inr d'"
  shows "registry S d d'"
proof -
  from assms obtain v d1 d2 d3 where
    "insert_revision_row V5RepositoryError (revision_row_of g) d = Inr d1"
    "each (insert_mount_of v) (er_mounts v) d1 = Inr d2"
    "each (insert_root_of v) (er_artifact_roots v) d2 = Inr d3"
    "each (insert_environment_of v) (er_environments v) d3 = Inr d'"
    by (auto simp: insert_revision_eq_Inr)
  note steps = this
  have "registry S d d1" using steps(1) by (rule registry_insert_revision_row)
  also have "registry S d1 d2" using _ steps(2)
    by (rule registry_each) (auto simp: insert_mount_of_def intro: registry_insert_mount)
  also have "registry S d2 d3" using _ steps(3)
    by (rule registry_each) (auto simp: insert_root_of_def intro: registry_insert_root)
  also have "registry S d3 d'" using _ steps(4)
    by (rule registry_each) (auto simp: insert_environment_of_def intro: registry_insert_environment)
  finally show ?thesis .
qed

lemma ensures_insert_revision [vcg]:
  assumes "registry S d d0" and "\<And>d1. registry S d d1 \<Longrightarrow> ensures (registry S d) (k d1)"
  shows "ensures (registry S d) (and_then (insert_revision sha1 sha256 paths_current state_dir g d0) k)"
  using registry_trans assms(1) registry_insert_revision assms(2) by (rule ensures_row_trans)

section \<open>Every registry operation meets the contract\<close>

interpretation transitioning: registry_operation "transition_project verify k target why actor changed_at"
  for verify k target why actor changed_at
  by (unfold_locales, erule ensuresD[rotated], unfold transition_project_def, intro vcg) simp_all

lemma ensures_set_current_revision [vcg]:
  assumes "registry S d d0" and "\<And>n d1. registry S d d1 \<Longrightarrow> ensures (registry S d) (k n d1)"
  shows "ensures (registry S d) (and_then (set_current_revision q d0) (\<lambda>(n, d1). k n d1))"
  unfolding set_current_revision_def using assms by (intro ensures_update_projects) simp_all

interpretation activating: registry_operation "activate_revision verify k revision_id actor changed_at"
  for verify k revision_id actor changed_at
  by (unfold_locales, erule ensuresD[rotated], unfold activate_revision_def, intro vcg)

interpretation circuit_writing: registry_operation "write_circuit verify k change event_type"
  for verify k change event_type
  by (unfold_locales, erule ensuresD[rotated], unfold write_circuit_def, intro vcg)

interpretation failing: registry_operation "record_project_failure verify k why actor changed_at open_circuit"
  for verify k why actor changed_at open_circuit
  by unfold_locales (auto simp: record_project_failure_def intro: circuit_writing.run_registry)

interpretation closing: registry_operation "repo_close_project_circuit verify k why actor changed_at"
  for verify k why actor changed_at
  by unfold_locales (auto simp: repo_close_project_circuit_def intro: circuit_writing.run_registry)

interpretation recording: registry_operation "record_event created_at actor event_type scope payload p k"
  for created_at actor event_type scope payload p k
  by unfold_locales (auto simp: record_event_def intro: registry_repo_event)

interpretation adopting: registry_operation
  "adopt_revision verify sha1 sha256 paths_current state_dir g activate row current v"
  for verify sha1 sha256 paths_current state_dir g activate row current v
  by (unfold_locales, erule ensuresD[rotated], unfold adopt_revision_def, intro vcg) simp_all

lemma ensures_optional_row [vcg]:
  assumes "registry S d d0" and "\<And>n d1. registry S d d1 \<Longrightarrow> ensures (registry S d) (k n d1)"
  shows "ensures (registry S d)
    (and_then (if c then set_current_revision q d0 else Inr (0, d0)) (\<lambda>(n, d1). k n d1))"
proof (cases c)
  case True
  then show ?thesis using ensures_set_current_revision[OF assms] by simp
qed (simp add: assms)

interpretation appending: registry_operation
  "append_revision verify sha1 sha256 paths_current state_dir g activate"
  for verify sha1 sha256 paths_current state_dir g activate
proof (unfold_locales, erule ensuresD[rotated], unfold append_revision_def, intro vcg)
  show "ensures (registry {} d)
      (adopt_revision verify sha1 sha256 paths_current state_dir g activate row current v d)"
    for d row current v
    using adopting.run_registry by (auto simp: ensures_def)
qed

interpretation registering: registry_operation
  "register_project verify sha1 sha256 paths_current state_dir p g h"
  for verify sha1 sha256 paths_current state_dir p g h
proof
  fix d w d'
  assume "register_project verify sha1 sha256 paths_current state_dir p g h d = Inr (w, d')"
  then obtain v d1 d2 d3 payload where
    ins: "insert_project V5RepositoryError (project_row_of p v) d = Inr d1" and
    rev: "insert_revision sha1 sha256 paths_current state_dir g d1 = Inr d2" and
    run: "insert_runtime V5RepositoryError (runtime_row_of (rp_id p) h) d2 = Inr d3" and
    ev: "repo_event (pv_created_at v) (pv_created_actor v) ''project_registered'' Scope_project
       (Some (rp_id p)) None payload d3 = Inr d'"
    by (auto simp: register_project_def commit_view_eq_Inr)
  have "registry {rp_id p} d d1" using ins by (rule registry_insert_project) (simp add: project_row_of_def)
  also have "registry {rp_id p} d1 d2" using rev by (rule registry_insert_revision)
  also have "registry {rp_id p} d2 d3" using run by (rule registry_insert_runtime)
  also have "registry {rp_id p} d3 d'" using ev by (rule registry_repo_event)
  finally have "registry {rp_id p} d d'" .
  moreover have "rp_id p \<in> rs_project_id ` set (db_runtime d')"
    using run ev by (auto simp: insert_runtime_def repo_event_eq_Inr runtime_row_of_def split: if_splits)
  ultimately show "registry {} d d'" by (rule registry_done)
qed

end
