(* ===== verification/Registry_V5.thy ===== *)
theory Registry_V5
  imports Projects_V5
begin

text \<open>
  Properties of the Project registry: archival is guarded and final, the lifecycle check agrees with the
  database triggers, revisions only move forward, the circuit opens and closes within its Project, roots of
  different Projects never overlap, and which keys and reasons the two layers accept.
\<close>

text \<open>A verifier, digests and a second revision on which the witnesses are evaluated.\<close>

definition ex_verify :: verifier where
  "ex_verify d r = Some ''alpha''"

definition ex_sha1 :: "string \<Rightarrow> string" where
  "ex_sha1 s = ex_commit"

definition ex_sha256 :: "string \<Rightarrow> string" where
  "ex_sha256 s = ex_sha"

definition ex_paused_db :: "queue_item list \<Rightarrow> db" where
  "ex_paused_db items = (ex_db items)\<lparr>db_projects := [ex_project\<lparr>p_lifecycle := Paused\<rparr>]\<rparr>"

definition ex_enrolled :: enrolled_revision where
  "ex_enrolled = \<lparr>pv_id = 2, pv_project_id = 1, pv_project_key = ''alpha'', pv_sequence = 2,
     pv_label = ''alpha:r2'', pv_display_name = ''Alpha two'', pv_git_commit = ex_commit,
     pv_created_actor = ''operator'', pv_created_at = ex_time, er_sources = ex_sources,
    
     er_volumes = [\<lparr>vo_name = ''outputs'', vo_access = Read_write, vo_required = True\<rparr>],
     er_checkout = ''/work/alpha'',
     er_mounts = [\<lparr>mb_name = ''outputs'', mb_path = ''/data/outputs'', mb_access = Read_write\<rparr>],
     er_artifact_roots = [''outputs''],
     er_environments = [\<lparr>eb_name = ''default'', eb_search_directories = [''/opt/alpha/bin''],
       eb_command_prefix = None, eb_inherit_variables = [''HOME'']\<rparr>],
     er_ignored = []\<rparr>"

definition ex_resolved :: resolved_revision where
  "ex_resolved = \<lparr>gr_revision = ex_enrolled, gr_project_id = 1, gr_revision_id = 2,
     gr_project_key = ''alpha'', gr_label = ''alpha:r2'', gr_repository_root = ''/work/alpha'',
     gr_git_commit = ex_commit,
     gr_project_blob = \<lparr>gb_path = ''project.yaml'', gb_object_id = ex_commit, gb_mode = ''100644'',
       gb_size = 13, gb_source_sha256 = ex_sha\<rparr>, gr_extension_blob = None\<rparr>"

section \<open>Archival\<close>

lemma load_revision_fields:
  assumes "load_revision verify d k = Inr v"
  shows "\<exists>r. find_revision (db_revisions d) k = Some r \<and> pv_id v = k \<and> pv_project_id v = r_project_id r
    \<and> pv_sequence v = r_sequence r \<and> pv_display_name v = r_display_name r \<and> r_kind r = Project_v1"
  using assms revision_table.lookup_SomeD by (fastforce simp: load_revision_def)

lemma first_typed_owner:
  assumes "first_typed_revision verify d k = Inr (imported, v)" and "distinct (map r_id (db_revisions d))"
  shows "pv_project_id v = k"
proof -
  have own: "pv_project_id v = r_project_id r"
    if "load_revision verify d (r_id r) = Inr v" "r \<in> set (db_revisions d)" for r
    using load_revision_fields[OF that(1)] revision_table.lookup_unique[OF assms(2) that(2)] by auto
  show ?thesis
    using assms(1) by (auto simp: first_typed_revision_def split: if_splits dest!: find_SomeD own)
qed

lemma rehydrate_fields:
  assumes "rehydrate imported first current row states incomplete = Inr p"
  shows "rp_id p = pv_project_id first"
  using assms by (auto simp: rehydrate_def Let_def register_def adopt_imported_history_def
      with_current_revision_def transition_value_def project_of_revision_def lifecycle_fields_eq_Inr
      split: if_splits)

lemma project_from_row_fields:
  assumes "project_from_row verify d row = Inr p" and "distinct (map r_id (db_revisions d))"
  shows "rp_id p = p_id row" "rp_key p = p_key row" "rp_lifecycle p = p_lifecycle row"
    "rp_display_name p = p_display_name row" "rp_current_revision_id p = p_current_revision_id row"
    "rp_current_revision_sequence p = p_current_revision_sequence row"
  using assms first_typed_owner rehydrate_fields
  by (fastforce simp: project_from_row_def)+

lemma inv_revisions: "system_inv d \<Longrightarrow> distinct (map r_id (db_revisions d))"
  by (simp add: system_inv_def owners_inv_def)

lemma inv_projects: "system_inv d \<Longrightarrow> distinct (map p_id (db_projects d))"
  by (simp add: system_inv_def owners_inv_def)

lemma project_states_terminal:
  "list_all terminal_state (project_states d k) \<longleftrightarrow>
     (\<forall>i \<in> set (db_items d). qi_project_id i = k \<longrightarrow> terminal_state (qi_state i))"
  by (auto simp: project_states_def list_all_iff)

lemma find_project_update:
  assumes "\<And>r. P r \<Longrightarrow> p_id (f r) = p_id r"
  shows "find_project (update_rows P f rows) k
    = map_option (\<lambda>r. if P r then f r else r) (find_project rows k)"
  using project_table.lookup_update_rows[of P f rows k] assms by simp

lemma select_project_row_eq_Inr [effect_simps]:
  "select_project_row d k = Inr row \<longleftrightarrow> k > 0 \<and> find_project (db_projects d) k = Some row"
  by (auto simp: select_project_row_def)

lemma transition_project_effect:
  assumes inv: "system_inv d" and run: "transition_project verify k target why actor t d = Inr (w, d')"
  obtains row where "find_project (db_projects d) k = Some row" and "lifecycle_edge (p_lifecycle row) target"
    and "target = Archived \<Longrightarrow> \<forall>i \<in> set (db_items d). qi_project_id i = k \<longrightarrow>
      terminal_state (qi_state i) \<and> \<not> cleanup_pending i"
    and "find_project (db_projects d') k = Some (row\<lparr>p_lifecycle := target, p_lifecycle_reason := why,
      p_lifecycle_actor := actor, p_lifecycle_changed_at := t\<rparr>)"
proof -
  from run obtain row p q n d1 payload where
    row: "find_project (db_projects d) k = Some row" and p: "project_from_row verify d row = Inr p" and
    q: "transition_value p target why actor t (project_states d (rp_id p))
        (cleanup_incomplete d (rp_id p)) = Inr q" and
    upd: "update_projects V5RepositoryError Lifecycle_columns (\<lambda>r. p_id r = rp_id q)
        (\<lambda>r. r\<lparr>p_lifecycle := rp_lifecycle q, p_lifecycle_reason := rp_lifecycle_reason q,
           p_lifecycle_actor := rp_lifecycle_actor q,
           p_lifecycle_changed_at := rp_lifecycle_changed_at q\<rparr>) d = Inr (n, d1)" and
    same: "db_projects d' = db_projects d1"
    by (auto simp: transition_project_def select_project_row_eq_Inr commit_view_eq_Inr repo_event_eq_Inr)
  have k: "p_id row = k" using project_table.lookup_SomeD[OF row] by simp
  note fields = project_from_row_fields[OF p inv_revisions[OF inv]]
  have q': "q = p\<lparr>rp_lifecycle := target, rp_lifecycle_reason := why, rp_lifecycle_actor := actor,
      rp_lifecycle_changed_at := t\<rparr>" and edge: "lifecycle_edge (p_lifecycle row) target" and
    clear: "target = Archived \<Longrightarrow> list_all terminal_state (project_states d k) \<and> \<not> cleanup_incomplete d k"
    using q fields k by (auto simp: transition_value_def validate_eq_Inr lifecycle_fields_eq_Inr)
  have "find_project (db_projects d') k = Some (row\<lparr>p_lifecycle := target, p_lifecycle_reason := why,
      p_lifecycle_actor := actor, p_lifecycle_changed_at := t\<rparr>)"
    using upd row k fields(1) unfolding same update_projects_eq_Inr q'
    by (simp add: find_project_update)
  with row edge clear show thesis
    by (intro that) (auto simp: project_states_terminal cleanup_incomplete_def list_ex_iff)
qed

text \<open>
  (C27) A Project is archived only from paused, when every item of it is terminal and no checkout cleanup
  is pending; no item changes. Archival is final: no later lifecycle transition and no activation of a
  revision succeeds for that Project, and none of its items is a dispatch candidate.
\<close>

theorem archival_guarded:
  assumes inv: "system_inv d" and run: "transition_project verify k Archived why actor t d = Inr (w, d')"
  shows "(\<exists>row. find_project (db_projects d) k = Some row \<and> p_lifecycle row = Paused)
    \<and> (\<forall>i \<in> set (db_items d). qi_project_id i = k \<longrightarrow>
         terminal_state (qi_state i) \<and> \<not> cleanup_pending i)
    \<and> db_items d' = db_items d
    \<and> (\<forall>target why' actor' t' r. transition_project verify k target why' actor' t' d' \<noteq> Inr r)
    \<and> (\<forall>revision_id actor' t' r. activate_revision verify k revision_id actor' t' d' \<noteq> Inr r)
    \<and> (\<forall>c \<in> set (candidate_query d'). c_project_id c \<noteq> k)"
proof -
  obtain row where row: "find_project (db_projects d) k = Some row"
    and edge: "lifecycle_edge (p_lifecycle row) Archived"
    and clear: "\<forall>i \<in> set (db_items d). qi_project_id i = k \<longrightarrow> terminal_state (qi_state i) \<and> \<not> cleanup_pending i"
    and row': "find_project (db_projects d') k = Some (row\<lparr>p_lifecycle := Archived, p_lifecycle_reason := why,
      p_lifecycle_actor := actor, p_lifecycle_changed_at := t\<rparr>)"
    using inv run by (rule transition_project_effect) blast
  have inv': "system_inv d'" using run inv by (rule transitioning.keeps_inv)
  have "transition_project verify k target why' actor' t' d' \<noteq> Inr (w', d'')" for target why' actor' t' w' d''
  proof
    assume "transition_project verify k target why' actor' t' d' = Inr (w', d'')"
    from inv' this show False by (rule transition_project_effect) (use row' in auto)
  qed
  moreover have "activate_revision verify k rid actor' t' d' \<noteq> Inr r" for rid actor' t' r
  proof
    assume "activate_revision verify k rid actor' t' d' = Inr r"
    then obtain p and v :: project_revision and q where p: "project_from_row verify d' (row\<lparr>p_lifecycle := Archived,
        p_lifecycle_reason := why, p_lifecycle_actor := actor, p_lifecycle_changed_at := t\<rparr>) = Inr p"
      and "with_current_revision p v = Inr q"
      using row' by (auto simp: activate_revision_def select_project_row_eq_Inr)
    then show False
      using project_from_row_fields(3)[OF p inv_revisions[OF inv']] by (simp add: with_current_revision_def)
  qed
  moreover have "c_project_id c \<noteq> k" if "c \<in> set (candidate_query d')" for c
    using that row' candidate_row_project
    by (fastforce simp: candidate_query_def set_map_filter candidate_row_eq_Some)
  moreover have "p_lifecycle row = Paused" using edge by (cases "p_lifecycle row") simp_all
  ultimately show ?thesis
    using row clear transitioning.items_untouched[OF run] by auto
qed

lemma archival_guarded_witness:
  "\<exists>w d'. transition_project ex_verify 1 Archived ''finished'' ''operator'' ex_time (ex_paused_db []) = Inr (w, d')
     \<and> (\<forall>target why actor t r. transition_project ex_verify 1 target why actor t d' \<noteq> Inr r)"
proof -
  let ?r = "transition_project ex_verify 1 Archived ''finished'' ''operator'' ex_time (ex_paused_db [])"
  have inv: "system_inv (ex_paused_db [])" by code_simp
  have "succeeds ?r (\<lambda>w. True)" by code_simp
  then obtain w where run: "?r = Inr (w, after ?r)" by (blast dest: succeedsD)
  from archival_guarded[OF inv run] run show ?thesis by blast
qed

text \<open>
  (C28) The lifecycle check of the Python code and the triggers of the database agree: a change of a
  Project's lifecycle passes the one exactly when it passes the other, for every database.
\<close>

theorem transition_check_matches_triggers:
  assumes "p_lifecycle p \<noteq> p_lifecycle q"
  shows "(validate_lifecycle_transition (p_lifecycle p) (p_lifecycle q) (project_states d (p_id p))
      (cleanup_incomplete d (p_id p)) = Inr (p_lifecycle q))
    \<longleftrightarrow> project_triggers Lifecycle_columns d p q"
proof -
  have "archive_blocked d (p_id p) \<longleftrightarrow>
      \<not> (list_all terminal_state (project_states d (p_id p)) \<and> \<not> cleanup_incomplete d (p_id p))"
    using archive_blocking_iff unfolding archive_blocking_def
    by (auto simp: archive_blocked_def project_states_terminal cleanup_incomplete_def list_ex_iff)
  with assms show ?thesis
    by (cases "p_lifecycle p"; cases "p_lifecycle q") (simp_all add: validate_eq_Inr)
qed

lemma transition_check_matches_triggers_witness:
  "validate_lifecycle_transition Paused Archived (project_states (ex_paused_db [ex_item 1]) 1)
     (cleanup_incomplete (ex_paused_db [ex_item 1]) 1) \<noteq> Inr Archived"
proof -
  let ?p = "ex_project\<lparr>p_lifecycle := Paused\<rparr>" and ?q = "ex_project\<lparr>p_lifecycle := Archived\<rparr>"
  have change: "p_lifecycle ?p \<noteq> p_lifecycle ?q" by simp
  have "\<not> project_triggers Lifecycle_columns (ex_paused_db [ex_item 1]) ?p ?q" by code_simp
  with transition_check_matches_triggers[OF change, of "ex_paused_db [ex_item 1]"]
  show ?thesis by (simp add: ex_project_def)
qed

section \<open>Revisions move forward\<close>

lemma validate_resolved_eq_Inr: "validate_resolved_revision sha1 sha256 g = Inr v \<Longrightarrow> v = gr_revision g"
  by (auto simp: validate_resolved_revision_def Let_def split: option.splits)

lemma each_frame:
  assumes "\<And>x d d'. f x d = Inr d' \<Longrightarrow> P d = P d'"
  shows "each f xs d = Inr d' \<Longrightarrow> P d' = P d"
  using assms by (induction xs arbitrary: d) auto

lemma insert_children_frame:
  "insert_mount_of v m d = Inr d1 \<Longrightarrow> db_revisions d = db_revisions d1 \<and> db_projects d = db_projects d1
     \<and> db_environments d = db_environments d1"
  "insert_root_of v name d = Inr d1 \<Longrightarrow> db_revisions d = db_revisions d1 \<and> db_projects d = db_projects d1
     \<and> db_environments d = db_environments d1 \<and> db_mounts d = db_mounts d1"
  "insert_environment_of v e d = Inr d1 \<Longrightarrow> db_revisions d = db_revisions d1 \<and> db_projects d = db_projects d1
     \<and> db_mounts d = db_mounts d1"
  by (auto simp: insert_mount_of_def insert_root_of_def insert_environment_of_def insert_mount_def
      insert_root_def insert_environment_def split: if_splits)

lemma insert_revision_effect:
  assumes "insert_revision sha1 sha256 paths_current state_dir g d = Inr d'"
  shows "db_revisions d' = db_revisions d @ [revision_row_of g]"
    and "db_projects d' = db_projects d"
proof -
  from assms obtain v d1 d2 d3 where steps: "v = gr_revision g"
    "insert_revision_row V5RepositoryError (revision_row_of g) d = Inr d1"
    "each (insert_mount_of v) (er_mounts v) d1 = Inr d2"
    "each (insert_root_of v) (er_artifact_roots v) d2 = Inr d3"
    "each (insert_environment_of v) (er_environments v) d3 = Inr d'"
    using validate_resolved_eq_Inr by (auto simp: insert_revision_eq_Inr)
  have "(db_revisions d2, db_projects d2) = (db_revisions d1, db_projects d1)"
    using _ steps(3) by (rule each_frame) (simp add: insert_children_frame)
  moreover have "(db_revisions d3, db_projects d3) = (db_revisions d2, db_projects d2)"
    using _ steps(4) by (rule each_frame) (simp add: insert_children_frame)
  moreover have "(db_revisions d', db_projects d') = (db_revisions d3, db_projects d3)"
    using _ steps(5) by (rule each_frame) (simp add: insert_children_frame)
  ultimately show "db_revisions d' = db_revisions d @ [revision_row_of g]"
    "db_projects d' = db_projects d"
    using steps(1,2) by (auto simp: insert_revision_row_def split: if_splits)
qed

definition on_revision :: "'r project_revision_scheme \<Rightarrow> project_row \<Rightarrow> project_row" where
  "on_revision v r = r\<lparr>p_current_revision_id := pv_id v, p_current_revision_sequence := pv_sequence v,
     p_display_name := pv_display_name v\<rparr>"

lemma update_revision_effect:
  assumes "update_projects x Revision_columns (\<lambda>r. p_id r = k) (on_revision v) d = Inr (n, d')"
    and "find_project (db_projects d) k = Some row"
  shows "p_lifecycle row \<noteq> Archived" and "p_current_revision_sequence row < pv_sequence v"
    and "find_project (db_projects d') k = Some (on_revision v row)"
    and "\<And>j. j \<noteq> k \<Longrightarrow> find_project (db_projects d') j = find_project (db_projects d) j"
    and "db_revisions d' = db_revisions d"
proof -
  have row: "row \<in> set (db_projects d)" "p_id row = k" using project_table.lookup_SomeD[OF assms(2)] by auto
  with assms(1) show "p_lifecycle row \<noteq> Archived" "p_current_revision_sequence row < pv_sequence v"
    by (auto simp: update_projects_eq_Inr on_revision_def)
  show "find_project (db_projects d') k = Some (on_revision v row)" "db_revisions d' = db_revisions d"
    using assms row(2) by (auto simp: update_projects_eq_Inr find_project_update on_revision_def)
  show "find_project (db_projects d') j = find_project (db_projects d) j" if "j \<noteq> k" for j
    using assms that project_table.lookup_SomeD[of "db_projects d" j]
    by (cases "find_project (db_projects d) j")
      (auto simp: update_projects_eq_Inr find_project_update on_revision_def)
qed

lemma with_current_revision_eq_Inr:
  "with_current_revision p v = Inr q \<longleftrightarrow> rp_lifecycle p \<noteq> Archived \<and> pv_project_id v = rp_id p
     \<and> pv_project_key v = rp_key p \<and> rp_current_revision_sequence p < pv_sequence v
     \<and> pv_id v \<noteq> rp_current_revision_id p
     \<and> q = p\<lparr>rp_display_name := pv_display_name v, rp_current_revision_id := pv_id v,
          rp_current_revision_sequence := pv_sequence v\<rparr>"
  by (auto simp: with_current_revision_def)

lemma set_current_revision_on:
  assumes "with_current_revision p v = Inr q"
  shows "set_current_revision q = update_projects V5RepositoryError Revision_columns (\<lambda>r. p_id r = rp_id p) (on_revision v)"
  using assms by (simp add: with_current_revision_eq_Inr set_current_revision_def on_revision_def[abs_def])

text \<open>
  (C29) Appending a revision: the Project exists and is not archived, the new sequence is above the current
  one, exactly one revision row is added after the existing ones, the Project moves to it when it is
  activated and stays where it is otherwise, and no other Project changes.
\<close>

theorem append_revision_forward:
  assumes inv: "system_inv d"
    and run: "append_revision verify sha1 sha256 paths_current state_dir g activate d = Inr (w, d')"
  shows "\<exists>row. find_project (db_projects d) (pv_project_id (gr_revision g)) = Some row
    \<and> p_lifecycle row \<noteq> Archived
    \<and> p_current_revision_sequence row < pv_sequence (gr_revision g)
    \<and> db_revisions d' = db_revisions d @ [revision_row_of g]
    \<and> find_project (db_projects d') (pv_project_id (gr_revision g))
        = Some (if activate then on_revision (gr_revision g) row else row)
    \<and> (\<forall>j. j \<noteq> pv_project_id (gr_revision g) \<longrightarrow>
         find_project (db_projects d') j = find_project (db_projects d) j)"
proof -
  let ?v = "gr_revision g" and ?k = "pv_project_id (gr_revision g)"
  from run obtain row where row: "find_project (db_projects d) ?k = Some row"
    by (auto simp: append_revision_def select_project_row_eq_Inr dest!: validate_resolved_eq_Inr)
  have k: "p_id row = ?k" using project_table.lookup_SomeD[OF row] by simp
  from run row consider
    (adopt) current where "adopt_revision verify sha1 sha256 paths_current state_dir g activate row current ?v d
        = Inr (w, d')"
  | (follow) p q d1 n d2 where "project_from_row verify d row = Inr p" "with_current_revision p ?v = Inr q"
      "insert_revision sha1 sha256 paths_current state_dir g d = Inr d1"
      "(if activate then set_current_revision q d1 else Inr (0, d1)) = Inr (n, d2)"
      "db_projects d' = db_projects d2" "db_revisions d' = db_revisions d2"
    by (auto simp: append_revision_def select_project_row_eq_Inr commit_view_eq_Inr repo_event_eq_Inr
        dest!: validate_resolved_eq_Inr split: if_splits)
  then show ?thesis
  proof cases
    case adopt
    then obtain d1 n d2 where act: activate and ins: "insert_revision sha1 sha256 paths_current state_dir g d = Inr d1"
      and upd: "update_projects V5RepositoryError Revision_columns (\<lambda>r. p_id r = ?k) (on_revision ?v) d1 = Inr (n, d2)"
      and same: "db_projects d' = db_projects d2" "db_revisions d' = db_revisions d2"
      by (auto simp: adopt_revision_def commit_view_eq_Inr repo_event_eq_Inr on_revision_def[abs_def])
    note eff = insert_revision_effect[OF ins]
    have row1: "find_project (db_projects d1) ?k = Some row" using row eff(2) by simp
    show ?thesis using update_revision_effect[OF upd row1] row act eff same by auto
  next
    case follow
    note fields = project_from_row_fields[OF follow(1) inv_revisions[OF inv]]
    note eff = insert_revision_effect[OF follow(3)]
    have row1: "find_project (db_projects d1) ?k = Some row" using row eff(2) by simp
    have id: "rp_id p = ?k" using fields(1) k by simp
    show ?thesis
    proof (cases activate)
      case True
      then have upd: "update_projects V5RepositoryError Revision_columns (\<lambda>r. p_id r = ?k) (on_revision ?v) d1
          = Inr (n, d2)"
        using follow(4) set_current_revision_on[OF follow(2)] id by simp
      show ?thesis using update_revision_effect[OF upd row1] row True eff follow(5,6) by auto
    next
      case False
      then show ?thesis using follow(2,4-6) eff fields row by (auto simp: with_current_revision_eq_Inr)
    qed
  qed
qed

lemma append_revision_forward_witness:
  "\<exists>w d'. append_revision ex_verify ex_sha1 ex_sha256 True ''/var/queue'' ex_resolved True (ex_db []) = Inr (w, d')
     \<and> find_project (db_projects d') 1 = Some (on_revision ex_enrolled ex_project)"
proof -
  let ?r = "append_revision ex_verify ex_sha1 ex_sha256 True ''/var/queue'' ex_resolved True (ex_db [])"
  have inv: "system_inv (ex_db [])" by code_simp
  have "succeeds ?r (\<lambda>w. True)" by code_simp
  then obtain w where run: "?r = Inr (w, after ?r)" by (blast dest: succeedsD)
  have g: "gr_revision ex_resolved = ex_enrolled" "pv_project_id ex_enrolled = 1"
    "find_project (db_projects (ex_db [])) 1 = Some ex_project"
    by code_simp+
  from append_revision_forward[OF inv run] run show ?thesis by (auto simp: g)
qed

section \<open>The health circuit\<close>

lemma load_runtime_state_eq_Inr:
  "load_runtime_state d k key = Inr h \<longleftrightarrow> (\<exists>r. find_runtime (db_runtime d) k = Some r
     \<and> create_runtime_state k key (rs_health r) (rs_failure_count r) (rs_reason r) (rs_actor r)
         (rs_changed_at r) = Inr h)"
  by (auto simp: load_runtime_state_def)

lemma create_runtime_state_eq_Inr:
  "create_runtime_state k key health count why actor t = Inr h \<longleftrightarrow>
     count \<ge> 0 \<and> (health = Open \<longrightarrow> count \<noteq> 0) \<and> k > 0 \<and> project_key_ok key \<and> text_ok 4000 why
     \<and> text_ok 256 actor \<and> life_timestamp_ok t
     \<and> h = \<lparr>hs_project_id = k, hs_project_key = key, hs_health = health, hs_failure_count = count,
          hs_reason = why, hs_actor = actor, hs_changed_at = t\<rparr>"
  by (auto simp: create_runtime_state_def lifecycle_fields_eq_Inr)

lemma write_circuit_effect:
  assumes inv: "system_inv d" and run: "write_circuit verify k change e d = Inr (w, d')"
    and keeps: "\<And>h h'. change h = Inr h' \<Longrightarrow> hs_project_id h' = hs_project_id h"
  obtains r h h' where "find_runtime (db_runtime d) k = Some r" and "hs_health h = rs_health r"
    and "hs_failure_count h = rs_failure_count r" and "change h = Inr h'"
    and "find_runtime (db_runtime d') k = Some (runtime_row_of k h')"
    and "\<And>j. j \<noteq> k \<Longrightarrow> find_runtime (db_runtime d') j = find_runtime (db_runtime d) j"
    and "db_projects d' = db_projects d" and "db_revisions d' = db_revisions d"
proof -
  from run obtain row p h h' d1 payload where row: "find_project (db_projects d) k = Some row"
    and p: "project_from_row verify d row = Inr p" and load: "load_runtime_state d (rp_id p) (rp_key p) = Inr h"
    and change: "change h = Inr h'" and upd: "update_runtime_state h' d = Inr d1"
    and same: "db_runtime d' = db_runtime d1" "db_projects d' = db_projects d1" "db_revisions d' = db_revisions d1"
    by (auto simp: write_circuit_def select_project_row_eq_Inr commit_view_eq_Inr repo_event_eq_Inr)
  have id: "rp_id p = k"
    using project_from_row_fields(1)[OF p inv_revisions[OF inv]] project_table.lookup_SomeD[OF row] by simp
  obtain r where r: "find_runtime (db_runtime d) k = Some r" "hs_health h = rs_health r"
    "hs_failure_count h = rs_failure_count r" "hs_project_id h = k"
    using load id by (auto simp: load_runtime_state_eq_Inr create_runtime_state_eq_Inr)
  have k': "hs_project_id h' = k" using keeps[OF change] r(4) by simp
  have rows: "db_runtime d1 = update_rows (\<lambda>r. rs_project_id r = k) (\<lambda>r. r\<lparr>rs_health := hs_health h',
      rs_failure_count := hs_failure_count h', rs_reason := hs_reason h', rs_actor := hs_actor h',
      rs_changed_at := hs_changed_at h'\<rparr>) (db_runtime d)"
    and frame: "db_projects d1 = db_projects d" "db_revisions d1 = db_revisions d"
    using upd k' by (auto simp: update_runtime_state_def update_runtime_eq_Inr)
  have "find_runtime (db_runtime d') k = Some (runtime_row_of k h')"
    using r(1) runtime_table.lookup_SomeD[OF r(1)] unfolding same rows
    by (simp add: find_runtime_update runtime_row_of_def)
  moreover have "find_runtime (db_runtime d') j = find_runtime (db_runtime d) j" if "j \<noteq> k" for j
    using that runtime_table.lookup_SomeD[of "db_runtime d" j] unfolding same rows
    by (cases "find_runtime (db_runtime d) j") (auto simp: find_runtime_update)
  ultimately show thesis using r change same frame by (intro that) auto
qed

text \<open>
  (C30) Recording a failure that opens the circuit adds one to the failure count and removes exactly that
  Project's items from the dispatch candidates; closing the circuit resets the count, and brings back
  the candidates of a Project whose circuit was closed before. No item changes.
\<close>

theorem circuit_open_close:
  assumes inv: "system_inv d"
    and open1: "record_project_failure verify k why actor t True d = Inr (w1, d1)"
    and close2: "repo_close_project_circuit verify k why' actor' t' d1 = Inr (w2, d2)"
  shows "\<exists>r r1 r2. find_runtime (db_runtime d) k = Some r \<and> find_runtime (db_runtime d1) k = Some r1
    \<and> find_runtime (db_runtime d2) k = Some r2
    \<and> rs_health r1 = Open \<and> rs_failure_count r1 = rs_failure_count r + 1
    \<and> rs_health r2 = Closed \<and> rs_failure_count r2 = 0
    \<and> candidate_query d1 = filter (\<lambda>c. c_project_id c \<noteq> k) (candidate_query d)
    \<and> (rs_health r = Closed \<longrightarrow> candidate_query d2 = candidate_query d)
    \<and> db_items d2 = db_items d"
proof -
  have inv1: "system_inv d1" using open1 inv by (rule failing.keeps_inv)
  obtain r h h1 where r: "find_runtime (db_runtime d) k = Some r" "hs_failure_count h = rs_failure_count r"
    and h1: "record_failure h why actor t True = Inr h1"
    and r1: "find_runtime (db_runtime d1) k = Some (runtime_row_of k h1)"
    and other1: "\<And>j. j \<noteq> k \<Longrightarrow> find_runtime (db_runtime d1) j = find_runtime (db_runtime d) j"
    and frame1: "db_projects d1 = db_projects d" "db_revisions d1 = db_revisions d"
    using inv open1[unfolded record_project_failure_def]
    by (rule write_circuit_effect) (auto simp: record_failure_def create_runtime_state_eq_Inr)
  obtain g h2 where h2: "close_circuit g why' actor' t' = Inr h2"
    and r2: "find_runtime (db_runtime d2) k = Some (runtime_row_of k h2)"
    and other2: "\<And>j. j \<noteq> k \<Longrightarrow> find_runtime (db_runtime d2) j = find_runtime (db_runtime d1) j"
    and frame2: "db_projects d2 = db_projects d1" "db_revisions d2 = db_revisions d1"
    using inv1 close2[unfolded repo_close_project_circuit_def]
    by (rule write_circuit_effect) (auto simp: close_circuit_def create_runtime_state_eq_Inr)
  have vals: "hs_health h1 = Open" "hs_failure_count h1 = rs_failure_count r + 1"
    "hs_health h2 = Closed" "hs_failure_count h2 = 0"
    using h1 h2 r(2) by (auto simp: record_failure_def close_circuit_def create_runtime_state_eq_Inr)
  have items: "db_items d1 = db_items d" "db_dependencies d1 = db_dependencies d"
    "db_items d2 = db_items d1" "db_dependencies d2 = db_dependencies d1"
    using registryD(1,3)[OF failing.run_registry[OF open1]] registryD(1,3)[OF closing.run_registry[OF close2]]
    by simp_all
  have "candidate_query d1 = filter (\<lambda>c. c_project_id c \<noteq> k) (candidate_query d)"
    using items frame1 r1 other1 vals by (intro open_circuit_candidates) (auto simp: runtime_row_of_def)
  moreover have "candidate_query d2 = candidate_query d" if "rs_health r = Closed"
  proof -
    have "candidate_row d2 i = candidate_row d i" for i
    proof -
      have "dependencies_satisfied d2 j = dependencies_satisfied d j" for j
        using items by (simp add: dependencies_satisfied_def)
      then show ?thesis
        using r r2 other1 other2 frame1 frame2 vals that
        by (cases "qi_project_id i = k") (simp_all add: candidate_row_def runtime_row_of_def split: option.splits)
    qed
    then have "candidate_row d2 = candidate_row d" by (rule ext)
    then show ?thesis using items by (simp add: candidate_query_def)
  qed
  ultimately show ?thesis using r r1 r2 vals items by (simp add: runtime_row_of_def)
qed

lemma circuit_open_close_witness:
  "\<exists>w1 d1 w2 d2. record_project_failure ex_verify 1 ''crash'' ''scheduler'' ex_time True (ex_db [ex_item 1]) = Inr (w1, d1)
     \<and> repo_close_project_circuit ex_verify 1 ''repaired'' ''operator'' ex_time d1 = Inr (w2, d2)
     \<and> candidate_query d1 = [] \<and> candidate_query d2 = candidate_query (ex_db [ex_item 1])"
proof -
  let ?d = "ex_db [ex_item 1]"
  let ?r = "record_project_failure ex_verify 1 ''crash'' ''scheduler'' ex_time True ?d"
  let ?s = "repo_close_project_circuit ex_verify 1 ''repaired'' ''operator'' ex_time (after ?r)"
  have inv: "system_inv ?d" by code_simp
  have "succeeds ?r (\<lambda>w. True)" "succeeds ?s (\<lambda>w. True)" by code_simp+
  then obtain w1 w2 where run: "?r = Inr (w1, after ?r)" "?s = Inr (w2, after ?s)" by (blast dest: succeedsD)
  have facts: "filter (\<lambda>c. c_project_id c \<noteq> 1) (candidate_query ?d) = []"
    "find_runtime (db_runtime ?d) 1 = Some ex_runtime" "rs_health ex_runtime = Closed"
    by code_simp+
  from circuit_open_close[OF inv run] facts run show ?thesis by auto
qed

section \<open>Reasons longer than the registry accepts\<close>

text \<open>
  (C32) The scheduler accepts a quarantine reason of up to 4096 characters, the typed Project model one of up
  to 4000. A Project quarantined with a longer reason can no longer be read, and its circuit can no
  longer be closed through the registry: its stored circuit is refused as invalid evidence.
\<close>

theorem long_quarantine_reason_unreadable:
  assumes inv: "system_inv d" and run: "quarantine_project k why actor t item_id d = Inr (True, d')"
    and long: "length why > 4000"
  shows "(\<forall>w. get_project verify (Some k) None d' \<noteq> Inr w)
    \<and> (\<forall>why' actor' t' r. repo_close_project_circuit verify k why' actor' t' d' \<noteq> Inr r)
    \<and> (\<forall>key. project_key_ok key \<longrightarrow> load_runtime_state d' k key = Inl (V5EvidenceError, Bad_text))"
proof -
  have k: "k > 0" and frame: "db_revisions d' = db_revisions d"
    and reason: "\<exists>r. find_runtime (db_runtime d') k = Some r \<and> rs_reason r = why \<and> rs_failure_count r > 0"
    using run runtime_table.lookup_SomeD
    by (auto simp: quarantine_project_def effect_simps find_runtime_update runtime_check_def split: if_splits)
  have revs: "distinct (map r_id (db_revisions d'))" using inv_revisions[OF inv] frame by simp
  have short: "\<not> text_ok 4000 why" using long by (simp add: text_ok_def log_safe_def)
  have unread: "load_runtime_state d' k key \<noteq> Inr h" for key h
    using reason short by (auto simp: load_runtime_state_eq_Inr create_runtime_state_eq_Inr)
  have id: "rp_id p = k" if "find_project (db_projects d') k = Some row" "project_from_row verify d' row = Inr p" for row p
    using project_from_row_fields(1)[OF that(2) revs] project_table.lookup_SomeD[OF that(1)] by simp
  have "get_project verify (Some k) None d' \<noteq> Inr w" for w
    using id unread by (auto simp: get_project_def project_view_from_row_def select_project_row_eq_Inr)
  moreover have "repo_close_project_circuit verify k why' actor' t' d' \<noteq> Inr r" for why' actor' t' r
    using id unread by (auto simp: repo_close_project_circuit_def write_circuit_def select_project_row_eq_Inr)
  moreover have "load_runtime_state d' k key = Inl (V5EvidenceError, Bad_text)" if "project_key_ok key" for key
    using reason short k that
    by (auto simp: load_runtime_state_def create_runtime_state_def lifecycle_fields_def reraise_def)
  ultimately show ?thesis by blast
qed

lemma ex_quarantine:
  assumes "text_ok 4096 why"
  shows "\<exists>d'. quarantine_project 1 why ''scheduler'' ex_time None (ex_db []) = Inr (True, d')"
proof -
  have args: "text_ok 256 ''scheduler''" "timestamp_ok ex_time" "text_ok 256 ''PROJECT_CIRCUIT_OPENED''" by code_simp+
  have rows: "db_runtime (ex_db []) = [ex_runtime]" "find_project (db_projects (ex_db [])) 1 = Some ex_project"
    "rs_project_id ex_runtime = 1" "rs_health ex_runtime = Closed" "rs_failure_count ex_runtime = 0" by code_simp+
  have "ex_time \<noteq> []" by (simp add: ex_time_def)
  then have upd: "update_runtime V5SchedulerError (\<lambda>r. rs_project_id r = 1)
      (\<lambda>r. r\<lparr>rs_health := Open, rs_failure_count := rs_failure_count r + 1, rs_reason := why,
        rs_actor := ''scheduler'', rs_changed_at := ex_time\<rparr>) (ex_db [])
    = Inr (1, (ex_db [])\<lparr>db_runtime := [ex_runtime\<lparr>rs_health := Open, rs_failure_count := 1, rs_reason := why,
        rs_actor := ''scheduler'', rs_changed_at := ex_time\<rparr>]\<rparr>)"
    using text_ok_nonempty[OF assms] rows by (simp add: update_runtime_eq_Inr runtime_check_def)
  show ?thesis
    using assms args rows upd
    by (auto simp: quarantine_project_def find_runtime_def sched_event_eq_Inr event_references_ok_def new_event_def null_or_def)
qed
lemma ex_long_reason: "text_ok 4096 (replicate 4001 (CHR ''x''))"
  by (simp add: text_ok_def log_safe_def list_ex_iff control_char_def strip_def py_space_def
      dropWhile_replicate)

lemma long_quarantine_reason_unreadable_witness:
  "\<exists>d'. quarantine_project 1 (replicate 4001 (CHR ''x'')) ''scheduler'' ex_time None (ex_db []) = Inr (True, d')
     \<and> (\<forall>w. get_project ex_verify (Some 1) None d' \<noteq> Inr w)"
proof -
  have inv: "system_inv (ex_db [])" by code_simp
  obtain d' where run: "quarantine_project 1 (replicate 4001 (CHR ''x'')) ''scheduler'' ex_time None (ex_db [])
      = Inr (True, d')"
    using ex_quarantine[OF ex_long_reason] by blast
  have long: "length (replicate 4001 (CHR ''x'')) > 4000" by simp
  from long_quarantine_reason_unreadable[OF inv run long] run show ?thesis by blast
qed

section \<open>Roots of different Projects never overlap\<close>

definition roots_isolated :: "db \<Rightarrow> bool" where
  "roots_isolated d = (\<forall>p q. p \<noteq> q \<longrightarrow> (\<forall>a \<in> set (stored_roots d (\<lambda>k. k = p)).
     \<forall>b \<in> set (stored_roots d (\<lambda>k. k = q)). \<not> paths_overlap a b))"

lemma paths_overlap_sym: "paths_overlap a b \<longleftrightarrow> paths_overlap b a"
  by (auto simp: paths_overlap_def same_path_def)

lemma stored_roots_iff:
  "a \<in> set (stored_roots d P) \<longleftrightarrow> (\<exists>r \<in> set (db_revisions d). P (r_project_id r) \<and> a = r_checkout_path r)
     \<or> (\<exists>m \<in> set (db_mounts d). P (m_project_id m) \<and> a = m_path m)
     \<or> (\<exists>e \<in> set (db_environments d). P (en_project_id e) \<and> a \<in> set (en_search_directories e))"
  by (auto simp: stored_roots_def)

lemma stored_roots_other: "a \<in> set (stored_roots d P) \<Longrightarrow> (\<And>k. P k \<Longrightarrow> Q k) \<Longrightarrow> a \<in> set (stored_roots d Q)"
  by (auto simp: stored_roots_iff)

text \<open>What a list of inserts adds: rows of the revision's own Project, with its paths.\<close>

lemma each_mounts:
  "each (insert_mount_of v) ms d = Inr d' \<Longrightarrow> m \<in> set (db_mounts d') \<Longrightarrow>
     m \<in> set (db_mounts d) \<or> m_project_id m = pv_project_id v \<and> m_path m \<in> mb_path ` set ms"
proof (induction ms arbitrary: d)
  case (Cons b ms)
  then obtain d1 where d1: "insert_mount_of v b d = Inr d1" "each (insert_mount_of v) ms d1 = Inr d'" by auto
  from d1(1) have "set (db_mounts d1) \<subseteq> set (db_mounts d) \<union> {m. m_project_id m = pv_project_id v \<and> m_path m = mb_path b}"
    by (auto simp: insert_mount_of_def insert_mount_def mount_row_of_def Let_def split: if_splits)
  with Cons.IH[OF d1(2) Cons.prems(2)] show ?case by auto
qed simp

lemma each_environments:
  "each (insert_environment_of v) es d = Inr d' \<Longrightarrow> e \<in> set (db_environments d') \<Longrightarrow>
     e \<in> set (db_environments d) \<or> en_project_id e = pv_project_id v
       \<and> (\<exists>b \<in> set es. en_search_directories e = eb_search_directories b)"
proof (induction es arbitrary: d)
  case (Cons b es)
  then obtain d1 where d1: "insert_environment_of v b d = Inr d1" "each (insert_environment_of v) es d1 = Inr d'" by auto
  from d1(1) have "set (db_environments d1) \<subseteq> set (db_environments d)
      \<union> {e. en_project_id e = pv_project_id v \<and> en_search_directories e = eb_search_directories b}"
    by (auto simp: insert_environment_of_def insert_environment_def split: if_splits)
  with Cons.IH[OF d1(2) Cons.prems(2)] show ?case by auto
qed simp

lemma insert_revision_roots:
  assumes run: "insert_revision sha1 sha256 paths_current state_dir g d = Inr d'"
    and a: "a \<in> set (stored_roots d' P)"
  shows "a \<in> set (stored_roots d P) \<or> P (pv_project_id (gr_revision g)) \<and> a \<in> set (revision_roots (gr_revision g))"
proof -
  let ?v = "gr_revision g"
  from run obtain d1 d2 d3 where
    steps: "insert_revision_row V5RepositoryError (revision_row_of g) d = Inr d1"
    "each (insert_mount_of ?v) (er_mounts ?v) d1 = Inr d2"
    "each (insert_root_of ?v) (er_artifact_roots ?v) d2 = Inr d3"
    "each (insert_environment_of ?v) (er_environments ?v) d3 = Inr d'"
    using validate_resolved_eq_Inr by (auto simp: insert_revision_eq_Inr)
  have one: "db_mounts d1 = db_mounts d" "db_environments d1 = db_environments d"
    using steps(1) by (auto simp: insert_revision_row_def split: if_splits)
  have two: "db_environments d2 = db_environments d1"
    using _ steps(2) by (rule each_frame) (simp add: insert_children_frame)
  have three: "(db_mounts d3, db_environments d3) = (db_mounts d2, db_environments d2)"
    using _ steps(3) by (rule each_frame) (simp add: insert_children_frame)
  have four: "db_mounts d' = db_mounts d3"
    using _ steps(4) by (rule each_frame) (simp add: insert_children_frame)
  note revs = insert_revision_effect(1)[OF run]
  have mounts: "m \<in> set (db_mounts d) \<or> m_project_id m = pv_project_id ?v \<and> m_path m \<in> mb_path ` set (er_mounts ?v)"
    if "m \<in> set (db_mounts d')" for m
    using each_mounts[OF steps(2), of m] that one three four by simp
  have envs: "e \<in> set (db_environments d) \<or> en_project_id e = pv_project_id ?v
      \<and> (\<exists>b \<in> set (er_environments ?v). en_search_directories e = eb_search_directories b)"
    if "e \<in> set (db_environments d')" for e
    using each_environments[OF steps(4) that] one two three by simp
  from a[unfolded stored_roots_iff revs] show ?thesis
  proof (elim disjE bexE)
    fix r
    assume "r \<in> set (db_revisions d @ [revision_row_of g])" and "P (r_project_id r) \<and> a = r_checkout_path r"
    then show ?thesis by (auto simp: stored_roots_iff revision_roots_def revision_row_of_def Let_def)
  next
    fix m
    assume "m \<in> set (db_mounts d')" and "P (m_project_id m) \<and> a = m_path m"
    then show ?thesis using mounts[of m] by (auto simp: stored_roots_iff revision_roots_def)
  next
    fix e
    assume "e \<in> set (db_environments d')" and "P (en_project_id e) \<and> a \<in> set (en_search_directories e)"
    then show ?thesis using envs[of e] by (auto simp: stored_roots_iff revision_roots_def)
  qed
qed

lemma insert_revision_isolated:
  assumes run: "insert_revision sha1 sha256 paths_current state_dir g d = Inr d'" and iso: "roots_isolated d"
  shows "roots_isolated d'"
proof -
  let ?v = "gr_revision g"
  have apart: "\<not> paths_overlap a b"
    if "a \<in> set (revision_roots ?v)" "b \<in> set (stored_roots d (\<lambda>k. k = q))" "q \<noteq> pv_project_id ?v" for a b q
  proof -
    have "b \<in> set (stored_roots d (\<lambda>k. k \<noteq> pv_project_id ?v))"
      using that(2,3) by (auto elim: stored_roots_other)
    with run that(1) show ?thesis
      using validate_resolved_eq_Inr
      by (fastforce simp: insert_revision_eq_Inr assert_root_isolation_def list_ex_iff)
  qed
  show ?thesis
    unfolding roots_isolated_def
  proof (intro allI impI ballI)
    fix p q a b
    assume pq: "p \<noteq> q" and a: "a \<in> set (stored_roots d' (\<lambda>k. k = p))" and b: "b \<in> set (stored_roots d' (\<lambda>k. k = q))"
    from insert_revision_roots[OF run a] insert_revision_roots[OF run b] pq iso apart paths_overlap_sym
    show "\<not> paths_overlap a b" unfolding roots_isolated_def by metis
  qed
qed

text \<open>
  (C31) Root isolation is an invariant of the registry: while no checkout, mount or search directory of one
  Project overlaps one of another, registering a Project and appending a revision keep it so, and no root
  of the new revision overlaps the state directory.
\<close>

theorem roots_stay_isolated:
  assumes "roots_isolated d"
    and "register_project verify sha1 sha256 paths_current state_dir p g h d = Inr (w, d')
      \<or> append_revision verify sha1 sha256 paths_current state_dir g activate d = Inr (w, d')"
  shows "roots_isolated d'
    \<and> (\<forall>a \<in> set (revision_roots (gr_revision g)). \<not> paths_overlap state_dir a)"
proof -
  obtain d0 d1 where ins: "insert_revision sha1 sha256 paths_current state_dir g d0 = Inr d1"
    and before: "\<And>P. stored_roots d0 P = stored_roots d P" and later: "\<And>P. stored_roots d' P = stored_roots d1 P"
    using assms(2)
  proof
    assume "register_project verify sha1 sha256 paths_current state_dir p g h d = Inr (w, d')"
    then show thesis
      by (auto simp: register_project_def insert_project_def insert_runtime_def commit_view_eq_Inr
          repo_event_eq_Inr stored_roots_def intro!: that split: if_splits)
  next
    assume "append_revision verify sha1 sha256 paths_current state_dir g activate d = Inr (w, d')"
    then show thesis
      by (auto simp: append_revision_def adopt_revision_def set_current_revision_def update_projects_eq_Inr
          commit_view_eq_Inr repo_event_eq_Inr stored_roots_def intro!: that split: if_splits)
  qed
  have "roots_isolated d0" using assms(1) before by (simp add: roots_isolated_def)
  then have "roots_isolated d1" using insert_revision_isolated[OF ins] by blast
  then have "roots_isolated d'" using later by (simp add: roots_isolated_def)
  moreover have "\<forall>a \<in> set (revision_roots (gr_revision g)). \<not> paths_overlap state_dir a"
    using ins validate_resolved_eq_Inr
    by (fastforce simp: insert_revision_eq_Inr assert_root_isolation_def list_ex_iff)
  ultimately show ?thesis by blast
qed

lemma roots_stay_isolated_witness:
  "\<exists>w d'. append_revision ex_verify ex_sha1 ex_sha256 True ''/var/queue'' ex_resolved True (ex_db []) = Inr (w, d')
     \<and> roots_isolated d' \<and> \<not> paths_overlap ''/var/queue'' ''/data/outputs''"
proof -
  let ?r = "append_revision ex_verify ex_sha1 ex_sha256 True ''/var/queue'' ex_resolved True (ex_db [])"
  have iso: "roots_isolated (ex_db [])"
    by (auto simp: roots_isolated_def stored_roots_iff ex_db_def fresh_db_def ex_revision_def)
  have "succeeds ?r (\<lambda>w. True)" by code_simp
  then obtain w where run: "?r = Inr (w, after ?r)" by (blast dest: succeedsD)
  have root: "''/data/outputs'' \<in> set (revision_roots (gr_revision ex_resolved))" by code_simp
  from roots_stay_isolated[OF iso disjI2[OF run]] root run show ?thesis by blast
qed

section \<open>Project keys\<close>

lemma slug_char_iff: "slug_char c \<longleftrightarrow> lower_letter c \<or> is_digit c"
  by (simp add: slug_char_def lower_letter_def is_digit_def)

lemma hyphen_no_slug: "\<not> slug_char (CHR ''-'')"
  by (simp add: slug_char_def)

lemma key_tail_iff:
  "key_tail s \<longleftrightarrow> list_all (\<lambda>c. slug_char c \<or> c = CHR ''-'') s \<and> \<not> sublist ''--'' s
     \<and> (s \<noteq> [] \<longrightarrow> last s \<noteq> CHR ''-'')"
proof (induction s)
  case (Cons c s)
  show ?case
  proof (cases s)
    case Nil
    then show ?thesis by (auto simp: slug_char_iff sublist_Cons_right)
  next
    case (Cons e s')
    then show ?thesis
      using Cons.IH hyphen_no_slug by (auto simp: slug_char_iff sublist_Cons_right)
  qed
qed simp

text \<open>
  The key pattern of the Python code and the \<open>CHECK\<close> constraints of the schema accept the same keys.
\<close>

theorem project_key_matches_constraint: "project_key_ok s \<longleftrightarrow> slug_check s"
proof (cases s)
  case (Cons c s')
  show ?thesis
  proof (cases s')
    case Nil
    with Cons show ?thesis
      by (auto simp: project_key_ok_def slug_check_def slug_char_iff lower_letter_def sublist_Cons_right)
  next
    case (Cons e s'')
    then show ?thesis
      using \<open>s = c # s'\<close> hyphen_no_slug
      by (auto simp: project_key_ok_def slug_check_def key_tail_iff slug_char_def lower_letter_def
          sublist_Cons_right list_all_iff)
  qed
qed (simp add: project_key_ok_def slug_check_def)

end
