(* ===== verification/Admission_V5.thy ===== *)
theory Admission_V5
  imports Registry_V5
begin

text \<open>
  Admission (\<open>v5_repository.py\<close>): a resolved admission is checked against the persisted revision and its
  Git evidence, then its snapshot, queue item, dependencies and event are written in one transaction;
  the item is returned through the reader that compares it with its immutable snapshot.

  \<open>evidence_checks\<close> holds what the model takes as given: the re-verification of a stored revision, the two
  digests, and \<open>ec_authentic\<close>, whether a snapshot's decomposed evidence rehydrates to the same snapshot
  (\<open>admission_snapshot_to_stored_evidence\<close>, \<open>rehydrate_admission_snapshot\<close>: schema validation and
  canonical JSON of external packages).
\<close>

record evidence_checks =
  ec_verify :: verifier
  ec_sha1 :: "string \<Rightarrow> string"
  ec_sha256 :: "string \<Rightarrow> string"
  ec_authentic :: "admission_snapshot \<Rightarrow> bool"

record resolved_admission =
  ga_project_id :: int
  ga_revision_id :: int
  ga_project_key :: string
  ga_label :: string
  ga_repository_root :: string
  ga_git_commit :: string
  ga_project_blob :: git_blob
  ga_card_blob :: git_blob
  ga_extension_blob :: "git_blob option"
  ga_snapshot :: admission_snapshot

section \<open>Git evidence of stored sources\<close>

definition stored_git_blob ::
  "evidence_checks \<Rightarrow> stored_blob option \<Rightarrow> string \<Rightarrow> string \<Rightarrow> bool \<Rightarrow> git_blob option result" where
  "stored_git_blob ec stored path source optional = (case stored of
      None \<Rightarrow> require optional (evidence_error Row_missing) (Inr None)
    | Some b \<Rightarrow>
        require (commit_text (sb_object_id b)) (evidence_error Bad_text)
        (require (sb_mode b \<in> {''100644'', ''100755''}) (evidence_error Bad_text)
        (require (sb_size b = length source) (evidence_error Wrong_identity)
        (require (git_blob_object_id (ec_sha1 ec) (ec_sha256 ec) source (sb_object_id b) = sb_object_id b)
          (evidence_error Wrong_identity)
        (Inr (Some \<lparr>gb_path = path, gb_object_id = sb_object_id b, gb_mode = sb_mode b,
           gb_size = sb_size b, gb_source_sha256 = ec_sha256 ec source\<rparr>))))))"

definition required_git_blob :: "evidence_checks \<Rightarrow> stored_blob option \<Rightarrow> string \<Rightarrow> string \<Rightarrow> git_blob result" where
  "required_git_blob ec stored path source =
    and_then (stored_git_blob ec stored path source False) (\<lambda>b.
    fetch b (evidence_error Row_missing) Inr)"

definition revision_git_evidence ::
  "evidence_checks \<Rightarrow> revision_row \<Rightarrow> project_sources \<Rightarrow> (git_blob \<times> git_blob option) result" where
  "revision_git_evidence ec row s =
    and_then (required_git_blob ec (r_project_blob row) (ps_path s) (ps_source s)) (\<lambda>project.
    case ps_extension s of
      None \<Rightarrow> and_then (stored_git_blob ec (r_extension_blob row) [] [] True) (\<lambda>b.
        require (b = None) (evidence_error Conflicting_evidence) (Inr (project, None)))
    | Some e \<Rightarrow> and_then (required_git_blob ec (r_extension_blob row) (es_path e) (es_source e)) (\<lambda>b.
        Inr (project, Some b)))"

definition get_revision_git_evidence ::
  "evidence_checks \<Rightarrow> int \<Rightarrow> db \<Rightarrow> (git_blob \<times> git_blob option) result" where
  "get_revision_git_evidence ec revision_id d =
    and_then (load_revision (ec_verify ec) d revision_id) (\<lambda>v.
    fetch (find_revision (db_revisions d) (pv_id v)) (evidence_error Row_missing) (\<lambda>row.
    fetch (r_sources row) (evidence_error Corrupt_evidence) (revision_git_evidence ec row)))"

definition same_blob :: "git_blob \<Rightarrow> git_blob \<Rightarrow> bool" where
  "same_blob a b = (gb_object_id a = gb_object_id b \<and> gb_mode a = gb_mode b \<and> gb_size a = gb_size b)"

section \<open>A resolved admission against its revision\<close>

definition admission_blobs_ok :: "evidence_checks \<Rightarrow> resolved_admission \<Rightarrow> unit result" where
  "admission_blobs_ok ec g =
    (let s = ga_snapshot g; validate = validate_git_blob (ec_sha1 ec) (ec_sha256 ec) in
     and_then (validate (ga_project_blob g) (as_project_source s) (as_project_source_name s)) (\<lambda>_.
     and_then (validate (ga_card_blob g) (as_card_source s) (as_card_source_name s)) (\<lambda>_.
     case as_extension s of
       None \<Rightarrow> require (ga_extension_blob g = None) (evidence_error Conflicting_evidence) (Inr ())
     | Some e \<Rightarrow> fetch (ga_extension_blob g) (evidence_error Row_missing) (\<lambda>b.
         validate b (es_source e) (es_path e)))))"

definition snapshot_matches_revision ::
  "admission_snapshot \<Rightarrow> project_revision \<Rightarrow> project_sources \<Rightarrow> bool" where
  "snapshot_matches_revision s v p =
    (as_project_revision s = pv_label v \<and> as_git_commit s = pv_git_commit v
     \<and> as_project_source_name s = ps_path p \<and> as_project_source s = ps_source p
     \<and> as_project_normalized s = ps_normalized p \<and> as_project_schema s = ps_schema p
     \<and> sp_project_key (as_policy s) = pv_project_key v)"

definition validate_resolved_admission ::
  "evidence_checks \<Rightarrow> resolved_admission \<Rightarrow> project_revision \<Rightarrow> revision_row \<Rightarrow> admission_snapshot result" where
  "validate_resolved_admission ec g v row =
    fetch (r_sources row) (evidence_error Corrupt_evidence) (\<lambda>p.
    let s = ga_snapshot g in
    require ((ga_project_id g, ga_revision_id g, ga_project_key g, ga_label g, ga_repository_root g,
          ga_git_commit g)
        = (pv_project_id v, pv_id v, pv_project_key v, pv_label v, r_checkout_path row, pv_git_commit v))
      (evidence_error Wrong_identity)
    (and_then (admission_blobs_ok ec g) (\<lambda>_.
     require (snapshot_matches_revision s v p \<and> as_project_source_sha256 s = ps_sha256 p
         \<and> as_project_normalized_sha256 s = ps_normalized_sha256 p) (evidence_error Wrong_identity)
    (require (as_extension s = ps_extension p) (evidence_error Wrong_identity)
    (and_then (revision_git_evidence ec row p) (\<lambda>(project, extension).
     require (same_blob project (ga_project_blob g)) (evidence_error Wrong_identity)
    (require (case (extension, ga_extension_blob g) of
          (None, None) \<Rightarrow> True | (Some a, Some b) \<Rightarrow> same_blob a b | _ \<Rightarrow> False) (evidence_error Wrong_identity)
    (require (ec_authentic ec s) (evidence_error Corrupt_evidence)
    (Inr s)))))))))"

section \<open>Reading snapshots and items\<close>

definition snapshot_from_row :: "evidence_checks \<Rightarrow> db \<Rightarrow> snapshot_row \<Rightarrow> admission_snapshot result" where
  "snapshot_from_row ec d row =
    (let s = sn_evidence row in
     require (ec_authentic ec s) (evidence_error Corrupt_evidence)
    (and_then (load_revision (ec_verify ec) d (sn_revision_id row)) (\<lambda>v.
     fetch (find_revision (db_revisions d) (pv_id v)) (evidence_error Row_missing) (\<lambda>revision.
     fetch (r_sources revision) (evidence_error Corrupt_evidence) (\<lambda>p.
     require (sn_project_id row = pv_project_id v) (evidence_error Wrong_identity)
    (require (snapshot_matches_revision s v p) (evidence_error Wrong_identity)
    (and_then (required_git_blob ec (Some (sn_project_blob row)) (as_project_source_name s)
        (as_project_source s)) (\<lambda>project.
     and_then (required_git_blob ec (Some (sn_card_blob row)) (as_card_source_name s) (as_card_source s)) (\<lambda>_.
     and_then (revision_git_evidence ec revision p) (\<lambda>(revision_project, revision_extension).
     require (project = revision_project) (evidence_error Wrong_identity)
    (case as_extension s of
       None \<Rightarrow> and_then (stored_git_blob ec (sn_extension_blob row) [] [] True) (\<lambda>b.
         require (b = None \<and> revision_extension = None) (evidence_error Conflicting_evidence) (Inr s))
     | Some e \<Rightarrow>
         and_then (required_git_blob ec (sn_extension_blob row) (es_path e) (es_source e)) (\<lambda>b.
         require (Some b = revision_extension \<and> (case ps_extension p of None \<Rightarrow> False | Some x \<Rightarrow>
             es_path e = es_path x \<and> es_source e = es_source x \<and> es_canonical e = es_canonical x
             \<and> es_schema_id e = es_schema_id x)) (evidence_error Wrong_identity) (Inr s)))))))))))))"

definition get_admission_snapshot :: "evidence_checks \<Rightarrow> int \<Rightarrow> db \<Rightarrow> admission_snapshot result" where
  "get_admission_snapshot ec snapshot_id d =
    require (snapshot_id > 0) (repo_error Bad_integer)
    (fetch (find (\<lambda>s. sn_id s = snapshot_id) (db_snapshots d)) (V5NotFoundError, Row_missing)
      (snapshot_from_row ec d))"

definition snapshot_experiment_id :: "admission_snapshot \<Rightarrow> string result" where
  "snapshot_experiment_id s = (case json_get ''metadata'' (as_card_document s) of
      Some (JObj kvs) \<Rightarrow> (case map_of kvs ''experimentId'' of
          Some (JStr e) \<Rightarrow> require (text_ok 256 e) (repo_error Bad_text) (Inr e)
        | _ \<Rightarrow> Inl (repo_error Bad_text))
    | _ \<Rightarrow> Inl (evidence_error Corrupt_evidence))"

text \<open>The item a caller receives: its row with the authenticated snapshot, when it has one.\<close>

type_synonym item_view = "queue_item \<times> admission_snapshot option"

definition runner_name :: string where
  "runner_name = ''run-experiment''"

definition queue_item_from_row :: "evidence_checks \<Rightarrow> db \<Rightarrow> queue_item \<Rightarrow> item_view result" where
  "queue_item_from_row ec d row = (case qi_admission_kind row of
      Experiment_card \<Rightarrow>
        (case (qi_snapshot_id row, qi_job_id row) of
           (Some k, Some job) \<Rightarrow>
             fetch (find (\<lambda>s. sn_id s = k) (db_snapshots d)) (evidence_error Row_missing) (\<lambda>stored.
             and_then (snapshot_from_row ec d stored) (\<lambda>s.
             and_then (snapshot_experiment_id s) (\<lambda>experiment.
             require ((qi_project_id row, qi_revision_id row, job, qi_experiment_id row, qi_card_path row,
                   qi_card_sha256 row, qi_command_text row, qi_runner_name row, qi_git_commit row,
                   qi_preemptible row)
                 = (sn_project_id stored, sn_revision_id stored, sp_job_id (as_policy s), experiment,
                   sp_card_path (as_policy s), as_card_source_sha256 s, as_command_json s, runner_name,
                   as_git_commit s, sp_preemption_authorized (as_policy s)))
               (evidence_error Wrong_identity)
             (Inr (row, Some s)))))
         | _ \<Rightarrow> Inl (evidence_error Corrupt_evidence))
    | Legacy_card \<Rightarrow>
        require (qi_snapshot_id row = None \<and> qi_job_id row = None) (evidence_error Corrupt_evidence)
        (Inr (row, None)))"

definition get_queue_item :: "evidence_checks \<Rightarrow> int \<Rightarrow> db \<Rightarrow> item_view result" where
  "get_queue_item ec item_id d =
    require (item_id > 0) (repo_error Bad_integer)
    (fetch (find_item (db_items d) item_id) (V5NotFoundError, Row_missing) (queue_item_from_row ec d))"

fun read_items :: "evidence_checks \<Rightarrow> db \<Rightarrow> queue_item list \<Rightarrow> item_view list result" where
  "read_items ec d [] = Inr []"
| "read_items ec d (i # rest) = and_then (queue_item_from_row ec d i) (\<lambda>v.
     and_then (read_items ec d rest) (\<lambda>vs. Inr (v # vs)))"

text \<open>The repository's own candidate query: it reads no host switch and joins no revision.\<close>

definition repo_eligible :: "db \<Rightarrow> queue_item \<Rightarrow> bool" where
  "repo_eligible d i = (qi_state i = Queued
     \<and> (case find_project (db_projects d) (qi_project_id i) of None \<Rightarrow> False | Some p \<Rightarrow> p_lifecycle p = Active)
     \<and> (case find_runtime (db_runtime d) (qi_project_id i) of None \<Rightarrow> False | Some r \<Rightarrow> rs_health r = Closed)
     \<and> dependencies_satisfied d (qi_id i))"

definition repo_list_dispatch_candidates :: "evidence_checks \<Rightarrow> int \<Rightarrow> db \<Rightarrow> item_view list result" where
  "repo_list_dispatch_candidates ec limit d =
    require (1 \<le> limit \<and> limit \<le> 10000) (repo_error Bad_integer)
    (read_items ec d (take (nat limit)
      (sort_key (\<lambda>i. (- qi_priority i, if qi_resume_front i then 0 else 1 :: int, qi_id i))
        (filter (repo_eligible d) (db_items d)))))"

section \<open>Admission\<close>

fun check_dependencies :: "db \<Rightarrow> int list \<Rightarrow> unit result" where
  "check_dependencies d [] = Inr ()"
| "check_dependencies d (k # ks) =
    fetch (find_item (db_items d) k) (repo_error Row_missing) (\<lambda>i.
    require (\<not> terminal_non_success (qi_state i)) (repo_error Wrong_state)
    (check_dependencies d ks))"

definition next_attempt :: "db \<Rightarrow> int \<Rightarrow> string \<Rightarrow> int" where
  "next_attempt d project_id experiment = next_id (map qi_attempt (filter (\<lambda>i.
     qi_project_id i = project_id \<and> qi_experiment_id i = experiment) (db_items d)))"

text \<open>The inserted row; columns the statement does not name take their defaults.\<close>

definition admitted_item ::
  "int \<Rightarrow> int \<Rightarrow> int \<Rightarrow> int \<Rightarrow> string \<Rightarrow> int \<Rightarrow> admission_snapshot \<Rightarrow> string \<Rightarrow> queue_item" where
  "admitted_item item_id project_id revision_id snapshot_id experiment attempt s added_at =
    (let p = as_policy s in
    \<lparr>qi_id = item_id, qi_project_id = project_id, qi_revision_id = revision_id,
     qi_admission_kind = Experiment_card, qi_snapshot_id = Some snapshot_id,
     qi_job_id = Some (sp_job_id p), qi_experiment_id = experiment, qi_attempt = attempt,
     qi_card_path = sp_card_path p, qi_card_sha256 = as_card_source_sha256 s,
     qi_command_text = as_command_json s, qi_runner_name = runner_name,
     qi_git_commit = as_git_commit s, qi_added_at = added_at, qi_added_by = sp_operator p,
     qi_git_ref = None, qi_worktree_path = None, qi_worktree_created_at = None,
     qi_worktree_removed_at = None, qi_worktree_cleanup_error = None,
     qi_state = (if sp_hold_reason p \<noteq> None then Held else Queued), qi_priority = sp_priority p,
     qi_state_detail = sp_hold_reason p, qi_gpu_uuid = None, qi_gpu_index = None,
     qi_lease_held = False, qi_lease_released_at = None, qi_pid = None, qi_pgid = None,
     qi_start_ticks = None, qi_started_at = None, qi_finished_at = None, qi_return_code = None,
     qi_terminate_requested_at = None, qi_terminate_reason = None, qi_termination_stage = None,
     qi_termination_signal_epoch = None, qi_contention_detected = False,
     qi_repo_drift_detected = False, qi_runner_run_dir = None, qi_runner_manifest_path = None,
     qi_rsync_pull_command = None, qi_preemptible = sp_preemption_authorized p, qi_segment = 1,
     qi_resume_front = False, qi_yield_requested_at = None, qi_yield_requested_by = None,
     qi_yield_request_id = None, qi_yield_note = None, qi_yield_duration_hours = None,
     qi_checkpoint = None, qi_checkpoint_sha256 = None, qi_checkpoint_metadata = None,
     qi_checkpoint_metadata_sha256 = None, qi_continuation_step = None,
     qi_continuation_wandb_id = None, qi_runtime_git_ref = None, qi_runtime_worktree_path = None,
     qi_runtime_worktree_created_at = None, qi_runtime_worktree_removed_at = None,
     qi_runtime_worktree_cleanup_error = None\<rparr>)"

definition snapshot_row_of :: "int \<Rightarrow> int \<Rightarrow> int \<Rightarrow> resolved_admission \<Rightarrow> string \<Rightarrow> snapshot_row" where
  "snapshot_row_of snapshot_id project_id revision_id g created_at =
    \<lparr>sn_id = snapshot_id, sn_project_id = project_id, sn_revision_id = revision_id,
     sn_evidence = ga_snapshot g, sn_project_blob = stored_blob_of (ga_project_blob g),
     sn_card_blob = stored_blob_of (ga_card_blob g),
     sn_extension_blob = map_option stored_blob_of (ga_extension_blob g), sn_created_at = created_at\<rparr>"

text \<open>The transaction's statements, once the evidence is accepted.\<close>

definition admission_payload :: "int \<Rightarrow> int \<Rightarrow> string \<Rightarrow> int \<Rightarrow> item_state \<Rightarrow> int list \<Rightarrow> json" where
  "admission_payload snapshot_id revision_id experiment attempt state dependencies =
    JObj [(''snapshotId'', JInt snapshot_id), (''revisionId'', JInt revision_id),
      (''experimentId'', JStr experiment), (''attempt'', JInt attempt),
      (''state'', JStr (state_name state)), (''dependencies'', JList (map JInt dependencies))]"

definition persist_admission ::
  "evidence_checks \<Rightarrow> resolved_admission \<Rightarrow> int \<Rightarrow> int \<Rightarrow> admission_snapshot \<Rightarrow> string \<Rightarrow> db
    \<Rightarrow> (item_view \<times> db) result" where
  "persist_admission ec g project_id revision_id s added_at d =
    (let snapshot_id = next_id (map sn_id (db_snapshots d)); p = as_policy s;
         item_id = next_id (map qi_id (db_items d)) in
     and_then (insert_snapshot V5RepositoryError
         (snapshot_row_of snapshot_id project_id revision_id g added_at) d) (\<lambda>d1.
     and_then (snapshot_experiment_id s) (\<lambda>experiment.
     let attempt = next_attempt d1 project_id experiment;
         item = admitted_item item_id project_id revision_id snapshot_id experiment attempt s added_at in
     and_then (insert_item V5RepositoryError item d1) (\<lambda>d2.
     and_then (each (\<lambda>dep. insert_dependency V5RepositoryError (item_id, dep)) (sp_dependencies p) d2) (\<lambda>d3.
     and_then (repo_event added_at (sp_operator p) ''queue_item_admitted'' Scope_project (Some project_id)
         (Some item_id) (admission_payload snapshot_id revision_id experiment attempt (qi_state item)
           (sp_dependencies p)) d3) (\<lambda>d4.
     fetch (find_item (db_items d4) item_id) (evidence_error Row_missing) (\<lambda>row.
     and_then (queue_item_from_row ec d4 row) (\<lambda>view. Inr (view, d4)))))))))"

definition admit ::
  "evidence_checks \<Rightarrow> resolved_admission \<Rightarrow> string \<Rightarrow> db \<Rightarrow> (item_view \<times> db) result" where
  "admit ec g added_at d =
    require (repo_timestamp_ok added_at) (repo_error Bad_timestamp)
    (and_then (select_project_row d (ga_project_id g)) (\<lambda>project_row.
     and_then (project_from_row (ec_verify ec) d project_row) (\<lambda>p.
     require (admission_allowed p) (repo_error Not_allowed)
    (require (ga_revision_id g = rp_current_revision_id p) (repo_error Stale_evidence)
    (and_then (load_revision (ec_verify ec) d (ga_revision_id g)) (\<lambda>v.
     fetch (find_revision (db_revisions d) (pv_id v)) (evidence_error Row_missing) (\<lambda>row.
     and_then (validate_resolved_admission ec g v row) (\<lambda>s.
     and_then (check_dependencies d (sp_dependencies (as_policy s))) (\<lambda>_.
     require (ec_authentic ec s) (evidence_error Corrupt_evidence)
    (persist_admission ec g (rp_id p) (pv_id v) s added_at d))))))))))"

section \<open>What an admission writes\<close>

lemma each_dependencies:
  assumes "each (\<lambda>dep. insert_dependency x (k, dep)) ks d = Inr d'"
  shows "d' = d\<lparr>db_dependencies := db_dependencies d @ map (Pair k) ks\<rparr>
    \<and> (\<forall>dep \<in> set ks. dep \<noteq> k \<and> find_item (db_items d) dep \<noteq> None)"
  using assms
proof (induction ks arbitrary: d)
  case (Cons n ks)
  then obtain d1 where d1: "insert_dependency x (k, n) d = Inr d1"
    and rest: "each (\<lambda>dep. insert_dependency x (k, dep)) ks d1 = Inr d'" by auto
  from d1 have "d1 = d\<lparr>db_dependencies := db_dependencies d @ [(k, n)]\<rparr>"
    "n \<noteq> k" "find_item (db_items d) n \<noteq> None"
    by (auto simp: insert_dependency_def split: if_splits)
  with Cons.IH[OF rest] show ?case by simp
qed simp

lemma check_dependenciesD:
  "check_dependencies d ks = Inr u \<Longrightarrow> \<forall>k \<in> set ks. \<exists>i. find_item (db_items d) k = Some i
     \<and> \<not> terminal_non_success (qi_state i)"
  by (induction ks) auto

text \<open>The rows one admission adds.\<close>

definition admission_extends :: "queue_item \<Rightarrow> int list \<Rightarrow> db \<Rightarrow> db \<Rightarrow> bool" where
  "admission_extends item deps d d' = (\<exists>snapshot event.
     d' = d\<lparr>db_snapshots := db_snapshots d @ [snapshot], db_items := db_items d @ [item],
       db_dependencies := db_dependencies d @ map (Pair (qi_id item)) deps,
       db_events := db_events d @ [event]\<rparr>)"

lemma persist_admission_effect:
  assumes "persist_admission ec g project_id revision_id s t d = Inr (view, d')"
  shows "\<exists>experiment. snapshot_experiment_id s = Inr experiment
    \<and> (let item = admitted_item (next_id (map qi_id (db_items d))) project_id revision_id
          (next_id (map sn_id (db_snapshots d))) experiment (next_attempt d project_id experiment) s t in
       admission_extends item (sp_dependencies (as_policy s)) d d' \<and> item_check item
       \<and> fst view = item \<and> project_id \<in> p_id ` set (db_projects d)
       \<and> (revision_id, project_id) \<in> (\<lambda>r. (r_id r, r_project_id r)) ` set (db_revisions d)
       \<and> (\<forall>dep \<in> set (sp_dependencies (as_policy s)). dep \<noteq> qi_id item
            \<and> find_item (db_items d @ [item]) dep \<noteq> None))"
proof -
  let ?k = "next_id (map sn_id (db_snapshots d))" and ?n = "next_id (map qi_id (db_items d))"
  let ?deps = "sp_dependencies (as_policy s)" and ?snap = "snapshot_row_of (next_id (map sn_id (db_snapshots d))) project_id revision_id g t"
  obtain d1 expid d2 d3 d4 row payload where
    one: "insert_snapshot V5RepositoryError ?snap d = Inr d1"
    and exp: "snapshot_experiment_id s = Inr expid"
    and two: "insert_item V5RepositoryError (admitted_item ?n project_id revision_id ?k expid
      (next_attempt d1 project_id expid) s t) d1 = Inr d2"
    and three: "each (\<lambda>dep. insert_dependency V5RepositoryError (?n, dep)) ?deps d2 = Inr d3"
    and four: "repo_event t (sp_operator (as_policy s)) ''queue_item_admitted'' Scope_project
      (Some project_id) (Some ?n) payload d3 = Inr d4"
    and row: "find_item (db_items d4) ?n = Some row"
    and view: "queue_item_from_row ec d4 row = Inr view" and d': "d' = d4"
    using assms by (simp add: persist_admission_def Let_def) blast
  let ?item = "admitted_item ?n project_id revision_id ?k expid (next_attempt d project_id expid) s t"
  have d1: "d1 = d\<lparr>db_snapshots := db_snapshots d @ [?snap]\<rparr>"
    and "\<exists>p \<in> set (db_projects d). p_id p = project_id"
    using one by (auto simp: insert_snapshot_def snapshot_row_of_def list_ex_iff split: if_splits)
  then have project: "project_id \<in> p_id ` set (db_projects d)" by blast
  have attempt: "next_attempt d1 project_id expid = next_attempt d project_id expid"
    by (simp add: next_attempt_def d1)
  have d2: "d2 = d1\<lparr>db_items := db_items d1 @ [?item]\<rparr>" and check: "item_check ?item"
    and fresh: "?n \<notin> set (map qi_id (db_items d1))"
    and owner: "(revision_id, project_id) \<in> (\<lambda>r. (r_id r, r_project_id r)) ` set (db_revisions d)"
    using two unfolding attempt
    by (auto simp: insert_item_def d1 admitted_item_def Let_def list_ex_iff image_iff split: if_splits)
  note deps = each_dependencies[OF three]
  obtain e where d4: "d4 = d3\<lparr>db_events := db_events d3 @ [e]\<rparr>"
    using four by (auto simp: repo_event_eq_Inr)
  have id: "qi_id ?item = ?n" by (simp add: admitted_item_def Let_def)
  have "find_item (db_items d) ?n = None"
    using fresh item_table.lookup_SomeD[of "db_items d" ?n] by (cases "find_item (db_items d) ?n") (force simp: d1)+
  then have "row = ?item"
    using row by (simp add: d4 deps d2 d1 item_table.lookup_append id) (simp add: find_item_def id)
  then have fst: "fst view = ?item"
    using view by (auto simp: queue_item_from_row_def split: admission_kind.splits option.splits)
  have "admission_extends ?item ?deps d d'"
    unfolding admission_extends_def d' d4 using deps by (auto simp: d2 d1 id)
  with exp check fst project owner deps show ?thesis by (auto simp: Let_def id d2 d1)
qed


section \<open>Admission keeps the invariant\<close>

lemma admitted_item_wf: "item_wf (admitted_item n p r k e a s t)"
  by (simp add: admitted_item_def item_wf_defs null_or_def Let_def)

lemma admitted_item_fields [simp]:
  "qi_id (admitted_item n p r k e a s t) = n" "qi_project_id (admitted_item n p r k e a s t) = p"
  "qi_revision_id (admitted_item n p r k e a s t) = r" "qi_attempt (admitted_item n p r k e a s t) = a"
  "qi_experiment_id (admitted_item n p r k e a s t) = e" "qi_lease_held (admitted_item n p r k e a s t) = False"
  "qi_segment (admitted_item n p r k e a s t) = 1"
  "qi_state (admitted_item n p r k e a s t) = (if sp_hold_reason (as_policy s) \<noteq> None then Held else Queued)"
  by (simp_all add: admitted_item_def Let_def)

lemma append_item_inv:
  assumes inv: "system_inv d" and ext: "admission_extends i deps d d'"
    and i: "item_check i" "item_wf i" "\<not> qi_lease_held i"
    and fresh: "\<forall>j \<in> set (db_items d). qi_id j < qi_id i"
    and owner: "qi_project_id i \<in> p_id ` set (db_projects d)"
      "(qi_revision_id i, qi_project_id i) \<in> (\<lambda>r. (r_id r, r_project_id r)) ` set (db_revisions d)"
    and deps: "\<forall>dep \<in> set deps. dep \<in> qi_id ` set (db_items d)"
  shows "system_inv d'"
proof -
  have d': "db_items d' = db_items d @ [i]" "db_dependencies d' = db_dependencies d @ map (Pair (qi_id i)) deps"
    "db_reservations d' = db_reservations d" "db_runtime d' = db_runtime d" "db_gpus d' = db_gpus d"
    "db_projects d' = db_projects d" "db_revisions d' = db_revisions d"
    using ext by (auto simp: admission_extends_def)
  have "items_inv (db_items d')"
    using inv i fresh by (auto simp: system_inv_def items_inv_def d')
  moreover have "lease_inv (db_items d') (db_reservations d')"
    using inv i by (auto simp: system_inv_def lease_inv_def leased_def d')
  moreover have "reservations_inv (db_items d') (db_reservations d')"
    using inv by (fastforce simp: system_inv_def reservations_inv_def d' null_or_def split: option.splits)
  moreover have "dependencies_inv (db_items d') (db_dependencies d')"
    using inv fresh deps by (fastforce simp: system_inv_def dependencies_inv_def d')
  moreover have "owners_inv d'"
    using inv owner by (auto simp: system_inv_def owners_inv_def d')
  ultimately show ?thesis using inv by (simp add: system_inv_def d')
qed

lemma admission_history: "admission_extends i deps d d' \<Longrightarrow> history d d'"
  by (auto simp: admission_extends_def history_def list.rel_refl)

lemma persist_admission_inv:
  assumes run: "persist_admission ec g p r s t d = Inr (view, d')" and inv: "system_inv d"
  shows "system_inv d' \<and> history d d' \<and> admission_extends (fst view) (sp_dependencies (as_policy s)) d d'
    \<and> (\<exists>k e. snapshot_experiment_id s = Inr e \<and> fst view
        = admitted_item (next_id (map qi_id (db_items d))) p r k e (next_attempt d p e) s t)
    \<and> (\<forall>dep \<in> set (sp_dependencies (as_policy s)). dep \<in> qi_id ` set (db_items d))"
proof -
  let ?n = "next_id (map qi_id (db_items d))"
  obtain e where e: "snapshot_experiment_id s = Inr e"
    and ext: "admission_extends (fst view) (sp_dependencies (as_policy s)) d d'" and check: "item_check (fst view)"
    and item: "fst view = admitted_item ?n p r (next_id (map sn_id (db_snapshots d))) e (next_attempt d p e) s t"
    and owner: "p \<in> p_id ` set (db_projects d)" "(r, p) \<in> (\<lambda>r. (r_id r, r_project_id r)) ` set (db_revisions d)"
    and deps: "\<forall>dep \<in> set (sp_dependencies (as_policy s)). dep \<noteq> ?n
      \<and> find_item (db_items d @ [fst view]) dep \<noteq> None"
    using persist_admission_effect[OF run] by (auto simp: Let_def)
  have known: "\<forall>dep \<in> set (sp_dependencies (as_policy s)). dep \<in> qi_id ` set (db_items d)"
  proof
    fix dep
    assume "dep \<in> set (sp_dependencies (as_policy s))"
    with deps obtain j where "find_item (db_items d @ [fst view]) dep = Some j" "dep \<noteq> ?n" by auto
    with item_table.lookup_SomeD[OF this(1)] show "dep \<in> qi_id ` set (db_items d)" by (auto simp: item)
  qed
  have "\<forall>j \<in> set (db_items d). qi_id j < ?n"
    using next_id_fresh[of _ "map qi_id (db_items d)"] by simp
  then have "system_inv d'"
    using append_item_inv[OF inv ext check] owner known by (simp add: item admitted_item_wf)
  with ext e item known admission_history[OF ext] show ?thesis by blast
qed

lemma admitD:
  assumes "admit ec g t d = Inr (view, d')"
  shows "\<exists>row p. find_project (db_projects d) (ga_project_id g) = Some row
    \<and> project_from_row (ec_verify ec) d row = Inr p \<and> rp_lifecycle p \<noteq> Archived
    \<and> ga_revision_id g = rp_current_revision_id p
    \<and> check_dependencies d (sp_dependencies (as_policy (ga_snapshot g))) = Inr ()
    \<and> persist_admission ec g (rp_id p) (ga_revision_id g) (ga_snapshot g) t d = Inr (view, d')"
proof -
  obtain row p v r s where row: "find_project (db_projects d) (ga_project_id g) = Some row"
    and p: "project_from_row (ec_verify ec) d row = Inr p" "rp_lifecycle p \<noteq> Archived"
    and v: "load_revision (ec_verify ec) d (ga_revision_id g) = Inr v"
    and s: "validate_resolved_admission ec g v r = Inr s"
    and deps: "check_dependencies d (sp_dependencies (as_policy s)) = Inr ()"
    and persist: "persist_admission ec g (rp_id p) (pv_id v) s t d = Inr (view, d')"
    and current: "ga_revision_id g = rp_current_revision_id p"
    using assms unfolding admit_def require_eq_Inr and_then_eq_Inr fetch_eq_Inr select_project_row_eq_Inr
      admission_allowed_def by auto
  have "s = ga_snapshot g" using s by (auto simp: validate_resolved_admission_def Let_def)
  moreover have "pv_id v = ga_revision_id g" using load_revision_fields[OF v] by blast
  ultimately show ?thesis using row p deps persist current by auto
qed

interpretation admitting: safe_operation "admit ec g t"
  for ec :: evidence_checks and g :: resolved_admission and t :: string
proof
  fix d :: db and view :: item_view and d'
  assume run: "admit ec g t d = Inr (view, d')" and inv: "system_inv d"
  obtain p :: registered_project
    where "persist_admission ec g (rp_id p) (ga_revision_id g) (ga_snapshot g) t d = Inr (view, d')"
    using admitD[OF run] by blast
  from persist_admission_inv[OF this inv] show "system_inv d'" "history d d'" by blast+
qed

text \<open>
  (C10) Admission into an invariant database appends exactly one item: its identifier is above every earlier
  one, its attempt above every earlier attempt of the same experiment, it is held when the policy gives a
  reason and queued otherwise, it belongs to the current revision of a Project that is not archived, and
  it depends on exactly the policy's items, each of them admitted earlier and not ended without success.
  The invariant is kept.
\<close>

theorem admit_appends_one_item:
  assumes run: "admit ec g t d = Inr ((i, snapshot), d')" and inv: "system_inv d"
  shows "system_inv d' \<and> db_items d' = db_items d @ [i]
    \<and> (\<forall>j \<in> set (db_items d). qi_id j < qi_id i
         \<and> (qi_project_id j = qi_project_id i \<and> qi_experiment_id j = qi_experiment_id i
              \<longrightarrow> qi_attempt j < qi_attempt i))
    \<and> qi_state i = (if sp_hold_reason (as_policy (ga_snapshot g)) \<noteq> None then Held else Queued)
    \<and> (\<exists>p. find_project (db_projects d) (qi_project_id i) = Some p \<and> p_lifecycle p \<noteq> Archived
         \<and> qi_revision_id i = p_current_revision_id p)
    \<and> db_dependencies d' = db_dependencies d @ map (Pair (qi_id i)) (sp_dependencies (as_policy (ga_snapshot g)))
    \<and> (\<forall>k \<in> set (sp_dependencies (as_policy (ga_snapshot g))).
         \<exists>j \<in> set (db_items d). qi_id j = k \<and> \<not> terminal_non_success (qi_state j))"
proof -
  obtain row p where row: "find_project (db_projects d) (ga_project_id g) = Some row"
    and p: "project_from_row (ec_verify ec) d row = Inr p" "rp_lifecycle p \<noteq> Archived"
    and current: "ga_revision_id g = rp_current_revision_id p"
    and deps: "check_dependencies d (sp_dependencies (as_policy (ga_snapshot g))) = Inr ()"
    and persist: "persist_admission ec g (rp_id p) (ga_revision_id g) (ga_snapshot g) t d = Inr ((i, snapshot), d')"
    using admitD[OF run] by blast
  note effect = persist_admission_inv[OF persist inv, simplified]
  note fields = project_from_row_fields[OF p(1) inv_revisions[OF inv]]
  obtain k e where i: "i = admitted_item (next_id (map qi_id (db_items d))) (rp_id p) (ga_revision_id g) k e
      (next_attempt d (rp_id p) e) (ga_snapshot g) t"
    using effect by blast
  have "\<forall>j \<in> set (db_items d). qi_id j < qi_id i \<and> (qi_project_id j = qi_project_id i
      \<and> qi_experiment_id j = qi_experiment_id i \<longrightarrow> qi_attempt j < qi_attempt i)"
    by (auto simp: i next_attempt_def intro!: next_id_fresh)
  moreover have "\<forall>k \<in> set (sp_dependencies (as_policy (ga_snapshot g))).
      \<exists>j \<in> set (db_items d). qi_id j = k \<and> \<not> terminal_non_success (qi_state j)"
    using check_dependenciesD[OF deps] item_table.lookup_SomeD by meson
  moreover have "find_project (db_projects d) (qi_project_id i) = Some row"
    using row project_table.lookup_SomeD[OF row] fields(1) by (simp add: i)
  moreover have "db_items d' = db_items d @ [i]" "db_dependencies d' = db_dependencies d
      @ map (Pair (qi_id i)) (sp_dependencies (as_policy (ga_snapshot g)))"
    using effect by (auto simp: admission_extends_def)
  ultimately show ?thesis
    using effect p(2) fields(3,5) current by (simp add: i)
qed

definition ex_policy :: submission_policy where
  "ex_policy = \<lparr>sp_project_key = ''alpha'', sp_card_path = ''cards/next.yaml'', sp_job_id = ''train'',
     sp_priority = 5, sp_hold_reason = None, sp_dependencies = [7], sp_operator = ''operator'',
     sp_preemption_authorized = True, sp_bindings = JObj []\<rparr>"

definition ex_snapshot :: admission_snapshot where
  "ex_snapshot = \<lparr>as_project_source_name = ''project.yaml'', as_project_source = ''kind: Project'',
     as_project_source_sha256 = ex_sha, as_project_normalized = JObj [(''kind'', JStr ''Project'')],
     as_project_normalized_sha256 = ex_sha, as_project_schema = ex_schema,
     as_card_source_name = ''cards/next.yaml'', as_card_source = ''kind: Card'',
     as_card_source_sha256 = ex_sha,
     as_card_document = JObj [(''metadata'', JObj [(''experimentId'', JStr ''exp7'')])],
     as_card_normalized_sha256 = ex_sha, as_card_schema = ex_schema, as_extension_source_name = None,
     as_extension = None, as_resolved_document = JObj [], as_resolved_sha256 = ex_sha,
     as_command_kind = ''argv'', as_command_json = ''[]'', as_project_revision = ''alpha:r1'',
     as_git_commit = ex_commit, as_package_version = ''5'', as_policy = ex_policy\<rparr>"

definition ex_admission :: resolved_admission where
  "ex_admission = \<lparr>ga_project_id = 1, ga_revision_id = 1, ga_project_key = ''alpha'', ga_label = ''alpha:r1'',
     ga_repository_root = ''/work/alpha'', ga_git_commit = ex_commit,
     ga_project_blob = \<lparr>gb_path = ''project.yaml'', gb_object_id = ex_commit, gb_mode = ''100644'',
       gb_size = 13, gb_source_sha256 = ex_sha\<rparr>,
     ga_card_blob = \<lparr>gb_path = ''cards/next.yaml'', gb_object_id = ex_commit, gb_mode = ''100644'',
       gb_size = 10, gb_source_sha256 = ex_sha\<rparr>,
     ga_extension_blob = None, ga_snapshot = ex_snapshot\<rparr>"

definition ex_checks :: evidence_checks where
  "ex_checks = \<lparr>ec_verify = ex_verify, ec_sha1 = ex_sha1, ec_sha256 = ex_sha256, ec_authentic = (\<lambda>s. True)\<rparr>"

lemma ex_admit: "succeeds (admit ex_checks ex_admission ex_time (ex_db [ex_item 7])) (\<lambda>w. True)"
  by code_simp

lemma ex_item_seven: "system_inv (ex_db [ex_item 7])"
  by code_simp

theorem admit_appends_one_item_witness:
  "\<exists>i s d'. admit ex_checks ex_admission ex_time (ex_db [ex_item 7]) = Inr ((i, s), d')
     \<and> db_items d' = db_items (ex_db [ex_item 7]) @ [i] \<and> system_inv d'"
proof -
  obtain i s d' where run: "admit ex_checks ex_admission ex_time (ex_db [ex_item 7]) = Inr ((i, s), d')"
    using succeedsD[OF ex_admit] by auto
  from admit_appends_one_item[OF run ex_item_seven] run show ?thesis by blast
qed

end
