(* ===== verification/Attempts_V5.thy ===== *)
theory Attempts_V5
  imports Dispatch_V5
begin

text \<open>
  The attempt half of \<open>V5SchedulingController\<close> (\<open>scheduler_v5.py\<close>): the recovery views of active
  attempts, durable termination requests and their escalation, launch identity, completion from
  an executor receipt or without one, failing closed, abandoned launches, and the release of a
  GPU lease from idle telemetry. Signals are sent by the caller after the commit; the model is the
  committed transition and the evidence returned with it.
\<close>

section \<open>Views of active attempts\<close>

definition active_items :: "db \<Rightarrow> (int \<times> int \<times> item_state) list" where
  "active_items d = map (\<lambda>i. (qi_id i, qi_project_id i, qi_state i))
     (sort_key qi_id (filter (\<lambda>i. active_state (qi_state i)) (db_items d)))"

record active_attempt =
  aa_id :: int
  aa_project_id :: int
  aa_project_key :: string
  aa_revision_id :: int
  aa_revision_label :: string
  aa_admission_kind :: admission_kind
  aa_snapshot_id :: "int option"
  aa_experiment_id :: string
  aa_attempt :: int
  aa_state :: item_state
  aa_segment :: int
  aa_git_commit :: string
  aa_gpu_uuid :: "string option"
  aa_gpu_index :: "string option"
  aa_pid :: "int option"
  aa_pgid :: "int option"
  aa_start_ticks :: "string option"
  aa_started_at :: "string option"
  aa_terminate_requested_at :: "string option"
  aa_terminate_reason :: "string option"
  aa_termination_stage :: "stage option"
  aa_termination_signal_epoch :: "rat option"

definition active_attempt_row :: "db \<Rightarrow> queue_item \<Rightarrow> active_attempt option" where
  "active_attempt_row d i =
    (case (find_project (db_projects d) (qi_project_id i),
           find (\<lambda>r. r_id r = qi_revision_id i \<and> r_project_id r = qi_project_id i) (db_revisions d)) of
       (Some p, Some r) \<Rightarrow> Some
         \<lparr>aa_id = qi_id i, aa_project_id = qi_project_id i, aa_project_key = p_key p,
          aa_revision_id = qi_revision_id i, aa_revision_label = r_label r,
          aa_admission_kind = qi_admission_kind i, aa_snapshot_id = qi_snapshot_id i,
          aa_experiment_id = qi_experiment_id i, aa_attempt = qi_attempt i, aa_state = qi_state i,
          aa_segment = qi_segment i, aa_git_commit = qi_git_commit i, aa_gpu_uuid = qi_gpu_uuid i,
          aa_gpu_index = qi_gpu_index i, aa_pid = qi_pid i, aa_pgid = qi_pgid i,
          aa_start_ticks = qi_start_ticks i, aa_started_at = qi_started_at i,
          aa_terminate_requested_at = qi_terminate_requested_at i,
          aa_terminate_reason = qi_terminate_reason i,
          aa_termination_stage = qi_termination_stage i,
          aa_termination_signal_epoch = qi_termination_signal_epoch i\<rparr>
     | _ \<Rightarrow> None)"

definition active_attempts :: "db \<Rightarrow> active_attempt list" where
  "active_attempts d = List.map_filter (active_attempt_row d)
     (sort_key qi_id (filter (\<lambda>i. active_state (qi_state i)) (db_items d)))"

section \<open>Termination requests\<close>

record termination_action =
  ta_item_id :: int
  ta_project_id :: int
  ta_segment :: int
  ta_state :: item_state
  ta_stage :: stage
  ta_requested_at :: string
  ta_reason :: string
  ta_signal_epoch :: rat
  ta_pid :: "int option"
  ta_pgid :: "int option"
  ta_start_ticks :: "string option"

text \<open>\<open>str(value)\<close> of a nullable text column.\<close>

definition py_str :: "string option \<Rightarrow> string" where
  "py_str v = (case v of None \<Rightarrow> ''None'' | Some s \<Rightarrow> s)"

definition termination_action_from_row :: "queue_item \<Rightarrow> termination_action result" where
  "termination_action_from_row i =
    require (qi_state i \<in> {Terminating, Force_killing}) (sched_error Wrong_state)
    (fetch (qi_termination_stage i) (sched_error Corrupt_evidence) (\<lambda>stage.
     require (qi_state i = Force_killing \<longrightarrow> stage = Kill) (sched_error Corrupt_evidence)
    (require (qi_state i = Terminating \<longrightarrow> stage \<noteq> Kill) (sched_error Corrupt_evidence)
    (require (qi_id i > 0 \<and> qi_project_id i > 0 \<and> qi_segment i > 0) (sched_error Bad_integer)
    (require (timestamp_ok (py_str (qi_terminate_requested_at i))) (sched_error Bad_timestamp)
    (require (text_ok 4096 (py_str (qi_terminate_reason i))) (sched_error Bad_text)
    (fetch (qi_termination_signal_epoch i) (sched_error Bad_number) (\<lambda>epoch.
     require (0 \<le> epoch) (sched_error Bad_number)
    (require (null_or (\<lambda>n. n > 0) (qi_pid i) \<and> null_or (\<lambda>n. n > 0) (qi_pgid i))
       (sched_error Bad_integer)
    (require (null_or (text_ok 256) (qi_start_ticks i)) (sched_error Bad_text)
    (Inr \<lparr>ta_item_id = qi_id i, ta_project_id = qi_project_id i, ta_segment = qi_segment i,
       ta_state = qi_state i, ta_stage = stage,
       ta_requested_at = py_str (qi_terminate_requested_at i),
       ta_reason = py_str (qi_terminate_reason i), ta_signal_epoch = epoch, ta_pid = qi_pid i,
       ta_pgid = qi_pgid i, ta_start_ticks = qi_start_ticks i\<rparr>)))))))))))"

text \<open>Re-reading the row after an update, inside the same transaction.\<close>

definition reread_action :: "int \<Rightarrow> db \<Rightarrow> (termination_action \<times> db) result" where
  "reread_action k d = fetch (find_item (db_items d) k) (sched_error Row_missing) (\<lambda>i.
     and_then (termination_action_from_row i) (\<lambda>a. Inr (a, d)))"

definition termination_update ::
  "item_state \<Rightarrow> string \<Rightarrow> string \<Rightarrow> stage \<Rightarrow> rat \<Rightarrow> queue_item \<Rightarrow> queue_item" where
  "termination_update target requested_at why stage epoch i =
    i\<lparr>qi_state := target, qi_terminate_requested_at := Some requested_at,
      qi_terminate_reason := Some why, qi_termination_stage := Some stage,
      qi_termination_signal_epoch := Some epoch, qi_state_detail := Some why\<rparr>"

definition request_termination ::
  "int \<Rightarrow> string \<Rightarrow> bool \<Rightarrow> string \<Rightarrow> string \<Rightarrow> pyfloat \<Rightarrow> db \<Rightarrow> (termination_action \<times> db) result"
  where
  "request_termination item_id why force actor requested_at signal_epoch d =
    require (item_id > 0) (sched_error Bad_integer)
    (require (text_ok 4096 why) (sched_error Bad_text)
    (require (text_ok 256 actor) (sched_error Bad_text)
    (require (timestamp_ok requested_at) (sched_error Bad_timestamp)
    (fetch (nonnegative_float signal_epoch) (sched_error Bad_number) (\<lambda>epoch.
     fetch (find_item (db_items d) item_id) (sched_error Row_missing) (\<lambda>row.
     let current = qi_state row;
       target = (if force then Force_killing else Terminating);
       stage = (if force then Kill else Interrupt) in
     require (current \<noteq> Starting) (sched_error Wrong_state)
    (require (active_state current) (sched_error Wrong_state)
    (require (force \<or> current \<noteq> Force_killing) (sched_error Wrong_state)
    (if \<not> force \<and> current = Terminating \<or> force \<and> current = Force_killing
     then and_then (termination_action_from_row row) (\<lambda>a. Inr (a, d))
     else and_then
       (update_items V5SchedulerError (\<lambda>i. qi_id i = item_id \<and> qi_state i = current)
          (termination_update target requested_at why stage epoch) d)
       (\<lambda>(n, d1). require (n = 1) (sched_error Lost_update)
         (and_then
           (sched_event requested_at actor
              (if force then ''FORCE_KILL_REQUESTED'' else ''TERMINATION_REQUESTED'')
              Scope_project (Some (qi_project_id row)) (Some item_id)
              (JObj [(''previous_state'', JStr (state_name current)),
                     (''state'', JStr (state_name target)), (''stage'', JStr (stage_name stage)),
                     (''signal'', JStr (if force then ''SIGKILL'' else ''SIGINT'')),
                     (''reason'', JStr why), (''segment'', JInt (qi_segment row))]) d1)
           (reread_action item_id))))))))))))"

fun next_stage :: "stage \<Rightarrow> stage" where
  "next_stage Interrupt = Terminate"
| "next_stage Terminate = Kill"
| "next_stage Kill = Kill"

fun stage_state :: "stage \<Rightarrow> item_state" where
  "stage_state Kill = Force_killing"
| "stage_state _ = Terminating"

fun stage_signal :: "stage \<Rightarrow> string" where
  "stage_signal Interrupt = ''SIGINT''"
| "stage_signal Terminate = ''SIGTERM''"
| "stage_signal Kill = ''SIGKILL''"

definition escalated :: "stage \<Rightarrow> rat \<Rightarrow> queue_item \<Rightarrow> queue_item" where
  "escalated expected_stage epoch i =
    i\<lparr>qi_state := stage_state (next_stage expected_stage),
      qi_termination_stage := Some (next_stage expected_stage),
      qi_termination_signal_epoch := Some epoch\<rparr>"

definition escalate_termination ::
  "int \<Rightarrow> stage \<Rightarrow> pyfloat \<Rightarrow> string \<Rightarrow> string \<Rightarrow> pyfloat \<Rightarrow> db
    \<Rightarrow> (termination_action option \<times> db) result" where
  "escalate_termination item_id expected_stage expected_signal_epoch actor changed_at signal_epoch d =
    require (item_id > 0) (sched_error Bad_integer)
    (require (expected_stage \<in> {Interrupt, Terminate}) (sched_error Bad_argument)
    (fetch (nonnegative_float expected_signal_epoch) (sched_error Bad_number) (\<lambda>expected_epoch.
     fetch (nonnegative_float signal_epoch) (sched_error Bad_number) (\<lambda>epoch.
     require (text_ok 256 actor) (sched_error Bad_text)
    (require (timestamp_ok changed_at) (sched_error Bad_timestamp)
    (fetch (find_item (db_items d) item_id) (sched_error Row_missing) (\<lambda>row.
     let stage = next_stage expected_stage; target = stage_state stage in
     if qi_state row \<noteq> Terminating \<or> qi_termination_stage row \<noteq> Some expected_stage
        \<or> qi_termination_signal_epoch row \<noteq> Some expected_epoch
     then Inr (None, d)
     else and_then
       (update_items V5SchedulerError
          (\<lambda>i. qi_id i = item_id \<and> qi_state i = Terminating
             \<and> qi_termination_stage i = Some expected_stage
             \<and> qi_termination_signal_epoch i = Some expected_epoch)
          (escalated expected_stage epoch) d)
       (\<lambda>(n, d1). if n \<noteq> 1 then Inr (None, d1)
         else and_then
           (sched_event changed_at actor ''TERMINATION_ESCALATED'' Scope_project
              (Some (qi_project_id row)) (Some item_id)
              (JObj [(''previous_stage'', JStr (stage_name expected_stage)),
                     (''stage'', JStr (stage_name stage)), (''state'', JStr (state_name target)),
                     (''signal'', JStr (stage_signal stage)),
                     (''reason'', JStr (py_str (qi_terminate_reason row))),
                     (''segment'', JInt (qi_segment row))]) d1)
           (\<lambda>d2. and_then (reread_action item_id d2) (\<lambda>(a, d3). Inr (Some a, d3)))))))))))"

definition record_termination_signal_attempt ::
  "termination_action \<Rightarrow> string \<Rightarrow> bool \<Rightarrow> string \<Rightarrow> string \<Rightarrow> db \<Rightarrow> (unit \<times> db) result" where
  "record_termination_signal_attempt action signal_name delivered actor attempted_at d =
    require (signal_name = stage_signal (ta_stage action)) (sched_error Bad_argument)
    (fetch (find_item (db_items d) (ta_item_id action)) (sched_error Row_missing) (\<lambda>row.
     require (qi_project_id row = ta_project_id action) (sched_error Wrong_identity)
    (and_then
      (sched_event attempted_at actor
        (if delivered then ''TERMINATION_SIGNAL_SENT'' else ''TERMINATION_SIGNAL_PENDING'')
        Scope_project (Some (ta_project_id action)) (Some (ta_item_id action))
        (JObj [(''signal'', JStr signal_name), (''signal_sent'', JBool delivered),
               (''requested_stage'', JStr (stage_name (ta_stage action))),
               (''current_stage'', json_opt (\<lambda>s. JStr (stage_name s)) (qi_termination_stage row)),
               (''current_state'', JStr (state_name (qi_state row))),
               (''segment'', JInt (ta_segment action)), (''pid'', json_opt JInt (ta_pid action)),
               (''pgid'', json_opt JInt (ta_pgid action)),
               (''process_start_ticks'', json_opt JStr (ta_start_ticks action))]) d)
      (\<lambda>d'. Inr ((), d')))))"

definition record_termination_completion ::
  "int \<Rightarrow> string \<Rightarrow> string \<Rightarrow> int option \<Rightarrow> db \<Rightarrow> (item_state \<times> db) result" where
  "record_termination_completion item_id actor finished_at return_code d =
    require (item_id > 0) (sched_error Bad_integer)
    (require (text_ok 256 actor) (sched_error Bad_text)
    (require (timestamp_ok finished_at) (sched_error Bad_timestamp)
    (fetch (find_item (db_items d) item_id) (sched_error Row_missing) (\<lambda>row.
     let current = qi_state row;
       terminal = (if current = Terminating then Interrupted else Force_killed) in
     if current \<in> {Interrupted, Force_killed} then Inr (current, d)
     else
     require (current \<in> {Terminating, Force_killing}) (sched_error Wrong_state)
    (and_then
      (update_items V5SchedulerError (\<lambda>i. qi_id i = item_id \<and> qi_state i = current)
        (\<lambda>i. i\<lparr>qi_state := terminal, qi_finished_at := Some finished_at,
               qi_return_code := return_code,
               qi_state_detail := Some (''requested process ended without an executor receipt; termination stage ''
                  @ (case qi_termination_stage row of None \<Rightarrow> ''None'' | Some s \<Rightarrow> stage_name s))\<rparr>) d)
      (\<lambda>(n, d1). require (n = 1) (sched_error Lost_update)
        (and_then
          (sched_event finished_at actor ''EXPERIMENT_TERMINATION_COMPLETED'' Scope_project
             (Some (qi_project_id row)) (Some item_id)
             (JObj [(''previous_state'', JStr (state_name current)),
                    (''state'', JStr (state_name terminal)),
                    (''stage'', json_opt (\<lambda>s. JStr (stage_name s)) (qi_termination_stage row)),
                    (''reason'', json_opt JStr (qi_terminate_reason row)),
                    (''segment'', JInt (qi_segment row)),
                    (''return_code'', json_opt JInt return_code),
                    (''executor_receipt'', JBool False)]) d1)
          (\<lambda>d2. Inr (terminal, d2)))))))))"


section \<open>Releasing a GPU lease\<close>

definition free_memory_fraction :: "rat \<Rightarrow> rat \<Rightarrow> rat" where
  "free_memory_fraction total_mib used_mib = max 0 (round64 (1 - round64 (used_mib / total_mib)))"

definition release_gpu_lease ::
  "int \<Rightarrow> string \<Rightarrow> string \<Rightarrow> pyfloat \<Rightarrow> pyfloat \<Rightarrow> pyfloat \<Rightarrow> int list \<Rightarrow> pyfloat \<Rightarrow> pyfloat
    \<Rightarrow> string \<Rightarrow> string \<Rightarrow> db \<Rightarrow> (bool \<times> db) result" where
  "release_gpu_lease item_id gpu_uuid observed_index memory_total memory_used utilization_percent
     compute_pids minimum_free_fraction maximum_utilization_percent actor observed_at d =
    require (item_id > 0) (sched_error Bad_integer)
    (require (text_ok 256 gpu_uuid) (sched_error Bad_text)
    (require (text_ok 64 observed_index) (sched_error Bad_text)
    (fetch (nonnegative_float memory_total) (sched_error Bad_number) (\<lambda>total_mib.
     fetch (nonnegative_float memory_used) (sched_error Bad_number) (\<lambda>used_mib.
     fetch (nonnegative_float utilization_percent) (sched_error Bad_number) (\<lambda>utilization.
     fetch (nonnegative_float minimum_free_fraction) (sched_error Bad_number) (\<lambda>minimum_free.
     fetch (nonnegative_float maximum_utilization_percent) (sched_error Bad_number) (\<lambda>maximum_utilization.
     require (0 < total_mib \<and> used_mib \<le> total_mib) (sched_error Bad_argument)
    (require (utilization \<le> 100 \<and> minimum_free \<le> 1 \<and> maximum_utilization \<le> 100)
       (sched_error Bad_argument)
    (require (list_all (\<lambda>n. n > 0) compute_pids) (sched_error Bad_argument)
    (require (distinct compute_pids) (sched_error Bad_argument)
    (let free_fraction = free_memory_fraction total_mib used_mib in
     require (compute_pids = [] \<and> minimum_free \<le> free_fraction \<and> utilization \<le> maximum_utilization)
       (sched_error Not_idle)
    (require (text_ok 256 actor) (sched_error Bad_text)
    (require (timestamp_ok observed_at) (sched_error Bad_timestamp)
    (fetch (find_item (db_items d) item_id) (sched_error Row_missing) (\<lambda>row.
     require (qi_gpu_uuid row = Some gpu_uuid) (sched_error Wrong_identity)
    (require (\<not> active_state (qi_state row)) (sched_error Wrong_state)
    (if \<not> qi_lease_held row
     then require (qi_lease_released_at row \<noteq> None) (sched_error No_change) (Inr (False, d))
     else and_then
       (update_items V5SchedulerError
          (\<lambda>i. qi_id i = item_id \<and> qi_lease_held i \<and> qi_gpu_uuid i = Some gpu_uuid)
          (\<lambda>i. i\<lparr>qi_lease_held := False, qi_lease_released_at := Some observed_at\<rparr>) d)
       (\<lambda>(n, d1). require (n = 1) (sched_error Lost_update)
         (and_then
           (sched_event observed_at actor ''GPU_RUNTIME_LEASE_RELEASED'' Scope_project
              (Some (qi_project_id row)) (Some item_id)
              (JObj [(''gpu_uuid'', JStr gpu_uuid),
                     (''assigned_gpu_index'', JStr (py_str (qi_gpu_index row))),
                     (''observed_gpu_index'', JStr observed_index),
                     (''state'', JStr (state_name (qi_state row))),
                     (''segment'', JInt (qi_segment row)),
                     (''memory_total_mib'', JFloat (Finite total_mib)),
                     (''memory_used_mib'', JFloat (Finite used_mib)),
                     (''free_memory_fraction'', JFloat (Finite free_fraction)),
                     (''utilization_percent'', JFloat (Finite utilization)),
                     (''compute_pids'', JList (map JInt compute_pids)),
                     (''minimum_free_memory_fraction'', JFloat (Finite minimum_free)),
                     (''maximum_utilization_percent'', JFloat (Finite maximum_utilization))]) d1)
           (\<lambda>d2. Inr (True, d2))))))))))))))))))))))"

section \<open>Launch identity\<close>

definition record_launched ::
  "int \<Rightarrow> int \<Rightarrow> string \<Rightarrow> int \<Rightarrow> int \<Rightarrow> string option \<Rightarrow> string \<Rightarrow> string \<Rightarrow> db
    \<Rightarrow> (item_state \<times> db) result" where
  "record_launched item_id segment gpu_uuid pid pgid start_ticks actor started_at d =
    require (item_id > 0 \<and> segment > 0 \<and> pid > 0 \<and> pgid > 0) (sched_error Bad_integer)
    (require (text_ok 256 gpu_uuid) (sched_error Bad_text)
    (require (null_or (text_ok 256) start_ticks) (sched_error Bad_text)
    (fetch (find_item (db_items d) item_id) (sched_error Row_missing) (\<lambda>row.
     let current = qi_state row; next_state = (if current = Starting then Running else current) in
     require (current \<in> {Starting, Terminating, Force_killing}) (sched_error Wrong_state)
    (require (qi_segment row = segment) (sched_error Stale_evidence)
    (require (qi_gpu_uuid row = Some gpu_uuid) (sched_error Wrong_identity)
    (require (qi_pid row = None \<and> qi_pgid row = None \<and> qi_start_ticks row = None
        \<and> qi_started_at row = None) (sched_error Conflicting_evidence)
    (require (timestamp_ok started_at) (sched_error Bad_timestamp)
    (and_then
      (update_items V5SchedulerError
        (\<lambda>i. qi_id i = item_id \<and> qi_state i = current \<and> qi_segment i = segment
           \<and> qi_gpu_uuid i = Some gpu_uuid \<and> qi_pid i = None \<and> qi_pgid i = None
           \<and> qi_start_ticks i = None \<and> qi_started_at i = None)
        (\<lambda>i. i\<lparr>qi_state := next_state, qi_pid := Some pid, qi_pgid := Some pgid,
               qi_start_ticks := start_ticks, qi_started_at := Some started_at\<rparr>) d)
      (\<lambda>(n, d1). require (n = 1) (sched_error Lost_update)
        (and_then
          (sched_event started_at actor ''EXPERIMENT_LAUNCHED'' Scope_project
             (Some (qi_project_id row)) (Some item_id)
             (JObj [(''pid'', JInt pid), (''pgid'', JInt pgid), (''gpu_uuid'', JStr gpu_uuid),
                    (''segment'', JInt segment), (''state'', JStr (state_name next_state)),
                    (''process_start_ticks'', json_opt JStr start_ticks)]) d1)
          (\<lambda>d2. Inr (next_state, d2)))))))))))))"

section \<open>Completion\<close>

text \<open>The fields of a validated \<open>ExecutorReceipt\<close> that finalization reads.\<close>

record executor_receipt =
  er_item_id :: int
  er_project_id :: int
  er_revision_id :: int
  er_experiment_id :: string
  er_attempt :: int
  er_segment :: int
  er_git_commit :: string
  er_finished_at :: string
  er_return_code :: int
  er_signals_received :: "string list"

fun completion_state :: "item_state \<Rightarrow> int \<Rightarrow> item_state option" where
  "completion_state Starting rc = Some (if rc = 0 then Succeeded else Failed)"
| "completion_state Running rc = Some (if rc = 0 then Succeeded else Failed)"
| "completion_state Terminating rc = Some Interrupted"
| "completion_state Force_killing rc = Some Force_killed"
| "completion_state _ rc = None"

definition record_executor_completion ::
  "executor_receipt \<Rightarrow> string \<Rightarrow> db \<Rightarrow> (item_state \<times> db) result" where
  "record_executor_completion receipt actor d =
    fetch (find_item (db_items d) (er_item_id receipt)) (sched_error Row_missing) (\<lambda>row.
    let current = qi_state row in
    require (qi_project_id row = er_project_id receipt \<and> qi_revision_id row = er_revision_id receipt
        \<and> qi_experiment_id row = er_experiment_id receipt \<and> qi_attempt row = er_attempt receipt
        \<and> qi_segment row = er_segment receipt \<and> qi_git_commit row = er_git_commit receipt)
      (sched_error Wrong_identity)
    (require (current \<noteq> Yielding) (sched_error Wrong_state)
    (if current \<in> {Succeeded, Failed, Interrupted, Force_killed}
     then require (qi_return_code row = Some (er_return_code receipt))
            (sched_error Conflicting_evidence) (Inr (current, d))
     else fetch (completion_state current (er_return_code receipt)) (sched_error Wrong_state) (\<lambda>terminal.
       and_then
         (update_items V5SchedulerError (\<lambda>i. qi_id i = er_item_id receipt)
           (\<lambda>i. i\<lparr>qi_state := terminal, qi_finished_at := Some (er_finished_at receipt),
                  qi_return_code := Some (er_return_code receipt),
                  qi_state_detail := (if terminal = Succeeded then None
                    else Some (''executor returned '' @ str_int (er_return_code receipt)))\<rparr>) d)
         (\<lambda>(_, d1). and_then
           (sched_event (er_finished_at receipt) actor ''EXPERIMENT_FINISHED'' Scope_project
             (Some (er_project_id receipt)) (Some (er_item_id receipt))
             (JObj [(''state'', JStr (state_name terminal)),
                    (''return_code'', JInt (er_return_code receipt)),
                    (''segment'', JInt (er_segment receipt)),
                    (''signals_received'', JList (map JStr (er_signals_received receipt)))]) d1)
           (\<lambda>d2. Inr (terminal, d2)))))))"

definition failure_state :: "item_state \<Rightarrow> item_state" where
  "failure_state current = (if current = Terminating then Interrupted
     else if current = Force_killing then Force_killed else Failed)"

definition fail_active_item ::
  "int \<Rightarrow> string \<Rightarrow> string \<Rightarrow> string \<Rightarrow> int option \<Rightarrow> db \<Rightarrow> (item_state \<times> db) result" where
  "fail_active_item item_id why actor finished_at return_code d =
    require (item_id > 0) (sched_error Bad_integer)
    (require (text_ok 4096 why) (sched_error Bad_text)
    (require (null_or (\<lambda>n. n \<ge> 0) return_code) (sched_error Bad_integer)
    (fetch (find_item (db_items d) item_id) (sched_error Row_missing) (\<lambda>row.
     let current = qi_state row; terminal = failure_state current in
     if current \<in> {Succeeded, Failed, Interrupted, Force_killed} then Inr (current, d)
     else
     require (active_state current) (sched_error Wrong_state)
    (require (timestamp_ok finished_at) (sched_error Bad_timestamp)
    (and_then
      (update_items V5SchedulerError (\<lambda>i. qi_id i = item_id)
        (\<lambda>i. i\<lparr>qi_state := terminal, qi_state_detail := Some why,
               qi_finished_at := Some finished_at, qi_return_code := return_code\<rparr>) d)
      (\<lambda>(_, d1). and_then
        (sched_event finished_at actor ''EXPERIMENT_PROCESS_EVIDENCE_FAILED'' Scope_project
          (Some (qi_project_id row)) (Some item_id)
          (JObj [(''previous_state'', JStr (state_name current)),
                 (''state'', JStr (state_name terminal)), (''reason'', JStr why),
                 (''segment'', JInt (qi_segment row)),
                 (''return_code'', json_opt JInt return_code)]) d1)
        (\<lambda>d2. Inr (terminal, d2)))))))))"

section \<open>Abandoned launches\<close>

record abandoned_resolution =
  al_item_id :: int
  al_project_id :: int
  al_gpu_uuid :: string
  al_previous_state :: item_state
  al_event_type :: string
  al_state :: item_state
  al_reason :: string
  al_resolved_at :: string

definition abandoned_detail :: "int option \<Rightarrow> string \<Rightarrow> string" where
  "abandoned_detail pid why = ''operator resolved abandoned attempt ('' @
     (if pid = None then ''pre-launch claim'' else ''dead recorded process'') @ ''): '' @ why"

definition resolve_abandoned_launch ::
  "int \<Rightarrow> int \<Rightarrow> string \<Rightarrow> int option \<Rightarrow> int option \<Rightarrow> string option \<Rightarrow> string \<Rightarrow> string \<Rightarrow> string \<Rightarrow> db
    \<Rightarrow> (abandoned_resolution \<times> db) result" where
  "resolve_abandoned_launch item_id project_id gpu_uuid pid pgid start_ticks why actor changed_at d =
    require (item_id > 0 \<and> project_id > 0) (sched_error Bad_integer)
    (require (text_ok 256 gpu_uuid \<and> text_ok 4096 why \<and> text_ok 256 actor) (sched_error Bad_text)
    (require (timestamp_ok changed_at) (sched_error Bad_timestamp)
    (require ((pid = None) = (pgid = None)) (sched_error Bad_argument)
    (require (null_or (\<lambda>n. n > 0) pid \<and> null_or (\<lambda>n. n > 0) pgid) (sched_error Bad_integer)
    (require (null_or (text_ok 256) start_ticks) (sched_error Bad_text)
    (require (db_metadata d ''dispatch_paused'' = Some ''1'') (sched_error Not_allowed)
    (fetch (find (\<lambda>i. qi_id i = item_id \<and> qi_project_id i = project_id) (db_items d))
       (sched_error Row_missing) (\<lambda>row.
     let previous = qi_state row; detail = abandoned_detail pid why;
       event_type = (if pid = None then ''ABANDONED_LAUNCH_RESOLVED'' else ''DEAD_PROCESS_RESOLVED'') in
     require (active_state previous) (sched_error Wrong_state)
    (require (qi_gpu_uuid row \<noteq> None \<and> qi_gpu_index row \<noteq> None) (sched_error Corrupt_evidence)
    (require (qi_gpu_uuid row = Some gpu_uuid) (sched_error Wrong_identity)
    (require (qi_pid row = pid \<and> qi_pgid row = pgid \<and> qi_start_ticks row = start_ticks)
       (sched_error Stale_evidence)
    (require (pid = None \<longrightarrow> previous = Starting) (sched_error Wrong_state)
    (require (pid \<noteq> None \<longrightarrow> previous \<noteq> Starting) (sched_error Corrupt_evidence)
    (and_then
      (update_items V5SchedulerError
        (\<lambda>i. qi_id i = item_id \<and> qi_project_id i = project_id \<and> qi_state i = previous
           \<and> qi_gpu_uuid i = Some gpu_uuid \<and> qi_gpu_index i \<noteq> None \<and> qi_lease_held i
           \<and> qi_pid i = pid \<and> qi_pgid i = pgid \<and> qi_start_ticks i = start_ticks)
        (\<lambda>i. i\<lparr>qi_state := Failed, qi_state_detail := Some detail,
               qi_finished_at := Some changed_at, qi_return_code := Some 127\<rparr>) d)
      (\<lambda>(n, d1). require (n = 1) (sched_error Lost_update)
        (fetch (find_runtime (db_runtime d1) project_id) (sched_error Row_missing) (\<lambda>runtime.
         and_then
          (update_runtime V5SchedulerError (\<lambda>r. rs_project_id r = project_id)
            (\<lambda>r. r\<lparr>rs_health := Open, rs_failure_count := rs_failure_count runtime + 1,
                   rs_reason := detail, rs_actor := actor, rs_changed_at := changed_at\<rparr>) d1)
          (\<lambda>(_, d2). and_then
            (sched_event changed_at actor event_type Scope_project (Some project_id) (Some item_id)
              (JObj [(''previous_state'', JStr (state_name previous)), (''state'', JStr ''failed''),
                     (''gpu_uuid'', JStr gpu_uuid),
                     (''identity_kind'', JStr (if pid = None then ''pre-launch claim''
                        else ''dead recorded process'')),
                     (''pid'', json_opt JInt pid), (''pgid'', json_opt JInt pgid),
                     (''process_start_ticks'', json_opt JStr start_ticks), (''reason'', JStr why),
                     (''confirmation'', JStr ''RESOLVE-ABANDONED-LAUNCH'')]) d2)
            (\<lambda>d3. Inr (\<lparr>al_item_id = item_id, al_project_id = project_id, al_gpu_uuid = gpu_uuid,
                al_previous_state = previous, al_event_type = event_type, al_state = Failed,
                al_reason = why, al_resolved_at = changed_at\<rparr>, d3))))))))))))))))))))"

section \<open>Attempt transitions are quiet\<close>

lemma termination_step:
  assumes "qi_state i \<in> {Running, Yielding, Terminating}" and "item_check j" and "same_identity i j"
    and "j = termination_update target requested_at why stage epoch i"
    and "target = Terminating \<and> qi_state i \<noteq> Terminating \<and> stage = Interrupt
      \<or> target = Force_killing \<and> stage = Kill"
    and "timestamp_ok requested_at" and "text_ok 4096 why" and "0 \<le> epoch"
  shows "item_step i j"
proof (rule item_stepI[OF assms(3,2)])
  show "state_reach (qi_state i) (qi_state j)"
    using assms(1,4,5) by (intro r_into_rtranclp) (auto simp: termination_update_def)
  show "item_wf j" if "item_wf i"
  proof -
    have "process_wf i" using that by (simp add: item_wf_def)
    then have "qi_pid i \<noteq> None" "qi_pgid i \<noteq> None" "qi_started_at i \<noteq> None"
      "null_or (text_ok 256) (qi_start_ticks i)"
      using assms(1) by (auto simp: process_wf_def)
    moreover have "qi_state j \<in> {Terminating, Force_killing}"
      "qi_termination_stage j = Some stage"
      "qi_state j = Terminating \<Longrightarrow> stage = Interrupt" "qi_state j = Force_killing \<Longrightarrow> stage = Kill"
      using assms(4,5) by (auto simp: termination_update_def)
    moreover have "qi_pid j = qi_pid i" "qi_pgid j = qi_pgid i" "qi_started_at j = qi_started_at i"
      "qi_start_ticks j = qi_start_ticks i" "qi_terminate_requested_at j = Some requested_at"
      "qi_terminate_reason j = Some why" "qi_termination_signal_epoch j = Some epoch"
      by (simp_all add: assms(4) termination_update_def)
    ultimately show ?thesis
      using assms(6-8) by (cases "qi_state j") (simp_all add: item_wf_defs)
  qed
qed (simp_all add: assms(4) termination_update_def)

lemma escalation_step:
  assumes "qi_state i = Terminating" and "expected_stage \<in> {Interrupt, Terminate}" and "0 \<le> epoch"
    and "j = escalated expected_stage epoch i" and "item_check j" and "same_identity i j"
  shows "item_step i j"
proof (rule item_stepI[OF assms(6,5)])
  show "state_reach (qi_state i) (qi_state j)"
    using assms(1,2,4) by (cases "expected_stage = Interrupt") (auto simp: escalated_def)
qed (use assms(1-4) in \<open>auto simp: item_wf_defs escalated_def\<close>)

lemma reread_action_state: "reread_action k d = Inr (a, d') \<Longrightarrow> d' = d"
  by (auto simp: reread_action_def)

lemma ensures_reread [vcg]: "R d \<Longrightarrow> ensures R (reread_action k d)"
  by (auto simp: ensures_def dest: reread_action_state)

lemma ensures_reread_then [vcg]:
  "(\<And>a. ensures R (k a d)) \<Longrightarrow> ensures R (and_then (reread_action i d) (\<lambda>(a, d'). k a d'))"
  by (auto simp: ensures_def dest!: reread_action_state)

interpretation terminating: quiet_operation
  "request_termination item_id why force actor requested_at signal_epoch"
  for item_id why force actor requested_at signal_epoch
  by (unfold_locales, erule ensuresD[rotated], unfold request_termination_def,
      intro vcg ensures_value; (assumption | rule termination_step[OF _ _ _ refl])?)
    (auto simp: active_state_def dest!: nonnegative_float_SomeD)

interpretation signal_recording: quiet_operation
  "record_termination_signal_attempt action signal_name delivered actor attempted_at"
  for action signal_name delivered actor attempted_at
  by (unfold_locales, erule ensuresD[rotated], unfold record_termination_signal_attempt_def, intro vcg)

interpretation escalating: quiet_operation
  "escalate_termination item_id stage expected_epoch actor changed_at signal_epoch"
  for item_id stage expected_epoch actor changed_at signal_epoch
  by (unfold_locales, erule ensuresD[rotated], unfold escalate_termination_def,
      intro vcg ensures_value; (assumption | rule escalation_step)?)
    (auto dest!: nonnegative_float_SomeD)

interpretation termination_completing: quiet_operation
  "record_termination_completion item_id actor finished_at return_code"
  for item_id actor finished_at return_code
  by (unfold_locales, erule ensuresD[rotated], unfold record_termination_completion_def,
      intro vcg; (assumption | rule finish_step)?)
    (auto simp: terminal_state_def completion_wf_def)

lemma release_step:
  assumes "item_check j" and "same_identity i j"
    and "j = i\<lparr>qi_lease_held := False, qi_lease_released_at := released\<rparr>"
  shows "item_step i j"
  using assms by (intro item_stepI) (simp_all add: item_wf_defs)

interpretation lease_releasing: quiet_operation
  "release_gpu_lease item_id gpu_uuid observed_index memory_total memory_used utilization
     compute_pids minimum_free maximum_utilization actor observed_at"
  for item_id gpu_uuid observed_index memory_total memory_used utilization compute_pids
    minimum_free maximum_utilization actor observed_at
  by (unfold_locales, erule ensuresD[rotated], unfold release_gpu_lease_def,
      intro vcg; (assumption | rule release_step[OF _ _ refl]); assumption)

lemma launch_step:
  assumes "qi_state i \<in> {Starting, Terminating, Force_killing}" and "null_or (text_ok 256) start_ticks"
    and "t = (if qi_state i = Starting then Running else qi_state i)"
    and "item_check j" and "same_identity i j"
    and "j = i\<lparr>qi_state := t, qi_pid := Some pid, qi_pgid := Some pgid,
           qi_start_ticks := start_ticks, qi_started_at := Some started_at\<rparr>"
  shows "item_step i j"
proof (rule item_stepI[OF assms(5,4)])
  show "state_reach (qi_state i) (qi_state j)"
    using assms(3,6) by (cases "qi_state i = Starting") auto
  show "item_wf j" if "item_wf i"
    using that assms(1,2,3,6) by (cases "qi_state i") (simp_all add: item_wf_defs)
qed (simp_all add: assms(6))

interpretation launching: quiet_operation
  "record_launched item_id segment gpu_uuid pid pgid start_ticks actor started_at"
  for item_id segment gpu_uuid pid pgid start_ticks actor started_at
  by (unfold_locales, erule ensuresD[rotated], unfold record_launched_def,
      intro vcg; (assumption | rule launch_step[OF _ _ _ _ _ refl])?) simp_all

lemma completion_edge:
  "completion_state s rc = Some t \<Longrightarrow> state_edge s t \<and> terminal_state t \<and> (t = Succeeded \<longrightarrow> rc = 0)"
  by (cases s) (auto simp: terminal_state_def split: if_splits)

interpretation completing: quiet_operation "record_executor_completion receipt actor" for receipt actor
  by (unfold_locales, erule ensuresD[rotated], unfold record_executor_completion_def,
      intro vcg; (assumption | rule finish_step)?)
    (auto simp: completion_wf_def dest: inv_row completion_edge)

lemma failure_edge:
  "active_state s \<Longrightarrow> state_edge s (failure_state s) \<and> terminal_state (failure_state s)
     \<and> failure_state s \<noteq> Succeeded"
  by (cases s) (simp_all add: active_state_def failure_state_def terminal_state_def)

interpretation failing: quiet_operation "fail_active_item item_id why actor finished_at return_code"
  for item_id why actor finished_at return_code
  by (unfold_locales, erule ensuresD[rotated], unfold fail_active_item_def,
      intro vcg; (assumption | rule finish_step)?)
    (auto simp: completion_wf_def dest: inv_row failure_edge)

lemma abandon_edge: "active_state s \<Longrightarrow> state_edge s Failed"
  by (cases s) (simp_all add: active_state_def)

interpretation abandoning: quiet_operation
  "resolve_abandoned_launch item_id project_id gpu_uuid pid pgid start_ticks why actor changed_at"
  for item_id project_id gpu_uuid pid pgid start_ticks why actor changed_at
  by (unfold_locales, erule ensuresD[rotated], unfold resolve_abandoned_launch_def,
      intro vcg; (assumption | rule finish_step)?)
    (auto simp: terminal_state_def abandon_edge completion_wf_def)

section \<open>Termination evidence is always complete\<close>

lemma py_str_Some [simp]: "py_str (Some s) = s"
  by (simp add: py_str_def)

definition action_of_row :: "queue_item \<Rightarrow> termination_action" where
  "action_of_row i = \<lparr>ta_item_id = qi_id i, ta_project_id = qi_project_id i,
     ta_segment = qi_segment i, ta_state = qi_state i, ta_stage = the (qi_termination_stage i),
     ta_requested_at = py_str (qi_terminate_requested_at i),
     ta_reason = py_str (qi_terminate_reason i),
     ta_signal_epoch = the (qi_termination_signal_epoch i), ta_pid = qi_pid i, ta_pgid = qi_pgid i,
     ta_start_ticks = qi_start_ticks i\<rparr>"

lemma action_from_wf_row:
  assumes "item_check i" and "item_wf i" and "qi_state i \<in> {Terminating, Force_killing}"
  shows "termination_action_from_row i = Inr (action_of_row i)"
proof -
  obtain st t r e where cols: "qi_termination_stage i = Some st" "qi_terminate_requested_at i = Some t"
      "qi_terminate_reason i = Some r" "qi_termination_signal_epoch i = Some e"
    and ok: "timestamp_ok t" "text_ok 4096 r" "0 \<le> e"
    and st: "qi_state i = Terminating \<longrightarrow> st \<noteq> Kill" "qi_state i = Force_killing \<longrightarrow> st = Kill"
    using assms(2,3) by (auto simp: item_wf_def termination_wf_def split: option.splits)
  have "qi_id i > 0" "qi_project_id i > 0" "qi_segment i > 0"
      "null_or (\<lambda>n. n > 0) (qi_pid i)" "null_or (\<lambda>n. n > 0) (qi_pgid i)"
      "null_or (text_ok 256) (qi_start_ticks i)"
    using assms(1,2)
    by (simp_all add: item_check_def item_identity_check_def runtime_column_check_def item_wf_def
        process_wf_def)
  with cols ok st assms(3) show ?thesis
    by (simp add: termination_action_from_row_def action_of_row_def)
qed

definition ex_terminating :: queue_item where
  "ex_terminating = termination_update Terminating ex_time ''operator request'' Interrupt 10
     (ex_running 1 ''GPU-a'')"

lemma ex_terminating_inv: "system_inv (ex_db [ex_terminating])"
  by code_simp

text \<open>
  Every item in a terminating state carries complete termination evidence: reading its row never
  raises, the process identity is present, and the stage is \<open>kill\<close> exactly in \<open>force_killing\<close>.
\<close>

theorem termination_evidence_complete:
  assumes "system_inv d" and "i \<in> set (db_items d)" and "qi_state i \<in> {Terminating, Force_killing}"
  shows "\<exists>a. termination_action_from_row i = Inr a \<and> ta_item_id a = qi_id i
    \<and> ta_pid a \<noteq> None \<and> ta_pgid a \<noteq> None
    \<and> (ta_stage a = Kill \<longleftrightarrow> qi_state i = Force_killing)"
proof -
  have wf: "item_check i" "item_wf i" using inv_item[OF assms(1,2)] by simp_all
  have "qi_termination_stage i = Some Kill \<longleftrightarrow> qi_state i = Force_killing"
      "qi_termination_stage i \<noteq> None" "qi_pid i \<noteq> None" "qi_pgid i \<noteq> None"
    using wf(2) assms(3) by (auto simp: item_wf_def termination_wf_def process_wf_def)
  then show ?thesis
    using action_from_wf_row[OF wf assms(3)] by (auto simp: action_of_row_def)
qed

lemma termination_evidence_complete_witness:
  "\<exists>a. termination_action_from_row ex_terminating = Inr a \<and> ta_pid a \<noteq> None \<and> ta_stage a \<noteq> Kill"
proof -
  have "ex_terminating \<in> set (db_items (ex_db [ex_terminating]))" by (simp add: ex_db_def)
  moreover have "qi_state ex_terminating \<in> {Terminating, Force_killing}"
    "qi_state ex_terminating \<noteq> Force_killing"
    by code_simp+
  ultimately show ?thesis using termination_evidence_complete[OF ex_terminating_inv] by blast
qed

section \<open>Requesting termination\<close>

lemma termination_check:
  assumes "item_check i" and "active_state (qi_state i)" and "target \<in> {Terminating, Force_killing}"
  shows "item_check (termination_update target t why st e i)"
proof -
  have "same_identity i (termination_update target t why st e i)"
    by (simp add: same_identity_def termination_update_def)
  with assms show ?thesis
    by (auto simp: item_check_def identity_check_cong lease_check_def runtime_column_check_def
        termination_update_def active_state_def)
qed

lemma termination_update_id [simp]: "qi_id (termination_update target t why st e i) = qi_id i"
  by (simp add: termination_update_def)

lemma termination_event_names:
  "text_ok 256 ''FORCE_KILL_REQUESTED''" "text_ok 256 ''TERMINATION_REQUESTED''"
  "text_ok 256 ''TERMINATION_ESCALATED''"
  by code_simp+

text \<open>
  (C18) A termination request for a running or yielding attempt (a forced one also for a terminating attempt)
  commits: the row moves to \<open>terminating\<close> or \<open>force_killing\<close> with its stage, reason and epoch, the returned
  action repeats the recorded process identity, one event is appended and no other item changes.
\<close>

theorem request_termination_commits:
  assumes inv: "system_inv d" and i: "find_item (db_items d) k = Some i"
    and st: "qi_state i \<in> {Running, Yielding} \<or> force \<and> qi_state i = Terminating"
    and args: "k > 0" "text_ok 4096 why" "text_ok 256 actor" "timestamp_ok t" "0 \<le> e"
      "safe_integer (qi_segment i)"
    and j: "j = termination_update (if force then Force_killing else Terminating) t why
        (if force then Kill else Interrupt) e i"
  shows "\<exists>d'. request_termination k why force actor t (Finite e) d = Inr (action_of_row j, d')
    \<and> find_item (db_items d') k = Some j \<and> ta_pid (action_of_row j) = qi_pid i
    \<and> length (db_events d') = length (db_events d) + 1
    \<and> (\<forall>k'. k' \<noteq> k \<longrightarrow> find_item (db_items d') k' = find_item (db_items d) k')"
proof -
  let ?target = "if force then Force_killing else Terminating"
  let ?stage = "if force then Kill else Interrupt"
  let ?f = "termination_update ?target t why ?stage e"
  let ?Q = "\<lambda>j. qi_state j = qi_state i"
  define d1 where "d1 = d\<lparr>db_items := update_rows (\<lambda>j. qi_id j = k \<and> ?Q j) ?f (db_items d)\<rparr>"
  have mem: "i \<in> set (db_items d)" using item_table.lookup_SomeD[OF i] by simp
  have act: "active_state (qi_state i)" "qi_state i \<noteq> Starting"
    using st by (auto simp: active_state_def)
  have same: "same_identity i j" by (simp add: j same_identity_def termination_update_def)
  have check: "item_check j"
    using inv_item[OF inv mem] act unfolding j by (intro termination_check) auto
  have upd: "update_items V5SchedulerError (\<lambda>j. qi_id j = k \<and> ?Q j) ?f d = Inr (1, d1)"
    unfolding d1_def using check same j by (intro update_one[OF inv i]) simp_all
  have found: "find_item (db_items d1) k = Some j"
    unfolding d1_def j using i by (simp add: update_one_found)
  have wf: "item_wf j"
  proof -
    have "item_step i j"
      by (rule termination_step[OF _ check same j]) (use st args in auto)
    then show ?thesis using inv_item[OF inv mem] by (simp add: item_step_def)
  qed
  have action: "termination_action_from_row j = Inr (action_of_row j)"
    by (rule action_from_wf_row[OF check wf]) (simp add: j termination_update_def)
  obtain p where p: "find_project (db_projects d1) (qi_project_id i) = Some p"
    using inv_project[OF inv mem] by (auto simp: d1_def)
  have own: "qi_project_id j = qi_project_id i" using same by (simp add: same_identity_def)
  define payload where "payload = JObj [(''previous_state'', JStr (state_name (qi_state i))),
      (''state'', JStr (state_name ?target)), (''stage'', JStr (stage_name ?stage)),
      (''signal'', JStr (if force then ''SIGKILL'' else ''SIGINT'')), (''reason'', JStr why),
      (''segment'', JInt (qi_segment i))]"
  have type_ok: "text_ok 256 (if force then ''FORCE_KILL_REQUESTED'' else ''TERMINATION_REQUESTED'')"
    by (simp add: termination_event_names)
  have "json_ok 0 payload" using args(6) by (simp add: payload_def)
  with type_ok obtain ev where event: "sched_event t actor
      (if force then ''FORCE_KILL_REQUESTED'' else ''TERMINATION_REQUESTED'') Scope_project
      (Some (qi_project_id i)) (Some k) payload d1 = Inr (d1\<lparr>db_events := db_events d1 @ [ev]\<rparr>)"
    using item_sched_event[OF p found own args(4,3)] by blast
  have "request_termination k why force actor t (Finite e) d
      = Inr (action_of_row j, d1\<lparr>db_events := db_events d1 @ [ev]\<rparr>)"
    using args act st i upd event found action
    by (auto simp: request_termination_def Let_def nonnegative_float_def reread_action_def
        payload_def)
  moreover have "find_item (db_items d1) k' = find_item (db_items d) k'" if "k' \<noteq> k" for k'
    unfolding d1_def using that by (simp add: update_one_others)
  moreover have "ta_pid (action_of_row j) = qi_pid i"
    by (simp add: action_of_row_def j termination_update_def)
  ultimately show ?thesis using found by (simp add: d1_def)
qed

lemma request_termination_commits_witness:
  "\<exists>d'. request_termination 1 ''operator request'' False ''operator'' ex_time (Finite 10)
      (ex_db [ex_running 1 ''GPU-a'']) = Inr (action_of_row ex_terminating, d')
     \<and> find_item (db_items d') 1 = Some ex_terminating"
proof -
  let ?i = "ex_running 1 ''GPU-a''"
  have "find_item (db_items (ex_db [?i])) 1 = Some ?i" "qi_state ?i = Running"
    "text_ok 4096 ''operator request''" "text_ok 256 ''operator''" "timestamp_ok ex_time"
    "safe_integer (qi_segment ?i)"
    by code_simp+
  then show ?thesis
    using request_termination_commits[OF ex_db_invariant(2), of 1 ?i False
      "''operator request''" "''operator''" ex_time 10 ex_terminating]
    by (auto simp: ex_terminating_def)
qed

section \<open>Escalation\<close>

lemma escalate_cases:
  assumes inv: "system_inv d" and run: "escalate_termination k st expected actor t fresh d = Inr (v, d')"
  obtains (stale) "v = None" and "d' = d"
  | (advanced) i e0 e1 a where "st \<in> {Interrupt, Terminate}" and "v = Some a"
      and "nonnegative_float expected = Some e0" and "nonnegative_float fresh = Some e1"
      and "find_item (db_items d) k = Some i" and "qi_state i = Terminating"
      and "qi_termination_stage i = Some st" and "qi_termination_signal_epoch i = Some e0"
      and "find_item (db_items d') k = Some (escalated st e1 i)"
      and "termination_action_from_row (escalated st e1 i) = Inr a"
proof -
  obtain e0 e1 i where e: "nonnegative_float expected = Some e0" "nonnegative_float fresh = Some e1"
    and st: "st \<in> {Interrupt, Terminate}" and i: "find_item (db_items d) k = Some i"
    using run by (auto simp: escalate_termination_def)
  let ?Q = "\<lambda>j. qi_state j = Terminating \<and> qi_termination_stage j = Some st
      \<and> qi_termination_signal_epoch j = Some e0"
  show thesis
  proof (cases "?Q i")
    case False
    then have "v = None \<and> d' = d"
      using run e st i by (auto simp: escalate_termination_def Let_def)
    then show thesis by (intro stale) auto
  next
    case True
    with run e st i obtain n d1 where
      upd: "update_items V5SchedulerError (\<lambda>j. qi_id j = k \<and> ?Q j) (escalated st e1) d = Inr (n, d1)"
      by (auto simp: escalate_termination_def Let_def)
    note one = update_count_one[OF inv i True upd]
    with run e st i True upd obtain d2 a where re: "reread_action k d2 = Inr (a, d')"
      and v: "v = Some a" and items: "db_items d2 = db_items d1"
      by (auto simp: escalate_termination_def Let_def sched_event_eq_Inr)
    have "find_item (db_items d1) k = Some (escalated st e1 i)"
      using one True i by (simp add: update_one_found escalated_def)
    with re items have "d' = d2" "termination_action_from_row (escalated st e1 i) = Inr a"
        "find_item (db_items d') k = Some (escalated st e1 i)"
      by (auto simp: reread_action_def)
    then show thesis using advanced[OF st v e i] True by blast
  qed
qed

text \<open>
  (C19) Escalation is compare-and-set: it changes the row only when the stage and epoch the caller observed
  are still the recorded ones, moves to the next stage with the same process identity, and a replay of
  the same call afterwards is a no-op.
\<close>

theorem escalate_termination_once:
  assumes "system_inv d" and "escalate_termination k st expected actor t fresh d = Inr (v, d')"
  shows "(v = None \<longrightarrow> d' = d) \<and> (\<forall>a. v = Some a \<longrightarrow>
      ta_stage a = next_stage st \<and> ta_state a = stage_state (next_stage st)
      \<and> (\<exists>i. find_item (db_items d) k = Some i \<and> qi_state i = Terminating
           \<and> qi_termination_stage i = Some st
           \<and> qi_termination_signal_epoch i = nonnegative_float expected
           \<and> ta_pid a = qi_pid i \<and> ta_pgid a = qi_pgid i \<and> ta_start_ticks a = qi_start_ticks i)
      \<and> escalate_termination k st expected actor t fresh d' = Inr (None, d'))"
  using assms
proof (cases rule: escalate_cases)
  case (advanced i e0 e1 a)
  have "ta_stage a = next_stage st \<and> ta_state a = stage_state (next_stage st)
      \<and> ta_pid a = qi_pid i \<and> ta_pgid a = qi_pgid i \<and> ta_start_ticks a = qi_start_ticks i"
    using advanced(10) by (auto simp: termination_action_from_row_def escalated_def)
  moreover have "next_stage st \<noteq> st" using advanced(1) by auto
  then have "escalate_termination k st expected actor t fresh d' = Inr (None, d')"
    using assms(2) advanced(1,3,4,9) by (auto simp: escalate_termination_def escalated_def Let_def)
  ultimately show ?thesis using advanced by auto
qed simp

lemma escalate_termination_once_witness:
  "\<exists>a d'. escalate_termination 1 Interrupt (Finite 10) ''scheduler'' ex_time (Finite 20)
      (ex_db [ex_terminating]) = Inr (Some a, d') \<and> ta_stage a = Terminate
     \<and> escalate_termination 1 Interrupt (Finite 10) ''scheduler'' ex_time (Finite 20) d' = Inr (None, d')"
proof -
  have "succeeds (escalate_termination 1 Interrupt (Finite 10) ''scheduler'' ex_time (Finite 20)
      (ex_db [ex_terminating])) (\<lambda>v. v \<noteq> None)" by code_simp
  then obtain a d' where "escalate_termination 1 Interrupt (Finite 10) ''scheduler'' ex_time (Finite 20)
      (ex_db [ex_terminating]) = Inr (Some a, d')" using succeedsD by blast
  with escalate_termination_once[OF ex_terminating_inv this] show ?thesis by auto
qed

section \<open>Launch, completion and lease release\<close>

definition ex_starting :: queue_item where
  "ex_starting = claim_update ''GPU-a'' ''0'' (ex_item 1)"

lemma ex_starting_inv: "system_inv (ex_db [ex_starting])"
  by code_simp

text \<open>
  Recording a launch succeeds only for an item that is still starting, keeps its GPU lease, and leaves it
  running with the recorded process identity: under the invariant the branch for an item already
  terminating is never taken, because a terminating item has a process identity.
\<close>

theorem record_launched_runs:
  assumes inv: "system_inv d"
    and run: "record_launched k segment gpu pid pgid ticks actor t d = Inr (s, d')"
  shows "s = Running \<and> (\<exists>i. find_item (db_items d) k = Some i \<and> qi_state i = Starting
    \<and> find_item (db_items d') k = Some (i\<lparr>qi_state := Running, qi_pid := Some pid,
        qi_pgid := Some pgid, qi_start_ticks := ticks, qi_started_at := Some t\<rparr>))
    \<and> (\<exists>i. find_item (db_items d') k = Some i \<and> qi_lease_held i \<and> qi_gpu_uuid i = Some gpu)"
proof -
  obtain i where i: "find_item (db_items d) k = Some i"
    and st: "qi_state i \<in> {Starting, Terminating, Force_killing}"
    and none: "qi_pid i = None" and gpu: "qi_gpu_uuid i = Some gpu"
    using run by (auto simp: record_launched_def Let_def)
  have mem: "i \<in> set (db_items d)" using item_table.lookup_SomeD[OF i] by simp
  then have wf: "item_wf i" "item_check i" using inv_item[OF inv] by simp_all
  have start: "qi_state i = Starting"
    using st none wf(1) by (auto simp: item_wf_def process_wf_def)
  then have lease: "qi_lease_held i"
    using wf(2) by (simp add: item_check_def lease_check_def active_state_def)
  let ?f = "\<lambda>i. i\<lparr>qi_state := Running, qi_pid := Some pid, qi_pgid := Some pgid,
      qi_start_ticks := ticks, qi_started_at := Some t\<rparr>"
  have "s = Running \<and> db_items d' = update_rows (\<lambda>j. qi_id j = k \<and> (qi_state j = Starting
      \<and> qi_segment j = segment \<and> qi_gpu_uuid j = Some gpu \<and> qi_pid j = None \<and> qi_pgid j = None
      \<and> qi_start_ticks j = None \<and> qi_started_at j = None)) ?f (db_items d)"
    and "qi_segment i = segment" "qi_pgid i = None" "qi_start_ticks i = None" "qi_started_at i = None"
    using run i start by (auto simp: record_launched_def Let_def effect_simps)
  then have "s = Running" "find_item (db_items d') k = Some (?f i)"
    using i start none gpu by (simp_all add: update_one_found)
  with i start lease gpu show ?thesis by simp
qed

lemma record_launched_runs_witness:
  "\<exists>d'. record_launched 1 1 ''GPU-a'' 77 77 None ''scheduler'' ex_time (ex_db [ex_starting])
      = Inr (Running, d') \<and> (\<exists>i. find_item (db_items d') 1 = Some i \<and> qi_lease_held i)"
proof -
  let ?r = "record_launched 1 1 ''GPU-a'' 77 77 None ''scheduler'' ex_time (ex_db [ex_starting])"
  have run: "?r = Inr (Running, after ?r)" by (rule succeeds_value) code_simp
  with record_launched_runs[OF ex_starting_inv run] show ?thesis by blast
qed

definition ex_finished :: queue_item where
  "ex_finished = (ex_running 1 ''GPU-a'')\<lparr>qi_state := Succeeded, qi_return_code := Some 0,
     qi_finished_at := Some ex_time\<rparr>"

lemma ex_finished_inv: "system_inv (ex_db [ex_finished])"
  by code_simp

lemma release_gpu_leaseD:
  assumes "release_gpu_lease k gpu index memory_total memory_used utilization pids minimum_free maximum_utilization
      actor t d = Inr (True, d')"
  shows "\<exists>total_mib used_mib u mf mu. memory_total = Finite total_mib \<and> memory_used = Finite used_mib
      \<and> utilization = Finite u \<and> minimum_free = Finite mf \<and> maximum_utilization = Finite mu
      \<and> 0 < total_mib \<and> 0 \<le> used_mib \<and> used_mib \<le> total_mib \<and> pids = []
      \<and> mf \<le> max 0 (round64 (1 - round64 (used_mib / total_mib))) \<and> u \<le> mu"
    and "\<exists>i. find_item (db_items d) k = Some i \<and> \<not> active_state (qi_state i) \<and> qi_gpu_uuid i = Some gpu \<and> qi_lease_held i"
    and "db_items d' = update_rows (\<lambda>j. qi_id j = k \<and> (qi_lease_held j \<and> qi_gpu_uuid j = Some gpu))
      (\<lambda>j. j\<lparr>qi_lease_held := False, qi_lease_released_at := Some t\<rparr>) (db_items d)"
  using assms
  by (auto simp: release_gpu_lease_def free_memory_fraction_def Let_def effect_simps
    dest!: nonnegative_float_SomeD split: if_splits)

text \<open>
  (C13) A lease is released only from idle telemetry: a reading without compute processes whose free memory
  fraction (computed in double precision, as the code does) reaches the configured minimum and whose utilization
  does not exceed the configured maximum. It is released only for the item that holds the GPU and is no longer
  active. Afterwards that item's row has the lease dropped and the time recorded, every other item is unchanged,
  the GPU has no holder and no other GPU's holders changed.
\<close>

theorem release_gpu_lease_frees:
  assumes inv: "system_inv d"
    and run: "release_gpu_lease k gpu index memory_total memory_used utilization pids minimum_free maximum_utilization
      actor t d = Inr (True, d')"
  shows "(\<exists>total_mib used_mib u mf mu. memory_total = Finite total_mib \<and> memory_used = Finite used_mib
      \<and> utilization = Finite u \<and> minimum_free = Finite mf \<and> maximum_utilization = Finite mu
      \<and> 0 < total_mib \<and> 0 \<le> used_mib \<and> used_mib \<le> total_mib \<and> pids = []
      \<and> mf \<le> max 0 (round64 (1 - round64 (used_mib / total_mib))) \<and> u \<le> mu)
    \<and> (\<exists>i. find_item (db_items d) k = Some i \<and> \<not> active_state (qi_state i) \<and> lease_holders d gpu = [i]
      \<and> find_item (db_items d') k = Some (i\<lparr>qi_lease_held := False, qi_lease_released_at := Some t\<rparr>))
    \<and> (\<forall>k'. k' \<noteq> k \<longrightarrow> find_item (db_items d') k' = find_item (db_items d) k')
    \<and> lease_holders d' gpu = [] \<and> (\<forall>g. g \<noteq> gpu \<longrightarrow> lease_holders d' g = lease_holders d g)"
proof -
  let ?P = "\<lambda>j. qi_id j = k \<and> (qi_lease_held j \<and> qi_gpu_uuid j = Some gpu)"
  let ?f = "\<lambda>j. j\<lparr>qi_lease_held := False, qi_lease_released_at := Some t\<rparr>"
  note items = release_gpu_leaseD(3)[OF run]
  obtain i where i: "find_item (db_items d) k = Some i" "\<not> active_state (qi_state i)" "qi_gpu_uuid i = Some gpu" "qi_lease_held i"
    using release_gpu_leaseD(2)[OF run] by blast
  have mem: "i \<in> set (db_items d)" "qi_id i = k" using item_table.lookup_SomeD[OF i(1)] by simp_all
  have only: "lease_holders d gpu = [i]" using unique_holder[OF inv mem(1) i(4,3)] .
  have "lease_holders d' g = lease_holders d g" if "g \<noteq> gpu" for g
  proof -
    have "filter (\<lambda>j. qi_gpu_uuid j = Some g \<and> qi_lease_held j) (update_rows ?P ?f rows)
        = filter (\<lambda>j. qi_gpu_uuid j = Some g \<and> qi_lease_held j) rows" for rows
      using that by (induction rows) auto
    then show ?thesis by (simp add: lease_holders_def items)
  qed
  moreover have "lease_holders d' gpu = []"
  proof -
    have "\<not> (qi_gpu_uuid j = Some gpu \<and> qi_lease_held j)" if "j \<in> set (db_items d')" for j
    proof
      assume j: "qi_gpu_uuid j = Some gpu \<and> qi_lease_held j"
      from that consider j0 where "j = ?f j0" | "j \<in> set (db_items d)" "\<not> ?P j"
        unfolding items in_update_rows by blast
      then show False
      proof cases
        case 1
        with j show False by simp
      next
        case 2
        with j have "j \<in> set (lease_holders d gpu)" by (simp add: lease_holders_def)
        with 2(2) j only mem(2) show False by simp
      qed
    qed
    then show ?thesis by (simp add: lease_holders_def filter_empty_conv)
  qed
  moreover have "find_item (db_items d') k = Some (?f i)" using i by (simp add: items update_one_found)
  moreover have "\<forall>k'. k' \<noteq> k \<longrightarrow> find_item (db_items d') k' = find_item (db_items d) k'"
    by (simp add: items update_one_others)
  ultimately show ?thesis using release_gpu_leaseD(1)[OF run] i(1,2) only by simp
qed

lemma release_gpu_lease_frees_witness:
  "\<exists>d'. release_gpu_lease 1 ''GPU-a'' ''0'' (Finite 1000) (Finite 10) (Finite 0) [] (Finite (9/10))
      (Finite 5) ''scheduler'' ex_time (ex_db [ex_finished]) = Inr (True, d')
     \<and> lease_holders d' ''GPU-a'' = []
     \<and> (9/10 :: rat) \<le> max 0 (round64 (1 - round64 (10 / 1000)))"
proof -
  let ?r = "release_gpu_lease 1 ''GPU-a'' ''0'' (Finite 1000) (Finite 10) (Finite 0) []
      (Finite (9/10)) (Finite 5) ''scheduler'' ex_time (ex_db [ex_finished])"
  have run: "?r = Inr (True, after ?r)" by (rule succeeds_value) code_simp
  with release_gpu_lease_frees[OF ex_finished_inv run] show ?thesis by auto
qed

definition ex_receipt :: executor_receipt where
  "ex_receipt = \<lparr>er_item_id = 1, er_project_id = 1, er_revision_id = 1, er_experiment_id = ''exp1'',
     er_attempt = 1, er_segment = 1, er_git_commit = ex_commit, er_finished_at = ex_time,
     er_return_code = 0, er_signals_received = []\<rparr>"

text \<open>
  (C20) Finalization from an executor receipt ends the item in a terminal state, succeeded only with exit code
  zero, records the receipt's return code, and is idempotent: replaying the receipt returns the same
  state and changes nothing.
\<close>

theorem executor_completion_once:
  assumes inv: "system_inv d" and run: "record_executor_completion receipt actor d = Inr (s, d')"
  shows "s \<in> {Succeeded, Failed, Interrupted, Force_killed}
    \<and> (s = Succeeded \<longrightarrow> er_return_code receipt = 0)
    \<and> (\<exists>i. find_item (db_items d') (er_item_id receipt) = Some i \<and> qi_state i = s
         \<and> qi_return_code i = Some (er_return_code receipt))
    \<and> record_executor_completion receipt actor d' = Inr (s, d')"
proof -
  let ?k = "er_item_id receipt"
  obtain i where i: "find_item (db_items d) ?k = Some i"
    using run by (auto simp: record_executor_completion_def)
  have wf: "completion_wf i"
    using inv_item[OF inv] item_table.lookup_SomeD[OF i] by (simp add: item_wf_def)
  show ?thesis
  proof (cases "qi_state i \<in> {Succeeded, Failed, Interrupted, Force_killed}")
    case True
    then have "d' = d" "s = qi_state i" "qi_return_code i = Some (er_return_code receipt)"
      using run i by (auto simp: record_executor_completion_def Let_def)
    then show ?thesis using i True run wf by (auto simp: completion_wf_def)
  next
    case False
    let ?f = "\<lambda>i. i\<lparr>qi_state := s, qi_finished_at := Some (er_finished_at receipt),
        qi_return_code := Some (er_return_code receipt),
        qi_state_detail := (if s = Succeeded then None
          else Some (''executor returned '' @ str_int (er_return_code receipt)))\<rparr>"
    have c: "completion_state (qi_state i) (er_return_code receipt) = Some s"
      and items: "db_items d' = update_rows (\<lambda>j. qi_id j = ?k) ?f (db_items d)"
      using run i False by (auto simp: record_executor_completion_def Let_def effect_simps)
    have s: "s \<in> {Succeeded, Failed, Interrupted, Force_killed}" "s = Succeeded \<longrightarrow> er_return_code receipt = 0"
      using c by (cases "qi_state i"; auto split: if_splits)+
    have found: "find_item (db_items d') ?k = Some (?f i)"
      unfolding items using i item_table.lookup_SomeD[OF i] by (simp add: find_item_update)
    then have "record_executor_completion receipt actor d' = Inr (s, d')"
      using run i False s by (auto simp: record_executor_completion_def Let_def)
    with found s show ?thesis by simp
  qed
qed

lemma executor_completion_once_witness:
  "\<exists>d'. record_executor_completion ex_receipt ''scheduler'' (ex_db [ex_running 1 ''GPU-a''])
      = Inr (Succeeded, d') \<and> record_executor_completion ex_receipt ''scheduler'' d' = Inr (Succeeded, d')"
proof -
  let ?r = "record_executor_completion ex_receipt ''scheduler'' (ex_db [ex_running 1 ''GPU-a''])"
  have run: "?r = Inr (Succeeded, after ?r)" by (rule succeeds_value) code_simp
  with executor_completion_once[OF ex_db_invariant(2) run] show ?thesis by blast
qed

end
