(* ===== verification/Evidence_V5.thy ===== *)
theory Evidence_V5
  imports Attempts_V5
begin

text \<open>
  The evidence half of \<open>V5SchedulingController\<close> (\<open>scheduler_v5.py\<close>): runtime worktree identities
  for structured and grandfathered items, declared artifact observations, the durable leases of
  manual-yield signals, and disk capacity with its failure scope. \<open>shutil.disk_usage\<close> is an
  argument: the free bytes of a path, or nothing when the call raises.
\<close>

section \<open>Structured worktrees\<close>

record worktree_evidence =
  we_project_id :: int
  we_project_key :: string
  we_revision_id :: int
  we_revision :: string
  we_revision_sequence :: int
  we_item_id :: int
  we_repository :: string
  we_git_ref :: string
  we_worktree :: string
  we_git_commit :: string

definition worktree_document :: "worktree_evidence \<Rightarrow> json" where
  "worktree_document e = JObj
    [(''apiVersion'', JStr ''experiment-queue/v1''), (''kind'', JStr ''ProjectWorktreeEvidence''),
     (''projectId'', JInt (we_project_id e)), (''projectKey'', JStr (we_project_key e)),
     (''projectRevisionId'', JInt (we_revision_id e)), (''projectRevision'', JStr (we_revision e)),
     (''projectRevisionSequence'', JInt (we_revision_sequence e)),
     (''queueItemId'', JInt (we_item_id e)), (''repository'', JStr (we_repository e)),
     (''gitRef'', JStr (we_git_ref e)), (''worktree'', JStr (we_worktree e)),
     (''gitCommit'', JStr (we_git_commit e))]"

definition worktree_recorded :: "string \<Rightarrow> string \<Rightarrow> string \<Rightarrow> queue_item \<Rightarrow> queue_item" where
  "worktree_recorded git_ref path created_at i =
    i\<lparr>qi_runtime_git_ref := Some git_ref, qi_runtime_worktree_path := Some path,
      qi_runtime_worktree_created_at := Some created_at, qi_runtime_worktree_removed_at := None,
      qi_runtime_worktree_cleanup_error := None\<rparr>"

definition worktree_cleaned :: "string \<Rightarrow> string option \<Rightarrow> queue_item \<Rightarrow> queue_item" where
  "worktree_cleaned removed_at problem i =
    i\<lparr>qi_runtime_worktree_removed_at := (if problem = None then Some removed_at else None),
      qi_runtime_worktree_cleanup_error := problem\<rparr>"

definition record_worktree_prepared ::
  "worktree_evidence \<Rightarrow> string \<Rightarrow> string \<Rightarrow> db \<Rightarrow> (bool \<times> db) result" where
  "record_worktree_prepared evidence actor changed_at d =
    fetch (find_item (db_items d) (we_item_id evidence)) (sched_error Row_missing) (\<lambda>row.
    let existing = (qi_runtime_git_ref row, qi_runtime_worktree_path row);
      wanted = (Some (we_git_ref evidence), Some (we_worktree evidence)) in
    require (qi_project_id row = we_project_id evidence \<and> qi_revision_id row = we_revision_id evidence
        \<and> qi_git_commit row = we_git_commit evidence) (sched_error Wrong_identity)
    (if existing = wanted \<and> qi_runtime_worktree_removed_at row = None then Inr (False, d)
     else require (existing = (None, None) \<or> existing = wanted) (sched_error Conflicting_evidence)
      (require (timestamp_ok changed_at) (sched_error Bad_timestamp)
      (and_then
        (update_items V5SchedulerError (\<lambda>i. qi_id i = we_item_id evidence)
          (worktree_recorded (we_git_ref evidence) (we_worktree evidence) changed_at) d)
        (\<lambda>(_, d1). and_then
          (sched_event changed_at actor ''PROJECT_WORKTREE_PREPARED'' Scope_project
             (Some (we_project_id evidence)) (Some (we_item_id evidence)) (worktree_document evidence) d1)
          (\<lambda>d2. Inr (True, d2)))))))"

definition record_worktree_cleanup ::
  "worktree_evidence \<Rightarrow> string \<Rightarrow> string \<Rightarrow> string option \<Rightarrow> db \<Rightarrow> (bool \<times> db) result" where
  "record_worktree_cleanup evidence actor changed_at problem d =
    require (null_or (text_ok 4096) problem) (sched_error Bad_text)
    (fetch (find_item (db_items d) (we_item_id evidence)) (sched_error Row_missing) (\<lambda>row.
     require (qi_runtime_git_ref row = Some (we_git_ref evidence)
        \<and> qi_runtime_worktree_path row = Some (we_worktree evidence)) (sched_error Wrong_identity)
    (if problem = None \<and> qi_runtime_worktree_removed_at row \<noteq> None then Inr (False, d)
     else if problem \<noteq> None \<and> qi_runtime_worktree_cleanup_error row = problem then Inr (False, d)
     else require (problem = None \<longrightarrow> timestamp_ok changed_at) (sched_error Bad_timestamp)
      (and_then
        (update_items V5SchedulerError (\<lambda>i. qi_id i = we_item_id evidence)
          (worktree_cleaned changed_at problem) d)
        (\<lambda>(_, d1). and_then
          (sched_event changed_at actor
             (if problem \<noteq> None then ''PROJECT_WORKTREE_CLEANUP_FAILED'' else ''PROJECT_WORKTREE_REMOVED'')
             Scope_project (Some (we_project_id evidence)) (Some (we_item_id evidence))
             (JObj [(''git_ref'', JStr (we_git_ref evidence)), (''worktree'', JStr (we_worktree evidence)),
                    (''error'', json_opt JStr problem)]) d1)
          (\<lambda>d2. Inr (True, d2)))))))"

section \<open>Grandfathered worktrees\<close>

definition path_join :: "string \<Rightarrow> string \<Rightarrow> string" where
  "path_join base child = (if base \<noteq> [] \<and> last base = CHR ''/'' then base @ child else base @ ''/'' @ child)"

definition legacy_ref :: "string \<Rightarrow> int \<Rightarrow> int \<Rightarrow> string" where
  "legacy_ref project_key revision_id item_id =
    ''refs/experiment-queue/projects/'' @ project_key @ ''/revisions/'' @ str_int revision_id
      @ ''/items/'' @ str_int item_id"

definition legacy_worktree :: "string \<Rightarrow> string \<Rightarrow> int \<Rightarrow> int \<Rightarrow> string \<Rightarrow> string" where
  "legacy_worktree state_dir project_key revision_id item_id git_commit =
    path_join (path_join state_dir ''worktrees'')
      (project_key @ ''-r'' @ str_int revision_id @ ''-item-'' @ str_int item_id @ ''-''
        @ take 12 git_commit)"

definition absolute_path :: "string \<Rightarrow> bool" where
  "absolute_path p = (p \<noteq> [] \<and> hd p = CHR ''/'')"

definition record_legacy_worktree_adopted ::
  "string \<Rightarrow> int \<Rightarrow> string \<Rightarrow> string \<Rightarrow> string \<Rightarrow> string \<Rightarrow> db \<Rightarrow> (bool \<times> db) result" where
  "record_legacy_worktree_adopted state_dir item_id git_ref worktree_path actor changed_at d =
    require (item_id > 0) (sched_error Bad_integer)
    (require (text_ok 512 git_ref) (sched_error Bad_text)
    (require (absolute_path worktree_path) (sched_error Bad_argument)
    (require (timestamp_ok changed_at) (sched_error Bad_timestamp)
    (fetch (find_item (db_items d) item_id) (sched_error Row_missing) (\<lambda>row.
     fetch (find_project (db_projects d) (qi_project_id row)) (sched_error Row_missing) (\<lambda>project.
     let existing = (qi_runtime_git_ref row, qi_runtime_worktree_path row);
       wanted = (Some git_ref, Some worktree_path) in
     require (qi_admission_kind row = Legacy_card) (sched_error Not_allowed)
    (require (git_ref = legacy_ref (p_key project) (qi_revision_id row) item_id
        \<and> worktree_path = legacy_worktree state_dir (p_key project) (qi_revision_id row) item_id
            (qi_git_commit row)) (sched_error Wrong_identity)
    (if existing = wanted \<and> qi_runtime_worktree_removed_at row = None then Inr (False, d)
     else require (existing = (None, None) \<or> existing = wanted) (sched_error Conflicting_evidence)
      (require (\<not> (existing = wanted \<and> qi_runtime_worktree_cleanup_error row \<noteq> None))
         (sched_error Conflicting_evidence)
      (and_then
        (update_items V5SchedulerError (\<lambda>i. qi_id i = item_id)
          (worktree_recorded git_ref worktree_path changed_at) d)
        (\<lambda>(_, d1). and_then
          (sched_event changed_at actor ''LEGACY_WORKTREE_ADOPTED'' Scope_project
             (Some (qi_project_id row)) (Some item_id)
             (JObj [(''git_ref'', JStr git_ref), (''worktree'', JStr worktree_path)]) d1)
          (\<lambda>d2. Inr (True, d2)))))))))))))"

definition record_legacy_worktree_cleanup ::
  "string \<Rightarrow> int \<Rightarrow> string \<Rightarrow> string \<Rightarrow> string \<Rightarrow> string \<Rightarrow> string option \<Rightarrow> db \<Rightarrow> (bool \<times> db) result" where
  "record_legacy_worktree_cleanup state_dir item_id git_ref worktree_path actor changed_at problem d =
    require (item_id > 0) (sched_error Bad_integer)
    (require (text_ok 512 git_ref) (sched_error Bad_text)
    (require (absolute_path worktree_path) (sched_error Bad_argument)
    (require (null_or (text_ok 4096) problem) (sched_error Bad_text)
    (require (timestamp_ok changed_at) (sched_error Bad_timestamp)
    (fetch (find_item (db_items d) item_id) (sched_error Row_missing) (\<lambda>row.
     fetch (find_project (db_projects d) (qi_project_id row)) (sched_error Row_missing) (\<lambda>project.
     require (qi_admission_kind row = Legacy_card) (sched_error Not_allowed)
    (require (git_ref = legacy_ref (p_key project) (qi_revision_id row) item_id
        \<and> worktree_path = legacy_worktree state_dir (p_key project) (qi_revision_id row) item_id
            (qi_git_commit row)) (sched_error Wrong_identity)
    (require (qi_runtime_git_ref row = Some git_ref \<and> qi_runtime_worktree_path row = Some worktree_path)
       (sched_error Wrong_identity)
    (require (\<not> active_state (qi_state row)) (sched_error Wrong_state)
    (if problem = None \<and> qi_runtime_worktree_removed_at row \<noteq> None then Inr (False, d)
     else if problem \<noteq> None \<and> qi_runtime_worktree_cleanup_error row = problem then Inr (False, d)
     else and_then
       (update_items V5SchedulerError (\<lambda>i. qi_id i = item_id) (worktree_cleaned changed_at problem) d)
       (\<lambda>(_, d1). and_then
         (sched_event changed_at actor
            (if problem \<noteq> None then ''LEGACY_WORKTREE_CLEANUP_FAILED'' else ''LEGACY_WORKTREE_REMOVED'')
            Scope_project (Some (qi_project_id row)) (Some item_id)
            (JObj [(''git_ref'', JStr git_ref), (''worktree'', JStr worktree_path),
                   (''error'', json_opt JStr problem)]) d1)
         (\<lambda>d2. Inr (True, d2))))))))))))))"


section \<open>Artifact observations\<close>

record observed_artifact =
  oa_name :: string
  oa_root_name :: string
  oa_relative_path :: string
  oa_path :: string
  oa_type :: artifact_type
  oa_required :: bool
  oa_present :: bool
  oa_size_bytes :: "int option"

definition observation_metadata :: "observed_artifact \<Rightarrow> json" where
  "observation_metadata ob = JObj [(''present'', JBool (oa_present ob)),
     (''required'', JBool (oa_required ob)), (''digestPolicy'', JStr ''not-hashed-general-artifact'')]"

type_synonym artifact_columns =
  "string \<times> artifact_type \<times> string \<times> string \<times> string \<times> int option \<times> json"

definition observation_fields :: "observed_artifact \<Rightarrow> artifact_columns" where
  "observation_fields ob = (oa_name ob, oa_type ob, oa_root_name ob, oa_relative_path ob, oa_path ob,
     oa_size_bytes ob, observation_metadata ob)"

definition artifact_fields :: "artifact_row \<Rightarrow> artifact_columns" where
  "artifact_fields a = (a_name a, a_type a, a_root_name a, a_relative_path a, a_absolute_path a,
     a_size_bytes a, a_metadata a)"

definition observation_row :: "db \<Rightarrow> queue_item \<Rightarrow> int \<Rightarrow> string \<Rightarrow> observed_artifact \<Rightarrow> artifact_row" where
  "observation_row d row segment recorded_at ob =
    \<lparr>a_id = next_id (map a_id (db_artifacts d)), a_item_id = qi_id row,
     a_project_id = qi_project_id row, a_revision_id = qi_revision_id row, a_segment = segment,
     a_name = oa_name ob, a_type = oa_type ob, a_root_name = oa_root_name ob,
     a_relative_path = oa_relative_path ob, a_absolute_path = oa_path ob,
     a_size_bytes = oa_size_bytes ob, a_recorded_at = recorded_at,
     a_metadata = observation_metadata ob\<rparr>"

fun insert_observations ::
  "queue_item \<Rightarrow> int \<Rightarrow> string \<Rightarrow> observed_artifact list \<Rightarrow> db \<Rightarrow> db result" where
  "insert_observations row segment recorded_at [] d = Inr d"
| "insert_observations row segment recorded_at (ob # obs) d =
    and_then (insert_artifact V5SchedulerError (observation_row d row segment recorded_at ob) d)
      (insert_observations row segment recorded_at obs)"

definition segment_artifacts :: "db \<Rightarrow> int \<Rightarrow> int \<Rightarrow> artifact_row list" where
  "segment_artifacts d k segment =
    sort_key a_name (filter (\<lambda>a. a_item_id a = k \<and> a_segment a = segment) (db_artifacts d))"

definition record_job_artifacts ::
  "int \<Rightarrow> int \<Rightarrow> observed_artifact list \<Rightarrow> string \<Rightarrow> string \<Rightarrow> db \<Rightarrow> (bool \<times> db) result" where
  "record_job_artifacts item_id segment observations actor recorded_at d =
    require (item_id > 0 \<and> segment > 0) (sched_error Bad_integer)
    (require (distinct (map oa_name observations)) (sched_error Bad_argument)
    (require (timestamp_ok recorded_at) (sched_error Bad_timestamp)
    (require (text_ok 256 actor) (sched_error Bad_text)
    (fetch (find_item (db_items d) item_id) (sched_error Row_missing) (\<lambda>row.
     require (qi_segment row = segment) (sched_error Stale_evidence)
    (require (active_state (qi_state row)) (sched_error Wrong_state)
    (if segment_artifacts d item_id segment \<noteq> []
     then require (map artifact_fields (segment_artifacts d item_id segment)
              = map observation_fields (sort_key oa_name observations))
            (sched_error Conflicting_evidence) (Inr (False, d))
     else and_then (insert_observations row segment recorded_at observations d)
       (\<lambda>d1. if observations = [] then Inr (False, d1)
         else and_then
           (sched_event recorded_at actor ''JOB_ARTIFACTS_RECORDED'' Scope_project
              (Some (qi_project_id row)) (Some item_id)
              (JObj [(''segment'', JInt segment),
                     (''artifacts'', JList (map (\<lambda>ob. JObj [(''name'', JStr (oa_name ob)),
                        (''present'', JBool (oa_present ob)), (''required'', JBool (oa_required ob))])
                        observations))]) d1)
           (\<lambda>d2. Inr (True, d2))))))))))"

section \<open>Manual-yield signal leases\<close>

record signal_claim =
  sc_item_id :: int
  sc_project_id :: int
  sc_request_id :: string
  sc_attempt_token :: string
  sc_attempt :: int
  sc_replay :: bool
  sc_signal_epoch :: rat

definition signal_events :: "db \<Rightarrow> int \<Rightarrow> event_row list" where
  "signal_events d k = filter (\<lambda>e. e_item_id e = Some k \<and>
     e_type e \<in> {''MANUAL_PREEMPTION_SIGNAL_CLAIMED'', ''MANUAL_PREEMPTION_SIGNAL_RESULT''})
     (db_events d)"

definition names_request :: "string \<Rightarrow> event_row \<Rightarrow> bool" where
  "names_request request_id e = (json_get ''request_id'' (e_payload e) = Some (JStr request_id))"

definition signal_claims :: "db \<Rightarrow> int \<Rightarrow> string \<Rightarrow> json list" where
  "signal_claims d k request_id = map e_payload (filter (\<lambda>e. names_request request_id e \<and>
     e_type e = ''MANUAL_PREEMPTION_SIGNAL_CLAIMED'') (signal_events d k))"

text \<open>The last result recorded for an attempt token.\<close>

definition signal_result :: "db \<Rightarrow> int \<Rightarrow> string \<Rightarrow> string \<Rightarrow> json option" where
  "signal_result d k request_id token =
    (case filter (\<lambda>e. names_request request_id e \<and> e_type e = ''MANUAL_PREEMPTION_SIGNAL_RESULT''
         \<and> json_get ''attempt_token'' (e_payload e) = Some (JStr token)) (signal_events d k) of
       [] \<Rightarrow> None
     | es \<Rightarrow> Some (e_payload (last es)))"

datatype gate_decision = Gate_closed | Gate_corrupt | Gate_attempt int

text \<open>Whether an earlier claim still bars a new one, and the number of the next attempt.\<close>

definition signal_gate :: "db \<Rightarrow> int \<Rightarrow> string \<Rightarrow> rat \<Rightarrow> rat \<Rightarrow> gate_decision" where
  "signal_gate d k request_id epoch retry =
    (case signal_claims d k request_id of
       [] \<Rightarrow> Gate_attempt 1
     | claims \<Rightarrow>
        (case (json_get ''attempt_token'' (last claims),
               Option.bind (json_get ''signal_epoch'' (last claims)) json_number,
               json_get ''attempt'' (last claims)) of
           (Some (JStr token), Some latest_epoch, Some (JInt attempt)) \<Rightarrow>
             (case signal_result d k request_id token of
                None \<Rightarrow> if epoch < round64 (latest_epoch + retry) then Gate_closed
                         else Gate_attempt (attempt + 1)
              | Some r \<Rightarrow>
                  if json_get ''delivered'' r = Some (JBool True) then Gate_closed
                  else (case Option.bind (json_get ''result_epoch'' r) json_number of
                      None \<Rightarrow> Gate_corrupt
                    | Some reference \<Rightarrow> if epoch < round64 (reference + retry) then Gate_closed
                        else Gate_attempt (attempt + 1)))
         | _ \<Rightarrow> Gate_corrupt))"

definition claim_manual_yield_signal_attempt ::
  "int \<Rightarrow> string \<Rightarrow> string \<Rightarrow> pyfloat \<Rightarrow> pyfloat \<Rightarrow> string \<Rightarrow> string \<Rightarrow> db
    \<Rightarrow> (signal_claim option \<times> db) result" where
  "claim_manual_yield_signal_attempt item_id request_id token signal_epoch retry_after actor changed_at d =
    require (item_id > 0) (sched_error Bad_integer)
    (require (text_ok 256 request_id \<and> text_ok 256 token) (sched_error Bad_text)
    (fetch (nonnegative_float signal_epoch) (sched_error Bad_number) (\<lambda>epoch.
     fetch (nonnegative_float retry_after) (sched_error Bad_number) (\<lambda>retry.
     require (text_ok 256 actor) (sched_error Bad_text)
    (require (timestamp_ok changed_at) (sched_error Bad_timestamp)
    (fetch (find_item (db_items d) item_id) (sched_error Row_missing) (\<lambda>row.
     require (qi_state row = Yielding \<and> qi_yield_request_id row = Some request_id)
       (sched_error Stale_evidence)
    (case signal_gate d item_id request_id epoch retry of
       Gate_closed \<Rightarrow> Inr (None, d)
     | Gate_corrupt \<Rightarrow> Inl (sched_error Corrupt_evidence)
     | Gate_attempt attempt \<Rightarrow>
         and_then
           (sched_event changed_at actor ''MANUAL_PREEMPTION_SIGNAL_CLAIMED'' Scope_project
              (Some (qi_project_id row)) (Some item_id)
              (JObj [(''request_id'', JStr request_id), (''segment'', JInt (qi_segment row)),
                     (''attempt_token'', JStr token), (''attempt'', JInt attempt),
                     (''replay'', JBool (attempt > 1)), (''signal_epoch'', JFloat (Finite epoch)),
                     (''retry_after_seconds'', JFloat (Finite retry)),
                     (''delivery_semantics'', JStr ''at-least-once'')]) d)
           (\<lambda>d1. Inr (Some \<lparr>sc_item_id = item_id, sc_project_id = qi_project_id row,
               sc_request_id = request_id, sc_attempt_token = token, sc_attempt = attempt,
               sc_replay = (attempt > 1), sc_signal_epoch = epoch\<rparr>, d1))))))))))"

definition record_manual_yield_signal_result ::
  "signal_claim \<Rightarrow> bool \<Rightarrow> string \<Rightarrow> pyfloat \<Rightarrow> string \<Rightarrow> string \<Rightarrow> db \<Rightarrow> (bool \<times> db) result" where
  "record_manual_yield_signal_result sclaim delivered detail result_epoch actor changed_at d =
    require (text_ok 4096 detail) (sched_error Bad_text)
    (fetch (nonnegative_float result_epoch) (sched_error Bad_number) (\<lambda>epoch.
     require (text_ok 256 actor) (sched_error Bad_text)
    (require (timestamp_ok changed_at) (sched_error Bad_timestamp)
    (fetch (find_item (db_items d) (sc_item_id sclaim)) (sched_error Row_missing) (\<lambda>row.
     require (qi_state row = Yielding \<and> qi_yield_request_id row = Some (sc_request_id sclaim)
        \<and> qi_project_id row = sc_project_id sclaim) (sched_error Stale_evidence)
    (require (list_ex (\<lambda>c. json_get ''attempt_token'' c = Some (JStr (sc_attempt_token sclaim)))
        (signal_claims d (sc_item_id sclaim) (sc_request_id sclaim))) (sched_error Row_missing)
    (let expected = JObj [(''request_id'', JStr (sc_request_id sclaim)),
         (''segment'', JInt (qi_segment row)), (''attempt_token'', JStr (sc_attempt_token sclaim)),
         (''attempt'', JInt (sc_attempt sclaim)), (''replay'', JBool (sc_replay sclaim)),
         (''delivered'', JBool delivered), (''detail'', JStr detail),
         (''result_epoch'', JFloat (Finite epoch)),
         (''delivery_semantics'', JStr ''at-least-once'')] in
     case signal_result d (sc_item_id sclaim) (sc_request_id sclaim) (sc_attempt_token sclaim) of
       Some existing \<Rightarrow> require (json_object_eq existing expected) (sched_error Conflicting_evidence)
         (Inr (False, d))
     | None \<Rightarrow>
         and_then
           (sched_event changed_at actor ''MANUAL_PREEMPTION_SIGNAL_RESULT'' Scope_project
              (Some (qi_project_id row)) (Some (sc_item_id sclaim)) expected d)
           (\<lambda>d1. Inr (True, d1)))))))))"

section \<open>Disk capacity\<close>

record disk_capacity =
  dc_scope :: failure_scope
  dc_root :: string
  dc_free_gib :: rat
  dc_minimum_gib :: rat
  dc_project_id :: "int option"
  dc_project_key :: "string option"

definition sufficient :: "disk_capacity \<Rightarrow> bool" where
  "sufficient c = (dc_minimum_gib c \<le> dc_free_gib c)"

definition artifact_root_paths :: "db \<Rightarrow> int \<Rightarrow> int \<Rightarrow> string list" where
  "artifact_root_paths d project_id revision_id =
    sort (remdups (concat (map (\<lambda>root.
      map m_path (filter (\<lambda>m. m_project_id m = ar_project_id root
          \<and> m_revision_id m = ar_revision_id root \<and> m_name m = ar_mount_name root) (db_mounts d)))
      (filter (\<lambda>root. ar_project_id root = project_id \<and> ar_revision_id root = revision_id)
        (db_roots d)))))"

fun measure_roots ::
  "(string \<Rightarrow> int option) \<Rightarrow> rat \<Rightarrow> (string \<Rightarrow> disk_capacity) \<Rightarrow> string list \<Rightarrow> disk_capacity list result"
  where
  "measure_roots disk_usage minimum blank [] = Inr []"
| "measure_roots disk_usage minimum blank (path # paths) =
    fetch (disk_usage path) (sched_error Not_allowed) (\<lambda>free.
    and_then (measure_roots disk_usage minimum blank paths) (\<lambda>checks.
    Inr ((blank path)\<lparr>dc_free_gib := round64 (of_int free / 1073741824)\<rparr> # checks)))"

definition check_disk_capacity ::
  "(string \<Rightarrow> int option) \<Rightarrow> string \<Rightarrow> int \<Rightarrow> pyfloat \<Rightarrow> int option \<Rightarrow> db \<Rightarrow> disk_capacity list result"
  where
  "check_disk_capacity disk_usage state_dir project_id minimum_gib revision_id d =
    require (project_id > 0) (sched_error Bad_integer)
    (require (null_or (\<lambda>n. n > 0) revision_id) (sched_error Bad_integer)
    (fetch (nonnegative_float minimum_gib) (sched_error Bad_number) (\<lambda>minimum.
     fetch (find_project (db_projects d) project_id) (sched_error Row_missing) (\<lambda>project.
     let revision = (case revision_id of Some r \<Rightarrow> r | None \<Rightarrow> p_current_revision_id project);
       host = (\<lambda>path. \<lparr>dc_scope = Scope_host, dc_root = path, dc_free_gib = 0, dc_minimum_gib = minimum,
          dc_project_id = None, dc_project_key = None\<rparr>);
       owned = (\<lambda>path. \<lparr>dc_scope = Scope_project, dc_root = path, dc_free_gib = 0,
          dc_minimum_gib = minimum, dc_project_id = Some project_id,
          dc_project_key = Some (p_key project)\<rparr>) in
     and_then (measure_roots disk_usage minimum host [state_dir]) (\<lambda>central.
     and_then (measure_roots disk_usage minimum owned (artifact_root_paths d project_id revision))
       (\<lambda>checks. Inr (central @ checks)))))))"

text \<open>\<open>f'{value:.2f}'\<close> for a nonnegative value, rounded half to even.\<close>

definition two_decimals :: "rat \<Rightarrow> string" where
  "two_decimals r = (let n = round_half_even (r * 100) in
     str_int (n div 100) @ ''.'' @ pad 2 (n mod 100))"

definition capacity_reason :: "string \<Rightarrow> disk_capacity \<Rightarrow> string" where
  "capacity_reason owner c = owner @ '' filesystem '' @ dc_root c @ '' has only '' @
     two_decimals (dc_free_gib c) @ '' GiB free; minimum is '' @ two_decimals (dc_minimum_gib c)
     @ '' GiB''"

definition enforce_disk_capacity ::
  "(string \<Rightarrow> int option) \<Rightarrow> string \<Rightarrow> int \<Rightarrow> pyfloat \<Rightarrow> int option \<Rightarrow> string \<Rightarrow> string \<Rightarrow> db
    \<Rightarrow> (disk_capacity list \<times> db) result" where
  "enforce_disk_capacity disk_usage state_dir project_id minimum_gib revision_id actor changed_at d =
    and_then (check_disk_capacity disk_usage state_dir project_id minimum_gib revision_id d) (\<lambda>checks.
    case find (\<lambda>c. dc_scope c = Scope_host \<and> \<not> sufficient c) checks of
      Some failure \<Rightarrow>
        and_then (pause_host (capacity_reason ''central state'' failure) actor changed_at d)
          (\<lambda>(_, d1). Inr (checks, d1))
    | None \<Rightarrow>
       (case find (\<lambda>c. dc_scope c = Scope_project \<and> \<not> sufficient c) checks of
          Some failure \<Rightarrow>
            and_then (quarantine_project project_id (capacity_reason ''Project artifact'' failure)
                actor changed_at None d)
              (\<lambda>(_, d1). Inr (checks, d1))
        | None \<Rightarrow> Inr (checks, d)))"

section \<open>Evidence transactions are quiet\<close>

text \<open>Rows that differ only in columns no invariant of an item reads.\<close>

lemma worktree_recorded_step:
  "item_check (worktree_recorded git_ref path t i) \<Longrightarrow> same_identity i (worktree_recorded git_ref path t i)
     \<Longrightarrow> item_step i (worktree_recorded git_ref path t i)"
  by (intro item_stepI) (simp_all add: item_wf_defs worktree_recorded_def)

lemma worktree_cleaned_step:
  "item_check (worktree_cleaned t problem i) \<Longrightarrow> same_identity i (worktree_cleaned t problem i)
     \<Longrightarrow> item_step i (worktree_cleaned t problem i)"
  by (intro item_stepI) (simp_all add: item_wf_defs worktree_cleaned_def)

lemma quiet_insert_observations:
  "insert_observations row segment t obs d = Inr d' \<Longrightarrow> quiet d d'"
  by (induction obs arbitrary: d) (auto dest: quiet_insert_artifact intro: quiet_trans)

lemma ensures_insert_observations [vcg]:
  assumes "quiet d d0" and "\<And>d1. quiet d d1 \<Longrightarrow> ensures (quiet d) (k d1)"
  shows "ensures (quiet d) (and_then (insert_observations row segment t obs d0) k)"
  using assms(1) quiet_insert_observations assms(2) by (rule ensures_row)

lemma ensures_gate [vcg]:
  assumes "g = Gate_closed \<Longrightarrow> ensures R a" and "g = Gate_corrupt \<Longrightarrow> ensures R b"
    and "\<And>n. g = Gate_attempt n \<Longrightarrow> ensures R (k n)"
  shows "ensures R (case g of Gate_closed \<Rightarrow> a | Gate_corrupt \<Rightarrow> b | Gate_attempt n \<Rightarrow> k n)"
  using assms by (cases g) simp_all

lemma ensures_raise [vcg]: "ensures R (Inl e)"
  by (simp add: ensures_def)

interpretation worktree_preparing: quiet_operation "record_worktree_prepared evidence actor changed_at"
  for evidence actor changed_at
  by (unfold_locales, erule ensuresD[rotated], unfold record_worktree_prepared_def,
      intro vcg; (assumption | rule worktree_recorded_step worktree_cleaned_step); assumption)

interpretation worktree_cleaning: quiet_operation
  "record_worktree_cleanup evidence actor changed_at problem"
  for evidence actor changed_at problem
  by (unfold_locales, erule ensuresD[rotated], unfold record_worktree_cleanup_def,
      intro vcg; (assumption | rule worktree_recorded_step worktree_cleaned_step); assumption)

interpretation legacy_adopting: quiet_operation
  "record_legacy_worktree_adopted state_dir item_id git_ref path actor changed_at"
  for state_dir item_id git_ref path actor changed_at
  by (unfold_locales, erule ensuresD[rotated], unfold record_legacy_worktree_adopted_def,
      intro vcg; (assumption | rule worktree_recorded_step worktree_cleaned_step); assumption)

interpretation legacy_cleaning: quiet_operation
  "record_legacy_worktree_cleanup state_dir item_id git_ref path actor changed_at problem"
  for state_dir item_id git_ref path actor changed_at problem
  by (unfold_locales, erule ensuresD[rotated], unfold record_legacy_worktree_cleanup_def,
      intro vcg; (assumption | rule worktree_recorded_step worktree_cleaned_step); assumption)

interpretation artifact_recording: quiet_operation
  "record_job_artifacts item_id segment observations actor recorded_at"
  for item_id segment observations actor recorded_at
  by (unfold_locales, erule ensuresD[rotated], unfold record_job_artifacts_def, intro vcg) auto

interpretation signal_claiming: quiet_operation
  "claim_manual_yield_signal_attempt item_id request_id token epoch retry actor changed_at"
  for item_id request_id token epoch retry actor changed_at
  by (unfold_locales, erule ensuresD[rotated], unfold claim_manual_yield_signal_attempt_def, intro vcg)
    auto

interpretation signal_resulting: quiet_operation
  "record_manual_yield_signal_result sclaim delivered detail epoch actor changed_at"
  for sclaim delivered detail epoch actor changed_at
  by (unfold_locales, erule ensuresD[rotated], unfold record_manual_yield_signal_result_def, intro vcg)
    auto

interpretation disk_enforcing: quiet_operation
  "enforce_disk_capacity disk_usage state_dir project_id minimum revision actor changed_at"
  for disk_usage state_dir project_id minimum revision actor changed_at
proof unfold_locales
  fix d v d'
  assume "enforce_disk_capacity disk_usage state_dir project_id minimum revision actor changed_at d
    = Inr (v, d')" and "system_inv d"
  then show "quiet d d'"
    by (auto simp: enforce_disk_capacity_def split: option.splits
        dest!: pausing.run_quiet quarantining.run_quiet)
qed

section \<open>Worktree identities are never substituted\<close>

text \<open>
  A prepared worktree fixes the item's runtime checkout: the row then names exactly the ref and path of
  the evidence, whose Project, revision and commit match the item; repeating the call changes nothing,
  and evidence with another ref or path for that item is refused.
\<close>

theorem worktree_identity_fixed:
  assumes run: "record_worktree_prepared evidence actor changed_at d = Inr (v, d')"
  shows "(\<exists>i. find_item (db_items d') (we_item_id evidence) = Some i
      \<and> qi_project_id i = we_project_id evidence \<and> qi_revision_id i = we_revision_id evidence
      \<and> qi_git_commit i = we_git_commit evidence
      \<and> qi_runtime_git_ref i = Some (we_git_ref evidence)
      \<and> qi_runtime_worktree_path i = Some (we_worktree evidence)
      \<and> qi_runtime_worktree_removed_at i = None)
    \<and> record_worktree_prepared evidence actor changed_at d' = Inr (False, d')
    \<and> (\<forall>other a t. we_item_id other = we_item_id evidence
         \<and> (we_git_ref other, we_worktree other) \<noteq> (we_git_ref evidence, we_worktree evidence)
         \<longrightarrow> (\<exists>e. record_worktree_prepared other a t d' = Inl e))"
proof -
  let ?k = "we_item_id evidence"
  obtain i where i: "find_item (db_items d) ?k = Some i"
    and own: "qi_project_id i = we_project_id evidence" "qi_revision_id i = we_revision_id evidence"
      "qi_git_commit i = we_git_commit evidence"
    using run by (auto simp: record_worktree_prepared_def Let_def)
  let ?f = "worktree_recorded (we_git_ref evidence) (we_worktree evidence) changed_at"
  have "\<exists>j. find_item (db_items d') ?k = Some j \<and> qi_project_id j = qi_project_id i
      \<and> qi_revision_id j = qi_revision_id i \<and> qi_git_commit j = qi_git_commit i
      \<and> qi_runtime_git_ref j = Some (we_git_ref evidence)
      \<and> qi_runtime_worktree_path j = Some (we_worktree evidence)
      \<and> qi_runtime_worktree_removed_at j = None"
  proof (cases "v")
    case True
    then have "db_items d' = update_rows (\<lambda>j. qi_id j = ?k) ?f (db_items d)"
      using run i by (auto simp: record_worktree_prepared_def Let_def effect_simps split: if_splits)
    then have "find_item (db_items d') ?k = Some (?f i)"
      using i item_table.lookup_SomeD[OF i] by (simp add: find_item_update worktree_recorded_def)
    then show ?thesis by (simp add: worktree_recorded_def)
  next
    case False
    with run i show ?thesis
      by (auto simp: record_worktree_prepared_def Let_def split: if_splits)
  qed
  then obtain j where j: "find_item (db_items d') ?k = Some j" "qi_project_id j = qi_project_id i"
      "qi_revision_id j = qi_revision_id i" "qi_git_commit j = qi_git_commit i"
      "qi_runtime_git_ref j = Some (we_git_ref evidence)"
      "qi_runtime_worktree_path j = Some (we_worktree evidence)"
      "qi_runtime_worktree_removed_at j = None" by blast
  have "\<exists>e. record_worktree_prepared other a t d' = Inl e"
    if "we_item_id other = ?k"
      "(we_git_ref other, we_worktree other) \<noteq> (we_git_ref evidence, we_worktree evidence)" for other a t
    using that j by (auto simp: record_worktree_prepared_def Let_def require_def)
  moreover have "record_worktree_prepared evidence actor changed_at d' = Inr (False, d')"
    using j own by (simp add: record_worktree_prepared_def)
  ultimately show ?thesis using j own by metis
qed

definition ex_evidence :: worktree_evidence where
  "ex_evidence = \<lparr>we_project_id = 1, we_project_key = ''alpha'', we_revision_id = 1,
     we_revision = ''alpha:r1'', we_revision_sequence = 1, we_item_id = 1, we_repository = ''/srv/alpha'',
     we_git_ref = ''refs/experiment-queue/1'', we_worktree = ''/state/worktrees/1'',
     we_git_commit = ex_commit\<rparr>"

lemma worktree_identity_fixed_witness:
  "\<exists>d'. record_worktree_prepared ex_evidence ''scheduler'' ex_time (ex_db [ex_starting]) = Inr (True, d')
     \<and> record_worktree_prepared ex_evidence ''scheduler'' ex_time d' = Inr (False, d')"
proof -
  let ?r = "record_worktree_prepared ex_evidence ''scheduler'' ex_time (ex_db [ex_starting])"
  have run: "?r = Inr (True, after ?r)" by (rule succeeds_value) code_simp
  with worktree_identity_fixed[OF run] show ?thesis by blast
qed

section \<open>Artifact observations are recorded once\<close>

lemma map_insort_key: "map f (insort_key (\<lambda>x. g (f x)) x xs) = insort_key g (f x) (map f xs)"
  by (induction xs) auto

lemma map_sort_key: "map f (sort_key (\<lambda>x. g (f x)) xs) = sort_key g (map f xs)"
  by (induction xs) (simp_all add: map_insort_key)

lemma insert_observations_rows:
  "insert_observations row segment t obs d = Inr d' \<Longrightarrow>
     \<exists>rows. d' = d\<lparr>db_artifacts := db_artifacts d @ rows\<rparr>
       \<and> map artifact_fields rows = map observation_fields obs
       \<and> (\<forall>a \<in> set rows. a_item_id a = qi_id row \<and> a_segment a = segment)"
proof (induction obs arbitrary: d)
  case (Cons ob obs)
  let ?a = "observation_row d row segment t ob"
  let ?d1 = "d\<lparr>db_artifacts := db_artifacts d @ [?a]\<rparr>"
  have "insert_observations row segment t obs ?d1 = Inr d'"
    using Cons.prems by (auto simp: insert_artifact_def split: if_splits)
  from Cons.IH[OF this] obtain rows where rows: "d' = ?d1\<lparr>db_artifacts := db_artifacts ?d1 @ rows\<rparr>"
      "map artifact_fields rows = map observation_fields obs"
      "\<forall>a \<in> set rows. a_item_id a = qi_id row \<and> a_segment a = segment" by blast
  have "artifact_fields ?a = observation_fields ob \<and> a_item_id ?a = qi_id row \<and> a_segment ?a = segment"
    by (simp add: observation_row_def artifact_fields_def observation_fields_def)
  with rows show ?case by (intro exI[of _ "?a # rows"]) simp
qed (auto intro: exI[of _ "[]"])

text \<open>
  The artifact observations of a segment are recorded once: afterwards the segment's rows are the
  observations in name order, other segments and items are untouched, the same call again changes
  nothing, and a different set of observations is refused.
\<close>

theorem job_artifacts_recorded_once:
  assumes run: "record_job_artifacts k segment obs actor t d = Inr (True, d')"
  shows "map artifact_fields (segment_artifacts d' k segment)
      = map observation_fields (sort_key oa_name obs)
    \<and> (\<forall>k' s'. (k', s') \<noteq> (k, segment) \<longrightarrow> segment_artifacts d' k' s' = segment_artifacts d k' s')
    \<and> prefix (db_artifacts d) (db_artifacts d')
    \<and> record_job_artifacts k segment obs actor t d' = Inr (False, d')
    \<and> (\<forall>obs' a' t'. map observation_fields (sort_key oa_name obs')
          \<noteq> map observation_fields (sort_key oa_name obs)
        \<longrightarrow> (\<exists>e. record_job_artifacts k segment obs' a' t' d' = Inl e))"
proof -
  obtain row d1 where row: "find_item (db_items d) k = Some row" "qi_segment row = segment"
      "active_state (qi_state row)" and empty: "segment_artifacts d k segment = []"
    and ins: "insert_observations row segment t obs d = Inr d1" and some: "obs \<noteq> []"
    and args: "k > 0 \<and> segment > 0" "distinct (map oa_name obs)" "timestamp_ok t" "text_ok 256 actor"
    and d': "db_items d' = db_items d1" "db_artifacts d' = db_artifacts d1"
    using run by (auto simp: record_job_artifacts_def effect_simps split: if_splits)
  have id: "qi_id row = k" using item_table.lookup_SomeD[OF row(1)] by simp
  obtain rows where d1: "d1 = d\<lparr>db_artifacts := db_artifacts d @ rows\<rparr>"
    and fields: "map artifact_fields rows = map observation_fields obs"
    and keys: "\<forall>a \<in> set rows. a_item_id a = k \<and> a_segment a = segment"
    using insert_observations_rows[OF ins] id by auto
  have none: "filter (\<lambda>a. a_item_id a = k \<and> a_segment a = segment) (db_artifacts d) = []"
    using arg_cong[OF empty, of length] by (simp add: segment_artifacts_def)
  have same: "segment_artifacts d' k segment = sort_key a_name rows"
    using keys none by (simp add: segment_artifacts_def d' d1)
  have other: "segment_artifacts d' k' s' = segment_artifacts d k' s'" if "(k', s') \<noteq> (k, segment)" for k' s'
  proof -
    have "filter (\<lambda>a. a_item_id a = k' \<and> a_segment a = s') rows = []"
      using keys that by (auto simp: filter_empty_conv)
    then show ?thesis by (simp add: segment_artifacts_def d' d1)
  qed
  have "map artifact_fields (sort_key a_name rows) = sort_key fst (map artifact_fields rows)"
    using map_sort_key[of artifact_fields fst rows] by (simp add: artifact_fields_def)
  also have "\<dots> = map observation_fields (sort_key oa_name obs)"
    using map_sort_key[of observation_fields fst obs] by (simp add: fields observation_fields_def)
  finally have sorted: "map artifact_fields (segment_artifacts d' k segment)
      = map observation_fields (sort_key oa_name obs)" by (simp add: same)
  have nonempty: "segment_artifacts d' k segment \<noteq> []"
    using arg_cong[OF sorted, of length] some by auto
  have found: "find_item (db_items d') k = Some row" using row(1) by (simp add: d' d1)
  have "record_job_artifacts k segment obs actor t d' = Inr (False, d')"
    using args row nonempty sorted found by (simp add: record_job_artifacts_def)
  moreover have "\<exists>e. record_job_artifacts k segment obs' a' t' d' = Inl e"
    if "map observation_fields (sort_key oa_name obs') \<noteq> map observation_fields (sort_key oa_name obs)"
    for obs' a' t'
    using that row nonempty sorted found by (auto simp: record_job_artifacts_def require_def)
  ultimately show ?thesis using sorted other by (simp add: d' d1)
qed

definition ex_observation :: observed_artifact where
  "ex_observation = \<lparr>oa_name = ''model'', oa_root_name = ''outputs'', oa_relative_path = ''model.pt'',
     oa_path = ''/data/outputs/model.pt'', oa_type = File_artifact, oa_required = True,
     oa_present = True, oa_size_bytes = Some 10\<rparr>"

definition ex_artifact_db :: db where
  "ex_artifact_db = (ex_db [ex_running 1 ''GPU-a''])\<lparr>db_roots :=
     [\<lparr>ar_project_id = 1, ar_revision_id = 1, ar_mount_name = ''outputs''\<rparr>]\<rparr>"

lemma job_artifacts_recorded_once_witness:
  "\<exists>d'. record_job_artifacts 1 1 [ex_observation] ''scheduler'' ex_time ex_artifact_db = Inr (True, d')
     \<and> record_job_artifacts 1 1 [ex_observation] ''scheduler'' ex_time d' = Inr (False, d')"
proof -
  let ?r = "record_job_artifacts 1 1 [ex_observation] ''scheduler'' ex_time ex_artifact_db"
  have run: "?r = Inr (True, after ?r)" by (rule succeeds_value) code_simp
  with job_artifacts_recorded_once[OF run] show ?thesis by blast
qed

section \<open>One manual-yield signal at a time\<close>

abbreviation claimed_type :: string where
  "claimed_type \<equiv> ''MANUAL_PREEMPTION_SIGNAL_CLAIMED''"

abbreviation result_type :: string where
  "result_type \<equiv> ''MANUAL_PREEMPTION_SIGNAL_RESULT''"

lemma signal_events_append:
  assumes "db_events d' = db_events d @ [ev]" and "e_item_id ev = Some k"
    and "e_type ev \<in> {claimed_type, result_type}"
  shows "signal_events d' k = signal_events d k @ [ev]"
  using assms by (simp add: signal_events_def)

lemma signal_result_eq:
  "signal_result d k rid token = (let es = filter (\<lambda>e. names_request rid e \<and> e_type e = result_type
     \<and> json_get ''attempt_token'' (e_payload e) = Some (JStr token)) (signal_events d k) in
     if es = [] then None else Some (e_payload (last es)))"
  by (simp add: signal_result_def Let_def split: list.splits)

lemma signal_gate_eq:
  assumes "signal_claims d k rid = claims @ [c]" and "json_get ''attempt_token'' c = Some (JStr token)"
    and "json_get ''signal_epoch'' c = Some (JFloat (Finite e))" and "json_get ''attempt'' c = Some (JInt n)"
  shows "signal_gate d k rid now retry = (case signal_result d k rid token of
      None \<Rightarrow> if now < round64 (e + retry) then Gate_closed else Gate_attempt (n + 1)
    | Some r \<Rightarrow> if json_get ''delivered'' r = Some (JBool True) then Gate_closed
        else (case Option.bind (json_get ''result_epoch'' r) json_number of
            None \<Rightarrow> Gate_corrupt
          | Some reference \<Rightarrow> if now < round64 (reference + retry) then Gate_closed
              else Gate_attempt (n + 1)))"
  using assms by (cases claims) (simp_all add: signal_gate_def json_number_def)

lemma signal_claimed:
  assumes "db_events d' = db_events d @ [ev]" and "e_item_id ev = Some k"
    and "e_type ev = claimed_type" and "names_request rid ev"
  shows "signal_claims d' k rid = signal_claims d k rid @ [e_payload ev]"
    and "signal_result d' k rid token = signal_result d k rid token"
  using signal_events_append[OF assms(1,2)] assms(3,4)
  by (simp_all add: signal_claims_def signal_result_eq)

lemma signal_resulted:
  assumes "db_events d' = db_events d @ [ev]" and "e_item_id ev = Some k"
    and "e_type ev = result_type" and "names_request rid ev"
    and "json_get ''attempt_token'' (e_payload ev) = Some (JStr token)"
  shows "signal_claims d' k rid = signal_claims d k rid"
    and "signal_result d' k rid token = Some (e_payload ev)"
  using signal_events_append[OF assms(1,2)] assms(3-5)
  by (simp_all add: signal_claims_def signal_result_eq Let_def)

lemma claim_signal_event:
  assumes "claim_manual_yield_signal_attempt k rid token epoch retry actor t d = Inr (Some c, d')"
  obtains e r n ev where "nonnegative_float epoch = Some e" and "nonnegative_float retry = Some r"
    and "signal_gate d k rid e r = Gate_attempt n" and "db_events d' = db_events d @ [ev]"
    and "e_item_id ev = Some k" and "e_type ev = claimed_type" and "names_request rid ev"
    and "json_get ''attempt_token'' (e_payload ev) = Some (JStr token)"
    and "json_get ''signal_epoch'' (e_payload ev) = Some (JFloat (Finite e))"
    and "json_get ''attempt'' (e_payload ev) = Some (JInt n)"
    and "sc_item_id c = k" and "sc_request_id c = rid" and "sc_attempt_token c = token"
proof -
  obtain e r where nums: "nonnegative_float epoch = Some e" "nonnegative_float retry = Some r"
    using assms by (auto simp: claim_manual_yield_signal_attempt_def)
  show thesis
  proof (cases "signal_gate d k rid e r")
    case (Gate_attempt n)
    with assms nums obtain ev where "db_events d' = db_events d @ [ev]" "e_item_id ev = Some k"
        "e_type ev = claimed_type" "names_request rid ev"
        "json_get ''attempt_token'' (e_payload ev) = Some (JStr token)"
        "json_get ''signal_epoch'' (e_payload ev) = Some (JFloat (Finite e))"
        "json_get ''attempt'' (e_payload ev) = Some (JInt n)"
        "sc_item_id c = k" "sc_request_id c = rid" "sc_attempt_token c = token"
      by (auto simp: claim_manual_yield_signal_attempt_def sched_event_eq_Inr new_event_def
          names_request_def json_get_def)
    with nums Gate_attempt that show thesis by blast
  qed (use assms nums in \<open>auto simp: claim_manual_yield_signal_attempt_def\<close>)
qed

lemma claim_needs_open_gate:
  assumes "claim_manual_yield_signal_attempt k rid token epoch retry actor t d = Inr (Some c, d')"
    and "nonnegative_float epoch = Some e" and "nonnegative_float retry = Some r"
  shows "signal_gate d k rid e r \<noteq> Gate_closed"
  using assms by (auto simp: claim_manual_yield_signal_attempt_def)

text \<open>
  (C23) A manual-yield signal is attempted under an exclusive durable lease: after a claim with a token that
  has no result yet, no second claim for the request succeeds before the retry interval has passed, and
  once a delivery is recorded for that claim no later claim for the request ever succeeds.
\<close>

theorem signal_lease_exclusive:
  assumes run: "claim_manual_yield_signal_attempt k rid token epoch retry actor t d = Inr (Some c, d1)"
    and fresh: "signal_result d k rid token = None"
  shows "(\<forall>e r e2 token2 epoch2 a2 t2 c2 d2. nonnegative_float epoch = Some e \<and>
        nonnegative_float retry = Some r \<and> nonnegative_float epoch2 = Some e2 \<and> e2 < round64 (e + r)
        \<longrightarrow> claim_manual_yield_signal_attempt k rid token2 epoch2 retry a2 t2 d1 \<noteq> Inr (Some c2, d2))
    \<and> (\<forall>detail e3 a3 t3 v d2. record_manual_yield_signal_result c True detail e3 a3 t3 d1 = Inr (v, d2)
        \<longrightarrow> (\<forall>token4 epoch4 retry4 a4 t4 c4 d4.
              claim_manual_yield_signal_attempt k rid token4 epoch4 retry4 a4 t4 d2 \<noteq> Inr (Some c4, d4)))"
proof -
  obtain e r n ev where nums: "nonnegative_float epoch = Some e" "nonnegative_float retry = Some r"
    and ev: "db_events d1 = db_events d @ [ev]" "e_item_id ev = Some k" "e_type ev = claimed_type"
      "names_request rid ev"
    and payload: "json_get ''attempt_token'' (e_payload ev) = Some (JStr token)"
      "json_get ''signal_epoch'' (e_payload ev) = Some (JFloat (Finite e))"
      "json_get ''attempt'' (e_payload ev) = Some (JInt n)"
    and c: "sc_item_id c = k" "sc_request_id c = rid" "sc_attempt_token c = token"
    using run by (rule claim_signal_event)
  have claims: "signal_claims d1 k rid = signal_claims d k rid @ [e_payload ev]"
    and pending: "signal_result d1 k rid token = None"
    using signal_claimed[OF ev] fresh by simp_all
  have leased: "signal_gate d1 k rid e2 r = Gate_closed" if "e2 < round64 (e + r)" for e2
    using that pending by (simp add: signal_gate_eq[OF claims payload])
  have final: "signal_gate d2 k rid e4 r4 = Gate_closed"
    if result: "record_manual_yield_signal_result c True detail e3 a3 t3 d1 = Inr (v, d2)"
    for detail e3 a3 t3 v d2 e4 r4
  proof -
    obtain ev2 where "db_events d2 = db_events d1 @ [ev2]" "e_item_id ev2 = Some k"
      "e_type ev2 = result_type" "names_request rid ev2"
      "json_get ''attempt_token'' (e_payload ev2) = Some (JStr token)"
      and delivered: "json_get ''delivered'' (e_payload ev2) = Some (JBool True)"
      using result pending
      by (auto simp: record_manual_yield_signal_result_def Let_def c sched_event_eq_Inr new_event_def
          names_request_def json_get_def)
    note res = signal_resulted[OF this(1-5)]
    have "signal_claims d2 k rid = signal_claims d k rid @ [e_payload ev]" using res(1) claims by simp
    from signal_gate_eq[OF this payload] res(2) delivered show ?thesis by simp
  qed
  show ?thesis
  proof (intro conjI allI impI notI)
    fix e' r' e2 token2 epoch2 a2 t2 c2 d2
    assume "nonnegative_float epoch = Some e' \<and> nonnegative_float retry = Some r'
        \<and> nonnegative_float epoch2 = Some e2 \<and> e2 < round64 (e' + r')"
      and "claim_manual_yield_signal_attempt k rid token2 epoch2 retry a2 t2 d1 = Inr (Some c2, d2)"
    with nums leased claim_needs_open_gate show False by fastforce
  next
    fix detail e3 a3 t3 v d2 token4 epoch4 retry4 a4 t4 c4 d4
    assume "record_manual_yield_signal_result c True detail e3 a3 t3 d1 = Inr (v, d2)"
      and again: "claim_manual_yield_signal_attempt k rid token4 epoch4 retry4 a4 t4 d2 = Inr (Some c4, d4)"
    then show False using final claim_needs_open_gate[OF again] by (elim claim_signal_event) auto
  qed
qed

definition ex_yielding :: queue_item where
  "ex_yielding = (ex_running 1 ''GPU-a'')\<lparr>qi_state := Yielding, qi_yield_request_id := Some ''req-1''\<rparr>"

lemma signal_lease_exclusive_witness:
  "\<exists>c d1. claim_manual_yield_signal_attempt 1 ''req-1'' ''tok-1'' (Finite 100) (Finite 30) ''scheduler''
      ex_time (ex_db [ex_yielding]) = Inr (Some c, d1)
    \<and> (\<forall>c2 d2. claim_manual_yield_signal_attempt 1 ''req-1'' ''tok-2'' (Finite 110) (Finite 30)
         ''scheduler'' ex_time d1 \<noteq> Inr (Some c2, d2))"
proof -
  let ?d = "ex_db [ex_yielding]"
  have "succeeds (claim_manual_yield_signal_attempt 1 ''req-1'' ''tok-1'' (Finite 100) (Finite 30)
      ''scheduler'' ex_time ?d) (\<lambda>v. v \<noteq> None)" by code_simp
  then obtain c d1 where run: "claim_manual_yield_signal_attempt 1 ''req-1'' ''tok-1'' (Finite 100)
      (Finite 30) ''scheduler'' ex_time ?d = Inr (Some c, d1)" using succeedsD by blast
  have fresh: "signal_result ?d 1 ''req-1'' ''tok-1'' = None" by code_simp
  have nums: "nonnegative_float (Finite 100) = Some 100" "nonnegative_float (Finite 30) = Some 30"
    "nonnegative_float (Finite 110) = Some 110" "(110::rat) < round64 (100 + 30)"
    by code_simp+
  have "claim_manual_yield_signal_attempt 1 ''req-1'' ''tok-2'' (Finite 110) (Finite 30) ''scheduler''
      ex_time d1 \<noteq> Inr (Some c2, d2)" for c2 d2
    by (rule signal_lease_exclusive[OF run fresh, THEN conjunct1, rule_format]) (rule conjI nums)+
  with run show ?thesis by blast
qed

section \<open>Disk pressure stays in its scope\<close>

lemma pause_host_gate:
  assumes "pause_host why actor t d = Inr (v, d')"
  shows "db_metadata d' ''dispatch_paused'' = Some ''1'' \<and> db_runtime d' = db_runtime d
    \<and> db_items d' = db_items d"
  using assms by (auto simp: pause_host_def effect_simps set_metadata_def split: if_splits)

lemma quarantine_opens:
  assumes "quarantine_project p why actor t k d = Inr (v, d')"
  shows "(\<exists>r. find_runtime (db_runtime d') p = Some r \<and> rs_health r = Open)
    \<and> (\<forall>q. q \<noteq> p \<longrightarrow> find_runtime (db_runtime d') q = find_runtime (db_runtime d) q)
    \<and> db_metadata d' = db_metadata d \<and> db_items d' = db_items d"
proof -
  have "find_runtime (db_runtime d') q = find_runtime (db_runtime d) q" if "q \<noteq> p" for q
    using assms that runtime_table.lookup_SomeD[of "db_runtime d" q]
    by (cases "find_runtime (db_runtime d) q")
      (auto simp: quarantine_project_def effect_simps find_runtime_update split: if_splits)
  then show ?thesis
    using assms runtime_table.lookup_SomeD
    by (auto simp: quarantine_project_def effect_simps find_runtime_update split: if_splits)
qed

lemma measure_roots_roots:
  "measure_roots disk_usage minimum blank paths = Inr checks \<Longrightarrow>
     (\<And>p. dc_root (blank p) = p \<and> dc_scope (blank p) = s) \<Longrightarrow>
     map dc_root checks = paths \<and> (\<forall>c \<in> set checks. dc_scope c = s)"
  by (induction paths arbitrary: checks) auto

text \<open>
  Disk pressure stays in its scope: a full state file system pauses the host and touches no circuit; a
  full artifact root of the Project opens that Project's circuit only and leaves the host gate alone; with
  enough space nothing changes. Items are never touched, and the state directory is always measured.
\<close>

theorem disk_pressure_scoped:
  assumes run: "enforce_disk_capacity disk_usage state_dir p minimum revision actor t d = Inr (checks, d')"
  shows "db_items d' = db_items d \<and>
    (if \<exists>c \<in> set checks. dc_scope c = Scope_host \<and> \<not> sufficient c
     then db_metadata d' ''dispatch_paused'' = Some ''1'' \<and> db_runtime d' = db_runtime d
     else db_metadata d' = db_metadata d
       \<and> (\<forall>q. q \<noteq> p \<longrightarrow> find_runtime (db_runtime d') q = find_runtime (db_runtime d) q)
       \<and> (if \<exists>c \<in> set checks. \<not> sufficient c
          then \<exists>r. find_runtime (db_runtime d') p = Some r \<and> rs_health r = Open
          else d' = d))
    \<and> (\<exists>central owned. checks = central # owned \<and> dc_root central = state_dir
         \<and> dc_scope central = Scope_host \<and> (\<forall>c \<in> set owned. dc_scope c = Scope_project))"
proof -
  have chk: "check_disk_capacity disk_usage state_dir p minimum revision d = Inr checks"
    using run by (auto simp: enforce_disk_capacity_def split: option.splits)
  have shape: "\<exists>central owned. checks = central # owned \<and> dc_root central = state_dir
      \<and> dc_scope central = Scope_host \<and> (\<forall>c \<in> set owned. dc_scope c = Scope_project)"
    using chk measure_roots_roots[where s = Scope_project]
    by (fastforce simp: check_disk_capacity_def Let_def)
  let ?host = "\<lambda>c. dc_scope c = Scope_host \<and> \<not> sufficient c"
  let ?project = "\<lambda>c. dc_scope c = Scope_project \<and> \<not> sufficient c"
  show ?thesis
  proof (cases "find ?host checks")
    case (Some c)
    then have "\<exists>c \<in> set checks. ?host c" by (auto dest: find_SomeD)
    moreover obtain v why where "pause_host why actor t d = Inr (v, d')"
      using run chk Some by (auto simp: enforce_disk_capacity_def)
    ultimately show ?thesis using shape pause_host_gate by simp
  next
    case None
    then have no_host: "\<not> (\<exists>c \<in> set checks. ?host c)" by (auto simp: find_None_iff)
    show ?thesis
    proof (cases "find ?project checks")
      case (Some c)
      then have "\<exists>c \<in> set checks. \<not> sufficient c" by (auto dest: find_SomeD)
      moreover obtain v why where "quarantine_project p why actor t None d = Inr (v, d')"
        using run chk Some None by (auto simp: enforce_disk_capacity_def)
      ultimately show ?thesis using shape quarantine_opens by (simp only: no_host if_False if_True) blast
    next
      case none: None
      then have "\<not> (\<exists>c \<in> set checks. \<not> sufficient c)"
        using no_host by (auto simp: find_None_iff) (metis failure_scope.exhaust)
      moreover have "d' = d" using run chk None none by (auto simp: enforce_disk_capacity_def)
      ultimately show ?thesis using shape by (simp only: no_host if_False) simp
    qed
  qed
qed

definition ex_disk_usage :: "string \<Rightarrow> int option" where
  "ex_disk_usage path = (if path = ''/state'' then Some 107374182400 else Some 1073741824)"

definition ex_disk_db :: db where
  "ex_disk_db = ex_artifact_db\<lparr>db_mounts := [\<lparr>m_project_id = 1, m_revision_id = 1, m_name = ''outputs'',
     m_path = ''/data/outputs'', m_declared_access = Read_write, m_access = Read_write,
     m_required = True, m_checkout_descendant = False, m_git_ignored = False\<rparr>]\<rparr>"

lemma disk_pressure_scoped_witness:
  "\<exists>checks d'. enforce_disk_capacity ex_disk_usage ''/state'' 1 (Finite 10) None ''scheduler'' ex_time
      ex_disk_db = Inr (checks, d') \<and> db_metadata d' = db_metadata ex_disk_db
    \<and> (\<exists>r. find_runtime (db_runtime d') 1 = Some r \<and> rs_health r = Open)"
proof -
  let ?r = "enforce_disk_capacity ex_disk_usage ''/state'' 1 (Finite 10) None ''scheduler'' ex_time ex_disk_db"
  have "succeeds ?r (\<lambda>cs. list_all (\<lambda>c. dc_scope c = Scope_host \<longrightarrow> sufficient c) cs
      \<and> list_ex (\<lambda>c. \<not> sufficient c) cs)" by code_simp
  then obtain cs where run: "?r = Inr (cs, after ?r)"
    and cs: "\<not> (\<exists>c \<in> set cs. dc_scope c = Scope_host \<and> \<not> sufficient c)" "\<exists>c \<in> set cs. \<not> sufficient c"
    using succeedsD by (fastforce simp: list_all_iff list_ex_iff)
  have "db_metadata (after ?r) = db_metadata ex_disk_db
      \<and> (\<exists>r. find_runtime (db_runtime (after ?r)) 1 = Some r \<and> rs_health r = Open)"
    using disk_pressure_scoped[OF run] cs by (simp only: if_False if_True simp_thms)
  then show ?thesis using run by blast
qed

end
