(* ===== verification/Protocols.thy ===== *)
theory Protocols
  imports Timestamps Serialization
begin

text \<open>
  Protocol identities (\<open>protocols.py\<close>): the kind and major version that every machine-readable document
  carries, how they are spelled, and the strict reader that accepts only declared pairs.
\<close>

datatype protocol_kind =
    Database_kind | Project_kind | Experiment_card_kind | Legacy_markdown_card_kind
  | Runner_manifest_kind | Runner_receipt_kind | Queue_export_kind | Queue_migration_receipt_kind
  | Cooperative_yield_request_kind | Cooperative_yield_receipt_kind

fun kind_value :: "protocol_kind \<Rightarrow> string" where
  "kind_value Database_kind = ''Database''"
| "kind_value Project_kind = ''Project''"
| "kind_value Experiment_card_kind = ''ExperimentCard''"
| "kind_value Legacy_markdown_card_kind = ''LegacyMarkdownCard''"
| "kind_value Runner_manifest_kind = ''RunnerManifest''"
| "kind_value Runner_receipt_kind = ''RunnerReceipt''"
| "kind_value Queue_export_kind = ''QueueExport''"
| "kind_value Queue_migration_receipt_kind = ''QueueMigrationReceipt''"
| "kind_value Cooperative_yield_request_kind = ''CooperativeYieldRequest''"
| "kind_value Cooperative_yield_receipt_kind = ''CooperativeYieldReceipt''"

definition protocol_kinds :: "protocol_kind list" where
  "protocol_kinds = [Database_kind, Project_kind, Experiment_card_kind, Legacy_markdown_card_kind,
     Runner_manifest_kind, Runner_receipt_kind, Queue_export_kind, Queue_migration_receipt_kind,
     Cooperative_yield_request_kind, Cooperative_yield_receipt_kind]"

type_synonym protocol_version = "protocol_kind \<times> nat"

definition api_group :: string where
  "api_group = ''experiment-queue''"

definition declared_protocol_versions :: "protocol_version list" where
  "declared_protocol_versions =
    [(Database_kind, 1), (Database_kind, 2), (Database_kind, 3), (Database_kind, 4), (Database_kind, 5),
     (Project_kind, 1), (Experiment_card_kind, 1), (Legacy_markdown_card_kind, 0),
     (Runner_manifest_kind, 1), (Runner_receipt_kind, 0), (Runner_receipt_kind, 1),
     (Queue_export_kind, 0), (Queue_export_kind, 1), (Queue_migration_receipt_kind, 1),
     (Cooperative_yield_request_kind, 0), (Cooperative_yield_request_kind, 1),
     (Cooperative_yield_receipt_kind, 0), (Cooperative_yield_receipt_kind, 1)]"

definition api_version :: "protocol_version \<Rightarrow> string" where
  "api_version v = api_group @ ''/v'' @ digits (snd v)"

definition document_identity :: "protocol_version \<Rightarrow> (string \<times> json) list" where
  "document_identity v =
    [(''apiVersion'', JStr (api_version v)), (''kind'', JStr (kind_value (fst v)))]"

text \<open>\<open>(0|[1-9][0-9]*)\<close> after the API group: the digits, or nothing when the pattern does not match.\<close>

definition match_major :: "string \<Rightarrow> string option" where
  "match_major s =
    (let head = api_group @ ''/v''; t = drop (length head) s in
     if prefix head s \<and> t \<noteq> [] \<and> list_all is_digit t \<and> (t = ''0'' \<or> hd t \<noteq> CHR ''0'')
     then Some t else None)"

definition version_from_document :: "json \<Rightarrow> protocol_version result" where
  "version_from_document document =
    (case (json_get ''kind'' document, json_get ''apiVersion'' document) of
       (Some (JStr k), Some (JStr a)) \<Rightarrow>
         require (k \<noteq> [] \<and> a \<noteq> []) (ProtocolIdentityError, Bad_text)
         (fetch (find (\<lambda>kind. kind_value kind = k) protocol_kinds) (ProtocolIdentityError, Wrong_identity)
           (\<lambda>kind.
          fetch (match_major a) (ProtocolIdentityError, Bad_text) (\<lambda>major.
          require (length major \<le> 9) (ProtocolIdentityError, Bad_integer)
          (let v = (kind, nat (digits_value major)) in
           require (v \<in> set declared_protocol_versions) (ProtocolIdentityError, Wrong_identity) (Inr v)))))
     | _ \<Rightarrow> Inl (ProtocolIdentityError, Bad_text))"

section \<open>A declared identity survives its document\<close>

lemma kind_value_inject [simp]: "kind_value a = kind_value b \<longleftrightarrow> a = b"
  by (cases a; cases b) simp_all

lemma find_kind: "find (\<lambda>k. k = kind) protocol_kinds = Some kind"
  by (cases kind) (simp_all add: protocol_kinds_def)

lemma version_from_identity:
  assumes "v \<in> set declared_protocol_versions"
    and "json_get ''kind'' document = Some (JStr (kind_value (fst v)))"
    and "json_get ''apiVersion'' document = Some (JStr (api_version v))"
  shows "version_from_document document = Inr v"
proof -
  have ten: "n < 10" if "(k, n) \<in> set declared_protocol_versions" for k n
    using that by (auto simp: declared_protocol_versions_def)
  obtain k n where v: "v = (k, n)" by (cases v)
  with ten assms(1) have n: "n < 10" by blast
  have ord: "ord (char_of (48 + n) :: char) = 48 + n" using n by simp
  have api: "api_version v = api_group @ ''/v'' @ [char_of (48 + n)]"
    using n by (simp add: v api_version_def digits.simps[of n])
  have digit: "is_digit (char_of (48 + n))" and val: "digits_value [char_of (48 + n)] = int n"
    using n ord by (simp_all add: is_digit_def digits_value_def)
  have "[char_of (48 + n)] = ''0'' \<or> char_of (48 + n) \<noteq> CHR ''0''" by auto
  then have "match_major (api_version v) = Some [char_of (48 + n)]"
    using digit by (simp add: match_major_def api Let_def)
  moreover have "kind_value k \<noteq> []" "api_version (k, n) \<noteq> []"
    by (cases k) (simp_all add: api_version_def)
  ultimately show ?thesis
    using assms v val by (simp add: version_from_document_def find_kind Let_def)
qed

end
