(* ===== verification/Yield_Protocol.thy ===== *)
theory Yield_Protocol
  imports Lifecycle_V5 Protocols Example_V5
begin

text \<open>
  The CooperativeYield/v1 documents of \<open>cooperative_yield.py\<close>: progress, checkpoint artifacts, the opaque
  resume context, the continuation identity, requests and receipts, with their constructors' checks, the
  documents they write and the strict readers of those documents, and the validation of a receipt against
  its request, the admitted execution and the file system.

  A Python object exists only when its \<open>__post_init__\<close> accepted it: the predicates \<open>..._ok\<close>. Bytes are
  text with code points below 256. \<open>sha\<close> is \<open>hashlib.sha256(...).hexdigest()\<close>; \<open>files\<close> stands for what
  \<open>Path.resolve\<close>, \<open>stat\<close> and \<open>_hash_regular_file\<close> observe on the host. A document is a JSON object with
  distinct keys, as every decoder of this package enforces. Text has code points below 256, so a
  surrogate or a line separator does not arise.
\<close>

abbreviation doc_error :: "reason \<Rightarrow> error" where
  "doc_error r \<equiv> (YieldDocumentError, r)"

abbreviation integrity_error :: "reason \<Rightarrow> error" where
  "integrity_error r \<equiv> (YieldIntegrityError, r)"

section \<open>Field rules\<close>

definition ascii_letter :: "char \<Rightarrow> bool" where
  "ascii_letter c = (65 \<le> ord c \<and> ord c \<le> 90 \<or> 97 \<le> ord c \<and> ord c \<le> 122)"

definition ascii_alnum :: "char \<Rightarrow> bool" where
  "ascii_alnum c = (ascii_letter c \<or> is_digit c)"

definition token_ok :: "string \<Rightarrow> bool" where
  "token_ok s = (s \<noteq> [] \<and> length s \<le> 64 \<and> ascii_letter (hd s)
     \<and> list_all (\<lambda>c. ascii_alnum c \<or> c \<in> set ''._-'') (tl s))"

definition identifier_ok :: "string \<Rightarrow> bool" where
  "identifier_ok s = (s \<noteq> [] \<and> length s \<le> 256 \<and> ascii_alnum (hd s)
     \<and> list_all (\<lambda>c. ascii_alnum c \<or> c \<in> set ''._:/+@-'') (tl s))"

definition media_char :: "char \<Rightarrow> bool" where
  "media_char c = (ascii_alnum c \<or> c \<in> set ''!#$&^_.+-'')"

definition media_type_ok :: "string \<Rightarrow> bool" where
  "media_type_ok s = (let a = takeWhile media_char s; b = drop (length a + 1) s in
     a \<noteq> [] \<and> length a < length s \<and> s ! length a = CHR ''/'' \<and> b \<noteq> [] \<and> list_all media_char b)"

definition log_safe_path :: "string \<Rightarrow> bool" where
  "log_safe_path s = (\<not> list_ex (\<lambda>c. ord c < 32 \<or> 127 \<le> ord c \<and> ord c \<le> 159) s)"

definition wire_text :: "nat \<Rightarrow> (string \<Rightarrow> bool) \<Rightarrow> string \<Rightarrow> bool" where
  "wire_text maximum pattern s = (text_ok maximum s \<and> pattern s)"

definition wire_integer :: "int \<Rightarrow> int \<Rightarrow> bool" where
  "wire_integer minimum n = (minimum \<le> n \<and> n \<le> 9007199254740991)"

definition wire_timestamp_ok :: "string \<Rightarrow> bool" where
  "wire_timestamp_ok s = (text_ok 64 s \<and> rfc3339_shape s \<and> clock_fields_ok s \<and> aware_timestamp s)"

abbreviation any_text :: "string \<Rightarrow> bool" where
  "any_text \<equiv> \<lambda>s. True"

text \<open>The same rules on a value read from a document.\<close>

definition doc_text :: "nat \<Rightarrow> (string \<Rightarrow> bool) \<Rightarrow> json \<Rightarrow> string result" where
  "doc_text maximum pattern j = (case j of
      JStr s \<Rightarrow> require (wire_text maximum pattern s) (doc_error Bad_text) (Inr s)
    | _ \<Rightarrow> Inl (doc_error Bad_text))"

definition doc_integer :: "int \<Rightarrow> json \<Rightarrow> int result" where
  "doc_integer minimum j = (case j of
      JInt n \<Rightarrow> require (wire_integer minimum n) (doc_error Bad_integer) (Inr n)
    | _ \<Rightarrow> Inl (doc_error Bad_integer))"

definition doc_sha256 :: "json \<Rightarrow> string result" where
  "doc_sha256 j = (case j of
      JStr s \<Rightarrow> require (sha256_text s) (doc_error Bad_text) (Inr s)
    | _ \<Rightarrow> Inl (doc_error Bad_text))"

definition doc_commit :: "json \<Rightarrow> string result" where
  "doc_commit j = (case j of
      JStr s \<Rightarrow> require (commit_text s) (doc_error Bad_text) (Inr s)
    | _ \<Rightarrow> Inl (doc_error Bad_text))"

definition doc_timestamp :: "json \<Rightarrow> string result" where
  "doc_timestamp j = (case j of
      JStr s \<Rightarrow> require (wire_timestamp_ok s) (doc_error Bad_timestamp) (Inr s)
    | _ \<Rightarrow> Inl (doc_error Bad_timestamp))"

definition json_keys :: "json \<Rightarrow> string list" where
  "json_keys j = (case j of JObj kvs \<Rightarrow> map fst kvs | _ \<Rightarrow> [])"

definition require_exact_fields :: "json \<Rightarrow> string list \<Rightarrow> 'a result \<Rightarrow> 'a result" where
  "require_exact_fields j expected k =
    (case j of
       JObj kvs \<Rightarrow> require (set (json_keys j) = set expected) (doc_error Bad_payload) k
     | _ \<Rightarrow> Inl (doc_error Bad_payload))"

definition require_protocol_identity :: "json \<Rightarrow> protocol_version \<Rightarrow> 'a result \<Rightarrow> 'a result" where
  "require_protocol_identity j expected k =
    (case j of
       JObj kvs \<Rightarrow> (case version_from_document j of
           Inl (_, r) \<Rightarrow> Inl (doc_error r)
         | Inr actual \<Rightarrow> require (actual = expected) (doc_error Wrong_identity) k)
     | _ \<Rightarrow> Inl (doc_error Bad_payload))"

text \<open>\<open>document[name]\<close>.\<close>

definition doc_field :: "string \<Rightarrow> json \<Rightarrow> (json \<Rightarrow> 'a result) \<Rightarrow> 'a result" where
  "doc_field name j f = fetch (json_get name j) (KeyError, Row_missing) f"

declare require_exact_fields_def [code_unfold] require_protocol_identity_def [code_unfold]
  doc_field_def [code_unfold]

section \<open>Progress\<close>

record yield_progress =
  yp_unit :: string
  yp_completed :: int
  yp_total :: "int option"

definition progress_ok :: "yield_progress \<Rightarrow> bool" where
  "progress_ok p = (wire_text 64 token_ok (yp_unit p) \<and> wire_integer 0 (yp_completed p)
     \<and> null_or (\<lambda>t. wire_integer 0 t \<and> yp_completed p \<le> t) (yp_total p))"

definition progress_to_document :: "yield_progress \<Rightarrow> json" where
  "progress_to_document p = JObj ([(''unit'', JStr (yp_unit p)), (''completed'', JInt (yp_completed p))]
     @ (case yp_total p of None \<Rightarrow> [] | Some t \<Rightarrow> [(''total'', JInt t)]))"

definition doc_total :: "int \<Rightarrow> json option \<Rightarrow> int option result" where
  "doc_total completed v = (case v of
      None \<Rightarrow> Inr None
    | Some t \<Rightarrow> if t = JNull then Inr None
        else and_then (doc_integer 0 t) (\<lambda>n.
          require (completed \<le> n) (doc_error Bad_integer) (Inr (Some n))))"

definition progress_from_document :: "json \<Rightarrow> yield_progress result" where
  "progress_from_document j =
    require_exact_fields j
      ([''unit'', ''completed''] @ (if ''total'' \<in> set (json_keys j) then [''total''] else []))
    (doc_field ''unit'' j (\<lambda>unit_value. doc_field ''completed'' j (\<lambda>completed_value.
     and_then (doc_text 64 token_ok unit_value) (\<lambda>unit.
     and_then (doc_integer 0 completed_value) (\<lambda>completed.
     and_then (doc_total completed (json_get ''total'' j)) (\<lambda>bound.
     Inr \<lparr>yp_unit = unit, yp_completed = completed, yp_total = bound\<rparr>))))))"

definition assert_not_regressed_from :: "yield_progress \<Rightarrow> yield_progress \<Rightarrow> unit result" where
  "assert_not_regressed_from p previous =
    require (yp_unit p = yp_unit previous) (integrity_error Conflicting_evidence)
    (require (yp_completed previous \<le> yp_completed p) (integrity_error Stale_evidence)
    (require (yp_total previous = None \<or> yp_total p = yp_total previous)
      (integrity_error Conflicting_evidence)
    (Inr ())))"

section \<open>Checkpoint artifacts\<close>

record checkpoint_artifact =
  ca_name :: string
  ca_path :: string
  ca_bytes :: int
  ca_sha256 :: string
  ca_media_type :: string

definition absolute_path_ok :: "string \<Rightarrow> bool" where
  "absolute_path_ok s = (s \<noteq> [] \<and> hd s = CHR ''/'' \<and> log_safe_path s)"

definition artifact_ok :: "checkpoint_artifact \<Rightarrow> bool" where
  "artifact_ok a = (wire_text 64 token_ok (ca_name a) \<and> absolute_path_ok (ca_path a)
     \<and> wire_integer 0 (ca_bytes a) \<and> sha256_text (ca_sha256 a)
     \<and> wire_text 127 media_type_ok (ca_media_type a))"

definition artifact_to_document :: "checkpoint_artifact \<Rightarrow> json" where
  "artifact_to_document a = JObj [(''name'', JStr (ca_name a)), (''path'', JStr (ca_path a)),
     (''bytes'', JInt (ca_bytes a)), (''sha256'', JStr (ca_sha256 a)),
     (''media_type'', JStr (ca_media_type a))]"

definition doc_path :: "json \<Rightarrow> string result" where
  "doc_path j = (case j of
      JStr s \<Rightarrow> require (absolute_path_ok s) (doc_error Bad_text) (Inr s)
    | _ \<Rightarrow> Inl (doc_error Bad_text))"

definition artifact_from_document :: "json \<Rightarrow> checkpoint_artifact result" where
  "artifact_from_document j =
    require_exact_fields j [''name'', ''path'', ''bytes'', ''sha256'', ''media_type'']
    (doc_field ''name'' j (\<lambda>v1. doc_field ''path'' j (\<lambda>v2. doc_field ''bytes'' j (\<lambda>v3.
     doc_field ''sha256'' j (\<lambda>v4. doc_field ''media_type'' j (\<lambda>v5.
     and_then (doc_text 64 token_ok v1) (\<lambda>name. and_then (doc_path v2) (\<lambda>path.
     and_then (doc_integer 0 v3) (\<lambda>bytes. and_then (doc_sha256 v4) (\<lambda>digest.
     and_then (doc_text 127 media_type_ok v5) (\<lambda>media_type.
     Inr \<lparr>ca_name = name, ca_path = path, ca_bytes = bytes, ca_sha256 = digest,
       ca_media_type = media_type\<rparr>)))))))))))"

fun artifacts_from_documents :: "json list \<Rightarrow> checkpoint_artifact list result" where
  "artifacts_from_documents [] = Inr []"
| "artifacts_from_documents (j # js) = and_then (artifact_from_document j) (\<lambda>a.
     and_then (artifacts_from_documents js) (\<lambda>rest. Inr (a # rest)))"

section \<open>The opaque resume context\<close>

text \<open>\<open>base64.b64encode\<close>, and decoding of exactly its image.\<close>

definition b64_char :: "nat \<Rightarrow> char" where
  "b64_char n = (if n < 26 then char_of (65 + n) else if n < 52 then char_of (71 + n)
     else if n < 62 then char_of (n - 4) else if n = 62 then CHR ''+'' else CHR ''/'')"

definition b64_value :: "char \<Rightarrow> nat option" where
  "b64_value c = (let n = ord c in
     if 65 \<le> n \<and> n \<le> 90 then Some (n - 65)
     else if 97 \<le> n \<and> n \<le> 122 then Some (n - 71)
     else if 48 \<le> n \<and> n \<le> 57 then Some (n + 4)
     else if n = 43 then Some 62 else if n = 47 then Some 63 else None)"

fun b64encode :: "string \<Rightarrow> string" where
  "b64encode [] = []"
| "b64encode [a] = [b64_char (ord a div 4), b64_char (ord a mod 4 * 16), CHR ''='', CHR ''='']"
| "b64encode [a, b] = [b64_char (ord a div 4), b64_char (ord a mod 4 * 16 + ord b div 16),
     b64_char (ord b mod 16 * 4), CHR ''='']"
| "b64encode (a # b # c # s) = b64_char (ord a div 4) # b64_char (ord a mod 4 * 16 + ord b div 16)
     # b64_char (ord b mod 16 * 4 + ord c div 64) # b64_char (ord c mod 64) # b64encode s"

definition byte :: "nat \<Rightarrow> char" where
  "byte n = char_of n"

fun b64decode :: "string \<Rightarrow> string option" where
  "b64decode [] = Some []"
| "b64decode (w # x # y # z # s) =
    (case (b64_value w, b64_value x) of
       (Some p, Some q) \<Rightarrow>
         (case b64_value y of
            None \<Rightarrow> if y = CHR ''='' \<and> z = CHR ''='' \<and> s = [] then Some [byte (p * 4 + q div 16)] else None
          | Some r \<Rightarrow>
              (case b64_value z of
                 None \<Rightarrow> if z = CHR ''='' \<and> s = []
                   then Some [byte (p * 4 + q div 16), byte (q mod 16 * 16 + r div 4)] else None
               | Some t \<Rightarrow> map_option (\<lambda>rest. byte (p * 4 + q div 16) # byte (q mod 16 * 16 + r div 4)
                   # byte (r mod 4 * 64 + t) # rest) (b64decode s)))
     | _ \<Rightarrow> None)"
| "b64decode _ = None"

record resume_context =
  rc_payload :: string
  rc_media_type :: string
  rc_sha256 :: string

definition resume_ok :: "(string \<Rightarrow> string) \<Rightarrow> resume_context \<Rightarrow> bool" where
  "resume_ok sha c = (wire_text 127 media_type_ok (rc_media_type c) \<and> sha256_text (rc_sha256 c)
     \<and> sha (rc_payload c) = rc_sha256 c)"

definition resume_from_bytes :: "(string \<Rightarrow> string) \<Rightarrow> string \<Rightarrow> string \<Rightarrow> resume_context" where
  "resume_from_bytes sha payload media_type =
    \<lparr>rc_payload = payload, rc_media_type = media_type, rc_sha256 = sha payload\<rparr>"

definition resume_to_document :: "resume_context \<Rightarrow> json" where
  "resume_to_document c = JObj [(''encoding'', JStr ''base64''), (''media_type'', JStr (rc_media_type c)),
     (''data'', JStr (b64encode (rc_payload c))), (''bytes'', JInt (int (length (rc_payload c)))),
     (''sha256'', JStr (rc_sha256 c))]"

definition resume_from_data :: "(string \<Rightarrow> string) \<Rightarrow> json \<Rightarrow> string \<Rightarrow> resume_context result" where
  "resume_from_data sha j base64_text =
    fetch (b64decode base64_text) (doc_error Bad_payload) (\<lambda>payload.
    require (b64encode payload = base64_text) (doc_error Bad_payload)
    (doc_field ''bytes'' j (\<lambda>size_value.
     and_then (doc_integer 0 size_value) (\<lambda>expected.
     require (int (length payload) = expected) (integrity_error Wrong_identity)
    (doc_field ''media_type'' j (\<lambda>media_value. doc_field ''sha256'' j (\<lambda>digest_value.
     and_then (doc_text 127 media_type_ok media_value) (\<lambda>media_type.
     and_then (doc_sha256 digest_value) (\<lambda>digest.
     require (sha payload = digest) (integrity_error Wrong_identity)
    (Inr \<lparr>rc_payload = payload, rc_media_type = media_type, rc_sha256 = digest\<rparr>))))))))))"

definition resume_from_document :: "(string \<Rightarrow> string) \<Rightarrow> json \<Rightarrow> resume_context result" where
  "resume_from_document sha j =
    require_exact_fields j [''encoding'', ''media_type'', ''data'', ''bytes'', ''sha256'']
    (doc_field ''encoding'' j (\<lambda>encoding.
     require (encoding = JStr ''base64'') (doc_error Bad_argument)
    (doc_field ''data'' j (\<lambda>value. case value of
       JStr base64_text \<Rightarrow> resume_from_data sha j base64_text
     | _ \<Rightarrow> Inl (doc_error Bad_text)))))"

section \<open>The continuation identity\<close>

record continuation_identity =
  ci_resolved_spec_sha256 :: string
  ci_project_revision :: string
  ci_git_commit :: string
  ci_run_id :: string
  ci_prior_receipt_sha256 :: string
  ci_identity_sha256 :: string

definition utf8 :: "string \<Rightarrow> string" where
  "utf8 s = concat (map (\<lambda>c. if ord c < 128 then [c]
     else [byte (192 + ord c div 64), byte (128 + ord c mod 64)]) s)"

text \<open>\<open>n.to_bytes(width, "big")\<close>; a Python string is too short to overflow eight bytes.\<close>

fun big_endian :: "nat \<Rightarrow> nat \<Rightarrow> string" where
  "big_endian 0 n = []"
| "big_endian (Suc w) n = big_endian w (n div 256) @ [byte (n mod 256)]"

definition framed :: "string \<times> string \<Rightarrow> string" where
  "framed field = (case field of (name, value) \<Rightarrow>
     big_endian 4 (length name) @ name @ big_endian 8 (length (utf8 value)) @ utf8 value)"

definition transcript :: "(string \<times> string) list \<Rightarrow> string" where
  "transcript pairs = ''experiment-queue/ContinuationIdentity/v1'' @ [byte 0] @ concat (map framed pairs)"

definition evidence_fields :: "continuation_identity \<Rightarrow> (string \<times> string) list" where
  "evidence_fields c =
    [(''resolved_spec_sha256'', ci_resolved_spec_sha256 c), (''project_revision'', ci_project_revision c),
     (''git_commit'', ci_git_commit c), (''run_id'', ci_run_id c),
     (''prior_receipt_sha256'', ci_prior_receipt_sha256 c)]"

definition computed_digest :: "(string \<Rightarrow> string) \<Rightarrow> continuation_identity \<Rightarrow> string" where
  "computed_digest sha c = sha (transcript (evidence_fields c))"

definition continuation_ok :: "(string \<Rightarrow> string) \<Rightarrow> continuation_identity \<Rightarrow> bool" where
  "continuation_ok sha c = (sha256_text (ci_resolved_spec_sha256 c)
     \<and> wire_text 256 identifier_ok (ci_project_revision c) \<and> commit_text (ci_git_commit c)
     \<and> wire_text 256 identifier_ok (ci_run_id c) \<and> sha256_text (ci_prior_receipt_sha256 c)
     \<and> sha256_text (ci_identity_sha256 c) \<and> ci_identity_sha256 c = computed_digest sha c)"

definition create_continuation ::
  "(string \<Rightarrow> string) \<Rightarrow> string \<Rightarrow> string \<Rightarrow> string \<Rightarrow> string \<Rightarrow> string \<Rightarrow> continuation_identity result" where
  "create_continuation sha spec revision commit run prior =
    (let c = \<lparr>ci_resolved_spec_sha256 = spec, ci_project_revision = revision, ci_git_commit = commit,
        ci_run_id = run, ci_prior_receipt_sha256 = prior, ci_identity_sha256 = []\<rparr>;
         e = c\<lparr>ci_identity_sha256 := computed_digest sha c\<rparr> in
     require (continuation_ok sha e) (doc_error Bad_text) (Inr e))"

definition continuation_to_document :: "continuation_identity \<Rightarrow> json" where
  "continuation_to_document c = JObj (map (\<lambda>(name, value). (name, JStr value)) (evidence_fields c)
     @ [(''identity_sha256'', JStr (ci_identity_sha256 c))])"

definition continuation_from_document ::
  "(string \<Rightarrow> string) \<Rightarrow> json \<Rightarrow> continuation_identity result" where
  "continuation_from_document sha j =
    require_exact_fields j [''resolved_spec_sha256'', ''project_revision'', ''git_commit'', ''run_id'',
      ''prior_receipt_sha256'', ''identity_sha256'']
    (doc_field ''resolved_spec_sha256'' j (\<lambda>v1. doc_field ''project_revision'' j (\<lambda>v2.
     doc_field ''git_commit'' j (\<lambda>v3. doc_field ''run_id'' j (\<lambda>v4.
     doc_field ''prior_receipt_sha256'' j (\<lambda>v5. doc_field ''identity_sha256'' j (\<lambda>v6.
     and_then (doc_sha256 v1) (\<lambda>spec. and_then (doc_text 256 identifier_ok v2) (\<lambda>revision.
     and_then (doc_commit v3) (\<lambda>commit. and_then (doc_text 256 identifier_ok v4) (\<lambda>run.
     and_then (doc_sha256 v5) (\<lambda>prior. and_then (doc_sha256 v6) (\<lambda>supplied.
     let c = \<lparr>ci_resolved_spec_sha256 = spec, ci_project_revision = revision, ci_git_commit = commit,
        ci_run_id = run, ci_prior_receipt_sha256 = prior, ci_identity_sha256 = supplied\<rparr> in
     require (supplied = computed_digest sha c) (integrity_error Wrong_identity) (Inr c))))))))))))))"

section \<open>Requests\<close>

record yield_request =
  yq_request_id :: string
  yq_item_id :: int
  yq_segment :: int
  yq_kind :: request_kind
  yq_requested_at :: string
  yq_requested_by :: string
  yq_note :: string
  yq_continuation :: continuation_identity

definition request_ok :: "(string \<Rightarrow> string) \<Rightarrow> yield_request \<Rightarrow> bool" where
  "request_ok sha q = (wire_text 256 identifier_ok (yq_request_id q) \<and> wire_integer 1 (yq_item_id q)
     \<and> wire_integer 1 (yq_segment q) \<and> wire_timestamp_ok (yq_requested_at q)
     \<and> wire_text 256 any_text (yq_requested_by q) \<and> wire_text 1000 any_text (yq_note q)
     \<and> continuation_ok sha (yq_continuation q))"

definition request_to_document :: "yield_request \<Rightarrow> json" where
  "request_to_document q = JObj (document_identity (Cooperative_yield_request_kind, 1) @
    [(''request_id'', JStr (yq_request_id q)), (''queue_item_id'', JInt (yq_item_id q)),
     (''segment'', JInt (yq_segment q)), (''request_kind'', JStr (request_kind_name (yq_kind q))),
     (''requested_at'', JStr (yq_requested_at q)), (''requested_by'', JStr (yq_requested_by q)),
     (''note'', JStr (yq_note q)), (''continuation'', continuation_to_document (yq_continuation q))])"

definition doc_request_kind :: "json \<Rightarrow> request_kind result" where
  "doc_request_kind j =
    fetch (find (\<lambda>k. j = JStr (request_kind_name k)) [Manual_preemption, Gpu_reservation])
      (doc_error Bad_argument) Inr"

definition request_from_document :: "(string \<Rightarrow> string) \<Rightarrow> json \<Rightarrow> yield_request result" where
  "request_from_document sha j =
    require_protocol_identity j (Cooperative_yield_request_kind, 1)
    (require_exact_fields j [''apiVersion'', ''kind'', ''request_id'', ''queue_item_id'', ''segment'',
       ''request_kind'', ''requested_at'', ''requested_by'', ''note'', ''continuation'']
    (doc_field ''request_kind'' j (\<lambda>v1. and_then (doc_request_kind v1) (\<lambda>kind.
     doc_field ''request_id'' j (\<lambda>v2. doc_field ''queue_item_id'' j (\<lambda>v3. doc_field ''segment'' j (\<lambda>v4.
     doc_field ''requested_at'' j (\<lambda>v5. doc_field ''requested_by'' j (\<lambda>v6. doc_field ''note'' j (\<lambda>v7.
     doc_field ''continuation'' j (\<lambda>v8. and_then (continuation_from_document sha v8) (\<lambda>continuation.
     and_then (doc_text 256 identifier_ok v2) (\<lambda>request_id. and_then (doc_integer 1 v3) (\<lambda>item.
     and_then (doc_integer 1 v4) (\<lambda>segment. and_then (doc_timestamp v5) (\<lambda>requested_at.
     and_then (doc_text 256 any_text v6) (\<lambda>requested_by.
     and_then (doc_text 1000 any_text v7) (\<lambda>remark.
     Inr \<lparr>yq_request_id = request_id, yq_item_id = item, yq_segment = segment, yq_kind = kind,
       yq_requested_at = requested_at, yq_requested_by = requested_by, yq_note = remark,
       yq_continuation = continuation\<rparr>))))))))))))))))))"

section \<open>Receipts\<close>

record yield_receipt =
  yt_request_id :: string
  yt_item_id :: int
  yt_segment :: int
  yt_status :: receipt_status
  yt_written_at :: string
  yt_progress :: "yield_progress option"
  yt_continuation :: "continuation_identity option"
  yt_artifacts :: "checkpoint_artifact list"
  yt_resume :: "resume_context option"
  yt_error :: "string option"

definition receipt_shape_ok :: "yield_receipt \<Rightarrow> bool" where
  "receipt_shape_ok t = (case yt_status t of
      Ready \<Rightarrow> yt_progress t \<noteq> None \<and> yt_continuation t \<noteq> None \<and> yt_artifacts t \<noteq> []
        \<and> yt_resume t \<noteq> None \<and> yt_error t = None
    | Failed_receipt \<Rightarrow> yt_continuation t = None \<and> yt_artifacts t = [] \<and> yt_resume t = None
        \<and> (case yt_error t of None \<Rightarrow> False | Some e \<Rightarrow> wire_text 4096 any_text e))"

definition receipt_ok :: "(string \<Rightarrow> string) \<Rightarrow> yield_receipt \<Rightarrow> bool" where
  "receipt_ok sha t = (wire_text 256 identifier_ok (yt_request_id t) \<and> wire_integer 1 (yt_item_id t)
     \<and> wire_integer 1 (yt_segment t) \<and> wire_timestamp_ok (yt_written_at t)
     \<and> null_or progress_ok (yt_progress t) \<and> null_or (continuation_ok sha) (yt_continuation t)
     \<and> list_all artifact_ok (yt_artifacts t) \<and> distinct (map ca_name (yt_artifacts t))
     \<and> distinct (map ca_path (yt_artifacts t)) \<and> null_or (resume_ok sha) (yt_resume t)
     \<and> receipt_shape_ok t)"

definition ready_receipt ::
  "yield_request \<Rightarrow> yield_progress \<Rightarrow> checkpoint_artifact list \<Rightarrow> resume_context \<Rightarrow> string \<Rightarrow> yield_receipt"
  where
  "ready_receipt q progress artifacts resume written_at =
    \<lparr>yt_request_id = yq_request_id q, yt_item_id = yq_item_id q, yt_segment = yq_segment q,
     yt_status = Ready, yt_written_at = written_at, yt_progress = Some progress,
     yt_continuation = Some (yq_continuation q), yt_artifacts = artifacts, yt_resume = Some resume,
     yt_error = None\<rparr>"

definition failed_receipt ::
  "yield_request \<Rightarrow> string \<Rightarrow> yield_progress option \<Rightarrow> string \<Rightarrow> yield_receipt" where
  "failed_receipt q problem progress written_at =
    \<lparr>yt_request_id = yq_request_id q, yt_item_id = yq_item_id q, yt_segment = yq_segment q,
     yt_status = Failed_receipt, yt_written_at = written_at, yt_progress = progress,
     yt_continuation = None, yt_artifacts = [], yt_resume = None, yt_error = Some problem\<rparr>"

definition receipt_to_document :: "yield_receipt \<Rightarrow> json" where
  "receipt_to_document t = JObj (document_identity (Cooperative_yield_receipt_kind, 1) @
    [(''request_id'', JStr (yt_request_id t)), (''queue_item_id'', JInt (yt_item_id t)),
     (''segment'', JInt (yt_segment t)), (''status'', JStr (receipt_status_name (yt_status t))),
     (''written_at'', JStr (yt_written_at t))]
    @ (case yt_progress t of None \<Rightarrow> [] | Some p \<Rightarrow> [(''progress'', progress_to_document p)])
    @ (case (yt_status t, yt_continuation t, yt_resume t) of
         (Ready, Some c, Some r) \<Rightarrow> [(''continuation'', continuation_to_document c),
           (''checkpoint_artifacts'', JList (map artifact_to_document (yt_artifacts t))),
           (''resume_context'', resume_to_document r)]
       | _ \<Rightarrow> [(''error'', json_opt JStr (yt_error t))]))"

definition doc_status :: "json option \<Rightarrow> receipt_status result" where
  "doc_status v =
    fetch (find (\<lambda>s. v = Some (JStr (receipt_status_name s))) [Ready, Failed_receipt])
      (doc_error Bad_argument) Inr"

definition common_fields :: "string list" where
  "common_fields = [''apiVersion'', ''kind'', ''request_id'', ''queue_item_id'', ''segment'', ''status'',
     ''written_at'']"

definition expected_fields :: "receipt_status \<Rightarrow> json \<Rightarrow> string list" where
  "expected_fields status j = common_fields @ (case status of
      Ready \<Rightarrow> [''progress'', ''continuation'', ''checkpoint_artifacts'', ''resume_context'']
    | Failed_receipt \<Rightarrow> ''error'' # (if ''progress'' \<in> set (json_keys j) then [''progress''] else []))"

text \<open>The constructor's checks on values read from a document, after its typed parts.\<close>

definition receipt_from_parts ::
  "json \<Rightarrow> receipt_status \<Rightarrow> yield_progress option \<Rightarrow> continuation_identity option
    \<Rightarrow> checkpoint_artifact list \<Rightarrow> resume_context option \<Rightarrow> yield_receipt result" where
  "receipt_from_parts j status progress continuation artifacts resume =
    doc_field ''request_id'' j (\<lambda>v1. doc_field ''queue_item_id'' j (\<lambda>v2. doc_field ''segment'' j (\<lambda>v3.
    doc_field ''written_at'' j (\<lambda>v4.
    and_then (doc_text 256 identifier_ok v1) (\<lambda>request_id. and_then (doc_integer 1 v2) (\<lambda>item.
    and_then (doc_integer 1 v3) (\<lambda>segment. and_then (doc_timestamp v4) (\<lambda>written_at.
    require (distinct (map ca_name artifacts)) (doc_error Conflicting_evidence)
    (require (distinct (map ca_path artifacts)) (doc_error Conflicting_evidence)
    (and_then (case status of
        Ready \<Rightarrow> require (artifacts \<noteq> []) (doc_error Bad_argument) (Inr None)
      | Failed_receipt \<Rightarrow> doc_field ''error'' j (\<lambda>v5.
          and_then (doc_text 4096 any_text v5) (\<lambda>e. Inr (Some e)))) (\<lambda>problem.
     Inr \<lparr>yt_request_id = request_id, yt_item_id = item, yt_segment = segment, yt_status = status,
       yt_written_at = written_at, yt_progress = progress, yt_continuation = continuation,
       yt_artifacts = artifacts, yt_resume = resume, yt_error = problem\<rparr>)))))))))))"

definition doc_artifacts :: "json \<Rightarrow> checkpoint_artifact list result" where
  "doc_artifacts j = (case j of JList js \<Rightarrow> artifacts_from_documents js | _ \<Rightarrow> Inl (doc_error Bad_payload))"

definition doc_progress :: "json option \<Rightarrow> yield_progress option result" where
  "doc_progress v = (case v of None \<Rightarrow> Inr None
    | Some w \<Rightarrow> and_then (progress_from_document w) (\<lambda>p. Inr (Some p)))"

definition ready_from_document ::
  "(string \<Rightarrow> string) \<Rightarrow> json \<Rightarrow> yield_progress option \<Rightarrow> yield_receipt result" where
  "ready_from_document sha j progress =
    doc_field ''checkpoint_artifacts'' j (\<lambda>v1.
    require (case v1 of JList js \<Rightarrow> True | _ \<Rightarrow> False) (doc_error Bad_payload)
    (doc_field ''continuation'' j (\<lambda>v2. and_then (continuation_from_document sha v2) (\<lambda>c.
     and_then (doc_artifacts v1) (\<lambda>artifacts.
     doc_field ''resume_context'' j (\<lambda>v3. and_then (resume_from_document sha v3) (\<lambda>r.
     receipt_from_parts j Ready progress (Some c) artifacts (Some r))))))))"

definition receipt_from_document :: "(string \<Rightarrow> string) \<Rightarrow> json \<Rightarrow> yield_receipt result" where
  "receipt_from_document sha j =
    require_protocol_identity j (Cooperative_yield_receipt_kind, 1)
    (and_then (doc_status (json_get ''status'' j)) (\<lambda>status.
     require_exact_fields j (expected_fields status j)
    (and_then (doc_progress (json_get ''progress'' j)) (\<lambda>progress.
     case status of
       Ready \<Rightarrow> ready_from_document sha j progress
     | Failed_receipt \<Rightarrow> receipt_from_parts j Failed_receipt progress None [] None))))"

section \<open>Validation\<close>

definition validate_receipt_for_request ::
  "yield_receipt \<Rightarrow> yield_request \<Rightarrow> yield_progress option \<Rightarrow> unit result" where
  "validate_receipt_for_request t q previous =
    require (yt_request_id t = yq_request_id q) (integrity_error Wrong_identity)
    (require (yt_item_id t = yq_item_id q) (integrity_error Wrong_identity)
    (require (yt_segment t = yq_segment q) (integrity_error Wrong_identity)
    (require (yt_status t = Ready \<longrightarrow> yt_continuation t = Some (yq_continuation q))
      (integrity_error Wrong_identity)
    (case previous of
       None \<Rightarrow> Inr ()
     | Some before \<Rightarrow> fetch (yt_progress t) (integrity_error Row_missing) (\<lambda>p.
         assert_not_regressed_from p before)))))"

definition validate_continuation_identity ::
  "(string \<Rightarrow> string) \<Rightarrow> continuation_identity \<Rightarrow> string \<Rightarrow> string \<Rightarrow> string \<Rightarrow> string \<Rightarrow> string
    \<Rightarrow> unit result" where
  "validate_continuation_identity sha c spec revision commit run prior =
    and_then (create_continuation sha spec revision commit run prior) (\<lambda>expected.
    require (evidence_fields c = evidence_fields expected) (integrity_error Wrong_identity)
    (require (ci_identity_sha256 c = ci_identity_sha256 expected) (integrity_error Wrong_identity)
    (Inr ())))"

text \<open>What the host observes: \<open>Path.resolve(strict=True)\<close>, directories, and stable hashed files.\<close>

record host_files =
  hf_resolve :: "string \<Rightarrow> string option"
  hf_directory :: "string \<Rightarrow> bool"
  hf_hash :: "string \<Rightarrow> (string \<times> int \<times> string) option"

definition path_is_within :: "string \<Rightarrow> string list \<Rightarrow> bool" where
  "path_is_within path roots = list_ex (\<lambda>r. prefix (path_parts r) (path_parts path)) roots"

definition is_absolute :: "string \<Rightarrow> bool" where
  "is_absolute s = (s \<noteq> [] \<and> hd s = CHR ''/'')"

fun resolve_roots :: "host_files \<Rightarrow> string list \<Rightarrow> string list result" where
  "resolve_roots files [] = Inr []"
| "resolve_roots files (r # rs) =
    require (is_absolute r) (integrity_error Bad_argument)
    (fetch (hf_resolve files r) (integrity_error Row_missing) (\<lambda>resolved.
     require (hf_directory files resolved) (integrity_error Bad_argument)
    (and_then (resolve_roots files rs) (\<lambda>rest. Inr (resolved # rest)))))"

definition resolve_allowed_artifact_roots :: "host_files \<Rightarrow> string list \<Rightarrow> string list result" where
  "resolve_allowed_artifact_roots files allowed =
    and_then (resolve_roots files allowed) (\<lambda>roots.
    require (roots \<noteq> []) (integrity_error Bad_argument) (Inr roots))"

definition verify_artifact :: "host_files \<Rightarrow> string list \<Rightarrow> checkpoint_artifact \<Rightarrow> unit result" where
  "verify_artifact files roots a =
    require (is_absolute (ca_path a)) (integrity_error Bad_argument)
    (fetch (hf_resolve files (ca_path a)) (integrity_error Row_missing) (\<lambda>resolved.
     require (path_is_within resolved roots) (integrity_error Not_allowed)
    (fetch (hf_hash files (ca_path a)) (integrity_error Row_missing) (\<lambda>(path, size, digest).
     require (path_parts path = path_parts resolved) (integrity_error Stale_evidence)
    (require (size = ca_bytes a) (integrity_error Wrong_identity)
    (require (digest = ca_sha256 a) (integrity_error Wrong_identity) (Inr ())))))))"

fun verify_artifacts :: "host_files \<Rightarrow> string list \<Rightarrow> checkpoint_artifact list \<Rightarrow> unit result" where
  "verify_artifacts files roots [] = Inr ()"
| "verify_artifacts files roots (a # rest) =
    and_then (verify_artifact files roots a) (\<lambda>_. verify_artifacts files roots rest)"

definition verify_checkpoint_artifacts ::
  "host_files \<Rightarrow> checkpoint_artifact list \<Rightarrow> string list \<Rightarrow> unit result" where
  "verify_checkpoint_artifacts files artifacts allowed =
    require (artifacts \<noteq> []) (integrity_error Row_missing)
    (and_then (resolve_allowed_artifact_roots files allowed) (\<lambda>roots.
     verify_artifacts files roots artifacts))"

definition validate_ready_continuation ::
  "(string \<Rightarrow> string) \<Rightarrow> host_files \<Rightarrow> yield_receipt \<Rightarrow> yield_request \<Rightarrow> string \<Rightarrow> string \<Rightarrow> string
    \<Rightarrow> string \<Rightarrow> string \<Rightarrow> string list \<Rightarrow> string list \<Rightarrow> yield_progress option \<Rightarrow> unit result" where
  "validate_ready_continuation sha files t q spec revision commit run prior allowed expected_names previous =
    and_then (validate_receipt_for_request t q previous) (\<lambda>_.
    require (yt_status t = Ready) (integrity_error Wrong_state)
    (require (expected_names \<noteq> []) (integrity_error Bad_argument)
    (require (list_all token_ok expected_names) (integrity_error Bad_text)
    (require (distinct expected_names) (integrity_error Bad_argument)
    (require (set (map ca_name (yt_artifacts t)) = set expected_names) (integrity_error Conflicting_evidence)
    (fetch (yt_continuation t) (integrity_error Row_missing) (\<lambda>c.
     and_then (validate_continuation_identity sha c spec revision commit run prior) (\<lambda>_.
     verify_checkpoint_artifacts files (yt_artifacts t) allowed))))))))"

section \<open>What a reader accepted\<close>

lemma doc_text_eq_Inr [simp]: "doc_text m P j = Inr s \<longleftrightarrow> j = JStr s \<and> wire_text m P s"
  by (cases j) (auto simp: doc_text_def)

lemma doc_integer_eq_Inr [simp]: "doc_integer m j = Inr n \<longleftrightarrow> j = JInt n \<and> wire_integer m n"
  by (cases j) (auto simp: doc_integer_def)

lemma doc_sha256_eq_Inr [simp]: "doc_sha256 j = Inr s \<longleftrightarrow> j = JStr s \<and> sha256_text s"
  by (cases j) (auto simp: doc_sha256_def)

lemma doc_commit_eq_Inr [simp]: "doc_commit j = Inr s \<longleftrightarrow> j = JStr s \<and> commit_text s"
  by (cases j) (auto simp: doc_commit_def)

lemma doc_timestamp_eq_Inr [simp]: "doc_timestamp j = Inr s \<longleftrightarrow> j = JStr s \<and> wire_timestamp_ok s"
  by (cases j) (auto simp: doc_timestamp_def)

lemma doc_path_eq_Inr [simp]: "doc_path j = Inr s \<longleftrightarrow> j = JStr s \<and> absolute_path_ok s"
  by (cases j) (auto simp: doc_path_def)

lemma doc_request_kind_eq_Inr [simp]: "doc_request_kind j = Inr k \<longleftrightarrow> j = JStr (request_kind_name k)"
  by (cases k) (auto simp: doc_request_kind_def)

lemma doc_status_eq_Inr [simp]: "doc_status v = Inr s \<longleftrightarrow> v = Some (JStr (receipt_status_name s))"
  by (cases s) (auto simp: doc_status_def)

lemma require_exact_fieldsD: "require_exact_fields j expected k = Inr v \<Longrightarrow> k = Inr v"
  by (cases j) (auto simp: require_exact_fields_def)

lemma require_exact_fields_eq_Inr:
  "require_exact_fields j expected k = Inr v \<longleftrightarrow>
     (\<exists>kvs. j = JObj kvs) \<and> set (json_keys j) = set expected \<and> k = Inr v"
  by (cases j) (auto simp: require_exact_fields_def)

lemma require_protocol_identity_eq_Inr [simp]:
  "require_protocol_identity j expected k = Inr v \<longleftrightarrow>
     (\<exists>kvs. j = JObj kvs) \<and> version_from_document j = Inr expected \<and> k = Inr v"
  by (cases j) (auto simp: require_protocol_identity_def split: sum.splits)

lemma doc_field_eq_Inr [simp]:
  "doc_field name j f = Inr y \<longleftrightarrow> (\<exists>v. json_get name j = Some v \<and> f v = Inr y)"
  by (auto simp: doc_field_def)

lemma json_string_case [simp]:
  "(case v of JStr s \<Rightarrow> f s | _ \<Rightarrow> Inl e) = Inr y \<longleftrightarrow> (\<exists>s. v = JStr s \<and> f s = Inr y)"
  by (cases v) auto

lemma json_get_Obj [simp]: "json_get k (JObj kvs) = map_of kvs k"
  by (simp add: json_get_def)

lemma json_keys_Obj [simp]: "json_keys (JObj kvs) = map fst kvs"
  by (simp add: json_keys_def)

lemma json_get_key: "k \<in> set (json_keys (JObj kvs)) \<Longrightarrow> json_get k (JObj kvs) \<noteq> None"
  by (simp add: map_of_eq_None_iff del: not_None_eq)

section \<open>Every accepted document is a well-formed value\<close>

lemma doc_total_ok:
  "doc_total completed v = Inr b \<Longrightarrow> null_or (\<lambda>t. wire_integer 0 t \<and> completed \<le> t) b"
  by (auto simp: doc_total_def null_or_def split: option.splits if_splits)

lemma progress_from_document_ok: "progress_from_document j = Inr p \<Longrightarrow> progress_ok p"
  by (auto simp: progress_from_document_def progress_ok_def dest!: require_exact_fieldsD)
    (erule doc_total_ok)

lemma artifact_from_document_ok: "artifact_from_document j = Inr a \<Longrightarrow> artifact_ok a"
  by (auto simp: artifact_from_document_def artifact_ok_def dest!: require_exact_fieldsD)

lemma artifacts_from_documents_ok: "artifacts_from_documents js = Inr as \<Longrightarrow> list_all artifact_ok as"
  by (induction js arbitrary: as) (auto dest: artifact_from_document_ok)

lemma resume_from_document_ok: "resume_from_document sha j = Inr c \<Longrightarrow> resume_ok sha c"
  by (auto simp: resume_from_document_def resume_from_data_def resume_ok_def
      dest!: require_exact_fieldsD)

lemma continuation_from_document_ok: "continuation_from_document sha j = Inr c \<Longrightarrow> continuation_ok sha c"
  by (auto simp: continuation_from_document_def continuation_ok_def Let_def
      dest!: require_exact_fieldsD)

lemma request_from_document_ok: "request_from_document sha j = Inr q \<Longrightarrow> request_ok sha q"
  by (auto simp: request_from_document_def request_ok_def
      dest!: require_exact_fieldsD continuation_from_document_ok)

lemma receipt_from_parts_ok:
  assumes "receipt_from_parts j status progress continuation artifacts resume = Inr t"
  shows "yt_status t = status \<and> yt_progress t = progress \<and> yt_continuation t = continuation
    \<and> yt_artifacts t = artifacts \<and> yt_resume t = resume
    \<and> wire_text 256 identifier_ok (yt_request_id t) \<and> wire_integer 1 (yt_item_id t)
    \<and> wire_integer 1 (yt_segment t) \<and> wire_timestamp_ok (yt_written_at t)
    \<and> distinct (map ca_name artifacts) \<and> distinct (map ca_path artifacts)
    \<and> (case status of Ready \<Rightarrow> artifacts \<noteq> [] \<and> yt_error t = None
       | Failed_receipt \<Rightarrow> (\<exists>e. yt_error t = Some e \<and> wire_text 4096 any_text e))"
  using assms by (cases status) (auto simp: receipt_from_parts_def)

lemma doc_artifacts_ok: "doc_artifacts j = Inr as \<Longrightarrow> list_all artifact_ok as"
  by (auto simp: doc_artifacts_def dest: artifacts_from_documents_ok split: json.splits)

lemma doc_progress_ok:
  "doc_progress v = Inr p \<Longrightarrow> null_or progress_ok p \<and> (v \<noteq> None \<longrightarrow> p \<noteq> None)"
  by (auto simp: doc_progress_def null_or_def dest: progress_from_document_ok split: option.splits)

lemma ready_from_document_ok:
  assumes "ready_from_document sha j progress = Inr t" and "null_or progress_ok progress" and "progress \<noteq> None"
  shows "receipt_ok sha t"
proof -
  obtain c artifacts r where "continuation_ok sha c" "list_all artifact_ok artifacts" "resume_ok sha r"
    and t: "receipt_from_parts j Ready progress (Some c) artifacts (Some r) = Inr t"
    using assms(1) by (auto simp: ready_from_document_def
        dest: continuation_from_document_ok doc_artifacts_ok resume_from_document_ok)
  with receipt_from_parts_ok[OF t] assms(2,3) show ?thesis
    by (auto simp: receipt_ok_def receipt_shape_ok_def null_or_def)
qed

lemma receipt_from_document_ok:
  assumes "receipt_from_document sha j = Inr t"
  shows "receipt_ok sha t"
proof -
  obtain status progress where
    keys: "set (json_keys j) = set (expected_fields status j)" and obj: "\<exists>kvs. j = JObj kvs"
    and progress: "doc_progress (json_get ''progress'' j) = Inr progress"
    and rest: "(case status of Ready \<Rightarrow> ready_from_document sha j progress
      | Failed_receipt \<Rightarrow> receipt_from_parts j Failed_receipt progress None [] None) = Inr t"
    using assms unfolding receipt_from_document_def
    by (simp add: require_exact_fields_eq_Inr) blast
  note read = doc_progress_ok[OF progress]
  show ?thesis
  proof (cases status)
    case Ready
    have "''progress'' \<in> set (json_keys j)"
      unfolding keys by (simp add: expected_fields_def Ready)
    then have "json_get ''progress'' j \<noteq> None"
      using obj by (metis json_get_key)
    then show ?thesis using ready_from_document_ok[of sha j progress t] read rest Ready by simp
  next
    case Failed_receipt
    then show ?thesis
      using receipt_from_parts_ok[of j Failed_receipt progress None "[]" None t] rest read
      by (auto simp: receipt_ok_def receipt_shape_ok_def null_or_def)
  qed
qed

section \<open>Documents round-trip\<close>

lemma progress_round_trip: "progress_ok p \<Longrightarrow> progress_from_document (progress_to_document p) = Inr p"
  by (cases "yp_total p") (auto simp: require_exact_fields_eq_Inr progress_from_document_def
      progress_to_document_def progress_ok_def null_or_def doc_total_def)

lemma artifact_round_trip: "artifact_ok a \<Longrightarrow> artifact_from_document (artifact_to_document a) = Inr a"
  by (auto simp: require_exact_fields_eq_Inr artifact_from_document_def artifact_to_document_def artifact_ok_def)

lemma artifacts_round_trip:
  "list_all artifact_ok as \<Longrightarrow> artifacts_from_documents (map artifact_to_document as) = Inr as"
  by (induction as) (auto simp: artifact_round_trip)

lemma ord_char_of: "n < 256 \<Longrightarrow> ord (char_of n :: char) = n"
  by simp

lemma b64_value_char: "n < 64 \<Longrightarrow> b64_value (b64_char n) = Some n"
  by (auto simp: b64_char_def b64_value_def Let_def ord_char_of)

lemma b64_value_pad: "b64_value (CHR ''='') = None"
  by (simp add: b64_value_def)

lemma byte_ord [simp]: "byte (ord c) = c"
  by (simp add: byte_def)

lemma ord_less: "ord (c :: char) < 256"
  by (metis mod_less_divisor zero_less_numeral of_char_mod_256)

lemma byte_parts:
  fixes a b :: nat
  assumes "a < 256" and "b < 256"
  shows "a div 4 < 64" "a mod 4 * 16 < 64" "a mod 4 * 16 + b div 16 < 64" "b mod 16 * 4 < 64"
    "b mod 16 * 4 + a div 64 < 64" "a mod 64 < 64"
  using assms by auto

lemma b64_round_trip: "b64decode (b64encode s) = Some s"
proof (induction s rule: b64encode.induct)
  case (2 a)
  note p = byte_parts[OF ord_less[of a] ord_less[of a]]
  have "ord a div 4 * 4 + ord a mod 4 * 16 div 16 = ord a" by simp
  then show ?case by (simp add: b64_value_char[OF p(1)] b64_value_char[OF p(2)] b64_value_pad)
next
  case (3 a b)
  note p = byte_parts[OF ord_less[of a] ord_less[of b]]
  have "ord b div 16 < 16" using ord_less[of b] by (simp add: less_mult_imp_div_less)
  then have "ord a div 4 * 4 + (ord a mod 4 * 16 + ord b div 16) div 16 = ord a"
    "(ord a mod 4 * 16 + ord b div 16) mod 16 * 16 + ord b mod 16 * 4 div 4 = ord b"
    by simp_all
  then show ?case
    by (simp add: b64_value_char[OF p(1)] b64_value_char[OF p(3)] b64_value_char[OF p(4)] b64_value_pad)
next
  case (4 a b c s)
  note p = byte_parts[OF ord_less[of a] ord_less[of b]] and q = byte_parts[OF ord_less[of c] ord_less[of b]]
  have "ord b div 16 < 16" "ord c div 64 < 4"
    using ord_less[of b] ord_less[of c] by (simp_all add: less_mult_imp_div_less)
  then have "ord a div 4 * 4 + (ord a mod 4 * 16 + ord b div 16) div 16 = ord a"
    "(ord a mod 4 * 16 + ord b div 16) mod 16 * 16 + (ord b mod 16 * 4 + ord c div 64) div 4 = ord b"
    "(ord b mod 16 * 4 + ord c div 64) mod 4 * 64 + ord c mod 64 = ord c"
    by simp_all
  with 4 show ?case
    by (simp add: b64_value_char[OF p(1)] b64_value_char[OF p(3)] b64_value_char[OF q(5)]
        b64_value_char[OF q(6)])
qed simp

lemma resume_round_trip:
  "resume_ok sha c \<Longrightarrow> int (length (rc_payload c)) \<le> 9007199254740991 \<Longrightarrow>
     resume_from_document sha (resume_to_document c) = Inr c"
  by (auto simp: require_exact_fields_eq_Inr resume_from_document_def resume_from_data_def
      resume_to_document_def resume_ok_def b64_round_trip wire_integer_def)

lemma continuation_round_trip:
  "continuation_ok sha c \<Longrightarrow> continuation_from_document sha (continuation_to_document c) = Inr c"
  by (auto simp: require_exact_fields_eq_Inr continuation_from_document_def continuation_to_document_def
      continuation_ok_def evidence_fields_def computed_digest_def Let_def)

lemma request_version:
  "version_from_document (request_to_document q) = Inr (Cooperative_yield_request_kind, 1)"
  by (rule version_from_identity) (simp_all add: request_to_document_def document_identity_def
      declared_protocol_versions_def)

lemma receipt_version:
  "version_from_document (receipt_to_document t) = Inr (Cooperative_yield_receipt_kind, 1)"
  by (rule version_from_identity) (simp_all add: receipt_to_document_def document_identity_def
      declared_protocol_versions_def)

lemma request_kind_name_inject [simp]: "request_kind_name a = request_kind_name b \<longleftrightarrow> a = b"
  by (cases a; cases b) simp_all

lemma receipt_status_name_inject [simp]: "receipt_status_name a = receipt_status_name b \<longleftrightarrow> a = b"
  by (cases a; cases b) simp_all

lemma request_round_trip: "request_ok sha q \<Longrightarrow> request_from_document sha (request_to_document q) = Inr q"
  using request_version[of q]
  by (simp add: require_exact_fields_eq_Inr request_from_document_def request_ok_def
      request_to_document_def document_identity_def continuation_round_trip)

text \<open>The fields of a written receipt, as its reader looks them up.\<close>

lemma receipt_document_fields:
  "json_get ''request_id'' (receipt_to_document t) = Some (JStr (yt_request_id t))"
  "json_get ''queue_item_id'' (receipt_to_document t) = Some (JInt (yt_item_id t))"
  "json_get ''segment'' (receipt_to_document t) = Some (JInt (yt_segment t))"
  "json_get ''status'' (receipt_to_document t) = Some (JStr (receipt_status_name (yt_status t)))"
  "json_get ''written_at'' (receipt_to_document t) = Some (JStr (yt_written_at t))"
  "json_get ''progress'' (receipt_to_document t) = map_option progress_to_document (yt_progress t)"
  by (auto simp: receipt_to_document_def document_identity_def split: option.splits receipt_status.splits)

lemma doc_progress_round_trip:
  "null_or progress_ok p \<Longrightarrow> doc_progress (map_option progress_to_document p) = Inr p"
  by (cases p) (simp_all add: doc_progress_def null_or_def progress_round_trip)

lemma receipt_parts_round_trip:
  assumes "receipt_ok sha t"
    and "yt_status t = Failed_receipt \<Longrightarrow> json_get ''error'' (receipt_to_document t) = map_option JStr (yt_error t)"
  shows "receipt_from_parts (receipt_to_document t) (yt_status t) (yt_progress t) (yt_continuation t)
    (yt_artifacts t) (yt_resume t) = Inr t"
  using assms by (cases "yt_status t")
    (auto simp: receipt_from_parts_def receipt_document_fields receipt_ok_def receipt_shape_ok_def
      split: option.splits)

lemma ready_round_trip:
  assumes ok: "receipt_ok sha t" and ready: "yt_status t = Ready"
    and size: "\<And>r. yt_resume t = Some r \<Longrightarrow> int (length (rc_payload r)) \<le> 9007199254740991"
  shows "ready_from_document sha (receipt_to_document t) (yt_progress t) = Inr t"
proof -
  obtain c r where parts: "yt_continuation t = Some c" "yt_resume t = Some r"
    using ok ready by (auto simp: receipt_ok_def receipt_shape_ok_def)
  have "json_get ''continuation'' (receipt_to_document t) = Some (continuation_to_document c)"
    "json_get ''checkpoint_artifacts'' (receipt_to_document t)
      = Some (JList (map artifact_to_document (yt_artifacts t)))"
    "json_get ''resume_context'' (receipt_to_document t) = Some (resume_to_document r)"
    by (simp_all add: receipt_to_document_def document_identity_def parts ready split: option.splits)
  moreover have "continuation_ok sha c" "resume_ok sha r" "list_all artifact_ok (yt_artifacts t)"
    using ok parts by (simp_all add: receipt_ok_def null_or_def)
  ultimately show ?thesis
    using receipt_parts_round_trip[OF ok] parts ready size
    by (simp add: ready_from_document_def doc_artifacts_def continuation_round_trip artifacts_round_trip
        resume_round_trip)
qed

lemma receipt_document_keys:
  assumes "receipt_shape_ok t"
  shows "set (json_keys (receipt_to_document t)) = set (expected_fields (yt_status t) (receipt_to_document t))"
proof (cases "yt_status t")
  case Ready
  then obtain c r p where "yt_continuation t = Some c" "yt_resume t = Some r" "yt_progress t = Some p"
    using assms by (auto simp: receipt_shape_ok_def)
  with Ready show ?thesis
    by (simp add: receipt_to_document_def expected_fields_def common_fields_def document_identity_def
        insert_commute)
next
  case Failed_receipt
  then show ?thesis
    by (cases "yt_progress t") (simp_all add: receipt_to_document_def expected_fields_def common_fields_def
        document_identity_def insert_commute)
qed

lemma receipt_round_trip:
  assumes ok: "receipt_ok sha t"
    and size: "\<And>r. yt_resume t = Some r \<Longrightarrow> int (length (rc_payload r)) \<le> 9007199254740991"
  shows "receipt_from_document sha (receipt_to_document t) = Inr t"
proof -
  obtain kvs where kvs: "receipt_to_document t = JObj kvs" by (simp add: receipt_to_document_def)
  have shape: "receipt_shape_ok t" using ok by (simp add: receipt_ok_def)
  note keys = receipt_document_keys[OF shape]
  have progress: "doc_progress (json_get ''progress'' (receipt_to_document t)) = Inr (yt_progress t)"
    using ok by (simp add: receipt_document_fields doc_progress_round_trip receipt_ok_def)
  have rest: "(case yt_status t of Ready \<Rightarrow> ready_from_document sha (receipt_to_document t) (yt_progress t)
      | Failed_receipt \<Rightarrow> receipt_from_parts (receipt_to_document t) Failed_receipt (yt_progress t) None [] None)
      = Inr t"
  proof (cases "yt_status t")
    case Failed_receipt
    then have parts: "yt_continuation t = None" "yt_artifacts t = []" "yt_resume t = None" "yt_error t \<noteq> None"
      using ok by (auto simp: receipt_ok_def receipt_shape_ok_def split: option.splits)
    then have "json_get ''error'' (receipt_to_document t) = map_option JStr (yt_error t)"
      by (auto simp: receipt_to_document_def document_identity_def Failed_receipt split: option.splits)
    with receipt_parts_round_trip[OF ok] parts show ?thesis by (simp add: Failed_receipt)
  qed (use ready_round_trip[OF ok _ size] in simp)
  show ?thesis
    using receipt_version[of t] receipt_document_fields(4)[of t] keys progress rest[unfolded kvs]
    by (simp add: receipt_from_document_def require_exact_fields_eq_Inr kvs exI[of _ "yt_status t"])
qed

section \<open>The continuation transcript is unambiguous\<close>

lemma length_big_endian [simp]: "length (big_endian w n) = w"
  by (induction w arbitrary: n) simp_all

lemma byte_inject: "a < 256 \<Longrightarrow> b < 256 \<Longrightarrow> byte a = byte b \<Longrightarrow> a = b"
  unfolding byte_def by (metis ord_char_of)

lemma big_endian_inject:
  "n < 256 ^ w \<Longrightarrow> m < 256 ^ w \<Longrightarrow> big_endian w n = big_endian w m \<Longrightarrow> n = m"
proof (induction w arbitrary: n m)
  case (Suc w)
  have "n div 256 < 256 ^ w" "m div 256 < 256 ^ w"
    using Suc.prems(1,2) by (simp_all add: less_mult_imp_div_less mult.commute)
  with Suc have "n div 256 = m div 256" by simp
  moreover have "n mod 256 = m mod 256"
    using Suc.prems(3) by (auto intro: byte_inject)
  ultimately show ?case by (metis div_mult_mod_eq)
qed simp

lemma utf8_Cons:
  "utf8 (c # s) = (if ord c < 128 then [c]
     else [byte (192 + ord c div 64), byte (128 + ord c mod 64)]) @ utf8 s"
  by (simp add: utf8_def)

lemma utf8_Nil [simp]: "utf8 [] = []"
  by (simp add: utf8_def)

lemma length_utf8: "length (utf8 s) \<le> 2 * length s"
  by (induction s) (auto simp: utf8_Cons)

lemma lead_byte: "ord (byte (192 + ord c div 64)) = 192 + ord c div 64"
proof -
  have "ord c div 64 < 4" using ord_less[of c] by (simp add: less_mult_imp_div_less)
  then show ?thesis unfolding byte_def by (intro ord_char_of) simp
qed

lemma lead_byte_not_ascii: "ord c < 128 \<Longrightarrow> c \<noteq> byte (192 + ord e div 64)"
  using lead_byte[of e] by auto

lemma utf8_two_bytes:
  assumes "byte (192 + ord c div 64) = byte (192 + ord e div 64)" "byte (128 + ord c mod 64) = byte (128 + ord e mod 64)"
  shows "c = e"
proof -
  have "192 + ord c div 64 = 192 + ord e div 64" by (metis assms(1) lead_byte)
  then have "ord c div 64 = ord e div 64" by (simp only: add_left_cancel)
  moreover have "ord c mod 64 = ord e mod 64"
  proof -
    have "ord c mod 64 < 64" "ord e mod 64 < 64" by simp_all
    then have "128 + ord c mod 64 < 256" "128 + ord e mod 64 < 256" by linarith+
    from byte_inject[OF this assms(2)] show ?thesis by simp
  qed
  ultimately have "ord c = ord e" by (metis div_mult_mod_eq)
  then show ?thesis by simp
qed

lemma utf8_inject: "utf8 s = utf8 t \<Longrightarrow> s = t"
proof (induction s arbitrary: t)
  case Nil
  then show ?case by (cases t) (simp_all add: utf8_Cons split: if_splits)
next
  case (Cons c s)
  obtain e u where t: "t = e # u"
    using Cons.prems by (cases t) (simp_all add: utf8_Cons split: if_splits)
  from Cons.prems have "c = e \<and> utf8 s = utf8 u"
    using lead_byte_not_ascii[of c e] lead_byte_not_ascii[of e c] utf8_two_bytes[of c e]
    by (auto simp: t utf8_Cons split: if_splits)
  with Cons.IH t show ?case by simp
qed

definition field_fits :: "string \<times> string \<Rightarrow> bool" where
  "field_fits field = (length (fst field) < 256 ^ 4 \<and> length (utf8 (snd field)) < 256 ^ 8)"

lemma framed_append_inject:
  assumes "field_fits f" and "field_fits g" and "framed f @ s = framed g @ t"
  shows "f = g \<and> s = t"
proof -
  obtain n v m w where f: "f = (n, v)" and g: "g = (m, w)" by (cases f, cases g)
  have fits: "length n < 256 ^ 4" "length m < 256 ^ 4" "length (utf8 v) < 256 ^ 8" "length (utf8 w) < 256 ^ 8"
    using assms(1,2) by (simp_all add: field_fits_def f g)
  from assms(3) have "big_endian 4 (length n) @ (n @ big_endian 8 (length (utf8 v)) @ utf8 v @ s)
      = big_endian 4 (length m) @ (m @ big_endian 8 (length (utf8 w)) @ utf8 w @ t)"
    by (simp add: f g framed_def)
  then have one: "big_endian 4 (length n) = big_endian 4 (length m)"
    and two: "n @ (big_endian 8 (length (utf8 v)) @ utf8 v @ s) = m @ (big_endian 8 (length (utf8 w)) @ utf8 w @ t)"
    by simp_all
  from one fits have "length n = length m" by (intro big_endian_inject)
  with two have nm: "n = m" and three: "big_endian 8 (length (utf8 v)) = big_endian 8 (length (utf8 w))"
    and four: "utf8 v @ s = utf8 w @ t"
    by simp_all
  from three fits have "length (utf8 v) = length (utf8 w)" by (intro big_endian_inject)
  with four have "utf8 v = utf8 w" "s = t" by simp_all
  with nm f g show ?thesis by (auto dest: utf8_inject)
qed

lemma framed_nonempty: "framed f \<noteq> []"
proof
  assume "framed f = []"
  then have "big_endian 4 (length (fst f)) = []" by (simp add: framed_def split: prod.splits)
  then have "length (big_endian 4 (length (fst f))) = 0" by (simp only: list.size)
  then show False by simp
qed

lemma frames_inject:
  "list_all field_fits fs \<Longrightarrow> list_all field_fits gs \<Longrightarrow> concat (map framed fs) = concat (map framed gs) \<Longrightarrow> fs = gs"
proof (induction fs arbitrary: gs)
  case Nil
  then show ?case by (cases gs) (simp_all add: framed_nonempty)
next
  case (Cons f fs)
  then obtain g gs' where gs: "gs = g # gs'" by (cases gs) (simp_all add: framed_nonempty)
  have "f = g \<and> concat (map framed fs) = concat (map framed gs')"
    using Cons.prems by (intro framed_append_inject) (simp_all add: gs)
  with Cons.IH[of gs'] Cons.prems show ?case by (simp add: gs)
qed

lemma transcript_inject:
  "list_all field_fits fs \<Longrightarrow> list_all field_fits gs \<Longrightarrow> transcript fs = transcript gs \<Longrightarrow> fs = gs"
  by (simp add: transcript_def frames_inject)

lemma short_text_fits: "length s \<le> 256 \<Longrightarrow> length (utf8 s) < 256 ^ 8"
  using length_utf8[of s] by simp

lemma identity_fields_fit:
  assumes "continuation_ok sha c"
  shows "list_all field_fits (evidence_fields c)"
proof -
  have "length (ci_resolved_spec_sha256 c) \<le> 256" "length (ci_project_revision c) \<le> 256"
    "length (ci_git_commit c) \<le> 256" "length (ci_run_id c) \<le> 256" "length (ci_prior_receipt_sha256 c) \<le> 256"
    using assms by (auto simp: continuation_ok_def sha256_text_def commit_text_def wire_text_def identifier_ok_def)
  then show ?thesis by (simp add: evidence_fields_def field_fits_def short_text_fits[simplified])
qed

text \<open>
  (C33) A continuation identity binds the admitted execution: every length prefix of its transcript holds the
  length it frames without overflow, and two accepted identities with the same digest have the same
  specification digest, revision, commit, run and prior receipt, unless the two transcripts are an
  explicit collision of the digest function.
\<close>

theorem continuation_digest_binds:
  assumes c: "continuation_ok sha c" and e: "continuation_ok sha e"
    and same: "ci_identity_sha256 c = ci_identity_sha256 e"
  shows "list_all field_fits (evidence_fields c)
    \<and> (c = e \<or> transcript (evidence_fields c) \<noteq> transcript (evidence_fields e)
         \<and> sha (transcript (evidence_fields c)) = sha (transcript (evidence_fields e)))"
proof -
  have "c = e" if "transcript (evidence_fields c) = transcript (evidence_fields e)"
    using transcript_inject[OF identity_fields_fit[OF c] identity_fields_fit[OF e] that] same
    by (simp add: evidence_fields_def)
  moreover have "sha (transcript (evidence_fields c)) = sha (transcript (evidence_fields e))"
    using c e same by (simp add: continuation_ok_def computed_digest_def)
  ultimately show ?thesis using identity_fields_fit[OF c] by blast
qed

section \<open>A request and its receipt\<close>

definition ex_digest :: "string \<Rightarrow> string" where
  "ex_digest s = ex_sha"

definition ex_continuation :: continuation_identity where
  "ex_continuation = \<lparr>ci_resolved_spec_sha256 = ex_sha, ci_project_revision = ''alpha:r1'',
     ci_git_commit = ex_commit, ci_run_id = ''run-1'', ci_prior_receipt_sha256 = ex_sha,
     ci_identity_sha256 = ex_sha\<rparr>"

definition ex_yield_request :: yield_request where
  "ex_yield_request = \<lparr>yq_request_id = ''req-1'', yq_item_id = 1, yq_segment = 1, yq_kind = Manual_preemption,
     yq_requested_at = ex_time, yq_requested_by = ''operator'', yq_note = ''make room'',
     yq_continuation = ex_continuation\<rparr>"

definition ex_artifact :: checkpoint_artifact where
  "ex_artifact = \<lparr>ca_name = ''weights'', ca_path = ''/data/outputs/w.bin'', ca_bytes = 5,
     ca_sha256 = ex_sha, ca_media_type = ''application/octet-stream''\<rparr>"

definition ex_yield_receipt :: yield_receipt where
  "ex_yield_receipt = ready_receipt ex_yield_request \<lparr>yp_unit = ''steps'', yp_completed = 100, yp_total = Some 500\<rparr>
     [ex_artifact] (resume_from_bytes ex_digest ''step=100'' ''text/plain'') ex_time"

lemma ex_texts_ok:
  "sha256_text ex_sha" "commit_text ex_commit" "wire_text 256 identifier_ok ''alpha:r1''"
  "wire_text 256 identifier_ok ''run-1''" "wire_text 256 identifier_ok ''req-1''"
  "wire_timestamp_ok ex_time" "wire_text 127 media_type_ok ''text/plain''"
  by code_simp+

lemma ex_continuation_ok: "continuation_ok ex_digest ex_continuation"
  by (simp add: continuation_ok_def ex_continuation_def computed_digest_def ex_digest_def ex_texts_ok)

lemma ex_parts_ok:
  "artifact_ok ex_artifact" "progress_ok \<lparr>yp_unit = ''steps'', yp_completed = 100, yp_total = Some 500\<rparr>"
  by code_simp+

lemma ex_yield_receipt_ok: "receipt_ok ex_digest ex_yield_receipt"
  using ex_continuation_ok ex_parts_ok
  by (simp add: receipt_ok_def receipt_shape_ok_def ex_yield_receipt_def ready_receipt_def ex_yield_request_def
      null_or_def resume_ok_def resume_from_bytes_def ex_digest_def wire_integer_def ex_texts_ok)

theorem continuation_digest_binds_witness:
  "list_all field_fits (evidence_fields ex_continuation)"
  using continuation_digest_binds[OF ex_continuation_ok ex_continuation_ok refl] by blast

text \<open>
  (C34) Writing and reading agree: the document of a well-formed request, or of a well-formed receipt whose
  resume context is within the safe integer range, is read back as the same value.
\<close>

theorem yield_documents_round_trip:
  "(request_ok sha q \<longrightarrow> request_from_document sha (request_to_document q) = Inr q)
   \<and> (receipt_ok sha t \<and> null_or (\<lambda>r. int (length (rc_payload r)) \<le> 9007199254740991) (yt_resume t)
        \<longrightarrow> receipt_from_document sha (receipt_to_document t) = Inr t)"
proof (intro conjI impI)
  assume t: "receipt_ok sha t \<and> null_or (\<lambda>r. int (length (rc_payload r)) \<le> 9007199254740991) (yt_resume t)"
  then show "receipt_from_document sha (receipt_to_document t) = Inr t"
    by (intro receipt_round_trip) (simp_all add: null_or_def)
qed (rule request_round_trip)

theorem yield_documents_round_trip_witness:
  "receipt_from_document ex_digest (receipt_to_document ex_yield_receipt) = Inr ex_yield_receipt"
proof -
  have "null_or (\<lambda>r. int (length (rc_payload r)) \<le> 9007199254740991) (yt_resume ex_yield_receipt)"
    by (simp add: ex_yield_receipt_def ready_receipt_def resume_from_bytes_def null_or_def)
  with yield_documents_round_trip[of ex_digest ex_yield_request ex_yield_receipt] ex_yield_receipt_ok show ?thesis by blast
qed


end
