(* ===== verification/Yields_V5.thy ===== *)
theory Yields_V5
  imports Admission_V5 Evidence_V5 Yield_Protocol
begin

text \<open>
  Cooperative yield in \<open>v5_repository.py\<close>: the durable request and receipt of a segment, the transaction
  that returns a yielding attempt to the queue with its next segment, and the isolation of a failed
  continuation. Every reader re-authenticates the exact wire bytes and compares the decomposed columns.

  \<open>wire\<close> stands for the JSON text codecs: \<open>wi_parse\<close> is the strict decoder (\<open>json.loads\<close> without
  duplicate keys or non-finite numbers), \<open>wi_encode\<close> the deterministic encoder of the wire documents and
  \<open>wi_canonical\<close> the RFC 8785 encoder. \<open>files\<close> is the host's view of checkpoint files.
\<close>

record wire =
  wi_parse :: "string \<Rightarrow> json option"
  wi_encode :: "json \<Rightarrow> string"
  wi_canonical :: "json \<Rightarrow> string"

definition decode_wire_protocol :: "wire \<Rightarrow> string \<Rightarrow> json result" where
  "decode_wire_protocol w source =
    require (source \<noteq> [] \<and> int (length source) \<le> 8388608) (evidence_error Bad_payload)
    (fetch (wi_parse w source) (evidence_error Bad_payload) (\<lambda>document.
     require (case document of JObj kvs \<Rightarrow> True | _ \<Rightarrow> False) (evidence_error Bad_payload)
    (require (wi_encode w document = source) (evidence_error Bad_payload) (Inr document))))"

definition read_request :: "evidence_checks \<Rightarrow> wire \<Rightarrow> string \<Rightarrow> yield_request result" where
  "read_request ec w source = reraise V5EvidenceError
    (and_then (decode_wire_protocol w source) (request_from_document (ec_sha256 ec)))"

definition read_receipt :: "evidence_checks \<Rightarrow> wire \<Rightarrow> string \<Rightarrow> yield_receipt result" where
  "read_receipt ec w source = reraise V5EvidenceError
    (and_then (decode_wire_protocol w source) (receipt_from_document (ec_sha256 ec)))"

section \<open>Requests\<close>

record request_record =
  rr_request :: yield_request
  rr_source :: string
  rr_sha256 :: string
  rr_project_id :: int
  rr_revision_id :: int

text \<open>The columns decomposed from a request document.\<close>

definition request_row_of ::
  "evidence_checks \<Rightarrow> yield_request \<Rightarrow> string \<Rightarrow> int \<Rightarrow> int \<Rightarrow> yield_request_row" where
  "request_row_of ec q source project_id revision_id = (let c = yq_continuation q in
    \<lparr>yr_request_id = yq_request_id q, yr_item_id = yq_item_id q, yr_project_id = project_id,
     yr_revision_id = revision_id, yr_segment = yq_segment q, yr_kind = yq_kind q,
     yr_requested_at = yq_requested_at q, yr_requested_by = yq_requested_by q, yr_note = yq_note q,
     yr_source = source, yr_sha256 = ec_sha256 ec source,
     yr_resolved_spec_sha256 = ci_resolved_spec_sha256 c, yr_project_revision = ci_project_revision c,
     yr_git_commit = ci_git_commit c, yr_run_id = ci_run_id c,
     yr_prior_receipt_sha256 = ci_prior_receipt_sha256 c, yr_identity_sha256 = ci_identity_sha256 c\<rparr>)"

definition yield_request_from_row ::
  "evidence_checks \<Rightarrow> wire \<Rightarrow> yield_request_row \<Rightarrow> request_record result" where
  "yield_request_from_row ec w row =
    require (ec_sha256 ec (yr_source row) = yr_sha256 row) (evidence_error Corrupt_evidence)
    (and_then (read_request ec w (yr_source row)) (\<lambda>q.
     require (row = request_row_of ec q (yr_source row) (yr_project_id row) (yr_revision_id row))
       (evidence_error Corrupt_evidence)
    (Inr \<lparr>rr_request = q, rr_source = yr_source row, rr_sha256 = yr_sha256 row,
       rr_project_id = yr_project_id row, rr_revision_id = yr_revision_id row\<rparr>)))"

definition find_yield_request :: "db \<Rightarrow> string \<Rightarrow> yield_request_row option" where
  "find_yield_request d request_id = find (\<lambda>r. yr_request_id r = request_id) (db_yield_requests d)"

definition yielding_item :: "yield_request \<Rightarrow> queue_item \<Rightarrow> queue_item" where
  "yielding_item q i = i\<lparr>qi_state := Yielding, qi_yield_requested_at := Some (yq_requested_at q),
     qi_yield_requested_by := Some (yq_requested_by q), qi_yield_request_id := Some (yq_request_id q),
     qi_yield_note := Some (yq_note q)\<rparr>"

text \<open>A request that is not yet stored: the guards on the running attempt, then the three writes.\<close>

definition new_yield_request ::
  "evidence_checks \<Rightarrow> wire \<Rightarrow> yield_request \<Rightarrow> string \<Rightarrow> db \<Rightarrow> (request_record \<times> db) result" where
  "new_yield_request ec w q source d =
    fetch (find_item (db_items d) (yq_item_id q)) (V5NotFoundError, Row_missing) (\<lambda>row.
    and_then (queue_item_from_row ec d row) (\<lambda>(item, snapshot).
    require (qi_admission_kind item = Experiment_card) (repo_error Not_allowed)
    (fetch snapshot (repo_error Not_allowed) (\<lambda>s.
     require (yq_segment q = qi_segment item) (repo_error Stale_evidence)
    (require (qi_state item = Running) (repo_error Wrong_state)
    (require (qi_preemptible item) (repo_error Not_allowed)
    (let c = yq_continuation q in
     require (ci_resolved_spec_sha256 c = as_resolved_sha256 s
         \<and> ci_project_revision c = as_project_revision s \<and> ci_git_commit c = qi_git_commit item)
       (evidence_error Wrong_identity)
    (and_then (insert_yield_request V5RepositoryError
        (request_row_of ec q source (qi_project_id item) (qi_revision_id item)) d) (\<lambda>d1.
     and_then (update_items V5RepositoryError
        (\<lambda>i. qi_id i = qi_id item \<and> (qi_state i = Running \<and> qi_segment i = yq_segment q))
        (yielding_item q) d1) (\<lambda>(n, d2).
     require (n = 1) (repo_error Lost_update)
    (and_then (repo_event (yq_requested_at q) (yq_requested_by q) ''cooperative_yield_requested''
        Scope_project (Some (qi_project_id item)) (Some (qi_id item))
        (JObj [(''requestId'', JStr (yq_request_id q)), (''segment'', JInt (yq_segment q)),
               (''requestKind'', JStr (request_kind_name (yq_kind q))),
               (''requestSha256'', JStr (ec_sha256 ec source))]) d2) (\<lambda>d3.
     fetch (find_yield_request d3 (yq_request_id q)) (evidence_error Row_missing) (\<lambda>stored.
     and_then (yield_request_from_row ec w stored) (\<lambda>r. Inr (r, d3)))))))))))))))"

definition record_yield_request ::
  "evidence_checks \<Rightarrow> wire \<Rightarrow> yield_request \<Rightarrow> string \<Rightarrow> db \<Rightarrow> (request_record \<times> db) result" where
  "record_yield_request ec w q source d =
    and_then (read_request ec w source) (\<lambda>parsed.
    require (parsed = q) (evidence_error Conflicting_evidence)
    (case find_yield_request d (yq_request_id q) of
       Some row \<Rightarrow> and_then (yield_request_from_row ec w row) (\<lambda>r.
         require (rr_request r = q \<and> rr_source r = source) (repo_error Conflicting_evidence) (Inr (r, d)))
     | None \<Rightarrow> new_yield_request ec w q source d))"

definition get_yield_request :: "evidence_checks \<Rightarrow> wire \<Rightarrow> string \<Rightarrow> db \<Rightarrow> request_record result" where
  "get_yield_request ec w request_id d =
    require (text_ok 256 request_id) (repo_error Bad_text)
    (fetch (find_yield_request d request_id) (V5NotFoundError, Row_missing) (yield_request_from_row ec w))"

section \<open>Receipts\<close>

record receipt_record =
  cr_receipt :: yield_receipt
  cr_source :: string
  cr_sha256 :: string
  cr_project_id :: int
  cr_revision_id :: int

definition receipt_row_of ::
  "evidence_checks \<Rightarrow> wire \<Rightarrow> yield_receipt \<Rightarrow> string \<Rightarrow> string \<Rightarrow> int \<Rightarrow> int \<Rightarrow> yield_receipt_row" where
  "receipt_row_of ec w t source identity project_id revision_id =
    (let progress = map_option (\<lambda>p. wi_canonical w (progress_to_document p)) (yt_progress t);
         artifacts = (if yt_status t = Failed_receipt then None
           else Some (wi_canonical w (JList (map artifact_to_document (yt_artifacts t))))) in
    \<lparr>yc_request_id = yt_request_id t, yc_item_id = yt_item_id t, yc_project_id = project_id,
     yc_revision_id = revision_id, yc_segment = yt_segment t, yc_bound_identity_sha256 = identity,
     yc_status = yt_status t, yc_written_at = yt_written_at t, yc_source = source,
     yc_sha256 = ec_sha256 ec source, yc_progress = progress,
     yc_progress_sha256 = map_option (ec_sha256 ec) progress, yc_artifacts = artifacts,
     yc_artifacts_sha256 = map_option (ec_sha256 ec) artifacts,
     yc_resume = map_option rc_payload (yt_resume t),
     yc_resume_bytes = map_option (\<lambda>r. int (length (rc_payload r))) (yt_resume t),
     yc_resume_media_type = map_option rc_media_type (yt_resume t),
     yc_resume_sha256 = map_option rc_sha256 (yt_resume t), yc_error = yt_error t\<rparr>)"

definition yield_receipt_from_row ::
  "evidence_checks \<Rightarrow> wire \<Rightarrow> db \<Rightarrow> yield_receipt_row \<Rightarrow> receipt_record result" where
  "yield_receipt_from_row ec w d row =
    require (ec_sha256 ec (yc_source row) = yc_sha256 row) (evidence_error Corrupt_evidence)
    (and_then (read_receipt ec w (yc_source row)) (\<lambda>t.
     fetch (find_yield_request d (yt_request_id t)) (evidence_error Row_missing) (\<lambda>request_row.
     and_then (yield_request_from_row ec w request_row) (\<lambda>r.
     and_then (reraise V5EvidenceError (validate_receipt_for_request t (rr_request r) None)) (\<lambda>_.
     require (row = receipt_row_of ec w t (yc_source row)
         (ci_identity_sha256 (yq_continuation (rr_request r))) (yc_project_id row) (yc_revision_id row))
       (evidence_error Corrupt_evidence)
    (Inr \<lparr>cr_receipt = t, cr_source = yc_source row, cr_sha256 = yc_sha256 row,
       cr_project_id = yc_project_id row, cr_revision_id = yc_revision_id row\<rparr>))))))"

definition find_yield_receipt :: "db \<Rightarrow> string \<Rightarrow> yield_receipt_row option" where
  "find_yield_receipt d request_id = find (\<lambda>c. yc_request_id c = request_id) (db_yield_receipts d)"

definition new_yield_receipt ::
  "evidence_checks \<Rightarrow> wire \<Rightarrow> yield_receipt \<Rightarrow> string \<Rightarrow> string \<Rightarrow> db \<Rightarrow> (receipt_record \<times> db) result" where
  "new_yield_receipt ec w t source actor d =
    fetch (find_yield_request d (yt_request_id t)) (V5NotFoundError, Row_missing) (\<lambda>request_row.
    and_then (yield_request_from_row ec w request_row) (\<lambda>r.
    and_then (reraise V5EvidenceError (validate_receipt_for_request t (rr_request r) None)) (\<lambda>_.
    and_then (insert_yield_receipt V5RepositoryError (receipt_row_of ec w t source
        (ci_identity_sha256 (yq_continuation (rr_request r))) (rr_project_id r) (rr_revision_id r)) d) (\<lambda>d1.
    and_then (repo_event (yt_written_at t) actor ''cooperative_yield_receipt_recorded'' Scope_project
        (Some (rr_project_id r)) (Some (yt_item_id t))
        (JObj [(''requestId'', JStr (yt_request_id t)), (''segment'', JInt (yt_segment t)),
               (''status'', JStr (receipt_status_name (yt_status t))),
               (''receiptSha256'', JStr (ec_sha256 ec source))]) d1) (\<lambda>d2.
    fetch (find_yield_receipt d2 (yt_request_id t)) (evidence_error Row_missing) (\<lambda>stored.
    and_then (yield_receipt_from_row ec w d2 stored) (\<lambda>c. Inr (c, d2))))))))"

definition record_yield_receipt ::
  "evidence_checks \<Rightarrow> wire \<Rightarrow> yield_receipt \<Rightarrow> string \<Rightarrow> string \<Rightarrow> db \<Rightarrow> (receipt_record \<times> db) result" where
  "record_yield_receipt ec w t source actor d =
    require (text_ok 256 actor) (repo_error Bad_text)
    (and_then (read_receipt ec w source) (\<lambda>parsed.
     require (parsed = t) (evidence_error Conflicting_evidence)
    (case find_yield_receipt d (yt_request_id t) of
       Some row \<Rightarrow> and_then (yield_receipt_from_row ec w d row) (\<lambda>c.
         require (cr_receipt c = t \<and> cr_source c = source) (repo_error Conflicting_evidence) (Inr (c, d)))
     | None \<Rightarrow> new_yield_receipt ec w t source actor d)))"

definition get_yield_receipt :: "evidence_checks \<Rightarrow> wire \<Rightarrow> string \<Rightarrow> db \<Rightarrow> receipt_record result" where
  "get_yield_receipt ec w request_id d =
    require (text_ok 256 request_id) (repo_error Bad_text)
    (fetch (find_yield_receipt d request_id) (V5NotFoundError, Row_missing) (yield_receipt_from_row ec w d))"

text \<open>The join of receipts with their requests, for ready receipts of an item.\<close>

definition ready_receipts :: "db \<Rightarrow> int \<Rightarrow> (int \<Rightarrow> bool) \<Rightarrow> (int \<times> yield_receipt_row) list" where
  "ready_receipts d item_id P = concat (map (\<lambda>c.
     map (\<lambda>r. (yr_segment r, c)) (filter (\<lambda>r. yr_request_id r = yc_request_id c
       \<and> yr_item_id r = item_id \<and> P (yr_segment r)) (db_yield_requests d)))
     (filter (\<lambda>c. yc_status c = Ready) (db_yield_receipts d)))"

definition get_ready_yield_receipt_for_segment ::
  "evidence_checks \<Rightarrow> wire \<Rightarrow> int \<Rightarrow> int \<Rightarrow> db \<Rightarrow> receipt_record result" where
  "get_ready_yield_receipt_for_segment ec w item_id completed_segment d =
    require (item_id > 0) (repo_error Bad_integer)
    (require (completed_segment > 0) (repo_error Bad_integer)
    (case ready_receipts d item_id (\<lambda>n. n = completed_segment) of
       [(_, c)] \<Rightarrow> yield_receipt_from_row ec w d c
     | _ \<Rightarrow> Inl (V5NotFoundError, Row_missing)))"

section \<open>Requeue\<close>

definition json_object_field :: "string \<Rightarrow> json option \<Rightarrow> json option" where
  "json_object_field k v = (case v of Some (JObj kvs) \<Rightarrow> map_of kvs k | _ \<Rightarrow> None)"

fun json_texts :: "json list \<Rightarrow> string list option" where
  "json_texts [] = Some []"
| "json_texts (JStr s # js) = map_option (Cons s) (json_texts js)"
| "json_texts (j # js) = None"

definition one_gpu_job :: "json option \<Rightarrow> bool" where
  "one_gpu_job resources = (case resources of
      Some (JObj kvs) \<Rightarrow> (case map_of kvs ''gpus'' of None \<Rightarrow> True | Some v \<Rightarrow> v \<in> {JInt 0, JInt 1})
    | _ \<Rightarrow> True)"

definition checkpoint_names :: "admission_snapshot \<Rightarrow> string list result" where
  "checkpoint_names s =
    (let job = json_get ''job'' (as_resolved_document s) in
     require (case job of Some (JObj kvs) \<Rightarrow> True | _ \<Rightarrow> False) (evidence_error Corrupt_evidence)
    (require (one_gpu_job (json_object_field ''resources'' job)) (evidence_error Corrupt_evidence)
    (case json_object_field ''checkpointArtifacts''
        (json_object_field ''cooperativeYield'' (json_object_field ''capabilities'' job)) of
       Some (JList js) \<Rightarrow> fetch (json_texts js) (evidence_error Corrupt_evidence) (\<lambda>names.
         require (names \<noteq> []) (evidence_error Corrupt_evidence) (Inr names))
     | _ \<Rightarrow> Inl (evidence_error Corrupt_evidence))))"

definition previous_ready_progress ::
  "evidence_checks \<Rightarrow> wire \<Rightarrow> int \<Rightarrow> int \<Rightarrow> db \<Rightarrow> yield_progress option result" where
  "previous_ready_progress ec w item_id segment d =
    (case sort_key (\<lambda>(n, _). - n) (ready_receipts d item_id (\<lambda>n. n < segment)) of
       [] \<Rightarrow> Inr None
     | (_, c) # _ \<Rightarrow> and_then (yield_receipt_from_row ec w d c) (\<lambda>r. Inr (yt_progress (cr_receipt r))))"

definition requeued_item :: "int \<Rightarrow> string \<Rightarrow> queue_item \<Rightarrow> queue_item" where
  "requeued_item next_segment changed_at i = i\<lparr>qi_state := Queued, qi_state_detail := None,
     qi_segment := next_segment, qi_resume_front := True, qi_lease_held := False,
     qi_lease_released_at := Some changed_at, qi_pid := None, qi_pgid := None, qi_start_ticks := None,
     qi_started_at := None, qi_finished_at := None, qi_return_code := None,
     qi_terminate_requested_at := None, qi_terminate_reason := None, qi_termination_stage := None,
     qi_termination_signal_epoch := None, qi_yield_requested_at := None, qi_yield_requested_by := None,
     qi_yield_request_id := None, qi_yield_note := None\<rparr>"

text \<open>The condition of the compare-and-set: the attempt still waits for exactly this continuation.\<close>

definition awaiting :: "queue_item \<Rightarrow> string \<Rightarrow> queue_item \<Rightarrow> bool" where
  "awaiting item key i = (qi_state i = Yielding \<and> qi_lease_held i \<and> qi_segment i = qi_segment item
     \<and> qi_yield_request_id i = Some key)"

definition requeue_payload :: "queue_item \<Rightarrow> string \<Rightarrow> string \<Rightarrow> int \<Rightarrow> string \<Rightarrow> json" where
  "requeue_payload row key digest next_segment changed_at =
    JObj [(''requestId'', JStr key), (''receiptSha256'', JStr digest),
      (''completedSegment'', JInt (qi_segment row)), (''nextSegment'', JInt next_segment),
      (''resumeFront'', JBool True), (''gpuUuid'', json_opt JStr (qi_gpu_uuid row)),
      (''gpuIndex'', json_opt JStr (qi_gpu_index row)),
      (''runtimeGpuLeaseReleasedAt'', JStr changed_at)]"

definition requeue_item ::
  "evidence_checks \<Rightarrow> queue_item \<Rightarrow> string \<Rightarrow> string \<Rightarrow> int \<Rightarrow> string \<Rightarrow> string \<Rightarrow> db
    \<Rightarrow> (item_view \<times> db) result" where
  "requeue_item ec item key digest next_segment actor changed_at d =
    and_then (update_items V5RepositoryError (\<lambda>i. qi_id i = qi_id item \<and> awaiting item key i)
        (requeued_item next_segment changed_at) d) (\<lambda>(n, d1).
    require (n = 1) (repo_error Lost_update)
    (and_then (repo_event changed_at actor ''cooperative_yield_requeued'' Scope_project
        (Some (qi_project_id item)) (Some (qi_id item))
        (requeue_payload item key digest next_segment changed_at) d1) (\<lambda>d2.
     fetch (find_item (db_items d2) (qi_id item)) (evidence_error Row_missing) (\<lambda>updated.
     and_then (queue_item_from_row ec d2 updated) (\<lambda>view. Inr (view, d2))))))"

text \<open>The final validation and the compare-and-set, for the item named by the request.\<close>

definition finalize_continuation ::
  "evidence_checks \<Rightarrow> wire \<Rightarrow> host_files \<Rightarrow> request_record \<Rightarrow> receipt_record \<Rightarrow> queue_item \<Rightarrow> string
    \<Rightarrow> string \<Rightarrow> string \<Rightarrow> db \<Rightarrow> (item_view \<times> db) result" where
  "finalize_continuation ec w files r c row key actor changed_at d =
    and_then (queue_item_from_row ec d row) (\<lambda>(item, snapshot).
    fetch snapshot (evidence_error Row_missing) (\<lambda>s.
    and_then (load_revision (ec_verify ec) d (qi_revision_id item)) (\<lambda>v.
    and_then (previous_ready_progress ec w (qi_id item) (qi_segment item) d) (\<lambda>previous.
    and_then (checkpoint_names s) (\<lambda>names.
    let k = yq_continuation (rr_request r) in
    and_then (reraise V5EvidenceError (validate_ready_continuation (ec_sha256 ec) files (cr_receipt c)
        (rr_request r) (as_resolved_sha256 s) (pv_label v) (pv_git_commit v) (ci_run_id k)
        (ci_prior_receipt_sha256 k) (artifact_root_paths d (qi_project_id item) (qi_revision_id item))
        names previous)) (\<lambda>_.
    requeue_item ec item key (cr_sha256 c) (yq_segment (rr_request r) + 1) actor changed_at d))))))"

definition requeue_ready_continuation ::
  "evidence_checks \<Rightarrow> wire \<Rightarrow> host_files \<Rightarrow> string \<Rightarrow> string \<Rightarrow> string \<Rightarrow> db \<Rightarrow> (item_view \<times> db) result" where
  "requeue_ready_continuation ec w files request_id actor changed_at d =
    require (text_ok 256 request_id) (repo_error Bad_text)
    (require (text_ok 256 actor) (repo_error Bad_text)
    (require (repo_timestamp_ok changed_at) (repo_error Bad_timestamp)
    (fetch (find_yield_request d request_id) (V5NotFoundError, Row_missing) (\<lambda>request_row.
     and_then (yield_request_from_row ec w request_row) (\<lambda>r.
     fetch (find_yield_receipt d request_id) (repo_error Row_missing) (\<lambda>receipt_row.
     and_then (yield_receipt_from_row ec w d receipt_row) (\<lambda>c.
     fetch (find_item (db_items d) (yq_item_id (rr_request r))) (evidence_error Row_missing) (\<lambda>row.
     if qi_state row = Queued \<and> qi_segment row = yq_segment (rr_request r) + 1
     then and_then (queue_item_from_row ec d row) (\<lambda>view. Inr (view, d))
     else
       require (qi_state row = Yielding) (repo_error Wrong_state)
      (require (qi_segment row = yq_segment (rr_request r) \<and> qi_yield_request_id row = Some request_id)
        (evidence_error Wrong_identity)
      (finalize_continuation ec w files r c row request_id actor changed_at d))))))))))"

section \<open>Isolation of a failed continuation\<close>

definition isolated_item :: "bool \<Rightarrow> string \<Rightarrow> string \<Rightarrow> queue_item \<Rightarrow> queue_item" where
  "isolated_item terminal detail changed_at i =
    (if terminal then i\<lparr>qi_state := Failed, qi_state_detail := Some detail, qi_finished_at := Some changed_at\<rparr>
     else i\<lparr>qi_state_detail := Some detail\<rparr>)"

definition isolate_continuation_failure ::
  "evidence_checks \<Rightarrow> int \<Rightarrow> string \<Rightarrow> string \<Rightarrow> string \<Rightarrow> bool \<Rightarrow> db \<Rightarrow> (item_view \<times> db) result" where
  "isolate_continuation_failure ec item_id detail actor changed_at terminal d =
    require (item_id > 0) (repo_error Bad_integer)
    (require (text_ok 4000 detail) (repo_error Bad_text)
    (require (text_ok 256 actor) (repo_error Bad_text)
    (require (repo_timestamp_ok changed_at) (repo_error Bad_timestamp)
    (fetch (find_item (db_items d) item_id) (V5NotFoundError, Row_missing) (\<lambda>row.
     let target = (if terminal then Failed else Yielding) in
     if qi_state row = target \<and> qi_state_detail row = Some detail
     then and_then (queue_item_from_row ec d row) (\<lambda>view. Inr (view, d))
     else
       require (qi_state row = Yielding) (repo_error Wrong_state)
      (and_then (update_items V5RepositoryError (\<lambda>i. qi_id i = item_id \<and> qi_state i = Yielding)
          (isolated_item terminal detail changed_at) d) (\<lambda>(_, d1).
       fetch (find_runtime (db_runtime d1) (qi_project_id row)) (evidence_error Row_missing) (\<lambda>runtime.
       and_then (update_runtime V5RepositoryError (\<lambda>h. rs_project_id h = qi_project_id row)
          (\<lambda>h. h\<lparr>rs_health := Open, rs_failure_count := rs_failure_count runtime + 1,
             rs_reason := detail, rs_actor := actor, rs_changed_at := changed_at\<rparr>) d1) (\<lambda>(_, d2).
       and_then (repo_event changed_at actor ''cooperative_yield_isolated'' Scope_project
          (Some (qi_project_id row)) (Some item_id)
          (JObj [(''previousState'', JStr (state_name (qi_state row))),
                 (''state'', JStr (state_name target)), (''reason'', JStr detail),
                 (''segment'', JInt (qi_segment row))]) d2) (\<lambda>d3.
       fetch (find_item (db_items d3) item_id) (evidence_error Row_missing) (\<lambda>updated.
       and_then (queue_item_from_row ec d3 updated) (\<lambda>view. Inr (view, d3)))))))))))))"

section \<open>The contract\<close>

lemma quiet_insert_yield_request: "insert_yield_request x r d = Inr d' \<Longrightarrow> quiet d d'"
  by (auto simp: insert_yield_request_def quiet_def list.rel_refl split: if_splits)

lemma quiet_insert_yield_receipt: "insert_yield_receipt x c d = Inr d' \<Longrightarrow> quiet d d'"
  by (auto simp: insert_yield_receipt_def quiet_def list.rel_refl split: if_splits)

lemma quiet_repo_event: "repo_event t actor e scope p k payload d = Inr d' \<Longrightarrow> quiet d d'"
  by (auto simp: repo_event_eq_Inr quiet_def list.rel_refl)

lemma ensures_insert_yield_request [vcg]:
  assumes "quiet d d0" and "\<And>d1. quiet d d1 \<Longrightarrow> ensures (quiet d) (k d1)"
  shows "ensures (quiet d) (and_then (insert_yield_request x r d0) k)"
  using assms(1) quiet_insert_yield_request assms(2) by (rule ensures_row)

lemma ensures_insert_yield_receipt [vcg]:
  assumes "quiet d d0" and "\<And>d1. quiet d d1 \<Longrightarrow> ensures (quiet d) (k d1)"
  shows "ensures (quiet d) (and_then (insert_yield_receipt x c d0) k)"
  using assms(1) quiet_insert_yield_receipt assms(2) by (rule ensures_row)

lemma ensures_quiet_repo_event [vcg]:
  assumes "quiet d d0" and "\<And>d1. quiet d d1 \<Longrightarrow> ensures (quiet d) (k d1)"
  shows "ensures (quiet d) (and_then (repo_event t actor e scope p i payload d0) k)"
  using assms(1) quiet_repo_event assms(2) by (rule ensures_row)

lemmas yield_reads [vcg] =
  ensures_value[where m = "queue_item_from_row ec e row" for ec e row]
  ensures_value[where m = "yield_request_from_row ec w row" for ec w row]
  ensures_value[where m = "yield_receipt_from_row ec w e row" for ec w e row]
  ensures_value[where m = "read_request ec w source" for ec w source]
  ensures_value[where m = "read_receipt ec w source" for ec w source]
  ensures_value[where m = "previous_ready_progress ec w k n e" for ec w k n e]
  ensures_value[where m = "checkpoint_names s" for s]

text \<open>What each row update does to one item.\<close>

lemma yielding_item_step:
  assumes "item_check (yielding_item q i)" and "qi_state i = Running"
  shows "item_step i (yielding_item q i)"
proof (rule item_stepI)
  show "state_reach (qi_state i) (qi_state (yielding_item q i))"
    using assms(2) by (intro r_into_rtranclp) (simp add: yielding_item_def)
  show "item_wf i \<Longrightarrow> item_wf (yielding_item q i)"
    using assms(2) by (auto simp: item_wf_defs yielding_item_def)
qed (use assms(1) in \<open>simp_all add: yielding_item_def same_identity_def\<close>)

lemma requeued_item_step:
  assumes "item_check (requeued_item n t i)" and "qi_state i = Yielding" and "qi_segment i \<le> n"
  shows "item_step i (requeued_item n t i)"
proof (rule item_stepI)
  show "state_reach (qi_state i) (qi_state (requeued_item n t i))"
    using assms(2) by (intro r_into_rtranclp) (simp add: requeued_item_def)
  show "item_wf i \<Longrightarrow> item_wf (requeued_item n t i)"
    by (simp add: item_wf_defs requeued_item_def null_or_def)
qed (use assms(1,3) in \<open>simp_all add: requeued_item_def same_identity_def\<close>)

lemma isolated_item_step:
  assumes "item_check (isolated_item terminal detail t i)" and "qi_state i = Yielding"
  shows "item_step i (isolated_item terminal detail t i)"
proof (rule item_stepI)
  show "state_reach (qi_state i) (qi_state (isolated_item terminal detail t i))"
    using assms(2) by (cases terminal) (auto simp: isolated_item_def intro: r_into_rtranclp)
  show "item_wf i \<Longrightarrow> item_wf (isolated_item terminal detail t i)"
    using assms(2) by (auto simp: item_wf_defs isolated_item_def null_or_def)
qed (use assms(1) in \<open>simp_all add: isolated_item_def same_identity_def split: if_splits\<close>)

interpretation yield_requesting: quiet_operation "record_yield_request ec w q source"
  for ec :: evidence_checks and w q source
  by (unfold_locales, erule ensuresD[rotated], unfold record_yield_request_def new_yield_request_def,
      intro vcg; (assumption | rule yielding_item_step); simp)

interpretation receipt_recording: quiet_operation "record_yield_receipt ec w t source actor"
  for ec :: evidence_checks and w t source actor
  by (unfold_locales, erule ensuresD[rotated], unfold record_yield_receipt_def new_yield_receipt_def,
      intro vcg; assumption)

interpretation isolating: quiet_operation
  "isolate_continuation_failure ec item_id detail actor changed_at terminal"
  for ec :: evidence_checks and item_id detail actor changed_at terminal
  by (unfold_locales, erule ensuresD[rotated], unfold isolate_continuation_failure_def,
      intro vcg; (assumption | rule isolated_item_step); simp)

lemma queue_item_from_row_fst: "queue_item_from_row ec d row = Inr v \<Longrightarrow> fst v = row"
  by (auto simp: queue_item_from_row_def split: admission_kind.splits option.splits)

lemma requeue_item_effect:
  assumes "requeue_item ec row key digest n actor t d = Inr (view, d')"
  shows "\<exists>event. d' = d\<lparr>db_items := update_rows (\<lambda>i. qi_id i = qi_id row \<and> awaiting row key i)
        (requeued_item n t) (db_items d), db_events := db_events d @ [event]\<rparr>
    \<and> (\<exists>updated. find_item (db_items d') (qi_id row) = Some updated \<and> queue_item_from_row ec d' updated = Inr view)
    \<and> length (filter (\<lambda>i. qi_id i = qi_id row \<and> awaiting row key i) (db_items d)) = 1
    \<and> (\<forall>i \<in> set (db_items d). qi_id i = qi_id row \<and> awaiting row key i \<longrightarrow> item_check (requeued_item n t i))"
  using assms by (auto simp: requeue_item_def update_items_eq_Inr repo_event_eq_Inr)

lemma finalizeD:
  assumes "finalize_continuation ec w files r c row key actor t d = Inr (view, d')"
  shows "\<exists>spec label commit previous names. previous_ready_progress ec w (qi_id row) (qi_segment row) d = Inr previous
    \<and> validate_ready_continuation (ec_sha256 ec) files (cr_receipt c) (rr_request r)
        spec label commit (ci_run_id (yq_continuation (rr_request r))) (ci_prior_receipt_sha256 (yq_continuation (rr_request r)))
        (artifact_root_paths d (qi_project_id row) (qi_revision_id row)) names previous = Inr ()
    \<and> requeue_item ec row key (cr_sha256 c) (yq_segment (rr_request r) + 1) actor t d = Inr (view, d')"
proof -
  obtain item snapshot where item: "queue_item_from_row ec d row = Inr (item, snapshot)"
    using assms by (auto simp: finalize_continuation_def)
  have "item = row" using queue_item_from_row_fst[OF item] by simp
  with item assms show ?thesis by (auto simp: finalize_continuation_def Let_def) blast
qed

lemma requeue_item_quiet:
  assumes "requeue_item ec row key digest n actor t d = Inr (view, d')" and "qi_segment row \<le> n"
  shows "quiet d d'"
proof -
  have "quiet d (d\<lparr>db_items := update_rows (\<lambda>i. qi_id i = qi_id row \<and> awaiting row key i)
      (requeued_item n t) (db_items d)\<rparr>)"
    using requeue_item_effect[OF assms(1)] assms(2)
    by (auto simp: quiet_def list.rel_refl awaiting_def intro!: list_all2_update_rows requeued_item_step)
  with requeue_item_effect[OF assms(1)] show ?thesis by (auto simp: quiet_def)
qed

lemma finalize_quiet:
  assumes "finalize_continuation ec w files r c row key actor t d = Inr (v, d')"
    and "qi_segment row = yq_segment (rr_request r)"
  shows "quiet d d'"
proof -
  have "requeue_item ec row key (cr_sha256 c) (yq_segment (rr_request r) + 1) actor t d = Inr (v, d')"
    using finalizeD[OF assms(1)] by blast
  then show ?thesis using assms(2) by (intro requeue_item_quiet) auto
qed

interpretation requeueing: quiet_operation "requeue_ready_continuation ec w files request_id actor changed_at"
  for ec :: evidence_checks and w files request_id actor changed_at
proof
  fix d d' and v :: item_view
  assume run: "requeue_ready_continuation ec w files request_id actor changed_at d = Inr (v, d')"
  show "quiet d d'"
    using run by (auto simp: requeue_ready_continuation_def split: if_splits intro: finalize_quiet)
qed


section \<open>Requeue is a compare-and-set\<close>

lemma receipt_from_row_cong:
  "db_yield_requests d' = db_yield_requests d \<Longrightarrow> yield_receipt_from_row ec w d' c = yield_receipt_from_row ec w d c"
  by (simp add: yield_receipt_from_row_def find_yield_request_def)

lemma validated_progress:
  assumes "validate_ready_continuation sha files t q spec revision commit run prior allowed names (Some before) = Inr ()"
  shows "\<exists>p. yt_progress t = Some p \<and> yp_unit p = yp_unit before \<and> yp_completed before \<le> yp_completed p"
  using assms by (auto simp: validate_ready_continuation_def validate_receipt_for_request_def
      assert_not_regressed_from_def)

text \<open>The row a requeue found, and what became of it.\<close>

lemma requeueD:
  assumes "requeue_ready_continuation ec w files rid actor t d = Inr (view, d')"
  shows "\<exists>q r c cr row. find_yield_request d rid = Some q \<and> yield_request_from_row ec w q = Inr r
    \<and> find_yield_receipt d rid = Some c \<and> yield_receipt_from_row ec w d c = Inr cr
    \<and> find_item (db_items d) (yq_item_id (rr_request r)) = Some row
    \<and> (qi_state row = Queued \<and> qi_segment row = yq_segment (rr_request r) + 1 \<and> d' = d
          \<and> queue_item_from_row ec d row = Inr view
       \<or> qi_state row = Yielding \<and> qi_segment row = yq_segment (rr_request r)
          \<and> qi_yield_request_id row = Some rid
          \<and> finalize_continuation ec w files r cr row rid actor t d = Inr (view, d'))"
  using assms by (auto simp: requeue_ready_continuation_def split: if_splits)

lemma requeue_again:
  assumes "requeue_ready_continuation ec w files rid actor t d = Inr view"
    and "find_yield_request d' rid = Some q" and "yield_request_from_row ec w q = Inr r"
    and "find_yield_receipt d' rid = Some c" and "yield_receipt_from_row ec w d' c = Inr cr"
    and "find_item (db_items d') (yq_item_id (rr_request r)) = Some j"
    and "qi_state j = Queued" and "qi_segment j = yq_segment (rr_request r) + 1"
    and "queue_item_from_row ec d' j = Inr (j, s)"
  shows "requeue_ready_continuation ec w files rid actor t d' = Inr ((j, s), d')"
  using assms by (simp add: requeue_ready_continuation_def)

lemma leased_holder_unique:
  assumes "system_inv d" and "i \<in> set (db_items d)" and "k \<in> set (db_items d)"
    and "qi_lease_held i" and "qi_lease_held k" and "qi_gpu_uuid k = qi_gpu_uuid i"
  shows "k = i"
proof -
  have "inj_on qi_gpu_uuid (set (filter qi_lease_held (db_items d)))"
    using assms(1) by (simp add: system_inv_def lease_inv_def leased_def distinct_map)
  with assms(2-) show ?thesis by (auto dest: inj_onD)
qed

text \<open>The compare-and-set on the one row it selects.\<close>

lemma requeue_item_row:
  assumes run: "requeue_item ec i key digest n actor t d = Inr ((j, s), d')" and inv: "system_inv d"
    and i: "find_item (db_items d) (qi_id i) = Some i"
  shows "awaiting i key i \<and> j = requeued_item n t i \<and> find_item (db_items d') (qi_id i) = Some j
    \<and> queue_item_from_row ec d' j = Inr (j, s)
    \<and> (\<forall>k. k \<noteq> qi_id i \<longrightarrow> find_item (db_items d') k = find_item (db_items d) k)
    \<and> qi_gpu_uuid i \<notin> set (leased (db_items d'))"
proof -
  let ?P = "\<lambda>k. qi_id k = qi_id i \<and> awaiting i key k"
  obtain e u where d': "d' = d\<lparr>db_items := update_rows ?P (requeued_item n t) (db_items d), db_events := db_events d @ [e]\<rparr>"
    and u: "find_item (db_items d') (qi_id i) = Some u" "queue_item_from_row ec d' u = Inr (j, s)"
    and one: "length (filter ?P (db_items d)) = 1"
    using requeue_item_effect[OF run] by blast
  note mem = item_table.lookup_SomeD[OF i]
  have key: "\<And>k. qi_id (requeued_item n t k) = qi_id k" by (simp add: requeued_item_def)
  obtain k where k: "k \<in> set (db_items d)" "?P k"
    using one by (metis (mono_tags, lifting) filter_False list.size(3) zero_neq_one)
  then have await: "awaiting i key i" using inv_row[OF inv i k(1)] by simp
  have "find_item (db_items d') (qi_id i) = Some (requeued_item n t i)"
    using update_one_found[where Q = "awaiting i key", OF i await key] by (simp add: d')
  moreover from this u have "j = requeued_item n t i"
    using queue_item_from_row_fst[OF u(2)] by simp
  moreover have "find_item (db_items d') k = find_item (db_items d) k" if "k \<noteq> qi_id i" for k
    using update_one_others[where Q = "awaiting i key", OF that key] by (simp add: d')
  moreover have "qi_gpu_uuid i \<notin> set (leased (db_items d'))"
  proof
    assume "qi_gpu_uuid i \<in> set (leased (db_items d'))"
    then obtain k where "k \<in> set (db_items d)" "\<not> ?P k" "qi_lease_held k" "qi_gpu_uuid k = qi_gpu_uuid i"
      by (auto simp: leased_def d' in_update_rows requeued_item_def)
    moreover have "qi_lease_held i" using await by (simp add: awaiting_def)
    ultimately show False using leased_holder_unique[OF inv _ \<open>k \<in> set (db_items d)\<close>] mem await by blast
  qed
  ultimately show ?thesis using await u by simp
qed

text \<open>
  (C8) Requeueing a continuation is a compare-and-set that termination wins: it succeeds only on an attempt
  that still yields for this very request, or that this requeue already moved on. It then queues that
  item in front with the next segment, frees its GPU, leaves every other item alone, and has checked
  that progress did not fall behind the last ready segment. Repeating it changes nothing.
\<close>

theorem requeue_compare_and_set:
  assumes run: "requeue_ready_continuation ec w files rid actor t d = Inr ((j, s), d')" and inv: "system_inv d"
  shows "requeue_ready_continuation ec w files rid actor t d' = Inr ((j, s), d')
    \<and> (\<exists>i. find_item (db_items d) (qi_id j) = Some i
      \<and> (qi_state i = Queued \<and> d' = d \<and> j = i
        \<or> qi_state i = Yielding \<and> qi_yield_request_id i = Some rid
          \<and> j = requeued_item (qi_segment i + 1) t i \<and> find_item (db_items d') (qi_id j) = Some j
          \<and> qi_gpu_uuid i \<notin> set (leased (db_items d'))
          \<and> (\<forall>k. k \<noteq> qi_id j \<longrightarrow> find_item (db_items d') k = find_item (db_items d) k)
          \<and> (\<forall>before. previous_ready_progress ec w (qi_id j) (qi_segment i) d = Inr (Some before) \<longrightarrow>
               (\<exists>c r p. find_yield_receipt d rid = Some c \<and> yield_receipt_from_row ec w d c = Inr r
                  \<and> yt_progress (cr_receipt r) = Some p \<and> yp_completed before \<le> yp_completed p))))"
proof -
  obtain q r c cr i where q: "find_yield_request d rid = Some q" "yield_request_from_row ec w q = Inr r"
    and c: "find_yield_receipt d rid = Some c" "yield_receipt_from_row ec w d c = Inr cr"
    and i: "find_item (db_items d) (yq_item_id (rr_request r)) = Some i"
    and outcome: "qi_state i = Queued \<and> qi_segment i = yq_segment (rr_request r) + 1 \<and> d' = d
        \<and> queue_item_from_row ec d i = Inr (j, s)
      \<or> qi_state i = Yielding \<and> qi_segment i = yq_segment (rr_request r) \<and> qi_yield_request_id i = Some rid
        \<and> finalize_continuation ec w files r cr i rid actor t d = Inr ((j, s), d')"
    using requeueD[OF run] by blast
  have id: "qi_id i = yq_item_id (rr_request r)" using item_table.lookup_SomeD[OF i] by simp
  from outcome show ?thesis
  proof
    assume noop: "qi_state i = Queued \<and> qi_segment i = yq_segment (rr_request r) + 1 \<and> d' = d
      \<and> queue_item_from_row ec d i = Inr (j, s)"
    then have "j = i" using queue_item_from_row_fst[of ec d i] by fastforce
    with noop run i id show ?thesis by simp
  next
    assume fresh: "qi_state i = Yielding \<and> qi_segment i = yq_segment (rr_request r)
      \<and> qi_yield_request_id i = Some rid \<and> finalize_continuation ec w files r cr i rid actor t d = Inr ((j, s), d')"
    then obtain spec label commit previous names where
      previous: "previous_ready_progress ec w (qi_id i) (qi_segment i) d = Inr previous"
      and valid: "validate_ready_continuation (ec_sha256 ec) files (cr_receipt cr) (rr_request r) spec label commit
        (ci_run_id (yq_continuation (rr_request r))) (ci_prior_receipt_sha256 (yq_continuation (rr_request r)))
        (artifact_root_paths d (qi_project_id i) (qi_revision_id i)) names previous = Inr ()"
      and step: "requeue_item ec i rid (cr_sha256 cr) (yq_segment (rr_request r) + 1) actor t d = Inr ((j, s), d')"
      using finalizeD[of ec w files r cr i rid actor t d] by blast
    note row = requeue_item_row[OF step inv i[folded id]]
    have j: "qi_id j = qi_id i" using row by (simp add: requeued_item_def)
    have tables: "db_yield_requests d' = db_yield_requests d" "db_yield_receipts d' = db_yield_receipts d"
      using requeue_item_effect[OF step] by auto
    have "requeue_ready_continuation ec w files rid actor t d' = Inr ((j, s), d')"
    proof (rule requeue_again)
      show "find_yield_request d' rid = Some q" "find_yield_receipt d' rid = Some c"
        using q c by (simp_all add: find_yield_request_def find_yield_receipt_def tables)
      show "yield_receipt_from_row ec w d' c = Inr cr"
        using c receipt_from_row_cong[OF tables(1)] by simp
      show "find_item (db_items d') (yq_item_id (rr_request r)) = Some j" using row id by simp
      show "qi_state j = Queued" "qi_segment j = yq_segment (rr_request r) + 1"
        using row by (simp_all add: requeued_item_def)
    qed (use run q row in auto)
    moreover have "\<exists>p. yt_progress (cr_receipt cr) = Some p \<and> yp_completed before \<le> yp_completed p"
      if "previous = Some before" for before
      using validated_progress[OF valid[unfolded that]] by blast
    ultimately show ?thesis using row fresh i id previous c j by auto
  qed
qed

section \<open>A continuation returned to the queue\<close>

text \<open>Fixed texts stand for the two wire documents, and one checkpoint file is present on the host.\<close>

definition ex_wire :: wire where
  "ex_wire = \<lparr>wi_parse = (\<lambda>s. if s = ''request'' then Some (request_to_document ex_yield_request)
       else if s = ''receipt'' then Some (receipt_to_document ex_yield_receipt) else None),
     wi_encode = (\<lambda>j. if json_get ''status'' j = None then ''request'' else ''receipt''),
     wi_canonical = (\<lambda>j. ''canonical'')\<rparr>"

definition ex_files :: host_files where
  "ex_files = \<lparr>hf_resolve = Some, hf_directory = (\<lambda>p. p = ''/data/outputs''),
     hf_hash = (\<lambda>p. if p = ''/data/outputs/w.bin'' then Some (p, 5, ex_sha) else None)\<rparr>"

definition ex_yield_snapshot :: admission_snapshot where
  "ex_yield_snapshot = ex_snapshot\<lparr>as_resolved_document := JObj [(''job'', JObj [(''capabilities'',
     JObj [(''cooperativeYield'', JObj [(''checkpointArtifacts'', JList [JStr ''weights''])])])])]\<rparr>"

definition ex_yielding :: queue_item where
  "ex_yielding = yielding_item ex_yield_request ((admitted_item 1 1 1 1 ''exp7'' 1 ex_yield_snapshot ex_time)
     \<lparr>qi_gpu_uuid := Some ''GPU-a'', qi_gpu_index := Some ''0'', qi_lease_held := True, qi_pid := Some 4242,
      qi_pgid := Some 4242, qi_start_ticks := Some ''99'', qi_started_at := Some ex_time\<rparr>)"

definition ex_yield_db :: db where
  "ex_yield_db = (ex_db [ex_yielding])\<lparr>
     db_snapshots := [snapshot_row_of 1 1 1 (ex_admission\<lparr>ga_snapshot := ex_yield_snapshot\<rparr>) ex_time],
     db_mounts := [\<lparr>m_project_id = 1, m_revision_id = 1, m_name = ''outputs'', m_path = ''/data/outputs'',
       m_declared_access = Read_write, m_access = Read_write, m_required = True,
       m_checkout_descendant = False, m_git_ignored = False\<rparr>],
     db_roots := [\<lparr>ar_project_id = 1, ar_revision_id = 1, ar_mount_name = ''outputs''\<rparr>],
     db_yield_requests := [request_row_of ex_checks ex_yield_request ''request'' 1 1],
     db_yield_receipts := [receipt_row_of ex_checks ex_wire ex_yield_receipt ''receipt'' ex_sha 1 1]\<rparr>"

lemma ex_yield_inv: "system_inv ex_yield_db"
  by code_simp

lemma ex_checks_digest: "ec_sha256 ex_checks = ex_digest"
  by (simp add: fun_eq_iff ex_checks_def ex_sha256_def ex_digest_def)

definition ex_stored_request :: request_record where
  "ex_stored_request = \<lparr>rr_request = ex_yield_request, rr_source = ''request'', rr_sha256 = ex_sha,
     rr_project_id = 1, rr_revision_id = 1\<rparr>"

definition ex_stored_receipt :: receipt_record where
  "ex_stored_receipt = \<lparr>cr_receipt = ex_yield_receipt, cr_source = ''receipt'', cr_sha256 = ex_sha,
     cr_project_id = 1, cr_revision_id = 1\<rparr>"

lemma ex_yield_request_ok: "request_ok ex_digest ex_yield_request"
proof -
  have "text_ok 256 ''operator''" "text_ok 1000 ''make room''" by code_simp+
  with ex_continuation_ok ex_texts_ok show ?thesis
    by (simp add: request_ok_def ex_yield_request_def wire_text_def wire_integer_def)
qed

lemma ex_yield_receipt_reads:
  "receipt_from_document ex_digest (receipt_to_document ex_yield_receipt) = Inr ex_yield_receipt"
  using ex_yield_receipt_ok by (rule receipt_round_trip) (simp add: ex_yield_receipt_def ready_receipt_def
      resume_from_bytes_def)

lemma ex_wire_documents:
  "decode_wire_protocol ex_wire ''request'' = Inr (request_to_document ex_yield_request)"
  "decode_wire_protocol ex_wire ''receipt'' = Inr (receipt_to_document ex_yield_receipt)"
  by (simp_all add: decode_wire_protocol_def ex_wire_def request_to_document_def receipt_to_document_def
      ex_yield_receipt_def ready_receipt_def json_get_def document_identity_def)

lemma ex_request_stored:
  "yield_request_from_row ex_checks ex_wire (request_row_of ex_checks ex_yield_request ''request'' 1 1)
     = Inr ex_stored_request"
  using request_round_trip[OF ex_yield_request_ok]
  by (simp add: yield_request_from_row_def request_row_of_def Let_def ex_wire_documents ex_checks_digest
      read_request_def reraise_def ex_stored_request_def ex_digest_def)

lemma ex_yield_rows:
  "find_yield_request ex_yield_db ''req-1'' = Some (request_row_of ex_checks ex_yield_request ''request'' 1 1)"
  "find_yield_receipt ex_yield_db ''req-1''
     = Some (receipt_row_of ex_checks ex_wire ex_yield_receipt ''receipt'' ex_sha 1 1)"
  by (simp_all add: find_yield_request_def find_yield_receipt_def ex_yield_db_def request_row_of_def
      receipt_row_of_def Let_def ex_yield_request_def ex_yield_receipt_def ready_receipt_def)

lemma ex_receipt_stored:
  "yield_receipt_from_row ex_checks ex_wire ex_yield_db
     (receipt_row_of ex_checks ex_wire ex_yield_receipt ''receipt'' ex_sha 1 1) = Inr ex_stored_receipt"
proof -
  have "read_receipt ex_checks ex_wire ''receipt'' = Inr ex_yield_receipt"
    by (simp add: read_receipt_def ex_wire_documents reraise_def ex_checks_digest ex_yield_receipt_reads)
  moreover have "yt_request_id ex_yield_receipt = ''req-1''"
    "validate_receipt_for_request ex_yield_receipt ex_yield_request None = Inr ()"
    "ci_identity_sha256 (yq_continuation ex_yield_request) = ex_sha"
    by (simp_all add: ex_yield_receipt_def ready_receipt_def ex_yield_request_def ex_continuation_def
        validate_receipt_for_request_def)
  ultimately show ?thesis
    using ex_yield_rows(1) ex_request_stored
    by (simp add: yield_receipt_from_row_def receipt_row_of_def Let_def ex_stored_receipt_def ex_stored_request_def
        reraise_def ex_checks_digest ex_digest_def)
qed

lemma ex_continuation_valid:
  "validate_ready_continuation ex_digest ex_files ex_yield_receipt ex_yield_request ex_sha ''alpha:r1'' ex_commit
     ''run-1'' ex_sha [''/data/outputs''] [''weights''] None = Inr ()"
proof -
  have "create_continuation ex_digest ex_sha ''alpha:r1'' ex_commit ''run-1'' ex_sha = Inr ex_continuation"
    using ex_continuation_ok by (simp add: create_continuation_def Let_def computed_digest_def ex_digest_def
        ex_continuation_def)
  moreover have "list_all token_ok [''weights'']"
    "verify_checkpoint_artifacts ex_files [ex_artifact] [''/data/outputs''] = Inr ()" by code_simp+
  ultimately show ?thesis
    by (simp add: validate_ready_continuation_def validate_receipt_for_request_def ex_yield_receipt_def
        ready_receipt_def ex_yield_request_def validate_continuation_identity_def ex_artifact_def)
qed

lemma ex_yield_item:
  "queue_item_from_row ex_checks ex_yield_db ex_yielding = Inr (ex_yielding, Some ex_yield_snapshot)"
  "checkpoint_names ex_yield_snapshot = Inr [''weights'']"
  "find_item (db_items ex_yield_db) 1 = Some ex_yielding"
  "artifact_root_paths ex_yield_db 1 1 = [''/data/outputs'']"
  "previous_ready_progress ex_checks ex_wire 1 1 ex_yield_db = Inr None"
  by code_simp+

lemma ex_requeue_item:
  "succeeds (requeue_item ex_checks ex_yielding ''req-1'' ex_sha 2 ''scheduler'' ex_time ex_yield_db) (\<lambda>w. True)"
  by code_simp

lemma ex_revision_view:
  "\<exists>v. load_revision (ec_verify ex_checks) ex_yield_db 1 = Inr v \<and> pv_label v = ''alpha:r1''
     \<and> pv_git_commit v = ex_commit"
proof -
  have "(case load_revision (ec_verify ex_checks) ex_yield_db 1 of Inl e \<Rightarrow> False
    | Inr v \<Rightarrow> pv_label v = ''alpha:r1'' \<and> pv_git_commit v = ex_commit)" by code_simp
  then show ?thesis by (auto split: sum.splits)
qed

lemma ex_yielding_fields:
  "qi_id ex_yielding = 1" "qi_segment ex_yielding = 1" "qi_project_id ex_yielding = 1"
  "qi_revision_id ex_yielding = 1" "qi_state ex_yielding = Yielding" "qi_yield_request_id ex_yielding = Some ''req-1''"
  "as_resolved_sha256 ex_yield_snapshot = ex_sha"
  by code_simp+

lemma ex_requeue:
  "requeue_ready_continuation ex_checks ex_wire ex_files ''req-1'' ''scheduler'' ex_time ex_yield_db
     = requeue_item ex_checks ex_yielding ''req-1'' ex_sha 2 ''scheduler'' ex_time ex_yield_db"
proof -
  have args: "text_ok 256 ''req-1''" "text_ok 256 ''scheduler''" "repo_timestamp_ok ex_time" by code_simp+
  have parts: "rr_request ex_stored_request = ex_yield_request" "cr_receipt ex_stored_receipt = ex_yield_receipt"
    "cr_sha256 ex_stored_receipt = ex_sha" "yq_item_id ex_yield_request = 1" "yq_segment ex_yield_request = 1"
    "yq_continuation ex_yield_request = ex_continuation" "ci_run_id ex_continuation = ''run-1''"
    "ci_prior_receipt_sha256 ex_continuation = ex_sha"
    by (simp_all add: ex_stored_request_def ex_stored_receipt_def ex_yield_request_def ex_continuation_def)
  have "finalize_continuation ex_checks ex_wire ex_files ex_stored_request ex_stored_receipt ex_yielding ''req-1''
      ''scheduler'' ex_time ex_yield_db
    = requeue_item ex_checks ex_yielding ''req-1'' ex_sha 2 ''scheduler'' ex_time ex_yield_db"
    using ex_revision_view ex_continuation_valid
    by (auto simp: finalize_continuation_def Let_def ex_yield_item ex_yielding_fields parts ex_checks_digest reraise_def)
  then show ?thesis
    by (simp add: requeue_ready_continuation_def args parts ex_yield_rows ex_request_stored ex_receipt_stored
        ex_yield_item(3) ex_yielding_fields)
qed

theorem requeue_compare_and_set_witness:
  "\<exists>j s d'. requeue_ready_continuation ex_checks ex_wire ex_files ''req-1'' ''scheduler'' ex_time ex_yield_db
       = Inr ((j, s), d')
     \<and> requeue_ready_continuation ex_checks ex_wire ex_files ''req-1'' ''scheduler'' ex_time d' = Inr ((j, s), d')
     \<and> qi_state j = Queued \<and> qi_segment j = 2 \<and> Some ''GPU-a'' \<notin> set (leased (db_items d'))"
proof -
  obtain j s d' where run: "requeue_ready_continuation ex_checks ex_wire ex_files ''req-1'' ''scheduler'' ex_time
      ex_yield_db = Inr ((j, s), d')"
    using succeedsD[OF ex_requeue_item] by (auto simp: ex_requeue)
  from requeue_compare_and_set[OF run ex_yield_inv]
  obtain i where again: "requeue_ready_continuation ex_checks ex_wire ex_files ''req-1'' ''scheduler'' ex_time d'
      = Inr ((j, s), d')" and i: "find_item (db_items ex_yield_db) (qi_id j) = Some i"
    and outcome: "qi_state i = Queued \<or> j = requeued_item (qi_segment i + 1) ex_time i
      \<and> qi_gpu_uuid i \<notin> set (leased (db_items d'))"
    by blast
  have "i \<in> set (db_items ex_yield_db)" using item_table.lookup_SomeD[OF i] by simp
  then have "i = ex_yielding" by (simp add: ex_yield_db_def ex_db_def)
  moreover have "qi_gpu_uuid ex_yielding = Some ''GPU-a''" by code_simp
  ultimately show ?thesis using run again outcome ex_yielding_fields
    by (intro exI[of _ j] exI[of _ s] exI[of _ d']) (auto simp: requeued_item_def)
qed

section \<open>One request per segment\<close>

definition one_request_per_segment :: "db \<Rightarrow> bool" where
  "one_request_per_segment d = distinct (map (\<lambda>r. (yr_item_id r, yr_segment r)) (db_yield_requests d))"

lemma request_row_of_fields [simp]:
  "yr_request_id (request_row_of ec q source p v) = yq_request_id q"
  "yr_item_id (request_row_of ec q source p v) = yq_item_id q"
  "yr_segment (request_row_of ec q source p v) = yq_segment q"
  "yr_source (request_row_of ec q source p v) = source"
  by (simp_all add: request_row_of_def Let_def)

lemma find_yield_request_SomeD:
  "find_yield_request d rid = Some row \<Longrightarrow> row \<in> set (db_yield_requests d) \<and> yr_request_id row = rid"
  by (auto simp: find_yield_request_def find_Some_iff)

lemma yield_request_from_rowD:
  "yield_request_from_row ec w row = Inr r \<Longrightarrow> yr_item_id row = yq_item_id (rr_request r)
     \<and> yr_segment row = yq_segment (rr_request r) \<and> yr_request_id row = yq_request_id (rr_request r)
     \<and> rr_source r = yr_source row"
  by (auto simp: yield_request_from_row_def) (metis request_row_of_fields)+

text \<open>What a request that was not stored before writes.\<close>

lemma new_yield_request_effect:
  assumes run: "new_yield_request ec w q source d = Inr (r, d')" and inv: "system_inv d"
  shows "\<exists>i event. find_item (db_items d) (yq_item_id q) = Some i \<and> qi_state i = Running \<and> qi_preemptible i
    \<and> qi_segment i = yq_segment q
    \<and> insert_yield_request V5RepositoryError (request_row_of ec q source (qi_project_id i) (qi_revision_id i)) d
        = Inr (d\<lparr>db_yield_requests := db_yield_requests d
            @ [request_row_of ec q source (qi_project_id i) (qi_revision_id i)]\<rparr>)
    \<and> d' = d\<lparr>db_yield_requests := db_yield_requests d
            @ [request_row_of ec q source (qi_project_id i) (qi_revision_id i)],
        db_items := update_rows (\<lambda>k. qi_id k = qi_id i \<and> (qi_state k = Running \<and> qi_segment k = yq_segment q))
          (yielding_item q) (db_items d), db_events := db_events d @ [event]\<rparr>
    \<and> (\<exists>stored. find_yield_request d' (yq_request_id q) = Some stored \<and> yield_request_from_row ec w stored = Inr r)"
proof -
  obtain i item snapshot where i: "find_item (db_items d) (yq_item_id q) = Some i"
    "queue_item_from_row ec d i = Inr (item, snapshot)"
    using run by (auto simp: new_yield_request_def)
  have "item = i" using queue_item_from_row_fst[OF i(2)] by simp
  with run i show ?thesis
    by (auto simp: new_yield_request_def Let_def update_items_eq_Inr repo_event_eq_Inr insert_yield_request_def
        split: if_splits)
qed

lemma yield_request_refused:
  assumes one: "one_request_per_segment d" and row: "row \<in> set (db_yield_requests d)"
    and same: "yr_item_id row = yq_item_id q" "yr_segment row = yq_segment q" "yr_request_id row \<noteq> yq_request_id q"
    and inv: "system_inv d"
  shows "record_yield_request ec w q source d \<noteq> Inr v"
proof
  assume run: "record_yield_request ec w q source d = Inr v"
  show False
  proof (cases "find_yield_request d (yq_request_id q)")
    case None
    with run obtain r d' where "new_yield_request ec w q source d = Inr (r, d')"
      by (cases v) (auto simp: record_yield_request_def)
    then obtain i where "(yq_item_id q, yq_segment q) \<notin> set (map (\<lambda>q. (yr_item_id q, yr_segment q)) (db_yield_requests d))"
      using new_yield_request_effect[OF _ inv] by (fastforce simp: insert_yield_request_def split: if_splits)
    with row same show False by (metis (mono_tags, lifting) imageI list.set_map)
  next
    case (Some other)
    with run obtain r where r: "yield_request_from_row ec w other = Inr r" "rr_request r = q"
      by (auto simp: record_yield_request_def)
    have "other = row"
      using one row find_yield_request_SomeD[OF Some] yield_request_from_rowD[OF r(1)] r(2) same(1,2)
      by (auto simp: one_request_per_segment_def distinct_map inj_on_def)
    with find_yield_request_SomeD[OF Some] same(3) show False by simp
  qed
qed

lemma find_appended:
  "find_yield_request d k = None \<Longrightarrow> yr_request_id r = k \<Longrightarrow> db_yield_requests d' = db_yield_requests d @ [r]
     \<Longrightarrow> find_yield_request d' k = Some r"
  by (induction "db_yield_requests d" arbitrary: d d') (auto simp: find_yield_request_def find_None_iff find_Some_iff nth_append)

lemma record_yield_request_new:
  assumes run: "new_yield_request ec w q source d = Inr (r, d')" and inv: "system_inv d"
    and fresh: "find_yield_request d (yq_request_id q) = None"
  shows "\<exists>i. find_item (db_items d) (yq_item_id q) = Some i \<and> qi_state i = Running \<and> qi_preemptible i
    \<and> find_item (db_items d') (yq_item_id q) = Some (yielding_item q i)
    \<and> (\<forall>k. k \<noteq> yq_item_id q \<longrightarrow> find_item (db_items d') k = find_item (db_items d) k)
    \<and> db_yield_requests d' = db_yield_requests d @ [request_row_of ec q source (qi_project_id i) (qi_revision_id i)]
    \<and> (yq_item_id q, yq_segment q) \<notin> set (map (\<lambda>q. (yr_item_id q, yr_segment q)) (db_yield_requests d))
    \<and> find_yield_request d' (yq_request_id q) = Some (request_row_of ec q source (qi_project_id i) (qi_revision_id i))
    \<and> yield_request_from_row ec w (request_row_of ec q source (qi_project_id i) (qi_revision_id i)) = Inr r"
proof -
  obtain i event stored where i: "find_item (db_items d) (yq_item_id q) = Some i" "qi_state i = Running" "qi_preemptible i"
      "qi_segment i = yq_segment q"
    and inserted: "insert_yield_request V5RepositoryError
        (request_row_of ec q source (qi_project_id i) (qi_revision_id i)) d
      = Inr (d\<lparr>db_yield_requests := db_yield_requests d
            @ [request_row_of ec q source (qi_project_id i) (qi_revision_id i)]\<rparr>)"
    and d': "d' = d\<lparr>db_yield_requests := db_yield_requests d
            @ [request_row_of ec q source (qi_project_id i) (qi_revision_id i)],
        db_items := update_rows (\<lambda>k. qi_id k = qi_id i \<and> (qi_state k = Running \<and> qi_segment k = yq_segment q))
          (yielding_item q) (db_items d), db_events := db_events d @ [event]\<rparr>"
    and stored: "find_yield_request d' (yq_request_id q) = Some stored" "yield_request_from_row ec w stored = Inr r"
    using new_yield_request_effect[OF run inv] by blast
  have id: "qi_id i = yq_item_id q" using item_table.lookup_SomeD[OF i(1)] by simp
  have key: "\<And>j. qi_id (yielding_item q j) = qi_id j" by (simp add: yielding_item_def)
  have "find_item (db_items d') (yq_item_id q) = Some (yielding_item q i)"
    using update_one_found[where Q = "\<lambda>k. qi_state k = Running \<and> qi_segment k = yq_segment q", OF i(1) _ key] i
    by (simp add: d' id)
  moreover have "find_item (db_items d') k = find_item (db_items d) k" if "k \<noteq> yq_item_id q" for k
    using update_one_others[where Q = "\<lambda>k. qi_state k = Running \<and> qi_segment k = yq_segment q", OF that key]
    by (simp add: d' id)
  moreover have "find_yield_request d' (yq_request_id q)
      = Some (request_row_of ec q source (qi_project_id i) (qi_revision_id i))"
    using fresh by (rule find_appended) (simp_all add: d')
  moreover have "db_yield_requests d'
      = db_yield_requests d @ [request_row_of ec q source (qi_project_id i) (qi_revision_id i)]" by (simp add: d')
  ultimately show ?thesis using i stored inserted by (auto simp: insert_yield_request_def split: if_splits)
qed

lemma record_yield_request_again:
  assumes "read_request ec w source = Inr q" and "find_yield_request d (yq_request_id q) = Some row"
    and "yield_request_from_row ec w row = Inr r" and "rr_request r = q" and "yr_source row = source"
  shows "record_yield_request ec w q source d = Inr (r, d)"
  using assms yield_request_from_rowD[OF assms(3)] by (auto simp: record_yield_request_def)

text \<open>
  (C12) A segment has at most one yield request: recording one moves exactly its running, preemptible item to
  yielding with the request stored for that segment, keeps requests unique, and is repeatable; any other
  request for the same item and segment is refused from then on.
\<close>

theorem one_yield_request_per_segment:
  assumes run: "record_yield_request ec w q source d = Inr (r, d')" and inv: "system_inv d"
    and one: "one_request_per_segment d"
  shows "one_request_per_segment d' \<and> record_yield_request ec w q source d' = Inr (r, d')
    \<and> (\<forall>p s v. yq_item_id p = yq_item_id q \<and> yq_segment p = yq_segment q \<and> yq_request_id p \<noteq> yq_request_id q
         \<longrightarrow> record_yield_request ec w p s d' \<noteq> Inr v)
    \<and> (d' = d \<or> (\<exists>i. find_item (db_items d) (yq_item_id q) = Some i \<and> qi_state i = Running \<and> qi_preemptible i
         \<and> find_item (db_items d') (yq_item_id q) = Some (yielding_item q i)
         \<and> (\<forall>k. k \<noteq> yq_item_id q \<longrightarrow> find_item (db_items d') k = find_item (db_items d) k)
         \<and> db_yield_requests d' = db_yield_requests d
             @ [request_row_of ec q source (qi_project_id i) (qi_revision_id i)]))"
proof (cases "find_yield_request d (yq_request_id q)")
  case (Some row)
  with run have same: "d' = d" and r: "yield_request_from_row ec w row = Inr r" "rr_request r = q"
    by (auto simp: record_yield_request_def)
  note row = find_yield_request_SomeD[OF Some] yield_request_from_rowD[OF r(1), unfolded r(2)]
  have "record_yield_request ec w p s d' \<noteq> Inr v"
    if "yq_item_id p = yq_item_id q" "yq_segment p = yq_segment q" "yq_request_id p \<noteq> yq_request_id q" for p s v
    unfolding same using yield_request_refused[OF one, of row p ec w s v] row that inv by simp
  then show ?thesis using run one same by blast
next
  case None
  with run have new: "new_yield_request ec w q source d = Inr (r, d')" and parsed: "read_request ec w source = Inr q"
    by (auto simp: record_yield_request_def)
  obtain i where i: "find_item (db_items d) (yq_item_id q) = Some i" "qi_state i = Running" "qi_preemptible i"
      "find_item (db_items d') (yq_item_id q) = Some (yielding_item q i)"
      "\<forall>k. k \<noteq> yq_item_id q \<longrightarrow> find_item (db_items d') k = find_item (db_items d) k"
    and table: "db_yield_requests d'
      = db_yield_requests d @ [request_row_of ec q source (qi_project_id i) (qi_revision_id i)]"
    and unused: "(yq_item_id q, yq_segment q) \<notin> set (map (\<lambda>q. (yr_item_id q, yr_segment q)) (db_yield_requests d))"
    and stored: "find_yield_request d' (yq_request_id q)
      = Some (request_row_of ec q source (qi_project_id i) (qi_revision_id i))"
      "yield_request_from_row ec w (request_row_of ec q source (qi_project_id i) (qi_revision_id i)) = Inr r"
    using record_yield_request_new[OF new inv None] by blast
  have one': "one_request_per_segment d'" using one unused by (simp add: one_request_per_segment_def table)
  have "rr_request r = q" using stored(2) parsed by (auto simp: yield_request_from_row_def)
  note again = record_yield_request_again[OF parsed stored this] 
  have "record_yield_request ec w p s d' \<noteq> Inr v"
    if "yq_item_id p = yq_item_id q" "yq_segment p = yq_segment q" "yq_request_id p \<noteq> yq_request_id q" for p s v
    using that by (intro yield_request_refused[OF one', of "request_row_of ec q source (qi_project_id i) (qi_revision_id i)"]
        yield_requesting.keeps_inv[OF run inv]) (simp_all add: table)
  then show ?thesis using i table one' again by simp
qed

text \<open>The running attempt, before anyone asked it to yield.\<close>

definition ex_attempt_db :: db where
  "ex_attempt_db = ex_yield_db\<lparr>db_items := [(admitted_item 1 1 1 1 ''exp7'' 1 ex_yield_snapshot ex_time)
     \<lparr>qi_state := Running, qi_gpu_uuid := Some ''GPU-a'', qi_gpu_index := Some ''0'', qi_lease_held := True,
      qi_pid := Some 4242, qi_pgid := Some 4242, qi_start_ticks := Some ''99'', qi_started_at := Some ex_time\<rparr>],
     db_yield_requests := [], db_yield_receipts := []\<rparr>"

lemma ex_attempt_inv: "system_inv ex_attempt_db" "one_request_per_segment ex_attempt_db"
  by code_simp+

definition ex_event :: json where
  "ex_event = JObj [(''requestId'', JStr ''req-1''), (''segment'', JInt 1),
     (''requestKind'', JStr (request_kind_name Manual_preemption)), (''requestSha256'', JStr ex_sha)]"

lemma case_InrD: "(case m of Inl e \<Rightarrow> False | Inr v \<Rightarrow> P v) \<Longrightarrow> \<exists>v. m = Inr v \<and> P v"
  by (cases m) auto

lemma ex_request_writes:
  "case insert_yield_request V5RepositoryError (request_row_of ex_checks ex_yield_request ''request'' 1 1)
       ex_attempt_db of Inl e \<Rightarrow> False
   | Inr d1 \<Rightarrow> (case update_items V5RepositoryError
         (\<lambda>i. qi_id i = 1 \<and> (qi_state i = Running \<and> qi_segment i = 1)) (yielding_item ex_yield_request) d1 of
       Inl e \<Rightarrow> False
     | Inr (n, d2) \<Rightarrow> n = 1 \<and> (case repo_event ex_time ''operator'' ''cooperative_yield_requested'' Scope_project
           (Some 1) (Some 1) ex_event d2 of
         Inl e \<Rightarrow> False
       | Inr d3 \<Rightarrow> find_yield_request d3 ''req-1''
           = Some (request_row_of ex_checks ex_yield_request ''request'' 1 1)))"
  by code_simp

lemma ex_attempt_item:
  "find_item (db_items ex_attempt_db) 1 = Some (hd (db_items ex_attempt_db))"
  "queue_item_from_row ex_checks ex_attempt_db (hd (db_items ex_attempt_db))
     = Inr (hd (db_items ex_attempt_db), Some ex_yield_snapshot)"
  "find_yield_request ex_attempt_db ''req-1'' = None"
  by code_simp+

lemma ex_attempt_fields:
  "qi_admission_kind (hd (db_items ex_attempt_db)) = Experiment_card" "qi_segment (hd (db_items ex_attempt_db)) = 1"
  "qi_state (hd (db_items ex_attempt_db)) = Running" "qi_preemptible (hd (db_items ex_attempt_db))"
  "qi_git_commit (hd (db_items ex_attempt_db)) = ex_commit" "qi_project_id (hd (db_items ex_attempt_db)) = 1"
  "qi_revision_id (hd (db_items ex_attempt_db)) = 1" "qi_id (hd (db_items ex_attempt_db)) = 1"
  "as_resolved_sha256 ex_yield_snapshot = ex_sha" "as_project_revision ex_yield_snapshot = ''alpha:r1''"
  by code_simp+

lemma ex_request_recorded:
  "\<exists>d'. record_yield_request ex_checks ex_wire ex_yield_request ''request'' ex_attempt_db = Inr (ex_stored_request, d')"
proof -
  have parsed: "read_request ex_checks ex_wire ''request'' = Inr ex_yield_request"
    using request_round_trip[OF ex_yield_request_ok]
    by (simp add: read_request_def ex_wire_documents reraise_def ex_checks_digest)
  have parts: "yq_request_id ex_yield_request = ''req-1''" "yq_item_id ex_yield_request = 1"
    "yq_segment ex_yield_request = 1" "yq_continuation ex_yield_request = ex_continuation"
    "ci_resolved_spec_sha256 ex_continuation = ex_sha" "ci_project_revision ex_continuation = ''alpha:r1''"
    "ci_git_commit ex_continuation = ex_commit" "yq_requested_at ex_yield_request = ex_time"
    "yq_requested_by ex_yield_request = ''operator''" "yq_kind ex_yield_request = Manual_preemption"
    "ec_sha256 ex_checks ''request'' = ex_sha"
    by (simp_all add: ex_yield_request_def ex_continuation_def ex_checks_digest ex_digest_def)
  obtain d1 d2 d3 where
    "insert_yield_request V5RepositoryError (request_row_of ex_checks ex_yield_request ''request'' 1 1) ex_attempt_db
       = Inr d1"
    "update_items V5RepositoryError (\<lambda>i. qi_id i = 1 \<and> (qi_state i = Running \<and> qi_segment i = 1))
       (yielding_item ex_yield_request) d1 = Inr (1, d2)"
    "repo_event ex_time ''operator'' ''cooperative_yield_requested'' Scope_project (Some 1) (Some 1) ex_event d2 = Inr d3"
    "find_yield_request d3 ''req-1'' = Some (request_row_of ex_checks ex_yield_request ''request'' 1 1)"
    using ex_request_writes[THEN case_InrD] by (elim exE conjE) (drule case_InrD, auto dest!: case_InrD)
  then show ?thesis
    using ex_attempt_item ex_request_stored
    by (auto simp: record_yield_request_def new_yield_request_def parsed parts ex_attempt_fields ex_event_def)
qed

theorem one_yield_request_per_segment_witness:
  "\<exists>d'. record_yield_request ex_checks ex_wire ex_yield_request ''request'' ex_attempt_db
       = Inr (ex_stored_request, d')
     \<and> record_yield_request ex_checks ex_wire (ex_yield_request\<lparr>yq_request_id := ''req-2''\<rparr>) ''request'' d'
       \<noteq> Inr (ex_stored_request, d')"
proof -
  obtain d' where run: "record_yield_request ex_checks ex_wire ex_yield_request ''request'' ex_attempt_db
      = Inr (ex_stored_request, d')"
    using ex_request_recorded by blast
  have "yq_request_id ex_yield_request = ''req-1''" by (simp add: ex_yield_request_def)
  with one_yield_request_per_segment[OF run ex_attempt_inv] run show ?thesis by simp
qed

end
