(* ===== verification/Legacy_V0.thy ===== *)
theory Legacy_V0
  imports Yields_V5
begin

text \<open>
  The frozen v0 cooperative yield of imported items (\<open>legacy_continuation_v0.py\<close>): the readers of its
  request, receipt and runner documents, and the four transactions of its coordinator, which persist a
  request, take it back when it cannot be published, return a live attempt to running after a failed
  checkpoint, and requeue an attempt whose checkpoint was verified.

  \<open>file_view\<close> is what the host shows of the file system: existence without following a link, symbolic
  links, \<open>Path.resolve\<close> with and without \<open>strict\<close>, directories, the bytes of a readable regular file, and
  the size and digest of a regular file that did not change while it was hashed.
\<close>

abbreviation legacy_error :: "reason \<Rightarrow> error" where
  "legacy_error r \<equiv> (LegacyV0ContinuationError, r)"

record file_view =
  fv_exists :: "string \<Rightarrow> bool"
  fv_symlink :: "string \<Rightarrow> bool"
  fv_resolve :: "string \<Rightarrow> string option"
  fv_resolve_lax :: "string \<Rightarrow> string option"
  fv_directory :: "string \<Rightarrow> bool"
  fv_read :: "string \<Rightarrow> string option"
  fv_hash :: "string \<Rightarrow> (int \<times> string) option"

section \<open>Documents\<close>

definition legacy_text :: "nat \<Rightarrow> json \<Rightarrow> string result" where
  "legacy_text maximum j = (case j of
      JStr s \<Rightarrow> require (text_ok maximum s) (legacy_error Bad_text) (Inr s)
    | _ \<Rightarrow> Inl (legacy_error Bad_text))"

definition column_text :: "nat \<Rightarrow> string option \<Rightarrow> string result" where
  "column_text maximum v = fetch v (legacy_error Bad_text) (\<lambda>s.
     require (text_ok maximum s) (legacy_error Bad_text) (Inr s))"

definition legacy_timestamp :: "string \<Rightarrow> string result" where
  "legacy_timestamp s =
    require (text_ok 64 s) (legacy_error Bad_text)
    (require (aware_timestamp s) (legacy_error Bad_timestamp) (Inr s))"

text \<open>The request document and its text: \<open>json.dumps(document, indent=2, sort_keys=True)\<close> and a newline.\<close>

definition legacy_request_document ::
  "string \<Rightarrow> int \<Rightarrow> int \<Rightarrow> string \<Rightarrow> string \<Rightarrow> string \<Rightarrow> string \<Rightarrow> json" where
  "legacy_request_document request_id item_id segment gpu_uuid requested_at requested_by remark = JObj
    [(''schema_version'', JInt 1), (''request_kind'', JStr ''manual_preemption''),
     (''request_id'', JStr request_id), (''queue_item_id'', JInt item_id), (''segment'', JInt segment),
     (''gpu_uuid'', JStr gpu_uuid), (''requested_at'', JStr requested_at),
     (''requested_by'', JStr requested_by), (''note'', JStr remark)]"

definition hex_digit :: "nat \<Rightarrow> char" where
  "hex_digit n = ''0123456789abcdef'' ! n"

definition escape_char :: "char \<Rightarrow> string" where
  "escape_char c = (let n = ord c; bs = [char_of (92::nat)] in
     if n = 34 then bs @ [c] else if n = 92 then bs @ bs
     else if n = 10 then bs @ ''n'' else if n = 13 then bs @ ''r'' else if n = 9 then bs @ ''t''
     else if n = 8 then bs @ ''b'' else if n = 12 then bs @ ''f''
     else if 32 \<le> n \<and> n \<le> 126 then [c]
     else bs @ ''u00'' @ [hex_digit (n div 16), hex_digit (n mod 16)])"

definition quoted :: "string \<Rightarrow> string" where
  "quoted s = [char_of (34::nat)] @ concat (map escape_char s) @ [char_of (34::nat)]"

text \<open>The scalars of a request are integers and text.\<close>

fun dump_scalar :: "json \<Rightarrow> string" where
  "dump_scalar (JInt n) = str_int n"
| "dump_scalar (JStr s) = quoted s"
| "dump_scalar j = []"

definition v0_wire_bytes :: "json \<Rightarrow> string" where
  "v0_wire_bytes j = (case j of
      JObj kvs \<Rightarrow> [CHR ''{'', char_of (10::nat)]
        @ join_text [CHR '','', char_of (10::nat)]
            (map (\<lambda>(k, v). ''  '' @ quoted k @ '': '' @ dump_scalar v) (sort_key fst kvs))
        @ [char_of (10::nat), CHR ''}'', char_of (10::nat)]
    | _ \<Rightarrow> [])"

definition read_regular :: "file_view \<Rightarrow> string \<Rightarrow> string result" where
  "read_regular files path = fetch (fv_read files path) (legacy_error Row_missing) (\<lambda>source.
     require (int (length source) \<le> 8388608) (legacy_error Bad_payload)
    (require (source \<noteq> []) (legacy_error Bad_payload) (Inr source)))"

definition decode_document :: "wire \<Rightarrow> string \<Rightarrow> json result" where
  "decode_document w source = fetch (wi_parse w source) (legacy_error Bad_payload) (\<lambda>document.
     require (case document of JObj kvs \<Rightarrow> True | _ \<Rightarrow> False) (legacy_error Bad_payload) (Inr document))"

definition path_inside :: "string \<Rightarrow> string \<Rightarrow> bool" where
  "path_inside path parent = prefix (path_parts parent) (path_parts path)"

section \<open>The runner receipt\<close>

record runner_evidence =
  ru_run_id :: string
  ru_status :: string
  ru_return_code :: "int option"
  ru_run_directory :: string
  ru_manifest :: string
  ru_pull_command :: "string option"

definition runner_path :: "file_view \<Rightarrow> json option \<Rightarrow> string result" where
  "runner_path files v = (case v of
      Some (JStr s) \<Rightarrow> require (is_absolute s) (legacy_error Bad_argument)
        (fetch (fv_resolve_lax files s) (legacy_error Row_missing) Inr)
    | _ \<Rightarrow> Inl (legacy_error Bad_argument))"

text \<open>The return code a status requires.\<close>

definition runner_code :: "string \<Rightarrow> json \<Rightarrow> int option result" where
  "runner_code status j =
    (if status = ''running'' then require (j = JNull) (legacy_error Bad_integer) (Inr None)
     else (case j of
        JInt n \<Rightarrow>
          require (case map_of [(''succeeded'', 0), (''yielded'', 75), (''interrupted'', 130), (''launch_failed'', 2)] status of
              Some expected \<Rightarrow> n = expected | None \<Rightarrow> True) (legacy_error Bad_integer)
         (require (\<not> (status = ''failed'' \<and> n = 0)) (legacy_error Bad_integer) (Inr (Some n)))
      | _ \<Rightarrow> Inl (legacy_error Bad_integer)))"

definition runner_statuses :: "string list" where
  "runner_statuses = [''running'', ''succeeded'', ''failed'', ''yielded'', ''interrupted'', ''launch_failed'']"

definition runner_sync :: "json option \<Rightarrow> string option result" where
  "runner_sync v = (case v of
      Some JNull \<Rightarrow> Inr None
    | Some (JObj kvs) \<Rightarrow>
        require (set (map fst kvs) = {''type'', ''command''} \<and> map_of kvs ''type'' = Some (JStr ''rsync-pull''))
          (legacy_error Bad_payload)
       (fetch (map_of kvs ''command'') (legacy_error Bad_text) (\<lambda>c.
        and_then (legacy_text 16384 c) (\<lambda>s. Inr (Some s))))
    | _ \<Rightarrow> Inl (legacy_error Bad_payload))"

definition runner_paths ::
  "file_view \<Rightarrow> string list \<Rightarrow> json \<Rightarrow> (string \<times> string) result" where
  "runner_paths files roots document =
    and_then (runner_path files (json_get ''run_directory'' document)) (\<lambda>directory.
    require (list_ex (\<lambda>r. path_parts directory \<noteq> path_parts r \<and> path_inside directory r) roots)
      (legacy_error Not_allowed)
   (and_then (runner_path files (json_get ''manifest'' document)) (\<lambda>manifest.
    case json_get ''logs'' document of
      Some (JObj logs) \<Rightarrow>
        require (set (map fst logs) = {''stdout'', ''stderr''}) (legacy_error Bad_payload)
       (and_then (runner_path files (map_of logs ''stdout'')) (\<lambda>stdout.
        and_then (runner_path files (map_of logs ''stderr'')) (\<lambda>stderr.
        require (list_all (\<lambda>p. path_inside p directory) [manifest, stdout, stderr]) (legacy_error Not_allowed)
       (Inr (directory, manifest)))))
    | _ \<Rightarrow> Inl (legacy_error Bad_payload))))"

definition runner_receipt_fields :: "string list" where
  "runner_receipt_fields = [''apiVersion'', ''kind'', ''run_id'', ''queue_item_id'', ''segment'', ''status'',
     ''return_code'', ''run_directory'', ''manifest'', ''logs'', ''sync'', ''written_at'']"

definition runner_evidence_from_document ::
  "file_view \<Rightarrow> int \<Rightarrow> int \<Rightarrow> string list \<Rightarrow> json \<Rightarrow> runner_evidence result" where
  "runner_evidence_from_document files item_id segment roots document =
    require (set (json_keys document) = set runner_receipt_fields) (legacy_error Bad_payload)
   (require (list_all (\<lambda>(k, v). json_get k document = Some v) (document_identity (Runner_receipt_kind, 1)))
      (legacy_error Wrong_identity)
   (and_then (legacy_text 256 (the (json_get ''run_id'' document))) (\<lambda>run_id.
    require (json_get ''queue_item_id'' document = Some (JInt item_id)
        \<and> json_get ''segment'' document = Some (JInt segment)) (legacy_error Wrong_identity)
   (case json_get ''status'' document of
      Some (JStr status) \<Rightarrow>
        require (status \<in> set runner_statuses) (legacy_error Bad_payload)
       (and_then (runner_code status (the (json_get ''return_code'' document))) (\<lambda>code.
        and_then (runner_paths files roots document) (\<lambda>(directory, manifest).
        and_then (runner_sync (json_get ''sync'' document)) (\<lambda>pull.
        and_then (case json_get ''written_at'' document of
            Some (JStr t) \<Rightarrow> legacy_timestamp t | _ \<Rightarrow> Inl (legacy_error Bad_text)) (\<lambda>_.
        Inr \<lparr>ru_run_id = run_id, ru_status = status, ru_return_code = code, ru_run_directory = directory,
             ru_manifest = manifest, ru_pull_command = pull\<rparr>)))))
    | _ \<Rightarrow> Inl (legacy_error Bad_payload)))))"

definition runner_receipt_from_path ::
  "file_view \<Rightarrow> wire \<Rightarrow> string \<Rightarrow> int \<Rightarrow> int \<Rightarrow> string list \<Rightarrow> runner_evidence option result" where
  "runner_receipt_from_path files w path item_id segment roots =
    (if \<not> fv_exists files path then Inr None
     else and_then (read_regular files path) (\<lambda>source.
       and_then (decode_document w source) (\<lambda>document.
       and_then (runner_evidence_from_document files item_id segment roots document) (\<lambda>r. Inr (Some r)))))"

section \<open>The yield receipt\<close>

text \<open>A persisted and published request; the identity the receipt has to match.\<close>

record legacy_pending =
  lp_project_id :: int
  lp_revision_id :: int
  lp_item_id :: int
  lp_segment :: int
  lp_gpu_uuid :: string
  lp_request_id :: string
  lp_requested_at :: string
  lp_requested_by :: string
  lp_note :: string
  lp_segment_root :: string
  lp_request_path :: string
  lp_receipt_path :: string
  lp_source :: string
  lp_run_id :: "string option"
  lp_run_directory :: "string option"
  lp_manifest :: "string option"
  lp_pull_command :: "string option"
  lp_roots :: "string list"

record legacy_progress =
  pg_unit :: string
  pg_completed :: int
  pg_total :: "int option"

definition progress_unit_ok :: "string \<Rightarrow> bool" where
  "progress_unit_ok s = (s \<noteq> [] \<and> length s \<le> 32 \<and> ascii_letter (hd s)
     \<and> list_all (\<lambda>c. ascii_alnum c \<or> c \<in> set ''_-'') (tl s))"

definition legacy_progress_total :: "int \<Rightarrow> json option \<Rightarrow> int option result" where
  "legacy_progress_total completed v = (case v of
      None \<Rightarrow> Inr None
    | Some (JInt n) \<Rightarrow> require (completed \<le> n) (legacy_error Bad_integer) (Inr (Some n))
    | Some _ \<Rightarrow> Inl (legacy_error Bad_integer))"

definition legacy_progress_of :: "json \<Rightarrow> legacy_progress option result" where
  "legacy_progress_of document = (case json_get ''progress'' document of
      None \<Rightarrow> Inr None
    | Some (JObj kvs) \<Rightarrow> (case (map_of kvs ''unit'', map_of kvs ''completed'') of
          (Some (JStr u), Some (JInt n)) \<Rightarrow>
            require (progress_unit_ok u) (legacy_error Bad_text)
           (require (0 \<le> n) (legacy_error Bad_integer)
           (and_then (legacy_progress_total n (map_of kvs ''total'')) (\<lambda>m.
            require (set (map fst kvs) \<subseteq> {''unit'', ''completed'', ''total''}) (legacy_error Bad_payload)
           (Inr (Some \<lparr>pg_unit = u, pg_completed = n, pg_total = m\<rparr>)))))
        | (Some (JStr u), _) \<Rightarrow> require (progress_unit_ok u) (legacy_error Bad_text) (Inl (legacy_error Bad_integer))
        | _ \<Rightarrow> Inl (legacy_error Bad_text))
    | Some _ \<Rightarrow> Inl (legacy_error Bad_payload))"

definition progress_payload :: "legacy_progress option \<Rightarrow> json" where
  "progress_payload p = (case p of None \<Rightarrow> JNull
    | Some g \<Rightarrow> JObj ([(''unit'', JStr (pg_unit g)), (''completed'', JInt (pg_completed g))]
        @ (case pg_total g of None \<Rightarrow> [] | Some n \<Rightarrow> [(''total'', JInt n)])))"

text \<open>\<open>f"{n:,}"\<close>, on the digits from the right.\<close>

fun grouped :: "string \<Rightarrow> string" where
  "grouped (a # b # c # d # ds) = a # b # c # CHR '','' # grouped (d # ds)"
| "grouped ds = ds"

definition thousands :: "int \<Rightarrow> string" where
  "thousands n = (if n < 0 then ''-'' else []) @ rev (grouped (rev (digits (nat \<bar>n\<bar>))))"

definition progress_text :: "int \<Rightarrow> legacy_progress option \<Rightarrow> string" where
  "progress_text step p = (case p of
      Some g \<Rightarrow> thousands (pg_completed g)
        @ (case pg_total g of None \<Rightarrow> [] | Some n \<Rightarrow> ''/'' @ thousands n) @ '' '' @ pg_unit g
    | None \<Rightarrow> ''step '' @ thousands step)"

text \<open>
  A decoded \<open>True\<close> or \<open>1.0\<close> equals the integer 1. A list or an object as status is not hashable, so the
  membership test itself raises.
\<close>

definition validate_receipt_identity :: "json \<Rightarrow> legacy_pending \<Rightarrow> receipt_status result" where
  "validate_receipt_identity document pending =
    require (case json_get ''schema_version'' document of Some v \<Rightarrow> json_scalar_eq v (JInt 1) | None \<Rightarrow> False)
      (legacy_error Wrong_identity)
   (and_then (case json_get ''status'' document of
        Some (JStr s) \<Rightarrow> if s = ''ready'' then Inr Ready else if s = ''failed'' then Inr Failed_receipt
          else Inl (legacy_error Bad_payload)
      | Some (JList _) \<Rightarrow> Inl (TypeError, Bad_payload)
      | Some (JObj _) \<Rightarrow> Inl (TypeError, Bad_payload)
      | _ \<Rightarrow> Inl (legacy_error Bad_payload)) (\<lambda>status.
    require (json_get ''request_id'' document = Some (JStr (lp_request_id pending))) (legacy_error Wrong_identity)
   (require (json_get ''queue_item_id'' document = Some (JInt (lp_item_id pending))) (legacy_error Wrong_identity)
   (Inr status))))"

definition validate_step :: "json \<Rightarrow> legacy_progress option \<Rightarrow> int result" where
  "validate_step document progress = (case json_get ''step'' document of
      Some (JInt n) \<Rightarrow> require (0 \<le> n \<and> (progress = None \<longrightarrow> 1 \<le> n)) (legacy_error Bad_integer) (Inr n)
    | _ \<Rightarrow> Inl (legacy_error Bad_integer))"

definition file_evidence ::
  "file_view \<Rightarrow> string list \<Rightarrow> json option \<Rightarrow> (string \<times> int \<times> string) result" where
  "file_evidence files roots v = (case v of
      Some (JStr s) \<Rightarrow>
        require (is_absolute s) (legacy_error Bad_argument)
       (require (\<not> fv_symlink files s) (legacy_error Not_allowed)
       (fetch (fv_resolve files s) (legacy_error Row_missing) (\<lambda>resolved.
        require (path_parts resolved = path_parts s) (legacy_error Not_allowed)
       (require (list_ex (path_inside resolved) roots) (legacy_error Not_allowed)
       (fetch (fv_hash files resolved) (legacy_error Row_missing) (\<lambda>(size, digest).
        Inr (resolved, size, digest)))))))
    | _ \<Rightarrow> Inl (legacy_error Bad_argument))"

record legacy_ready =
  lr_progress :: "legacy_progress option"
  lr_checkpoint :: string
  lr_checkpoint_sha256 :: string
  lr_metadata :: string
  lr_metadata_sha256 :: string
  lr_step :: int
  lr_wandb_id :: "string option"

definition fields_between :: "string list \<Rightarrow> string list \<Rightarrow> json \<Rightarrow> bool" where
  "fields_between needed optional document =
    (set needed \<subseteq> set (json_keys document) \<and> set (json_keys document) \<subseteq> set (needed @ optional))"

definition legacy_wandb :: "json option \<Rightarrow> string option result" where
  "legacy_wandb v = (case v of
      Some JNull \<Rightarrow> Inr None
    | Some (JObj kvs) \<Rightarrow> require (set (map fst kvs) = {''id''}) (legacy_error Bad_payload)
        (and_then (legacy_text 256 (the (map_of kvs ''id''))) (\<lambda>s. Inr (Some s)))
    | _ \<Rightarrow> Inl (legacy_error Bad_payload))"

definition receipt_roots :: "legacy_pending \<Rightarrow> string list" where
  "receipt_roots pending = (case lp_run_directory pending of Some r \<Rightarrow> [r] | None \<Rightarrow> lp_roots pending)"

definition ready_evidence :: "file_view \<Rightarrow> json \<Rightarrow> legacy_pending \<Rightarrow> legacy_ready result" where
  "ready_evidence files document pending =
    require (fields_between [''schema_version'', ''status'', ''request_id'', ''queue_item_id'', ''step'',
        ''checkpoint'', ''checkpoint_metadata'', ''checkpoint_bytes'', ''checkpoint_sha256'', ''wandb'']
        [''progress''] document) (legacy_error Bad_payload)
   (and_then (legacy_progress_of document) (\<lambda>progress.
    and_then (validate_step document progress) (\<lambda>step.
    and_then (file_evidence files (receipt_roots pending) (json_get ''checkpoint'' document))
      (\<lambda>(checkpoint, size, digest).
    and_then (file_evidence files (receipt_roots pending) (json_get ''checkpoint_metadata'' document))
      (\<lambda>(metadata, _, metadata_digest).
    require (case json_get ''checkpoint_bytes'' document of Some (JInt n) \<Rightarrow> 0 \<le> n \<and> n = size | _ \<Rightarrow> False)
      (legacy_error Wrong_identity)
   (require (case json_get ''checkpoint_sha256'' document of
        Some (JStr s) \<Rightarrow> sha256_text s \<and> s = digest | _ \<Rightarrow> False) (legacy_error Wrong_identity)
   (and_then (legacy_wandb (json_get ''wandb'' document)) (\<lambda>wandb.
    Inr \<lparr>lr_progress = progress, lr_checkpoint = checkpoint, lr_checkpoint_sha256 = digest,
         lr_metadata = metadata, lr_metadata_sha256 = metadata_digest, lr_step = step,
         lr_wandb_id = wandb\<rparr>))))))))"

definition failed_detail :: "json \<Rightarrow> (legacy_progress option \<times> int \<times> string) result" where
  "failed_detail document =
    require (fields_between [''schema_version'', ''status'', ''request_id'', ''queue_item_id'', ''step'', ''error'']
        [''progress''] document) (legacy_error Bad_payload)
   (and_then (legacy_progress_of document) (\<lambda>progress.
    and_then (validate_step document progress) (\<lambda>step.
    and_then (legacy_text 4096 (the (json_get ''error'' document))) (\<lambda>problem.
    Inr (progress, step, problem)))))"

definition read_legacy_receipt ::
  "file_view \<Rightarrow> wire \<Rightarrow> legacy_pending \<Rightarrow> (string \<times> json \<times> receipt_status) result" where
  "read_legacy_receipt files w pending =
    and_then (read_regular files (lp_receipt_path pending)) (\<lambda>source.
    and_then (decode_document w source) (\<lambda>document.
    and_then (validate_receipt_identity document pending) (\<lambda>status.
    Inr (source, document, status))))"

section \<open>Transactions\<close>

text \<open>
  \<open>_event\<close>: the payload is encoded before the row is inserted; the encoder raises its own error and the
  insert SQLite's, unless the caller wraps them.
\<close>

definition legacy_event ::
  "exn \<Rightarrow> exn \<Rightarrow> string \<Rightarrow> string \<Rightarrow> string \<Rightarrow> int \<Rightarrow> int \<Rightarrow> json \<Rightarrow> db \<Rightarrow> db result" where
  "legacy_event encoding_error database_error created_at actor event_type project_id item_id payload d =
    require (json_ok 0 payload) (encoding_error, Bad_payload)
    (insert_event database_error created_at actor event_type Scope_project (Some project_id) (Some item_id)
       payload d)"

definition coalesce :: "'a option \<Rightarrow> 'a option \<Rightarrow> 'a option" where
  "coalesce v w = (case v of Some x \<Rightarrow> Some x | None \<Rightarrow> w)"

definition legacy_yielding_item ::
  "string \<Rightarrow> string \<Rightarrow> string \<Rightarrow> string \<Rightarrow> runner_evidence option \<Rightarrow> queue_item \<Rightarrow> queue_item" where
  "legacy_yielding_item requested_at actor request_id remark runner i = i\<lparr>qi_state := Yielding,
     qi_yield_requested_at := Some requested_at, qi_yield_requested_by := Some actor,
     qi_yield_request_id := Some request_id, qi_yield_note := Some remark, qi_yield_duration_hours := None,
     qi_state_detail := Some (''checkpointing for manual preemption: '' @ remark),
     qi_runner_run_dir := coalesce (map_option ru_run_directory runner) (qi_runner_run_dir i),
     qi_runner_manifest_path := coalesce (map_option ru_manifest runner) (qi_runner_manifest_path i),
     qi_rsync_pull_command := coalesce (Option.bind runner ru_pull_command) (qi_rsync_pull_command i)\<rparr>"

text \<open>What the request transaction hands on: the GPU, the process to signal and the document.\<close>

record legacy_persisted =
  le_gpu_uuid :: string
  le_pid :: int
  le_pgid :: int
  le_start_ticks :: "string option"
  le_source :: string

definition persist_legacy_request ::
  "(string \<Rightarrow> string) \<Rightarrow> queue_item \<Rightarrow> runner_evidence option \<Rightarrow> string \<Rightarrow> string \<Rightarrow> string \<Rightarrow> string \<Rightarrow> db
    \<Rightarrow> (legacy_persisted \<times> db) result" where
  "persist_legacy_request sha item runner request_id remark actor requested_at d =
    fetch (find_item (db_items d) (qi_id item)) (legacy_error Row_missing) (\<lambda>row.
    require (qi_state row = Running \<and> qi_admission_kind row = Legacy_card \<and> qi_preemptible row
        \<and> qi_segment row = qi_segment item) (legacy_error Wrong_state)
   (and_then (column_text 256 (qi_gpu_uuid row)) (\<lambda>gpu_uuid.
    fetch (qi_pid row) (legacy_error Row_missing) (\<lambda>pid.
    fetch (qi_pgid row) (legacy_error Row_missing) (\<lambda>pgid.
    require (pid > 0) (legacy_error Bad_integer)
   (require (pgid > 0) (legacy_error Bad_integer)
   (let source = v0_wire_bytes (legacy_request_document request_id (qi_id item) (qi_segment item) gpu_uuid
          requested_at actor remark) in
    and_then (update_items LegacyV0ContinuationError
        (\<lambda>i. qi_id i = qi_id item \<and> (qi_state i = Running \<and> qi_segment i = qi_segment item))
        (legacy_yielding_item requested_at actor request_id remark runner) d) (\<lambda>(n, d1).
    require (n = 1) (legacy_error Lost_update)
   (and_then (legacy_event LegacyV0ContinuationError LegacyV0ContinuationError requested_at actor
        ''MANUAL_PREEMPTION_REQUESTED'' (qi_project_id item) (qi_id item)
        (JObj [(''request_id'', JStr request_id), (''gpu_uuid'', JStr gpu_uuid),
               (''segment'', JInt (qi_segment item)), (''reason'', JStr remark),
               (''protocol'', JStr ''CooperativeYieldRequest/v0''), (''request_sha256'', JStr (sha source))]) d1) (\<lambda>d2.
    Inr (\<lparr>le_gpu_uuid = gpu_uuid, le_pid = pid, le_pgid = pgid, le_start_ticks = qi_start_ticks row,
          le_source = source\<rparr>, d2)))))))))))"

text \<open>The attempt is running again and the request is forgotten.\<close>

definition resumed_item :: "string \<Rightarrow> queue_item \<Rightarrow> queue_item" where
  "resumed_item detail i = i\<lparr>qi_state := Running, qi_state_detail := Some detail,
     qi_yield_requested_at := None, qi_yield_requested_by := None, qi_yield_request_id := None,
     qi_yield_note := None, qi_yield_duration_hours := None\<rparr>"

text \<open>The guard of the compare-and-set: the attempt still yields for exactly this request.\<close>

definition yields_for :: "string \<Rightarrow> int \<Rightarrow> queue_item \<Rightarrow> bool" where
  "yields_for request_id segment i = (qi_state i = Yielding \<and> qi_segment i = segment
     \<and> qi_yield_request_id i = Some request_id)"

definition withdraw_legacy_request ::
  "queue_item \<Rightarrow> string \<Rightarrow> string \<Rightarrow> string \<Rightarrow> string \<Rightarrow> db \<Rightarrow> (bool \<times> db) result" where
  "withdraw_legacy_request item request_id problem actor changed_at d =
    and_then (update_items SqliteError
        (\<lambda>i. qi_id i = qi_id item \<and> yields_for request_id (qi_segment item) i)
        (resumed_item (''legacy manual preemption request could not be published: '' @ problem)) d) (\<lambda>(n, d1).
    and_then (legacy_event CanonicalJSONError SqliteError changed_at actor ''MANUAL_PREEMPTION_REQUEST_FAILED''
        (qi_project_id item) (qi_id item)
        (JObj [(''request_id'', JStr request_id), (''error'', JStr problem),
               (''item_state_restored'', JBool (n = 1))]) d1) (\<lambda>d2.
    Inr (n = 1, d2)))"

definition resume_legacy_attempt ::
  "legacy_pending \<Rightarrow> legacy_progress option \<Rightarrow> int \<Rightarrow> string \<Rightarrow> string \<Rightarrow> string \<Rightarrow> string \<Rightarrow> db \<Rightarrow> (unit \<times> db) result"
  where
  "resume_legacy_attempt pending progress step problem digest actor changed_at d =
    and_then (update_items SqliteError
        (\<lambda>i. qi_id i = lp_item_id pending \<and> yields_for (lp_request_id pending) (lp_segment pending) i)
        (resumed_item (''cooperative yield failed at '' @ progress_text step progress @ '': '' @ problem)) d) (\<lambda>(n, d1).
    require (n = 1) (legacy_error Lost_update)
   (and_then (legacy_event CanonicalJSONError SqliteError changed_at actor ''COOPERATIVE_YIELD_FAILED''
        (lp_project_id pending) (lp_item_id pending)
        (JObj [(''request_id'', JStr (lp_request_id pending)), (''protocol'', JStr ''CooperativeYieldReceipt/v0''),
               (''receipt_sha256'', JStr digest), (''error'', JStr problem),
               (''progress'', progress_payload progress)]) d1) (\<lambda>d2.
    Inr ((), d2))))"

definition legacy_requeued_item ::
  "string \<Rightarrow> legacy_ready \<Rightarrow> string option \<Rightarrow> string option \<Rightarrow> string option \<Rightarrow> queue_item \<Rightarrow> queue_item" where
  "legacy_requeued_item changed_at ready run_directory manifest pull i = i\<lparr>qi_state := Queued,
     qi_state_detail := Some (''resume from verified '' @ progress_text (lr_step ready) (lr_progress ready)),
     qi_segment := qi_segment i + 1, qi_resume_front := True, qi_lease_held := False,
     qi_lease_released_at := Some changed_at, qi_pid := None, qi_pgid := None, qi_start_ticks := None,
     qi_return_code := None, qi_checkpoint := Some (lr_checkpoint ready),
     qi_checkpoint_sha256 := Some (lr_checkpoint_sha256 ready),
     qi_checkpoint_metadata := Some (lr_metadata ready),
     qi_checkpoint_metadata_sha256 := Some (lr_metadata_sha256 ready),
     qi_continuation_step := Some (lr_step ready), qi_continuation_wandb_id := lr_wandb_id ready,
     qi_runner_run_dir := coalesce run_directory (qi_runner_run_dir i),
     qi_runner_manifest_path := coalesce manifest (qi_runner_manifest_path i),
     qi_rsync_pull_command := coalesce pull (qi_rsync_pull_command i)\<rparr>"

definition legacy_requeue_payload :: "legacy_pending \<Rightarrow> legacy_ready \<Rightarrow> string \<Rightarrow> string \<Rightarrow> json" where
  "legacy_requeue_payload pending ready digest changed_at = JObj
    [(''request_id'', JStr (lp_request_id pending)), (''protocol'', JStr ''CooperativeYieldReceipt/v0''),
     (''receipt_sha256'', JStr digest), (''segment_finished'', JInt (lp_segment pending)),
     (''next_segment'', JInt (lp_segment pending + 1)), (''runtime_gpu_lease_released_at'', JStr changed_at),
     (''checkpoint'', JStr (lr_checkpoint ready)), (''checkpoint_sha256'', JStr (lr_checkpoint_sha256 ready)),
     (''checkpoint_metadata'', JStr (lr_metadata ready)),
     (''checkpoint_metadata_sha256'', JStr (lr_metadata_sha256 ready)), (''step'', JInt (lr_step ready)),
     (''wandb_id'', json_opt JStr (lr_wandb_id ready)), (''progress'', progress_payload (lr_progress ready))]"

text \<open>SQLite binds integers of 64 bits; a larger step fails before the statement runs.\<close>

definition requeue_legacy_attempt ::
  "legacy_pending \<Rightarrow> legacy_ready \<Rightarrow> runner_evidence option \<Rightarrow> string \<Rightarrow> string \<Rightarrow> string \<Rightarrow> db
    \<Rightarrow> (unit \<times> db) result" where
  "requeue_legacy_attempt pending ready runner digest actor changed_at d =
    require (lr_step ready < 2 ^ 63) (OverflowError, Bad_integer)
   (and_then (update_items SqliteError
        (\<lambda>i. qi_id i = lp_item_id pending
           \<and> (yields_for (lp_request_id pending) (lp_segment pending) i \<and> qi_lease_held i))
        (legacy_requeued_item changed_at ready
          (case runner of None \<Rightarrow> lp_run_directory pending | Some r \<Rightarrow> Some (ru_run_directory r))
          (case runner of None \<Rightarrow> lp_manifest pending | Some r \<Rightarrow> Some (ru_manifest r))
          (case runner of None \<Rightarrow> lp_pull_command pending | Some r \<Rightarrow> ru_pull_command r)) d) (\<lambda>(n, d1).
    require (n = 1) (legacy_error Lost_update)
   (and_then (legacy_event CanonicalJSONError SqliteError changed_at actor ''EXPERIMENT_YIELDED_AND_REQUEUED''
        (lp_project_id pending) (lp_item_id pending) (legacy_requeue_payload pending ready digest changed_at) d1) (\<lambda>d2.
    Inr ((), d2)))))"

section \<open>The contract\<close>

lemma legacy_event_eq_Inr:
  "legacy_event x y t actor e p k payload d = Inr d' \<longleftrightarrow> json_ok 0 payload
     \<and> insert_event y t actor e Scope_project (Some p) (Some k) payload d = Inr d'"
  by (simp add: legacy_event_def)

lemma quiet_legacy_event: "legacy_event x y t actor e p k payload d = Inr d' \<Longrightarrow> quiet d d'"
  by (auto simp: legacy_event_eq_Inr insert_event_eq_Inr quiet_def list.rel_refl)

lemma ensures_legacy_event [vcg]:
  assumes "quiet d d0" and "\<And>d1. quiet d d1 \<Longrightarrow> ensures (quiet d) (k d1)"
  shows "ensures (quiet d) (and_then (legacy_event x y t actor e p i payload d0) k)"
  using assms(1) quiet_legacy_event assms(2) by (rule ensures_row)

lemmas legacy_reads [vcg] = ensures_value[where m = "column_text n v" for n v]

lemma legacy_yielding_step:
  assumes "item_check (legacy_yielding_item t a rid remark runner i)" and "qi_state i = Running"
  shows "item_step i (legacy_yielding_item t a rid remark runner i)"
proof (rule item_stepI)
  show "state_reach (qi_state i) (qi_state (legacy_yielding_item t a rid remark runner i))"
    using assms(2) by (intro r_into_rtranclp) (simp add: legacy_yielding_item_def)
  show "item_wf i \<Longrightarrow> item_wf (legacy_yielding_item t a rid remark runner i)"
    using assms(2) by (auto simp: item_wf_defs legacy_yielding_item_def)
qed (use assms(1) in \<open>simp_all add: legacy_yielding_item_def same_identity_def\<close>)

lemma resumed_item_step:
  assumes "item_check (resumed_item detail i)" and "yields_for rid n i"
  shows "item_step i (resumed_item detail i)"
proof (rule item_stepI)
  show "state_reach (qi_state i) (qi_state (resumed_item detail i))"
    using assms(2) by (intro r_into_rtranclp) (simp add: resumed_item_def yields_for_def)
  show "item_wf i \<Longrightarrow> item_wf (resumed_item detail i)"
    using assms(2) by (auto simp: item_wf_defs resumed_item_def yields_for_def)
qed (use assms(1) in \<open>simp_all add: resumed_item_def same_identity_def\<close>)

lemma legacy_requeued_step:
  assumes "item_check (legacy_requeued_item t ready a b c i)" and "yields_for rid n i"
  shows "item_step i (legacy_requeued_item t ready a b c i)"
proof (rule item_stepI)
  show "state_reach (qi_state i) (qi_state (legacy_requeued_item t ready a b c i))"
    using assms(2) by (intro r_into_rtranclp) (simp add: legacy_requeued_item_def yields_for_def)
  show "item_wf i \<Longrightarrow> item_wf (legacy_requeued_item t ready a b c i)"
    by (simp add: item_wf_defs legacy_requeued_item_def null_or_def)
qed (use assms(1) in \<open>simp_all add: legacy_requeued_item_def same_identity_def\<close>)

interpretation legacy_requesting: quiet_operation
  "persist_legacy_request sha item runner request_id remark actor requested_at"
  for sha item runner request_id remark actor requested_at
  by (unfold_locales, erule ensuresD[rotated], unfold persist_legacy_request_def,
      intro vcg; (assumption | rule legacy_yielding_step); simp)

interpretation legacy_withdrawing: quiet_operation
  "withdraw_legacy_request item request_id problem actor changed_at"
  for item request_id problem actor changed_at
  by (unfold_locales, erule ensuresD[rotated], unfold withdraw_legacy_request_def,
      intro vcg; (assumption | rule resumed_item_step, assumption, erule conjunct2 | simp))

interpretation legacy_resuming: quiet_operation
  "resume_legacy_attempt pending progress step problem digest actor changed_at"
  for pending progress step problem digest actor changed_at
  by (unfold_locales, erule ensuresD[rotated], unfold resume_legacy_attempt_def,
      intro vcg; (assumption | rule resumed_item_step, assumption, erule conjunct2 | simp))

interpretation legacy_requeueing: quiet_operation
  "requeue_legacy_attempt pending ready runner digest actor changed_at"
  for pending ready runner digest actor changed_at
  by (unfold_locales, erule ensuresD[rotated], unfold requeue_legacy_attempt_def,
      intro vcg; (assumption | rule legacy_requeued_step, assumption, blast | simp))

section \<open>Requeue is a compare-and-set\<close>

lemma lease_freed:
  assumes inv: "system_inv d" and i: "find_item (db_items d) k = Some i" and held: "qi_lease_held i" and q: "Q i"
    and f: "\<And>j. \<not> qi_lease_held (f j)"
  shows "qi_gpu_uuid i \<notin> set (leased (update_rows (\<lambda>j. qi_id j = k \<and> Q j) f (db_items d)))"
proof
  note mem = item_table.lookup_SomeD[OF i]
  assume "qi_gpu_uuid i \<in> set (leased (update_rows (\<lambda>j. qi_id j = k \<and> Q j) f (db_items d)))"
  then obtain j where j: "j \<in> set (db_items d)" "\<not> (qi_id j = k \<and> Q j)" "qi_lease_held j"
      "qi_gpu_uuid j = qi_gpu_uuid i"
    using f by (auto simp: leased_def in_update_rows)
  then have "j = i" using leased_holder_unique[OF inv _ j(1) held j(3)] mem by blast
  with j(2) mem q show False by blast
qed

lemma yielding_row:
  assumes "n = 1" and "update_items x (\<lambda>i. qi_id i = k \<and> Q i) f d = Inr (n, d1)"
  shows "\<exists>i. i \<in> set (db_items d) \<and> qi_id i = k \<and> Q i"
proof (rule ccontr)
  assume "\<nexists>i. i \<in> set (db_items d) \<and> qi_id i = k \<and> Q i"
  then have "filter (\<lambda>i. qi_id i = k \<and> Q i) (db_items d) = []" by (auto simp: filter_empty_conv)
  with assms show False by (simp add: update_items_eq_Inr)
qed

lemma update_gone:
  assumes "\<And>j. j \<in> set (db_items d) \<Longrightarrow> \<not> (qi_id j = k \<and> Q j)"
  shows "update_items x (\<lambda>i. qi_id i = k \<and> Q i) f d = Inr (0, d)"
  using assms update_rows_absent[of "db_items d" "\<lambda>i. qi_id i = k \<and> Q i" f]
  by (auto simp: update_items_eq_Inr filter_empty_conv)

text \<open>
  (C35) The requeue of an imported attempt is a compare-and-set: it succeeds only while the item still holds
  its GPU and yields for exactly this request in exactly this segment. The item is then queued in
  front with the next segment and the verified checkpoint, its GPU is free, every other item is
  untouched, and the same receipt can never requeue it a second time.
\<close>

theorem legacy_requeue_compare_and_set:
  assumes run: "requeue_legacy_attempt pending ready runner digest actor t d = Inr (u, d')" and inv: "system_inv d"
  shows "\<exists>i j. find_item (db_items d) (lp_item_id pending) = Some i
    \<and> yields_for (lp_request_id pending) (lp_segment pending) i \<and> qi_lease_held i
    \<and> find_item (db_items d') (lp_item_id pending) = Some j \<and> qi_state j = Queued
    \<and> qi_segment j = lp_segment pending + 1 \<and> qi_resume_front j
    \<and> qi_checkpoint j = Some (lr_checkpoint ready) \<and> qi_checkpoint_sha256 j = Some (lr_checkpoint_sha256 ready)
    \<and> qi_gpu_uuid i \<notin> set (leased (db_items d'))
    \<and> (\<forall>k. k \<noteq> lp_item_id pending \<longrightarrow> find_item (db_items d') k = find_item (db_items d) k)
    \<and> requeue_legacy_attempt pending ready runner digest actor t d' = Inl (legacy_error Lost_update)"
proof -
  let ?k = "lp_item_id pending"
  let ?Q = "\<lambda>i. yields_for (lp_request_id pending) (lp_segment pending) i \<and> qi_lease_held i"
  let ?f = "legacy_requeued_item t ready
      (case runner of None \<Rightarrow> lp_run_directory pending | Some r \<Rightarrow> Some (ru_run_directory r))
      (case runner of None \<Rightarrow> lp_manifest pending | Some r \<Rightarrow> Some (ru_manifest r))
      (case runner of None \<Rightarrow> lp_pull_command pending | Some r \<Rightarrow> ru_pull_command r)"
  obtain n d1 where upd: "update_items SqliteError (\<lambda>i. qi_id i = ?k \<and> ?Q i) ?f d = Inr (n, d1)" and n: "n = 1"
    and small: "lr_step ready < 2 ^ 63"
    and ev: "legacy_event CanonicalJSONError SqliteError t actor ''EXPERIMENT_YIELDED_AND_REQUEUED''
      (lp_project_id pending) ?k (legacy_requeue_payload pending ready digest t) d1 = Inr d'"
    using run by (auto simp: requeue_legacy_attempt_def)
  obtain i where i: "i \<in> set (db_items d)" "qi_id i = ?k" "?Q i" using yielding_row[OF n upd] by blast
  then have found: "find_item (db_items d) ?k = Some i"
    using item_table.lookup_unique[OF inv_ids[OF inv] i(1)] by simp
  have items: "db_items d' = update_rows (\<lambda>i. qi_id i = ?k \<and> ?Q i) ?f (db_items d)"
    using upd ev by (auto simp: update_items_eq_Inr legacy_event_eq_Inr insert_event_eq_Inr)
  have key: "qi_id (?f j) = qi_id j" and free: "\<not> qi_lease_held (?f j)" for j
    by (simp_all add: legacy_requeued_item_def)
  have j: "find_item (db_items d') ?k = Some (?f i)"
    unfolding items using found i(3) by (rule update_one_found) (rule key)
  have others: "\<forall>k. k \<noteq> ?k \<longrightarrow> find_item (db_items d') k = find_item (db_items d) k"
    unfolding items using update_one_others[where Q = ?Q and f = ?f] key by blast
  have "qi_gpu_uuid i \<notin> set (leased (db_items d'))"
    unfolding items using i(3) free by (intro lease_freed[OF inv found]) auto
  moreover have "\<not> (qi_id j = ?k \<and> ?Q j)" if "j \<in> set (db_items d')" for j
    using that by (auto simp: items in_update_rows legacy_requeued_item_def yields_for_def)
  then have "requeue_legacy_attempt pending ready runner digest actor t d' = Inl (legacy_error Lost_update)"
    using update_gone[of d' ?k ?Q SqliteError ?f] small by (simp add: requeue_legacy_attempt_def)
  moreover have "qi_segment i = lp_segment pending" using i(3) by (simp add: yields_for_def)
  ultimately show ?thesis
    using found i(3) j others by (auto simp: legacy_requeued_item_def)
qed

lemma ready_evidence_digest:
  "ready_evidence files document pending = Inr ready \<Longrightarrow> sha256_text (lr_checkpoint_sha256 ready)"
  by (auto simp: ready_evidence_def split: option.split_asm) (auto split: json.split_asm)

text \<open>
  (C36) A ready receipt whose step is above 2^53 - 1 is accepted by every check of the receipt, but the
  requeue then fails while its audit event is encoded, with an error outside the coordinator's own
  exception class, and the attempt stays yielding.
\<close>

theorem large_step_escapes:
  assumes "find_item (db_items d) (lp_item_id pending) = Some i"
    and "yields_for (lp_request_id pending) (lp_segment pending) i" and "qi_lease_held i" and "system_inv d"
    and "ready_evidence files document pending = Inr ready"
    and "9007199254740991 < lr_step ready" and "lr_step ready < 2 ^ 63" and "t \<noteq> []"
    and "sha256_text (lr_metadata_sha256 ready)"
  shows "requeue_legacy_attempt pending ready runner digest actor t d = Inl (CanonicalJSONError, Bad_payload)"
proof -
  let ?Q = "\<lambda>i. yields_for (lp_request_id pending) (lp_segment pending) i \<and> qi_lease_held i"
  let ?f = "legacy_requeued_item t ready
      (case runner of None \<Rightarrow> lp_run_directory pending | Some r \<Rightarrow> Some (ru_run_directory r))
      (case runner of None \<Rightarrow> lp_manifest pending | Some r \<Rightarrow> Some (ru_manifest r))
      (case runner of None \<Rightarrow> lp_pull_command pending | Some r \<Rightarrow> ru_pull_command r)"
  have check: "item_check i" using inv_item[OF assms(4)] item_table.lookup_SomeD[OF assms(1)] by blast
  have digest: "sha256_text (lr_checkpoint_sha256 ready)" using ready_evidence_digest[OF assms(5)] .
  have "same_identity i (?f i)" by (simp add: same_identity_def legacy_requeued_item_def)
  moreover have "item_check (?f i)"
    using check digest assms(3,6,8,9) identity_check_cong[OF \<open>same_identity i (?f i)\<close>]
    by (auto simp: item_check_def lease_check_def runtime_column_check_def legacy_requeued_item_def
        null_or_def active_state_def)
  ultimately obtain d1 where
    "update_items SqliteError (\<lambda>i. qi_id i = lp_item_id pending \<and> ?Q i) ?f d = Inr (1, d1)"
    using update_one[where Q = ?Q and f = ?f, OF assms(4,1)] assms(2,3) by blast
  moreover have "\<not> json_ok 0 (legacy_requeue_payload pending ready digest t)"
    using assms(6) by (simp add: legacy_requeue_payload_def safe_integer_def)
  ultimately show ?thesis using assms(7) by (simp add: requeue_legacy_attempt_def legacy_event_def)
qed

section \<open>Example\<close>

definition ex_legacy_item :: queue_item where
  "ex_legacy_item = (ex_running 1 ''GPU-a'')\<lparr>qi_admission_kind := Legacy_card, qi_snapshot_id := None,
     qi_job_id := None, qi_state := Yielding, qi_yield_request_id := Some ''req-1''\<rparr>"

definition ex_pending :: legacy_pending where
  "ex_pending = \<lparr>lp_project_id = 1, lp_revision_id = 1, lp_item_id = 1, lp_segment = 1,
     lp_gpu_uuid = ''GPU-a'', lp_request_id = ''req-1'', lp_requested_at = ex_time, lp_requested_by = ''operator'',
     lp_note = ''maintenance'', lp_segment_root = ''/state/a'', lp_request_path = ''/state/a/yield.json'',
     lp_receipt_path = ''/state/a/receipt.json'', lp_source = [], lp_run_id = None, lp_run_directory = None,
     lp_manifest = None, lp_pull_command = None, lp_roots = [''/work'']\<rparr>"

definition ex_ready :: "int \<Rightarrow> legacy_ready" where
  "ex_ready n = \<lparr>lr_progress = None, lr_checkpoint = ''/work/ck.pt'', lr_checkpoint_sha256 = ex_sha,
     lr_metadata = ''/work/ck.json'', lr_metadata_sha256 = ex_sha, lr_step = n, lr_wandb_id = None\<rparr>"

lemma ex_legacy_inv: "system_inv (ex_db [ex_legacy_item])"
  by code_simp

lemma ex_legacy_requeue:
  "succeeds (requeue_legacy_attempt ex_pending (ex_ready 12) None ex_sha ''scheduler'' ex_time
     (ex_db [ex_legacy_item])) (\<lambda>u. True)"
  by code_simp

theorem legacy_requeue_compare_and_set_witness:
  "\<exists>(d' :: db) (j :: queue_item). find_item (db_items d') 1 = Some j \<and> qi_state j = Queued \<and> qi_segment j = 2
     \<and> qi_checkpoint j = Some ''/work/ck.pt''"
proof -
  obtain u d' where run: "requeue_legacy_attempt ex_pending (ex_ready 12) None ex_sha ''scheduler'' ex_time
      (ex_db [ex_legacy_item]) = Inr (u, d')"
    using succeedsD[OF ex_legacy_requeue] by blast
  obtain j where "find_item (db_items d') (lp_item_id ex_pending) = Some j" "qi_state j = Queued"
      "qi_segment j = lp_segment ex_pending + 1" "qi_checkpoint j = Some (lr_checkpoint (ex_ready 12))"
    using legacy_requeue_compare_and_set[OF run ex_legacy_inv] by blast
  then show ?thesis by (intro exI[of _ d'] exI[of _ j]) (simp add: ex_pending_def ex_ready_def)
qed

definition ex_file_view :: file_view where
  "ex_file_view = \<lparr>fv_exists = (\<lambda>p. True), fv_symlink = (\<lambda>p. False), fv_resolve = Some, fv_resolve_lax = Some,
     fv_directory = (\<lambda>p. True), fv_read = (\<lambda>p. None), fv_hash = (\<lambda>p. Some (10, ex_sha))\<rparr>"

definition ex_large_receipt :: json where
  "ex_large_receipt = JObj [(''schema_version'', JInt 1), (''status'', JStr ''ready''), (''request_id'', JStr ''req-1''),
     (''queue_item_id'', JInt 1), (''step'', JInt 9007199254740992), (''checkpoint'', JStr ''/work/ck.pt''),
     (''checkpoint_metadata'', JStr ''/work/ck.json''), (''checkpoint_bytes'', JInt 10),
     (''checkpoint_sha256'', JStr ex_sha), (''wandb'', JNull)]"

theorem large_step_escapes_witness:
  "requeue_legacy_attempt ex_pending (ex_ready 9007199254740992) None ex_sha ''scheduler'' ex_time
     (ex_db [ex_legacy_item]) = Inl (CanonicalJSONError, Bad_payload)"
proof (rule large_step_escapes[OF _ _ _ ex_legacy_inv])
  show "find_item (db_items (ex_db [ex_legacy_item])) (lp_item_id ex_pending) = Some ex_legacy_item" by code_simp
  show "yields_for (lp_request_id ex_pending) (lp_segment ex_pending) ex_legacy_item" by code_simp
  show "qi_lease_held ex_legacy_item" by code_simp
  show "ready_evidence ex_file_view ex_large_receipt ex_pending = Inr (ex_ready 9007199254740992)" by code_simp
  show "sha256_text (lr_metadata_sha256 (ex_ready 9007199254740992))" by code_simp
qed (simp_all add: ex_ready_def ex_time_def)

end
