(* ===== verification/Telemetry_V5.thy ===== *)
theory Telemetry_V5
  imports Attempts_V5
begin

text \<open>
  GPU telemetry as the scheduler service reads it (\<open>scheduler_service_v5.py\<close>, \<open>GpuSnapshot\<close> of
  \<open>queue.py\<close>): the authentication of one set of observations, the idle test, the transaction that
  refreshes the allowlist from it, and the order in which the allowlist offers GPUs.

  An observation comes from \<open>nvidia-smi\<close>; its numbers are Python floats. Past the authentication they are
  finite, so the idle test reads them as rationals and calls anything else busy.
\<close>

abbreviation service_error :: "reason \<Rightarrow> error" where
  "service_error r \<equiv> (V5SchedulerServiceError, r)"

record gpu_snapshot =
  gs_index :: string
  gs_uuid :: string
  gs_name :: string
  gs_memory_total :: pyfloat
  gs_memory_used :: pyfloat
  gs_utilization :: pyfloat
  gs_compute_pids :: "int list"

section \<open>Idle GPUs\<close>

definition observed_free_fraction :: "rat \<Rightarrow> rat \<Rightarrow> rat" where
  "observed_free_fraction total_mib used_mib =
    (if total_mib \<le> 0 then 0 else free_memory_fraction total_mib used_mib)"

definition idle :: "rat \<Rightarrow> rat \<Rightarrow> gpu_snapshot \<Rightarrow> bool" where
  "idle minimum_free maximum_utilization g =
    (gs_compute_pids g = []
     \<and> (case (gs_memory_total g, gs_memory_used g, gs_utilization g) of
          (Finite t, Finite u, Finite p) \<Rightarrow>
            minimum_free \<le> observed_free_fraction t u \<and> p \<le> maximum_utilization
        | _ \<Rightarrow> False))"

section \<open>Authentication\<close>

definition plain_text :: "string \<Rightarrow> bool" where
  "plain_text s = (s \<noteq> [] \<and> s = strip s)"

definition metrics_ok :: "gpu_snapshot \<Rightarrow> bool" where
  "metrics_ok g = (case (gs_memory_total g, gs_memory_used g, gs_utilization g) of
      (Finite t, Finite u, Finite p) \<Rightarrow> 0 < t \<and> 0 \<le> u \<and> u \<le> t \<and> 0 \<le> p \<and> p \<le> 100
    | _ \<Rightarrow> False)"

definition pids_ok :: "int list \<Rightarrow> bool" where
  "pids_ok pids = (list_all (\<lambda>p. 0 < p) pids \<and> distinct pids)"

fun validate_snapshots :: "string set \<Rightarrow> string set \<Rightarrow> gpu_snapshot list \<Rightarrow> unit result" where
  "validate_snapshots uuids indices [] = Inr ()"
| "validate_snapshots uuids indices (g # rest) =
    require (plain_text (gs_uuid g) \<and> plain_text (gs_index g) \<and> plain_text (gs_name g)) (service_error Bad_text)
   (require (gs_uuid g \<notin> uuids \<and> gs_index g \<notin> indices) (service_error Conflicting_evidence)
   (require (metrics_ok g) (service_error Bad_number)
   (require (pids_ok (gs_compute_pids g)) (service_error Bad_integer)
   (validate_snapshots (insert (gs_uuid g) uuids) (insert (gs_index g) indices) rest))))"

definition validated_gpu_snapshots :: "gpu_snapshot list \<Rightarrow> gpu_snapshot list result" where
  "validated_gpu_snapshots snapshots =
    and_then (validate_snapshots {} {} snapshots) (\<lambda>_. Inr snapshots)"

definition by_uuid :: "gpu_snapshot list \<Rightarrow> string \<Rightarrow> gpu_snapshot option" where
  "by_uuid snapshots uuid = find (\<lambda>g. gs_uuid g = uuid) (rev snapshots)"

section \<open>The allowlist\<close>

text \<open>The rows with an observation, in the order the cursor returns them, one clock reading each.\<close>

definition observed_rows :: "gpu_snapshot list \<Rightarrow> db \<Rightarrow> (gpu_row \<times> gpu_snapshot) list" where
  "observed_rows snapshots d = List.map_filter (\<lambda>row.
     map_option (Pair row) (by_uuid snapshots (g_uuid row))) (db_gpus d)"

definition refreshed_row :: "gpu_snapshot \<Rightarrow> string \<Rightarrow> gpu_row \<Rightarrow> gpu_row" where
  "refreshed_row g changed_at row =
    row\<lparr>g_last_index := gs_index g, g_name := gs_name g, g_updated_at := changed_at\<rparr>"

fun refresh_rows :: "(gpu_snapshot \<times> string) list \<Rightarrow> db \<Rightarrow> (unit \<times> db) result" where
  "refresh_rows [] d = Inr ((), d)"
| "refresh_rows ((g, changed_at) # rest) d =
    and_then (update_gpus SqliteError (\<lambda>row. g_uuid row = gs_uuid g) (refreshed_row g changed_at) d)
      (\<lambda>(_, d1). refresh_rows rest d1)"

definition index_changes :: "(gpu_row \<times> gpu_snapshot) list \<Rightarrow> (string \<times> string \<times> string) list" where
  "index_changes rows = map (\<lambda>(row, g). (gs_uuid g, g_last_index row, gs_index g))
     (filter (\<lambda>(row, g). g_last_index row \<noteq> gs_index g) rows)"

definition refresh_allowlist ::
  "gpu_snapshot list \<Rightarrow> string list \<Rightarrow> db \<Rightarrow> ((string \<times> string \<times> string) list \<times> db) result" where
  "refresh_allowlist snapshots stamps d =
    (let rows = observed_rows snapshots d in
     and_then (refresh_rows (zip (map snd rows) stamps) d) (\<lambda>(_, d1). Inr (index_changes rows, d1)))"

text \<open>\<open>CAST(last_index AS INTEGER)\<close>: the longest integer prefix, zero when there is none, clamped to 64 bits.\<close>

definition cast_integer :: "string \<Rightarrow> int" where
  "cast_integer s =
    (let t = dropWhile (\<lambda>c. ord c = 32 \<or> 9 \<le> ord c \<and> ord c \<le> 13) s;
         body = (if t \<noteq> [] \<and> hd t \<in> set ''+-'' then tl t else t);
         n = digits_value (takeWhile is_digit body)
     in if t \<noteq> [] \<and> hd t = CHR ''-'' then max (- (2 ^ 63)) (- n) else min (2 ^ 63 - 1) n)"

definition offered_gpus :: "db \<Rightarrow> gpu_row list" where
  "offered_gpus d = sort_key (\<lambda>g. (cast_integer (g_last_index g), g_uuid g))
     (filter (\<lambda>g. g_enabled g \<and> \<not> g_draining g) (db_gpus d))"

definition leased_gpu_uuids :: "db \<Rightarrow> string list" where
  "leased_gpu_uuids d = List.map_filter qi_gpu_uuid (filter qi_lease_held (db_items d))"

definition free_gpus ::
  "rat \<Rightarrow> rat \<Rightarrow> gpu_snapshot list \<Rightarrow> gpu_row list \<Rightarrow> string list \<Rightarrow> string set \<Rightarrow> gpu_snapshot list" where
  "free_gpus minimum_free maximum_utilization snapshots offered assigned blocked =
    List.map_filter (\<lambda>row. case by_uuid snapshots (g_uuid row) of
        Some g \<Rightarrow> if g_uuid row \<notin> set assigned \<and> g_uuid row \<notin> blocked
            \<and> idle minimum_free maximum_utilization g then Some g else None
      | None \<Rightarrow> None) offered"

section \<open>What authentication guarantees\<close>

lemma validate_snapshots_sound:
  "validate_snapshots uuids indices snapshots = Inr () \<Longrightarrow>
     distinct (map gs_uuid snapshots) \<and> distinct (map gs_index snapshots)
     \<and> set (map gs_uuid snapshots) \<inter> uuids = {} \<and> set (map gs_index snapshots) \<inter> indices = {}
     \<and> (\<forall>g \<in> set snapshots. metrics_ok g \<and> pids_ok (gs_compute_pids g) \<and> gs_uuid g \<noteq> [])"
  by (induction uuids indices snapshots rule: validate_snapshots.induct) (auto simp: plain_text_def)

lemma validated_distinct:
  "validated_gpu_snapshots snapshots = Inr gs \<Longrightarrow> gs = snapshots \<and> distinct (map gs_uuid gs)
     \<and> (\<forall>g \<in> set gs. metrics_ok g)"
  using validate_snapshots_sound by (auto simp: validated_gpu_snapshots_def)

lemma by_uuid_SomeD: "by_uuid snapshots uuid = Some g \<Longrightarrow> g \<in> set snapshots \<and> gs_uuid g = uuid"
  by (auto simp: by_uuid_def dest: find_SomeD)

section \<open>The contract\<close>

lemma quiet_refresh_rows: "refresh_rows rows d = Inr (u, d') \<Longrightarrow> quiet d d'"
  by (induction rows d rule: refresh_rows.induct) (auto intro: quiet_trans quiet_update_gpus)

interpretation refreshing: quiet_operation "refresh_allowlist snapshots stamps" for snapshots stamps
  by unfold_locales (auto simp: refresh_allowlist_def Let_def intro: quiet_refresh_rows)

text \<open>A GPU offered for dispatch is enabled, observed and idle, and neither leased nor reserved.\<close>

lemma free_gpus_sound:
  assumes "g \<in> set (free_gpus low high snapshots offered assigned blocked)"
  shows "g \<in> set snapshots \<and> gs_uuid g \<in> g_uuid ` set offered \<and> gs_uuid g \<notin> set assigned
    \<and> gs_uuid g \<notin> blocked \<and> idle low high g"
  using assms by (auto simp: free_gpus_def set_map_filter split: option.split_asm if_split_asm)
    (metis by_uuid_SomeD image_eqI)+

end
