(* ===== verification/System_V5.thy ===== *)
theory System_V5
  imports Reservation_V5 Operator_V5 Yields_V5 Legacy_V0 Telemetry_V5
begin

text \<open>
  The queue as a transition system. Every transaction of the schema-v5 services is a step of
  \<open>queue_step\<close>: the scheduling controller, the reservation service, the operator repository, the Project
  registry, admission, cooperative yield and the adapter for imported items share one database, and SQLite's immediate transactions
  serialize them in any order. Rejected operations roll back and are no step.

  The abstract specification \<open>ownership_step\<close> only knows who owns which GPU. The abstraction function
  \<open>gpu_owner\<close> reads that from the item and reservation tables; the refinement theorem says that the
  detailed transactions never do anything else to ownership than the specification allows.
\<close>

section \<open>Transactions\<close>

inductive queue_step :: "db \<Rightarrow> db \<Rightarrow> bool" where
  pause: "pause_host why actor t d = Inr (u, d') \<Longrightarrow> queue_step d d'"
| resume: "resume_host actor t d = Inr (u, d') \<Longrightarrow> queue_step d d'"
| quarantine: "quarantine_project p why actor t k d = Inr (u, d') \<Longrightarrow> queue_step d d'"
| circuit_close: "close_project_circuit p why actor t d = Inr (u, d') \<Longrightarrow> queue_step d d'"
| block: "reconcile_failed_dependencies actor t d = Inr (n, d') \<Longrightarrow> queue_step d d'"
| dispatch: "claim k gpu gpu_index actor t d = Inr (c, d') \<Longrightarrow> queue_step d d'"
| terminate: "request_termination k why force actor t epoch d = Inr (act, d') \<Longrightarrow> queue_step d d'"
| signal: "record_termination_signal_attempt action signal_name delivered actor t d = Inr (u, d') \<Longrightarrow> queue_step d d'"
| escalate: "escalate_termination k stage expected actor t epoch d = Inr (act, d') \<Longrightarrow> queue_step d d'"
| terminated: "record_termination_completion k actor t return_code d = Inr (b, d') \<Longrightarrow> queue_step d d'"
| free_gpu: "release_gpu_lease k gpu observed_index memory_total memory_used utilization pids minimum_free
      maximum_utilization actor t d = Inr (b, d') \<Longrightarrow> queue_step d d'"
| launch: "record_launched k segment gpu pid pgid ticks actor t d = Inr (b, d') \<Longrightarrow> queue_step d d'"
| complete: "record_executor_completion receipt actor d = Inr (b, d') \<Longrightarrow> queue_step d d'"
| fail: "fail_active_item k why actor t return_code d = Inr (b, d') \<Longrightarrow> queue_step d d'"
| abandon: "resolve_abandoned_launch k p gpu pid pgid ticks why actor t d = Inr (b, d') \<Longrightarrow> queue_step d d'"
| worktree: "record_worktree_prepared evidence actor t d = Inr (b, d') \<Longrightarrow> queue_step d d'"
| worktree_cleanup: "record_worktree_cleanup evidence actor t problem d = Inr (b, d') \<Longrightarrow> queue_step d d'"
| adopt: "record_legacy_worktree_adopted state_dir k git_ref path actor t d = Inr (b, d') \<Longrightarrow> queue_step d d'"
| adopted_cleanup: "record_legacy_worktree_cleanup state_dir k git_ref path actor t problem d = Inr (b, d')
    \<Longrightarrow> queue_step d d'"
| artifacts: "record_job_artifacts k segment observations actor t d = Inr (b, d') \<Longrightarrow> queue_step d d'"
| yield_signal: "claim_manual_yield_signal_attempt k rid token epoch retry actor t d = Inr (c, d') \<Longrightarrow> queue_step d d'"
| yield_signalled: "record_manual_yield_signal_result sclaim delivered detail epoch actor t d = Inr (b, d')
    \<Longrightarrow> queue_step d d'"
| disk: "enforce_disk_capacity usage state_dir p minimum revision actor t d = Inr (b, d') \<Longrightarrow> queue_step d d'"
| reserve: "request_reservation gpu hours remark who t d = Inr (v, d') \<Longrightarrow> queue_step d d'"
| unreserve: "release_reservation k who t d = Inr (v, d') \<Longrightarrow> queue_step d d'"
| reconcile: "Reservation_V5.reconcile t actor d = Inr (u, d') \<Longrightarrow> queue_step d d'"
| hold: "hold_item trusted k p why actor t d = Inr (u, d') \<Longrightarrow> queue_step d d'"
| release: "release_item trusted k p actor t d = Inr (u, d') \<Longrightarrow> queue_step d d'"
| prioritize: "set_item_priority trusted k p n actor t d = Inr (u, d') \<Longrightarrow> queue_step d d'"
| remove: "remove_item trusted k p why actor t d = Inr (u, d') \<Longrightarrow> queue_step d d'"
| allow_gpu: "add_gpu uuid requested index label actor t d = Inr (u, d') \<Longrightarrow> queue_step d d'"
| switch_gpu: "transition_gpu uuid flag current target actor t event d = Inr (u, d') \<Longrightarrow> queue_step d d'"
| register: "register_project verify sha1 sha256 paths state_dir e g h d = Inr (view, d') \<Longrightarrow> queue_step d d'"
| append: "append_revision verify sha1 sha256 paths state_dir g activate d = Inr (view, d') \<Longrightarrow> queue_step d d'"
| activate: "activate_revision verify p revision actor t d = Inr (view, d') \<Longrightarrow> queue_step d d'"
| lifecycle: "transition_project verify p target why actor t d = Inr (view, d') \<Longrightarrow> queue_step d d'"
| project_failure: "record_project_failure verify p why actor t open_circuit d = Inr (view, d') \<Longrightarrow> queue_step d d'"
| project_repair: "repo_close_project_circuit verify p why actor t d = Inr (view, d') \<Longrightarrow> queue_step d d'"
| event: "record_event t actor event_type scope payload p k d = Inr (n, d') \<Longrightarrow> queue_step d d'"
| admission: "admit ec ga t d = Inr (iv, d') \<Longrightarrow> queue_step d d'"
| yield_request: "record_yield_request ec w q source d = Inr (r, d') \<Longrightarrow> queue_step d d'"
| yield_receipt: "record_yield_receipt ec w yt source actor d = Inr (c, d') \<Longrightarrow> queue_step d d'"
| requeue: "requeue_ready_continuation ec w files rid actor t d = Inr (iv, d') \<Longrightarrow> queue_step d d'"
| legacy_request: "persist_legacy_request sha item runner rid remark actor t d = Inr (e, d') \<Longrightarrow> queue_step d d'"
| legacy_withdraw: "withdraw_legacy_request item rid problem actor t d = Inr (b, d') \<Longrightarrow> queue_step d d'"
| legacy_resume: "resume_legacy_attempt lp progress step problem digest actor t d = Inr (u, d') \<Longrightarrow> queue_step d d'"
| legacy_requeue: "requeue_legacy_attempt lp ready runner digest actor t d = Inr (u, d') \<Longrightarrow> queue_step d d'"
| refresh: "refresh_allowlist snapshots stamps d = Inr (changes, d') \<Longrightarrow> queue_step d d'"
| isolate: "isolate_continuation_failure ec k detail actor t terminal d = Inr (iv, d') \<Longrightarrow> queue_step d d'"

text \<open>Each transaction meets one of five contracts; everything below rests on this classification.\<close>

lemmas quiet_transactions =
  pausing.run_quiet resuming.run_quiet quarantining.run_quiet circuit_closing.run_quiet
  dependency_blocking.run_quiet terminating.run_quiet signal_recording.run_quiet escalating.run_quiet
  termination_completing.run_quiet lease_releasing.run_quiet launching.run_quiet completing.run_quiet
  Attempts_V5.failing.run_quiet abandoning.run_quiet worktree_preparing.run_quiet worktree_cleaning.run_quiet
  legacy_adopting.run_quiet legacy_cleaning.run_quiet artifact_recording.run_quiet signal_claiming.run_quiet
  signal_resulting.run_quiet disk_enforcing.run_quiet holding.run_quiet releasing_item.run_quiet
  prioritizing.run_quiet removing.run_quiet gpu_adding.run_quiet gpu_switching.run_quiet
  yield_requesting.run_quiet receipt_recording.run_quiet requeueing.run_quiet isolating.run_quiet
  legacy_requesting.run_quiet legacy_withdrawing.run_quiet legacy_resuming.run_quiet
  legacy_requeueing.run_quiet refreshing.run_quiet

text \<open>
  The reservation service besides: a request adds a reservation only where none is open, and no other
  transaction opens one again that had ended or moves one to another GPU.
\<close>

definition stays_open :: "db \<Rightarrow> db \<Rightarrow> bool" where
  "stays_open d d' = (\<forall>w \<in> set (db_reservations d'). open_status (v_status w) \<longrightarrow>
     (\<exists>v \<in> set (db_reservations d). v_id v = v_id w \<and> v_gpu_uuid v = v_gpu_uuid w \<and> open_status (v_status v)))"

definition adds_reservation :: "db \<Rightarrow> db \<Rightarrow> bool" where
  "adds_reservation d d' = (\<exists>v. db_reservations d' = db_reservations d @ [v] \<and> open_reservations d (v_gpu_uuid v) = [])"

definition reservation_turn :: "db \<Rightarrow> db \<Rightarrow> bool" where
  "reservation_turn d d' = (reserves d d' \<and> (stays_open d d' \<or> adds_reservation d d'))"

lemma stays_open_same: "db_reservations d' = db_reservations d \<Longrightarrow> stays_open d d'"
  by (auto simp: stays_open_def)

lemma stays_open_trans: "stays_open d e \<Longrightarrow> stays_open e f \<Longrightarrow> stays_open d f"
  unfolding stays_open_def by metis

lemma update_stays_open:
  assumes "update_reservations x P f d = Inr (n, d')"
    and "\<And>v. P v \<Longrightarrow> open_status (v_status (f v)) \<Longrightarrow> open_status (v_status v) \<and> v_gpu_uuid (f v) = v_gpu_uuid v"
  shows "stays_open d d'"
  using assms by (force simp: stays_open_def update_reservations_eq_Inr in_update_rows)

lemma res_event_reservations: "res_event t actor event_type payload d = Inr d' \<Longrightarrow> db_reservations d' = db_reservations d"
  by (auto simp: res_event_def insert_event_eq_Inr)

lemma written_stays_open:
  assumes "update_reservations x P f d = Inr (n, d1)" and "res_event t actor event_type payload d1 = Inr d2"
    and "reread_reservation k d2 = Inr (r, d3)"
    and "\<And>v. P v \<Longrightarrow> open_status (v_status (f v)) \<Longrightarrow> open_status (v_status v) \<and> v_gpu_uuid (f v) = v_gpu_uuid v"
  shows "stays_open d d3"
proof -
  have "db_reservations d3 = db_reservations d1"
    using res_event_reservations[OF assms(2)] reread_reservation_state[OF assms(3)] by simp
  then show ?thesis using stays_open_trans[OF update_stays_open[OF assms(1,4)] stays_open_same] by blast
qed

lemma release_stays_open: "release_reservation k who t d = Inr (v, d') \<Longrightarrow> stays_open d d'"
  by (auto simp: release_reservation_def stays_open_same open_status_def elim!: written_stays_open split: if_splits)

lemma reconcile_row_stays_open: "reconcile_row stamp now actor v d = Inr (c, d') \<Longrightarrow> stays_open d d'"
  by (auto simp: reconcile_row_def expire_row_def fail_row_def activate_row_def Let_def stays_open_same open_status_def
      expired_row_def failed_row_def activated_row_def elim!: written_stays_open split: if_splits)

lemma reconcile_rows_stays_open: "reconcile_rows stamp now actor vs d = Inr (cs, d') \<Longrightarrow> stays_open d d'"
proof (induction vs arbitrary: d cs)
  case (Cons v vs)
  then show ?case using reconcile_row_stays_open stays_open_trans by fastforce
qed (simp add: stays_open_same)

lemma request_adds:
  assumes "request_reservation gpu hours remark who t d = Inr (r, d')"
  shows "stays_open d d' \<or> adds_reservation d d'"
proof (cases "d' = d")
  case False
  then obtain v d1 d2 k stamp requested payload k' where
      new: "new_reservation k gpu (active_assignments d gpu) stamp requested who (normalized_note remark) hours = Inr v"
    and free: "open_reservations d gpu = []" and ins: "insert_reservation V5ReservationError v d = Inr d1"
    and ev: "res_event stamp who ''gpu_reservation_requested'' payload d1 = Inr d2"
    and rd: "reread_reservation k' d2 = Inr (r, d')"
    using assms by (auto simp: request_reservation_def Let_def split: list.split_asm if_splits) (metis neq_Nil_conv)
  have "db_reservations d' = db_reservations d @ [v]"
    using ins res_event_reservations[OF ev] reread_reservation_state[OF rd] by (auto simp: insert_reservation_eq_Inr)
  then show ?thesis using free new_reservation_gpu[OF new] by (auto simp: adds_reservation_def)
qed (simp add: stays_open_same)

lemma reservation_transactions:
  "request_reservation gpu hours remark who t d = Inr (v, d') \<Longrightarrow> system_inv d \<Longrightarrow> reservation_turn d d'"
  "release_reservation k who t d = Inr (v, d') \<Longrightarrow> system_inv d \<Longrightarrow> reservation_turn d d'"
  "Reservation_V5.reconcile t actor d = Inr (u, d') \<Longrightarrow> system_inv d \<Longrightarrow> reservation_turn d d'"
  using reserving.run_reserves request_adds releasing.run_reserves release_stays_open reconciling.run_reserves
    reconcile_rows_stays_open by (auto simp: reservation_turn_def reconcile_def)

lemmas registry_transactions =
  registering.run_registry appending.run_registry activating.run_registry transitioning.run_registry
  Projects_V5.failing.run_registry closing.run_registry recording.run_registry

definition claims_gpu :: "db \<Rightarrow> db \<Rightarrow> bool" where
  "claims_gpu d d' = (\<exists>k gpu gpu_index actor t c. claim k gpu gpu_index actor t d = Inr (c, d'))"

definition admits_item :: "db \<Rightarrow> db \<Rightarrow> bool" where
  "admits_item d d' = (\<exists>ec g t v. admit ec g t d = Inr (v, d'))"

lemma queue_step_contract:
  assumes "queue_step d d'" and "system_inv d"
  shows "quiet d d' \<or> reservation_turn d d' \<or> registry {} d d' \<or> claims_gpu d d' \<or> admits_item d d'"
  using assms
  by (cases rule: queue_step.cases)
    (blast dest: quiet_transactions reservation_transactions registry_transactions
      | auto simp: claims_gpu_def admits_item_def)+

lemma queue_step_safe:
  assumes "queue_step d d'" and "system_inv d"
  shows "system_inv d'" "history d d'"
  using queue_step_contract[OF assms] assms(2) quiet_system_inv quiet_history reserves_system_inv
    reserves_history registry_system_inv registry_history claiming.keeps_inv claiming.extends_history
    admitting.keeps_inv admitting.extends_history
  by (auto simp: claims_gpu_def admits_item_def reservation_turn_def)

section \<open>Executions\<close>

abbreviation execution :: "db \<Rightarrow> db \<Rightarrow> bool" where
  "execution \<equiv> queue_step\<^sup>*\<^sup>*"

lemma execution_safe:
  assumes "execution d d'" and "system_inv d"
  shows "system_inv d' \<and> history d d'"
  using assms
proof (induction rule: rtranclp_induct)
  case (step e f)
  then show ?case using queue_step_safe[OF step.hyps(2)] history_trans by blast
qed simp

lemma history_project:
  assumes "history d d'" and "p \<in> set (db_projects d)"
  shows "\<exists>q \<in> set (db_projects d'). project_trace p q"
  using assms unfolding history_def by (metis in_set_takeD list_all2_conv_all_nth in_set_conv_nth)

text \<open>
  (C1) Whatever transactions run, in whatever order, from a fresh database: no GPU is leased to two items or
  both leased and reserved, and every dependency points to an earlier item. Whatever runs from there, every
  item keeps its identity and moves only along the life cycle with its segment never decreasing, an ended
  item stays as it ended, no audit event is lost or reordered, and an archived Project stays archived.
\<close>

theorem every_execution_safe:
  assumes "execution (fresh_db schema ddl instance_id) d" and "execution d d'"
  shows "system_inv d \<and> distinct (leased (db_items d))
    \<and> (\<forall>i \<in> set (db_items d). qi_lease_held i \<longrightarrow> qi_gpu_uuid i \<notin> Some ` reserved (db_reservations d))
    \<and> (\<forall>(k, dep) \<in> set (db_dependencies d). dep < k)
    \<and> (\<forall>i \<in> set (db_items d). \<exists>j \<in> set (db_items d'). item_trace i j
         \<and> (terminal_state (qi_state i) \<longrightarrow> qi_state j = qi_state i))
    \<and> (\<forall>p \<in> set (db_projects d). p_lifecycle p = Archived \<longrightarrow>
         (\<exists>q \<in> set (db_projects d'). p_id q = p_id p \<and> p_lifecycle q = Archived))
    \<and> prefix (db_events d) (db_events d')"
proof -
  have inv: "system_inv d" using execution_safe[OF assms(1) system_inv_fresh] by blast
  have hist: "history d d'" using execution_safe[OF assms(2) inv] by blast
  have "\<exists>j \<in> set (db_items d'). item_trace i j \<and> (terminal_state (qi_state i) \<longrightarrow> qi_state j = qi_state i)"
    if "i \<in> set (db_items d)" for i
    using history_item[OF hist that] terminal_absorbing by (auto simp: item_trace_def)
  moreover have "\<exists>q \<in> set (db_projects d'). p_id q = p_id p \<and> p_lifecycle q = Archived"
    if "p \<in> set (db_projects d)" "p_lifecycle p = Archived" for p
    using history_project[OF hist that(1)] that(2) by (auto simp: project_trace_def)
  ultimately show ?thesis
    using inv hist by (auto simp: system_inv_def lease_inv_def dependencies_inv_def history_def)
qed

section \<open>Who owns a GPU\<close>

datatype holder = Item int | Reservation int

text \<open>
  The specification of one transaction, over the map of owners only. A transaction takes GPUs away from items, or
  grants one free GPU to one item that owns none, or turns free GPUs into reserved ones and reserved ones into free
  ones. In every case a GPU that has an owner before and after has the same one: ownership changes hands only
  through a committed state in which the GPU is free.
\<close>

inductive ownership_step :: "(string \<rightharpoonup> holder) \<Rightarrow> (string \<rightharpoonup> holder) \<Rightarrow> bool" where
  released: "(\<And>g. m' g = m g \<or> (\<exists>k. m g = Some (Item k) \<and> m' g = None)) \<Longrightarrow> ownership_step m m'"
| granted: "m g = None \<Longrightarrow> Item k \<notin> ran m \<Longrightarrow> ownership_step m (m(g \<mapsto> Item k))"
| reserved: "(\<And>g. m' g = m g \<or> (\<exists>v. m g = None \<and> m' g = Some (Reservation v))
    \<or> (\<exists>v. m g = Some (Reservation v) \<and> m' g = None)) \<Longrightarrow> ownership_step m m'"

lemma ownership_same: "ownership_step m m"
  by (rule ownership_step.released) simp

lemma no_handover: "ownership_step m m' \<Longrightarrow> m g = Some h \<Longrightarrow> m' g = Some h' \<Longrightarrow> h' = h"
proof (induction rule: ownership_step.induct)
  case (released m' m)
  from released(1)[of g] released(2,3) show ?case by auto
next
  case (reserved m' m)
  from reserved(1)[of g] reserved(2,3) show ?case by auto
qed (auto split: if_splits)

definition active_on :: "db \<Rightarrow> string \<Rightarrow> reservation_row list" where
  "active_on d g = filter (\<lambda>v. v_gpu_uuid v = g \<and> v_status v = Res_active) (db_reservations d)"

definition gpu_owner :: "db \<Rightarrow> string \<rightharpoonup> holder" where
  "gpu_owner d g = (case lease_holders d g of
      i # _ \<Rightarrow> Some (Item (qi_id i))
    | [] \<Rightarrow> (case active_on d g of v # _ \<Rightarrow> Some (Reservation (v_id v)) | [] \<Rightarrow> None))"

lemma leased_not_reserved:
  assumes "system_inv d" and "i \<in> set (db_items d)" and "qi_lease_held i" and "qi_gpu_uuid i = Some g"
    and "v \<in> set (db_reservations d)" and "v_gpu_uuid v = g"
  shows "v_status v \<noteq> Res_active"
  using assms by (auto simp: system_inv_def lease_inv_def reserved_def)

lemma open_unique:
  assumes "system_inv d" and "v \<in> set (db_reservations d)" "w \<in> set (db_reservations d)"
    and "open_status (v_status v)" "open_status (v_status w)" "v_gpu_uuid v = v_gpu_uuid w"
  shows "v = w"
proof -
  have "distinct (map v_gpu_uuid (filter (\<lambda>v. open_status (v_status v)) (db_reservations d)))"
    using assms(1) by (simp add: system_inv_def reservations_inv_def open_gpus_def)
  then have "inj_on v_gpu_uuid {v \<in> set (db_reservations d). open_status (v_status v)}" by (simp add: distinct_map)
  with assms show ?thesis by (auto simp: inj_on_def)
qed

lemma active_unique:
  assumes inv: "system_inv d" and v: "v \<in> set (active_on d g)"
  shows "active_on d g = [v]"
proof -
  have same: "\<forall>u \<in> set (active_on d g). u = v"
    using v open_unique[OF inv] by (auto simp: active_on_def open_status_def)
  have "distinct (db_reservations d)"
    using inv by (auto simp: system_inv_def reservations_inv_def distinct_map)
  then have "distinct (active_on d g)" by (simp add: active_on_def)
  with v same show ?thesis
    by (metis distinct.simps(2) list.set_intros(1) list.set_intros(2) neq_Nil_conv list.set_cases)
qed

lemma owner_item:
  assumes "system_inv d"
  shows "gpu_owner d g = Some (Item k) \<longleftrightarrow>
    (\<exists>i \<in> set (db_items d). qi_id i = k \<and> qi_lease_held i \<and> qi_gpu_uuid i = Some g)"
proof
  assume "gpu_owner d g = Some (Item k)"
  then obtain i rest where "lease_holders d g = i # rest" "qi_id i = k"
    by (auto simp: gpu_owner_def split: list.splits)
  then have "i \<in> set (lease_holders d g)" "qi_id i = k" by auto
  then show "\<exists>i \<in> set (db_items d). qi_id i = k \<and> qi_lease_held i \<and> qi_gpu_uuid i = Some g"
    by (auto simp: lease_holders_def)
qed (auto simp: gpu_owner_def unique_holder[OF assms])

lemma owner_reservation:
  assumes "system_inv d"
  shows "gpu_owner d g = Some (Reservation n) \<longleftrightarrow>
    (\<exists>v \<in> set (db_reservations d). v_id v = n \<and> v_status v = Res_active \<and> v_gpu_uuid v = g)"
proof
  assume "gpu_owner d g = Some (Reservation n)"
  then obtain v rest where "active_on d g = v # rest" "v_id v = n"
    by (auto simp: gpu_owner_def split: list.splits)
  then have "v \<in> set (active_on d g)" "v_id v = n" by auto
  then show "\<exists>v \<in> set (db_reservations d). v_id v = n \<and> v_status v = Res_active \<and> v_gpu_uuid v = g"
    by (auto simp: active_on_def)
next
  assume "\<exists>v \<in> set (db_reservations d). v_id v = n \<and> v_status v = Res_active \<and> v_gpu_uuid v = g"
  then obtain v where v: "v \<in> set (db_reservations d)" "v_id v = n" "v_status v = Res_active" "v_gpu_uuid v = g"
    by blast
  then have "lease_holders d g = []"
    using leased_not_reserved[OF assms _ _ _ v(1,4)] by (auto simp: lease_holders_def filter_empty_conv)
  moreover have "active_on d g = [v]" using v by (intro active_unique[OF assms]) (simp add: active_on_def)
  ultimately show "gpu_owner d g = Some (Reservation n)" using v by (simp add: gpu_owner_def)
qed

section \<open>The simulation\<close>

lemma quiet_ownership:
  assumes "quiet d d'" and inv: "system_inv d"
  shows "ownership_step (gpu_owner d) (gpu_owner d')"
proof (rule ownership_step.released)
  fix g
  have inv': "system_inv d'" using quiet_system_inv[OF assms] .
  have "db_reservations d' = db_reservations d" using assms(1) by (simp add: quiet_def)
  then have resv: "gpu_owner d' g = Some (Reservation n) \<longleftrightarrow> gpu_owner d g = Some (Reservation n)" for n
    using owner_reservation[OF inv] owner_reservation[OF inv'] by simp
  have item: "gpu_owner d g = Some (Item k)" if owned: "gpu_owner d' g = Some (Item k)" for k
  proof -
    obtain j where j: "j \<in> set (db_items d')" "qi_id j = k" "qi_lease_held j" "qi_gpu_uuid j = Some g"
      using owner_item[OF inv', THEN iffD1, OF owned] by blast
    obtain i where "i \<in> set (db_items d)" "item_step i j"
      using list_all2_preimage[OF quiet_items[OF assms(1)] j(1)] by blast
    then have "i \<in> set (db_items d) \<and> qi_id i = k \<and> qi_lease_held i \<and> qi_gpu_uuid i = Some g"
      using j same_identity_id[of i j] by (simp add: item_step_def item_trace_def)
    then show ?thesis by (intro owner_item[OF inv, THEN iffD2]) blast
  qed
  show "gpu_owner d' g = gpu_owner d g \<or> (\<exists>k. gpu_owner d g = Some (Item k) \<and> gpu_owner d' g = None)"
    using resv item by (metis holder.exhaust not_None_eq)
qed

lemma owner_cong:
  "lease_holders d' g = lease_holders d g \<Longrightarrow> active_on d' g = active_on d g \<Longrightarrow> gpu_owner d' g = gpu_owner d g"
  by (simp add: gpu_owner_def split: list.splits)

lemma same_tables_ownership:
  "db_items d' = db_items d \<Longrightarrow> db_reservations d' = db_reservations d \<Longrightarrow> gpu_owner d' = gpu_owner d"
  by (intro ext owner_cong) (simp_all add: lease_holders_def active_on_def)

lemma reservation_kept:
  assumes turn: "reservation_turn d d'" and inv: "system_inv d"
    and "gpu_owner d g = Some (Reservation n)" and "gpu_owner d' g = Some (Reservation n')"
  shows "n' = n"
proof -
  have inv': "system_inv d'" using turn inv reserves_system_inv by (auto simp: reservation_turn_def)
  obtain v where v: "v \<in> set (db_reservations d)" "v_id v = n" "open_status (v_status v)" "v_gpu_uuid v = g"
    using owner_reservation[OF inv, THEN iffD1, OF assms(3)] by (auto simp: open_status_def)
  obtain w where w: "w \<in> set (db_reservations d')" "v_id w = n'" "open_status (v_status w)" "v_gpu_uuid w = g"
    using owner_reservation[OF inv', THEN iffD1, OF assms(4)] by (auto simp: open_status_def)
  have "\<exists>u \<in> set (db_reservations d). v_id u = n' \<and> v_gpu_uuid u = g \<and> open_status (v_status u)"
    using turn unfolding reservation_turn_def
  proof (elim conjE disjE)
    assume "stays_open d d'"
    with w show ?thesis unfolding stays_open_def by blast
  next
    assume "adds_reservation d d'"
    then obtain u where u: "db_reservations d' = db_reservations d @ [u]" "open_reservations d (v_gpu_uuid u) = []"
      by (auto simp: adds_reservation_def)
    from u(2) v have "v_gpu_uuid u \<noteq> g" by (auto simp: open_reservations_def filter_empty_conv)
    with u(1) w show ?thesis by auto
  qed
  with open_unique[OF inv v(1)] v show ?thesis by metis
qed

lemma reserves_ownership:
  assumes turn: "reservation_turn d d'" and inv: "system_inv d"
  shows "ownership_step (gpu_owner d) (gpu_owner d')"
proof (rule ownership_step.reserved)
  fix g
  let ?m = "gpu_owner d" and ?m' = "gpu_owner d'"
  have "reserves d d'" using turn by (simp add: reservation_turn_def)
  then have items: "?m' g = Some (Item k) \<longleftrightarrow> ?m g = Some (Item k)" for k
    using owner_item[OF inv] owner_item[OF reserves_system_inv[OF _ inv]] by (simp add: reserves_def)
  show "?m' g = ?m g \<or> (\<exists>v. ?m g = None \<and> ?m' g = Some (Reservation v))
      \<or> (\<exists>v. ?m g = Some (Reservation v) \<and> ?m' g = None)"
    using items reservation_kept[OF assms, of g]
    by (cases "?m g"; cases "?m' g"; cases "the (?m g)"; cases "the (?m' g)") auto
qed

lemma claim_rows:
  assumes upd: "update_items x (\<lambda>i. qi_id i = k \<and> qi_state i = Queued) (claim_update gpu gpu_index) d = Inr (n, d1)"
    and inv: "system_inv d"
  shows "d1 = d \<or> (\<exists>i. find_item (db_items d) k = Some i \<and> qi_state i = Queued
    \<and> d1 = d\<lparr>db_items := update_rows (\<lambda>j. qi_id j = k) (claim_update gpu gpu_index) (db_items d)\<rparr>)"
proof (cases "\<exists>i \<in> set (db_items d). qi_id i = k \<and> qi_state i = Queued")
  case True
  then obtain i where i: "i \<in> set (db_items d)" "qi_id i = k" "qi_state i = Queued" by blast
  then have found: "find_item (db_items d) k = Some i"
    using item_table.lookup_unique[OF inv_ids[OF inv] i(1)] by simp
  have "update_rows (\<lambda>i. qi_id i = k \<and> qi_state i = Queued) f (db_items d) = update_rows (\<lambda>i. qi_id i = k) f (db_items d)" for f
    using inv_row[OF inv found] i(3) by (auto simp: update_rows_def intro!: map_cong)
  with upd found i(3) show ?thesis by (auto simp: update_items_eq_Inr)
next
  case False
  then have "update_rows (\<lambda>i. qi_id i = k \<and> qi_state i = Queued) f (db_items d) = db_items d" for f
    by (intro update_rows_absent) blast
  then show ?thesis using upd by (simp add: update_items_eq_Inr)
qed

lemma filter_update_rows:
  "(\<And>r. r \<in> set rows \<Longrightarrow> Q r \<Longrightarrow> \<not> P r \<and> \<not> P (f r)) \<Longrightarrow> filter P (update_rows Q f rows) = filter P rows"
  by (induction rows) (auto simp: update_rows_def)

lemma dispatchable_unowned: "gpu_dispatchable d gpu \<Longrightarrow> gpu_owner d gpu = None"
  by (auto simp: gpu_dispatchable_def gpu_owner_def active_on_def open_reservations_def filter_empty_conv
      open_status_def)

lemma claim_ownership:
  assumes "claims_gpu d d'" and inv: "system_inv d"
  shows "ownership_step (gpu_owner d) (gpu_owner d')"
proof -
  obtain k gpu gpu_index actor t c where run: "claim k gpu gpu_index actor t d = Inr (c, d')"
    using assms(1) by (auto simp: claims_gpu_def)
  note same = ownership_same[of "gpu_owner d"]
  have grant: "ownership_step (gpu_owner d) (gpu_owner d1)"
    if upd: "update_items V5SchedulerError (\<lambda>i. qi_id i = k \<and> qi_state i = Queued) (claim_update gpu gpu_index) d
        = Inr (n, d1)" and free: "gpu_dispatchable d gpu" for n d1
    using claim_rows[OF upd inv]
  proof
    assume "\<exists>i. find_item (db_items d) k = Some i \<and> qi_state i = Queued
      \<and> d1 = d\<lparr>db_items := update_rows (\<lambda>j. qi_id j = k) (claim_update gpu gpu_index) (db_items d)\<rparr>"
    then obtain i where i: "find_item (db_items d) k = Some i" "qi_state i = Queued"
      and d1: "d1 = d\<lparr>db_items := update_rows (\<lambda>j. qi_id j = k) (claim_update gpu gpu_index) (db_items d)\<rparr>" by blast
    have inv1: "system_inv d1" using claim_update_inv[OF upd inv free] .
    note row = item_table.lookup_SomeD[OF i(1)]
    have idle: "\<not> qi_lease_held i" using inv_item[OF inv] row i(2) by (auto simp: item_check_def lease_check_def)
    have only: "j = i" if "j \<in> set (db_items d)" "qi_id j = k" for j using inv_row[OF inv i(1) that] .
    have "gpu_owner d1 g = gpu_owner d g" if "g \<noteq> gpu" for g
    proof -
      have "lease_holders d1 g = lease_holders d g"
        unfolding lease_holders_def d1 using only idle that
        by (simp, intro filter_update_rows) (auto simp: claim_update_def)
      moreover have "active_on d1 g = active_on d g" by (simp add: active_on_def d1)
      ultimately show ?thesis by (rule owner_cong)
    qed
    moreover have "gpu_owner d1 gpu = Some (Item k)"
    proof (rule owner_item[OF inv1, THEN iffD2], rule bexI)
      show "claim_update gpu gpu_index i \<in> set (db_items d1)" using row by (auto simp: d1 in_update_rows)
    qed (use row in \<open>simp add: claim_update_def\<close>)
    ultimately have "gpu_owner d1 = (gpu_owner d)(gpu \<mapsto> Item k)" by (simp add: fun_eq_iff)
    moreover have "Item k \<notin> ran (gpu_owner d)"
      using only idle by (auto simp: ran_def owner_item[OF inv])
    ultimately show ?thesis
      using ownership_step.granted[where m = "gpu_owner d" and g = gpu] dispatchable_unowned[OF free] by simp
  qed (use same in simp)
  from run show ?thesis
  proof (cases rule: claim_cases)
    case refused
    with same show ?thesis by simp
  next
    case (ambiguous n)
    with grant show ?thesis by blast
  next
    case (claimed i c d1 payload)
    have "db_items d' = db_items d1" "db_reservations d' = db_reservations d1"
      using claimed(6) by (auto simp: sched_event_eq_Inr)
    with grant[OF claimed(5,4)] show ?thesis using same_tables_ownership by metis
  qed
qed

lemma admission_ownership:
  assumes "admits_item d d'" and inv: "system_inv d"
  shows "gpu_owner d' = gpu_owner d"
proof (rule ext, rule owner_cong)
  fix g
  obtain ec ga t i s where run: "admit ec ga t d = Inr ((i, s), d')" using assms(1) by (auto simp: admits_item_def)
  obtain p :: registered_project
    where "persist_admission ec ga (rp_id p) (ga_revision_id ga) (ga_snapshot ga) t d = Inr ((i, s), d')"
    using admitD[OF run] by blast
  note effect = persist_admission_inv[OF this inv, simplified]
  have "\<not> qi_lease_held i" using effect by (auto simp: admitted_item_def Let_def)
  moreover have "db_items d' = db_items d @ [i]" "db_reservations d' = db_reservations d"
    using effect by (auto simp: admission_extends_def)
  ultimately show "lease_holders d' g = lease_holders d g" "active_on d' g = active_on d g"
    by (simp_all add: lease_holders_def active_on_def)
qed

lemma item_keeps_gpu:
  "ownership_step m m' \<Longrightarrow> m g = Some (Item k) \<Longrightarrow> m' g' = Some (Item k) \<Longrightarrow> m g' = Some (Item k)"
proof (induction rule: ownership_step.induct)
  case (released m' m)
  from released(1)[of g'] released(3) show ?case by auto
next
  case (reserved m' m)
  from reserved(1)[of g'] reserved(3) show ?case by auto
qed (auto simp: ran_def split: if_splits)

lemma inv_same_id:
  assumes "system_inv d" and "i \<in> set (db_items d)" and "j \<in> set (db_items d)" and "qi_id j = qi_id i"
  shows "j = i"
  using assms item_table.lookup_unique[OF inv_ids[OF assms(1)]] by (metis option.inject)

lemma step_ownership:
  assumes "queue_step d d'" and inv: "system_inv d"
  shows "ownership_step (gpu_owner d) (gpu_owner d')"
  using queue_step_contract[OF assms]
proof (elim disjE)
  assume "registry {} d d'"
  then have "gpu_owner d' = gpu_owner d" using registryD(1,2) by (intro same_tables_ownership) blast+
  then show ?thesis by (simp add: ownership_same)
qed (use quiet_ownership[OF _ inv] reserves_ownership[OF _ inv] claim_ownership[OF _ inv]
    admission_ownership[OF _ inv] ownership_same in auto)

text \<open>An item loses its GPU only in a transaction that leaves it inactive.\<close>

lemma lease_outlives_activity:
  assumes "queue_step d d'" and inv: "system_inv d"
    and lost: "gpu_owner d g = Some (Item k)" "gpu_owner d' g \<noteq> Some (Item k)"
  shows "\<exists>j \<in> set (db_items d'). qi_id j = k \<and> \<not> active_state (qi_state j)"
proof -
  note after = queue_step_safe[OF assms(1) inv]
  obtain i where i: "i \<in> set (db_items d)" "qi_id i = k" "qi_lease_held i" "qi_gpu_uuid i = Some g"
    using owner_item[OF inv, THEN iffD1, OF lost(1)] by blast
  obtain j where j: "j \<in> set (db_items d')" "item_trace i j" using history_item[OF after(2) i(1)] by blast
  then have id: "qi_id j = k" using i(2) same_identity_id[of i j] by (simp add: item_trace_def)
  have "\<not> active_state (qi_state j)"
  proof
    assume "active_state (qi_state j)"
    then obtain g' where g': "qi_lease_held j" "qi_gpu_uuid j = Some g'"
      using inv_item[OF after(1) j(1)] by (auto simp: item_check_def lease_check_def)
    then have owner': "gpu_owner d' g' = Some (Item k)" using owner_item[OF after(1)] j(1) id by blast
    then have "gpu_owner d g' = Some (Item k)" by (rule item_keeps_gpu[OF step_ownership[OF assms(1,2)] lost(1)])
    then have "g' = g" using i(4) owner_item[OF inv] inv_same_id[OF inv i(1)] i(2) by force
    with owner' lost(2) show False by simp
  qed
  with j(1) id show ?thesis by blast
qed

text \<open>
  (C2) Every transaction refines the specification of GPU ownership. Seen through \<open>gpu_owner\<close>, a single
  transaction of any component either takes GPUs from items, or grants one free GPU to one item that owns none,
  or only turns free GPUs into reserved ones and back: no transaction hands an owned GPU to another item or
  reservation. And an item loses its GPU only in a transaction that leaves the item inactive.
\<close>

theorem gpu_ownership_refined:
  assumes "queue_step d d'" and "system_inv d"
  shows "ownership_step (gpu_owner d) (gpu_owner d')
    \<and> (\<forall>g h h'. gpu_owner d g = Some h \<longrightarrow> gpu_owner d' g = Some h' \<longrightarrow> h' = h)
    \<and> (\<forall>g k. gpu_owner d g = Some (Item k) \<longrightarrow> gpu_owner d' g \<noteq> Some (Item k) \<longrightarrow>
         (\<exists>j \<in> set (db_items d'). qi_id j = k \<and> \<not> active_state (qi_state j)))"
  using step_ownership[OF assms] no_handover[OF step_ownership[OF assms]] lease_outlives_activity[OF assms] by blast

section \<open>Example executions\<close>

lemma ex_claims:
  "case claim 1 ''GPU-a'' ''0'' ''scheduler'' ex_time (ex_db [ex_item 1]) of Inl e \<Rightarrow> False
   | Inr (c, d) \<Rightarrow> gpu_owner d ''GPU-a'' = Some (Item 1)"
  by code_simp

theorem gpu_ownership_refined_witness:
  "\<exists>d'. queue_step (ex_db [ex_item 1]) d' \<and> ownership_step (gpu_owner (ex_db [ex_item 1])) (gpu_owner d')
     \<and> gpu_owner (ex_db [ex_item 1]) ''GPU-a'' = None \<and> gpu_owner d' ''GPU-a'' = Some (Item 1)"
proof -
  obtain c d' where run: "claim 1 ''GPU-a'' ''0'' ''scheduler'' ex_time (ex_db [ex_item 1]) = Inr (c, d')"
    and owner: "gpu_owner d' ''GPU-a'' = Some (Item 1)"
    using case_InrD[OF ex_claims] by auto
  have step: "queue_step (ex_db [ex_item 1]) d'" by (rule queue_step.dispatch[OF run])
  have "gpu_owner (ex_db [ex_item 1]) ''GPU-a'' = None" by code_simp
  with step owner gpu_ownership_refined[OF step ex_db_invariant(1)] show ?thesis by blast
qed

definition ex_fresh :: db where
  "ex_fresh = fresh_db ''schema'' ex_sha ''instance''"

lemma ex_boot:
  "succeeds (add_gpu ''GPU-a'' ''GPU-a'' ''0'' ''A100'' ''operator'' ex_time ex_fresh) (\<lambda>u. True)"
  by code_simp

theorem every_execution_safe_witness:
  "\<exists>d. execution ex_fresh d \<and> system_inv d \<and> prefix (db_events ex_fresh) (db_events d)"
proof -
  obtain u d where run: "add_gpu ''GPU-a'' ''GPU-a'' ''0'' ''A100'' ''operator'' ex_time ex_fresh = Inr (u, d)"
    using succeedsD[OF ex_boot] by blast
  have step: "execution ex_fresh d" using queue_step.allow_gpu[OF run] by blast
  have "system_inv d"
    using every_execution_safe[OF step[unfolded ex_fresh_def], of d] by blast
  moreover have "prefix (db_events ex_fresh) (db_events d)"
    using every_execution_safe[of "''schema''" ex_sha "''instance''" ex_fresh d] step by (simp add: ex_fresh_def)
  ultimately show ?thesis using step by blast
qed

end
