(* ===== verification/Host_V5.thy ===== *)
theory Host_V5
  imports System_V5
begin

text \<open>
  The scheduler service runs transactions on the shared database between operations on the host. This
  theory is the interface to the host and the discipline of the service's methods.

  A method is an action on the service's state: it returns a value or raises an exception (its class and
  its message), and keeps the state changes made before it raised. \<open>transact\<close> runs one transaction of a
  repository or controller; before it the transactions of other processes (command line, web, another
  scheduler's recovery) may have run, which \<open>h_others\<close> decides. A transaction that raises rolls back.

  \<open>host\<close> holds what the service calls outside this development: clocks, telemetry, locks, processes and
  signals, worktrees, attempt preparation and launch, files. Its state is any type, its operations any
  functions. \<open>cooperative\<close> is the one assumption the composition needs: other processes only use the
  transactions of \<open>queue_step\<close>.

  \<open>drives\<close> is the contract of an action: whatever the host does, the database only moves along an
  execution. The rules \<open>drive\<close> derive it for a method from its statements.
\<close>

named_theorems drive \<open>rules that take an action apart statement by statement\<close>

section \<open>Data shared with the host\<close>

type_synonym failure = "exn \<times> string"

type_synonym ('h, 'a) call = "'h \<Rightarrow> (failure + 'a) \<times> 'h"

record attempt_paths =
  ap_segment_root :: string
  ap_launch_receipt :: string
  ap_exit_receipt :: string
  ap_yield_request :: string
  ap_yield_receipt :: string

record prepared_attempt =
  pa_item_id :: int
  pa_project_id :: int
  pa_revision_id :: int
  pa_experiment_id :: string
  pa_attempt :: int
  pa_segment :: int
  pa_git_commit :: string
  pa_resolved_sha256 :: "string option"
  pa_admission_kind :: admission_kind
  pa_command_kind :: string
  pa_worktree :: string
  pa_primary_repo :: "string option"
  pa_gpu_uuid :: string
  pa_paths :: attempt_paths

record launched_attempt =
  la_prepared :: prepared_attempt
  la_pid :: int
  la_pgid :: int
  la_start_ticks :: "string option"

record launch_receipt =
  lc_pid :: int
  lc_pgid :: int
  lc_start_ticks :: "string option"
  lc_published_at :: string

text \<open>An execution plan is only passed on, so it is a handle.\<close>

type_synonym plan = nat

record legacy_context =
  lx_item :: queue_item
  lx_project_key :: string
  lx_revision_label :: string
  lx_git_ref :: string
  lx_worktree_path :: string

record prepared_dispatch =
  pd_prepared :: prepared_attempt
  pd_candidate :: dispatch_candidate
  pd_revision :: "project_revision option"
  pd_evidence :: "worktree_evidence option"
  pd_plan :: "plan option"
  pd_legacy :: "legacy_context option"

type_synonym replay_key = "int \<times> int \<times> stage \<times> int option \<times> int option \<times> string option \<times> rat"

text \<open>What a system call on processes answers: \<open>ProcessLookupError\<close>, \<open>PermissionError\<close>, another \<open>OSError\<close>.\<close>

datatype 'a reply = Answer 'a | No_process | Not_permitted | Os_failed string

record 'h host =
  h_clock :: "'h \<Rightarrow> string \<times> 'h"
  h_epoch :: "'h \<Rightarrow> pyfloat \<times> 'h"
  h_monotonic :: "'h \<Rightarrow> rat \<times> 'h"
  h_token :: "nat \<Rightarrow> 'h \<Rightarrow> string \<times> 'h"
  h_message :: "'h \<Rightarrow> error \<Rightarrow> string"
  h_others :: "'h \<Rightarrow> db \<Rightarrow> db \<times> 'h"
  h_gpus :: "('h, gpu_snapshot list) call"
  h_lock_gpu :: "string \<Rightarrow> ('h, bool) call"
  h_unlock_gpu :: "string \<Rightarrow> 'h \<Rightarrow> 'h"
  h_lock_scheduler :: "('h, bool) call"
  h_unlock_scheduler :: "'h \<Rightarrow> 'h"
  h_disk_usage :: "'h \<Rightarrow> string \<Rightarrow> int option"
  h_files :: "'h \<Rightarrow> file_view"
  h_checkpoint_files :: "'h \<Rightarrow> host_files"
  h_publish_once :: "string \<Rightarrow> string \<Rightarrow> string \<Rightarrow> ('h, unit) call"
  h_publish :: "string \<Rightarrow> string \<Rightarrow> string \<Rightarrow> ('h, unit) call"
  h_unlink :: "string \<Rightarrow> ('h, unit) call"
  h_private_directory :: "string list \<Rightarrow> ('h, string) call"
  h_kill :: "int \<Rightarrow> string \<Rightarrow> 'h \<Rightarrow> unit reply \<times> 'h"
  h_killpg :: "int \<Rightarrow> string \<Rightarrow> 'h \<Rightarrow> unit reply \<times> 'h"
  h_getpgid :: "int \<Rightarrow> 'h \<Rightarrow> int reply \<times> 'h"
  h_start_ticks :: "int \<Rightarrow> 'h \<Rightarrow> string option \<times> 'h"
  h_proc_mounted :: "'h \<Rightarrow> bool"
  h_poll :: "int \<Rightarrow> 'h \<Rightarrow> int option \<times> 'h"
  h_wait :: "int \<Rightarrow> 'h \<Rightarrow> bool \<times> 'h"
  h_prepare_worktree :: "project_revision \<Rightarrow> int \<Rightarrow> ('h, worktree_evidence) call"
  h_cleanup_worktree :: "project_revision \<Rightarrow> worktree_evidence \<Rightarrow> ('h, unit) call"
  h_recover_worktree :: "project_revision \<Rightarrow> int \<Rightarrow> worktree_evidence \<Rightarrow> ('h, unit) call"
  h_expected_evidence :: "project_revision \<Rightarrow> int \<Rightarrow> ('h, worktree_evidence) call"
  h_evidence_ok :: "worktree_evidence \<Rightarrow> ('h, unit) call"
  h_plan :: "admission_snapshot \<Rightarrow> project_revision \<Rightarrow> string \<Rightarrow> string \<Rightarrow> ('h, plan) call"
  h_prepare_structured :: "queue_item \<Rightarrow> project_revision \<Rightarrow> admission_snapshot \<Rightarrow> plan \<Rightarrow> worktree_evidence
    \<Rightarrow> string \<Rightarrow> string \<Rightarrow> bool \<Rightarrow> string option \<Rightarrow> ('h, prepared_attempt) call"
  h_legacy_context :: "int \<Rightarrow> bool \<Rightarrow> bool \<Rightarrow> bool \<Rightarrow> db \<Rightarrow> ('h, legacy_context) call"
  h_prepare_legacy :: "queue_item \<Rightarrow> legacy_context \<Rightarrow> string \<Rightarrow> string \<Rightarrow> bool \<Rightarrow> ('h, prepared_attempt) call"
  h_remove_legacy :: "legacy_context \<Rightarrow> ('h, unit) call"
  h_launch :: "prepared_attempt \<Rightarrow> ('h, launched_attempt) call"
  h_read_exit :: "prepared_attempt \<Rightarrow> ('h, executor_receipt) call"
  h_read_launch :: "prepared_attempt \<Rightarrow> int option \<Rightarrow> int option \<Rightarrow> string option \<Rightarrow> ('h, launch_receipt) call"
  h_inspect_launch :: "string \<Rightarrow> ('h, launch_receipt) call"
  h_observe :: "plan \<Rightarrow> bool \<Rightarrow> ('h, observed_artifact list) call"
  h_sleep :: "'h \<Rightarrow> 'h"
  h_stop_requested :: "'h \<Rightarrow> bool"

section \<open>The service's state and its actions\<close>

record 'h service =
  sv_db :: db
  sv_host :: 'h
  sv_locks :: "string list"
  sv_processes :: "(int \<times> launched_attempt) list"
  sv_contexts :: "(int \<times> prepared_dispatch) list"
  sv_replayed :: "replay_key list"
  sv_scheduler_lock :: bool
  sv_last_poll :: rat

type_synonym ('h, 'a) action = "'h service \<Rightarrow> (failure + 'a) \<times> 'h service"

definition yields :: "'a \<Rightarrow> ('h, 'a) action" where
  "yields v s = (Inr v, s)"

definition raises :: "exn \<Rightarrow> string \<Rightarrow> ('h, 'a) action" where
  "raises x message s = (Inl (x, message), s)"

definition next_do :: "('h, 'a) action \<Rightarrow> ('a \<Rightarrow> ('h, 'b) action) \<Rightarrow> ('h, 'b) action" where
  "next_do m f s = (case m s of (Inl e, s') \<Rightarrow> (Inl e, s') | (Inr v, s') \<Rightarrow> f v s')"

text \<open>\<open>try: m  except (classes) as exc: handler(exc)\<close>.\<close>

definition handled :: "exn list \<Rightarrow> (failure \<Rightarrow> ('h, 'a) action) \<Rightarrow> ('h, 'a) action \<Rightarrow> ('h, 'a) action" where
  "handled classes handler m s = (case m s of
      (Inl e, s') \<Rightarrow> if fst e \<in> set classes then handler e s' else (Inl e, s')
    | (Inr v, s') \<Rightarrow> (Inr v, s'))"

text \<open>\<open>except Exception\<close>, and \<open>except BaseException\<close> with every class.\<close>

definition handled_any :: "(failure \<Rightarrow> ('h, 'a) action) \<Rightarrow> ('h, 'a) action \<Rightarrow> ('h, 'a) action" where
  "handled_any handler m s = (case m s of
      (Inl e, s') \<Rightarrow> if fst e \<noteq> KeyboardInterrupt then handler e s' else (Inl e, s')
    | (Inr v, s') \<Rightarrow> (Inr v, s'))"

definition handled_base :: "(failure \<Rightarrow> ('h, 'a) action) \<Rightarrow> ('h, 'a) action \<Rightarrow> ('h, 'a) action" where
  "handled_base handler m s = (case m s of (Inl e, s') \<Rightarrow> handler e s' | (Inr v, s') \<Rightarrow> (Inr v, s'))"

text \<open>\<open>finally\<close>, with a clean-up that cannot raise.\<close>

definition finally_do :: "('h service \<Rightarrow> 'h service) \<Rightarrow> ('h, 'a) action \<Rightarrow> ('h, 'a) action" where
  "finally_do cleanup m s = (case m s of (r, s') \<Rightarrow> (r, cleanup s'))"

definition on_host :: "('h \<Rightarrow> 'a \<times> 'h) \<Rightarrow> ('h, 'a) action" where
  "on_host f s = (case f (sv_host s) of (v, h) \<Rightarrow> (Inr v, s\<lparr>sv_host := h\<rparr>))"

definition call_host :: "('h, 'a) call \<Rightarrow> ('h, 'a) action" where
  "call_host f s = (case f (sv_host s) of (r, h) \<Rightarrow> (r, s\<lparr>sv_host := h\<rparr>))"

definition ask :: "('h service \<Rightarrow> 'a) \<Rightarrow> ('h, 'a) action" where
  "ask f s = (Inr (f s), s)"

definition change :: "('h service \<Rightarrow> 'h service) \<Rightarrow> ('h, unit) action" where
  "change f s = (Inr (), f s)"

definition interleave :: "'h host \<Rightarrow> 'h service \<Rightarrow> 'h service" where
  "interleave H s = (case h_others H (sv_host s) (sv_db s) of (d, h) \<Rightarrow> s\<lparr>sv_db := d, sv_host := h\<rparr>)"

definition transact :: "'h host \<Rightarrow> (db \<Rightarrow> ('a \<times> db) result) \<Rightarrow> ('h, 'a) action" where
  "transact H op s = (let s' = interleave H s in case op (sv_db s') of
      Inl e \<Rightarrow> (Inl (fst e, h_message H (sv_host s') e), s')
    | Inr (v, d) \<Rightarrow> (Inr v, s'\<lparr>sv_db := d\<rparr>))"

definition query :: "'h host \<Rightarrow> (db \<Rightarrow> 'a result) \<Rightarrow> ('h, 'a) action" where
  "query H q = transact H (\<lambda>d. and_then (q d) (\<lambda>v. Inr (v, d)))"

text \<open>A check outside any transaction, with the message the host knows.\<close>

definition checked :: "'h host \<Rightarrow> 'a result \<Rightarrow> ('h, 'a) action" where
  "checked H r s = (case r of Inl e \<Rightarrow> (Inl (fst e, h_message H (sv_host s) e), s) | Inr v \<Rightarrow> (Inr v, s))"

definition ensure_or :: "bool \<Rightarrow> exn \<Rightarrow> string \<Rightarrow> ('h, 'a) action \<Rightarrow> ('h, 'a) action" where
  "ensure_or c x message m s = (if c then m s else (Inl (x, message), s))"

fun each_do :: "('x \<Rightarrow> ('h, unit) action) \<Rightarrow> 'x list \<Rightarrow> ('h, unit) action" where
  "each_do f [] = yields ()"
| "each_do f (x # xs) = next_do (f x) (\<lambda>_. each_do f xs)"

declare yields_def [code_unfold] raises_def [code_unfold] next_do_def [code_unfold]
  handled_def [code_unfold] handled_any_def [code_unfold] handled_base_def [code_unfold]
  finally_do_def [code_unfold] on_host_def [code_unfold] call_host_def [code_unfold]
  ask_def [code_unfold] change_def [code_unfold] ensure_or_def [code_unfold]

text \<open>The exception classes a handler for \<open>V5RepositoryError\<close> or \<open>AttemptRuntimeError\<close> catches with their subclasses.\<close>

definition repository_errors :: "exn list" where
  "repository_errors = [V5RepositoryError, V5NotFoundError, V5EvidenceError]"

definition attempt_errors :: "exn list" where
  "attempt_errors = [AttemptRuntimeError, AttemptLaunchUncertainError]"

section \<open>The contract\<close>

definition cooperative :: "'h host \<Rightarrow> bool" where
  "cooperative H = (\<forall>h d. execution d (fst (h_others H h d)))"

definition drives :: "('h, 'a) action \<Rightarrow> bool" where
  "drives m = (\<forall>s. execution (sv_db s) (sv_db (snd (m s))))"

lemma drivesD: "drives m \<Longrightarrow> execution (sv_db s) (sv_db (snd (m s)))"
  by (simp add: drives_def)

lemma drives_step: "drives m \<Longrightarrow> m s = (r, s') \<Longrightarrow> execution (sv_db s) (sv_db s')"
  using drivesD[of m s] by simp

lemma drives_yields [drive]: "drives (yields v)"
  by (simp add: drives_def yields_def)

lemma drives_raises [drive]: "drives (raises x message)"
  by (simp add: drives_def raises_def)

lemma drives_next [drive]:
  assumes "drives m" and "\<And>v. drives (f v)"
  shows "drives (next_do m f)"
  unfolding drives_def
proof
  fix s
  obtain r s' where run: "m s = (r, s')" by fastforce
  have "execution (sv_db s') (sv_db (snd (f v s')))" for v using assms(2) by (rule drivesD)
  with drives_step[OF assms(1) run] run show "execution (sv_db s) (sv_db (snd (next_do m f s)))"
    by (cases r) (auto simp: next_do_def intro: rtranclp_trans)
qed

lemma drives_handled_base [drive]:
  assumes "drives m" and "\<And>e. drives (handler e)"
  shows "drives (handled_base handler m)"
  unfolding drives_def
proof
  fix s
  obtain r s' where run: "m s = (r, s')" by fastforce
  have "execution (sv_db s') (sv_db (snd (handler e s')))" for e using assms(2) by (rule drivesD)
  with drives_step[OF assms(1) run] run show "execution (sv_db s) (sv_db (snd (handled_base handler m s)))"
    by (cases r) (auto simp: handled_base_def intro: rtranclp_trans)
qed

lemma handled_as_base:
  "handled classes handler m = handled_base (\<lambda>e. if fst e \<in> set classes then handler e else raises (fst e) (snd e)) m"
  by (auto simp: fun_eq_iff handled_def handled_base_def raises_def split: prod.splits sum.splits)

lemma handled_any_as_base:
  "handled_any handler m = handled_base (\<lambda>e. if fst e \<noteq> KeyboardInterrupt then handler e else raises (fst e) (snd e)) m"
  by (auto simp: fun_eq_iff handled_any_def handled_base_def raises_def split: prod.splits sum.splits)

lemma drives_if [drive]: "drives a \<Longrightarrow> drives b \<Longrightarrow> drives (if c then a else b)"
  by simp

lemma drives_handled [drive]: "drives m \<Longrightarrow> (\<And>e. drives (handler e)) \<Longrightarrow> drives (handled classes handler m)"
  unfolding handled_as_base by (intro drives_handled_base drives_if drives_raises)

lemma drives_handled_any [drive]: "drives m \<Longrightarrow> (\<And>e. drives (handler e)) \<Longrightarrow> drives (handled_any handler m)"
  unfolding handled_any_as_base by (intro drives_handled_base drives_if drives_raises)

lemma drives_finally [drive]:
  assumes "drives m" and "\<And>s. sv_db (cleanup s) = sv_db s"
  shows "drives (finally_do cleanup m)"
  using assms by (auto simp: drives_def finally_do_def split: prod.splits) (metis snd_conv)

lemma drives_on_host [drive]: "drives (on_host f)"
  by (auto simp: drives_def on_host_def split: prod.splits)

lemma drives_call_host [drive]: "drives (call_host f)"
  by (auto simp: drives_def call_host_def split: prod.splits)

lemma drives_ask [drive]: "drives (ask f)"
  by (simp add: drives_def ask_def)

lemma drives_change [drive]: "(\<And>s. sv_db (f s) = sv_db s) \<Longrightarrow> drives (change f)"
  by (simp add: drives_def change_def)

lemma drives_checked [drive]: "drives (checked H r)"
  by (auto simp: drives_def checked_def split: sum.splits)

lemma drives_ensure_or [drive]: "drives m \<Longrightarrow> drives (ensure_or c x message m)"
  by (auto simp: drives_def ensure_or_def)

lemma drives_case_option [drive]:
  "drives a \<Longrightarrow> (\<And>x. drives (f x)) \<Longrightarrow> drives (case v of None \<Rightarrow> a | Some x \<Rightarrow> f x)"
  by (cases v) simp_all

lemma drives_case_prod [drive]: "(\<And>x y. drives (f x y)) \<Longrightarrow> drives (case p of (x, y) \<Rightarrow> f x y)"
  by (cases p) simp

lemma drives_case_list [drive]:
  "drives a \<Longrightarrow> (\<And>x xs. drives (f x xs)) \<Longrightarrow> drives (case v of [] \<Rightarrow> a | x # xs \<Rightarrow> f x xs)"
  by (cases v) simp_all

lemma drives_case_kind [drive]:
  "drives a \<Longrightarrow> drives b \<Longrightarrow> drives (case k of Experiment_card \<Rightarrow> a | Legacy_card \<Rightarrow> b)"
  by (cases k) simp_all

lemma drives_let [drive]: "(\<And>x. drives (f x)) \<Longrightarrow> drives (let x = e in f x)"
  by simp

lemma drives_each [drive]: "(\<And>x. drives (f x)) \<Longrightarrow> drives (each_do f xs)"
  by (induction xs) (auto intro: drives_yields drives_next)

lemma interleave_drives: "cooperative H \<Longrightarrow> execution (sv_db s) (sv_db (interleave H s))"
  by (auto simp: interleave_def cooperative_def split: prod.splits) (metis fst_conv)

lemma drives_transact:
  assumes "cooperative H" and "\<And>d v d'. op d = Inr (v, d') \<Longrightarrow> execution d d'"
  shows "drives (transact H op)"
  unfolding drives_def
proof
  fix s
  let ?s = "interleave H s"
  note others = interleave_drives[OF assms(1), of s]
  show "execution (sv_db s) (sv_db (snd (transact H op s)))"
  proof (cases "op (sv_db ?s)")
    case (Inr w)
    obtain v d where "w = (v, d)" by fastforce
    with Inr assms(2)[of "sv_db ?s" v d] others show ?thesis by (auto simp: transact_def Let_def)
  qed (use others in \<open>simp add: transact_def Let_def\<close>)
qed

lemma drives_query [drive]: "cooperative H \<Longrightarrow> drives (query H q)"
  unfolding query_def by (rule drives_transact) auto

text \<open>One rule per transaction of the services, from its step.\<close>

lemma drives_transaction:
  "cooperative H \<Longrightarrow> (\<And>d v d'. op d = Inr (v, d') \<Longrightarrow> queue_step d d') \<Longrightarrow> drives (transact H op)"
  by (rule drives_transact) blast+

lemmas drives_transactions [drive] =
  drives_transaction[OF _ queue_step.pause] drives_transaction[OF _ queue_step.quarantine]
  drives_transaction[OF _ queue_step.block] drives_transaction[OF _ queue_step.dispatch]
  drives_transaction[OF _ queue_step.terminate] drives_transaction[OF _ queue_step.signal]
  drives_transaction[OF _ queue_step.escalate] drives_transaction[OF _ queue_step.terminated]
  drives_transaction[OF _ queue_step.free_gpu] drives_transaction[OF _ queue_step.launch]
  drives_transaction[OF _ queue_step.complete] drives_transaction[OF _ queue_step.fail]
  drives_transaction[OF _ queue_step.abandon] drives_transaction[OF _ queue_step.worktree]
  drives_transaction[OF _ queue_step.worktree_cleanup] drives_transaction[OF _ queue_step.adopt]
  drives_transaction[OF _ queue_step.adopted_cleanup] drives_transaction[OF _ queue_step.artifacts]
  drives_transaction[OF _ queue_step.yield_signal] drives_transaction[OF _ queue_step.yield_signalled]
  drives_transaction[OF _ queue_step.disk] drives_transaction[OF _ queue_step.reconcile]
  drives_transaction[OF _ queue_step.event] drives_transaction[OF _ queue_step.yield_request]
  drives_transaction[OF _ queue_step.yield_receipt] drives_transaction[OF _ queue_step.requeue]
  drives_transaction[OF _ queue_step.isolate] drives_transaction[OF _ queue_step.legacy_request]
  drives_transaction[OF _ queue_step.legacy_withdraw] drives_transaction[OF _ queue_step.legacy_resume]
  drives_transaction[OF _ queue_step.legacy_requeue] drives_transaction[OF _ queue_step.refresh]

lemma drives_case_reply [drive]:
  "(\<And>x. drives (f x)) \<Longrightarrow> drives a \<Longrightarrow> drives b \<Longrightarrow> (\<And>m. drives (g m)) \<Longrightarrow>
     drives (case r of Answer x \<Rightarrow> f x | No_process \<Rightarrow> a | Not_permitted \<Rightarrow> b | Os_failed m \<Rightarrow> g m)"
  by (cases r) simp_all

text \<open>The message of an exception raised by a check is what the host's Python prints for it.\<close>

definition fails :: "'h host \<Rightarrow> exn \<Rightarrow> reason \<Rightarrow> ('h, 'a) action" where
  "fails H x r = checked H (Inl (x, r))"

definition unless_fails :: "'h host \<Rightarrow> bool \<Rightarrow> exn \<Rightarrow> reason \<Rightarrow> ('h, 'a) action \<Rightarrow> ('h, 'a) action" where
  "unless_fails H c x r m s = (if c then m s else fails H x r s)"

lemma drives_fails [drive]: "drives (fails H x r)"
  unfolding fails_def by (rule drives_checked)

lemma drives_unless_fails [drive]: "drives m \<Longrightarrow> drives (unless_fails H c x r m)"
  using drives_fails[of H x r] by (auto simp: drives_def unless_fails_def)

section \<open>Processes\<close>

text \<open>
  \<open>attempt_runtime.py\<close>: a process is authenticated by its group and its start time before it is signalled,
  so a reused process identifier is never signalled.
\<close>

definition process_identity_matches :: "'h host \<Rightarrow> int \<Rightarrow> int \<Rightarrow> string option \<Rightarrow> ('h, bool) action" where
  "process_identity_matches H pid pgid ticks =
    unless_fails H (pid > 0) AttemptRuntimeError Bad_integer
   (unless_fails H (pgid > 0) AttemptRuntimeError Bad_integer
   (next_do (on_host (h_kill H pid ''0'')) (\<lambda>probe.
    case probe of
      No_process \<Rightarrow> yields False
    | Not_permitted \<Rightarrow> yields False
    | Os_failed message \<Rightarrow> raises OSError message
    | Answer _ \<Rightarrow> next_do (on_host (h_getpgid H pid)) (\<lambda>group.
        case group of
          No_process \<Rightarrow> yields False
        | Not_permitted \<Rightarrow> yields False
        | Os_failed message \<Rightarrow> raises OSError message
        | Answer actual \<Rightarrow>
            if actual \<noteq> pgid then yields False
            else (case ticks of
                None \<Rightarrow> yields False
              | Some t \<Rightarrow> next_do (on_host (h_start_ticks H pid)) (\<lambda>actual_ticks.
                  yields (actual_ticks = Some t)))))))"

definition signal_recorded_process ::
  "'h host \<Rightarrow> int \<Rightarrow> int \<Rightarrow> string option \<Rightarrow> string \<Rightarrow> ('h, bool) action" where
  "signal_recorded_process H pid pgid ticks signum =
    unless_fails H (signum \<in> {''SIGINT'', ''SIGTERM'', ''SIGKILL''}) AttemptRuntimeError Bad_argument
   (next_do (process_identity_matches H pid pgid ticks) (\<lambda>matches.
    if \<not> matches then yields False
    else next_do (if signum = ''SIGKILL'' then on_host (h_killpg H pgid signum) else on_host (h_kill H pid signum))
      (\<lambda>sent. case sent of
         Answer _ \<Rightarrow> yields True
       | No_process \<Rightarrow> yields False
       | Not_permitted \<Rightarrow> fails H AttemptRuntimeError Not_allowed
       | Os_failed message \<Rightarrow> raises OSError message)))"

definition named_process_group_exists :: "'h host \<Rightarrow> exn \<Rightarrow> int \<Rightarrow> ('h, bool) action" where
  "named_process_group_exists H x pgid =
    next_do (on_host (h_killpg H pgid ''0'')) (\<lambda>probe. case probe of
       Answer _ \<Rightarrow> yields True
     | No_process \<Rightarrow> yields False
     | Not_permitted \<Rightarrow> yields True
     | Os_failed message \<Rightarrow> raises x (''could not inspect named process group '' @ str_int pgid @ '': '' @ message))"

text \<open>The kill of a failed launch: with a start time it is authenticated, without one it goes to the own child.\<close>

definition kill_launch :: "'h host \<Rightarrow> int \<Rightarrow> string option \<Rightarrow> ('h, bool) action" where
  "kill_launch H pid ticks = (case ticks of
      Some t \<Rightarrow> signal_recorded_process H pid pid (Some t) ''SIGKILL''
    | None \<Rightarrow> next_do (on_host (h_poll H pid)) (\<lambda>code.
        if code \<noteq> None then yields False
        else next_do (on_host (h_getpgid H pid)) (\<lambda>group. case group of
           Answer actual \<Rightarrow> if actual \<noteq> pid then yields False
             else next_do (on_host (h_killpg H pid ''SIGKILL'')) (\<lambda>sent. case sent of
                Answer _ \<Rightarrow> yields True
              | No_process \<Rightarrow> fails H OSError Row_missing
              | Not_permitted \<Rightarrow> fails H OSError Not_allowed
              | Os_failed message \<Rightarrow> raises OSError message)
         | No_process \<Rightarrow> fails H OSError Row_missing
         | Not_permitted \<Rightarrow> fails H OSError Not_allowed
         | Os_failed message \<Rightarrow> raises OSError message)))"

definition stop_launched_attempt :: "'h host \<Rightarrow> launched_attempt \<Rightarrow> ('h, unit) action" where
  "stop_launched_attempt H launched =
    (let pid = la_pid launched;
         uncertain = (\<lambda>e. fails H AttemptLaunchUncertainError Corrupt_evidence) in
     next_do (handled attempt_errors uncertain (named_process_group_exists H AttemptRuntimeError pid)) (\<lambda>there.
     if \<not> there then
       next_do (on_host (h_poll H pid)) (\<lambda>code.
       if code \<noteq> None then yields ()
       else next_do (on_host (h_wait H pid)) (\<lambda>reaped.
         unless_fails H reaped AttemptLaunchUncertainError Not_idle (yields ())))
     else
       next_do (handled (attempt_errors @ [OSError]) uncertain (kill_launch H pid (la_start_ticks launched))) (\<lambda>delivered.
       unless_fails H delivered AttemptLaunchUncertainError Not_allowed
      (next_do (on_host (h_wait H pid)) (\<lambda>reaped.
       unless_fails H reaped AttemptLaunchUncertainError Not_idle
      (next_do (handled attempt_errors uncertain (named_process_group_exists H AttemptRuntimeError pid)) (\<lambda>still.
       unless_fails H (\<not> still) AttemptLaunchUncertainError Not_idle (yields ()))))))))"

lemma drives_process_identity_matches [drive]: "drives (process_identity_matches H pid pgid ticks)"
  unfolding process_identity_matches_def by (intro drive)

lemma drives_signal_recorded_process [drive]: "drives (signal_recorded_process H pid pgid ticks signum)"
  unfolding signal_recorded_process_def by (intro drive)

lemma drives_named_process_group [drive]: "drives (named_process_group_exists H x pgid)"
  unfolding named_process_group_exists_def by (intro drive)

lemma drives_kill_launch [drive]: "drives (kill_launch H pid ticks)"
  unfolding kill_launch_def by (intro drive)

lemma drives_stop_launched_attempt [drive]: "drives (stop_launched_attempt H launched)"
  unfolding stop_launched_attempt_def Let_def by (intro drive)

section \<open>Control paths\<close>

text \<open>\<open>AttemptPaths.create\<close>: the host creates the private directory of a segment, the names in it are fixed.\<close>

definition attempt_paths_of :: "string \<Rightarrow> attempt_paths" where
  "attempt_paths_of segment_root =
    \<lparr>ap_segment_root = segment_root, ap_launch_receipt = path_join segment_root ''launch.json'',
     ap_exit_receipt = path_join segment_root ''exit.json'',
     ap_yield_request = path_join segment_root ''yield-request.json'',
     ap_yield_receipt = path_join segment_root ''yield-receipt.json''\<rparr>"

definition create_attempt_paths :: "'h host \<Rightarrow> string \<Rightarrow> string \<Rightarrow> int \<Rightarrow> int \<Rightarrow> ('h, attempt_paths) action" where
  "create_attempt_paths H state_dir project_key item_id segment =
    unless_fails H (plain_text project_key \<and> slug_check project_key) AttemptRuntimeError Bad_text
   (unless_fails H (item_id > 0) AttemptRuntimeError Bad_integer
   (unless_fails H (segment > 0) AttemptRuntimeError Bad_integer
   (next_do (call_host (h_private_directory H [state_dir, ''attempts'', ''projects'', project_key, ''items'',
        str_int item_id, ''segments'', str_int segment])) (\<lambda>segment_root.
    yields (attempt_paths_of segment_root)))))"

lemma drives_create_attempt_paths [drive]: "drives (create_attempt_paths H state_dir key k n)"
  unfolding create_attempt_paths_def by (intro drive)

end
