(* ===== verification/Continuation_V5.thy ===== *)
theory Continuation_V5
  imports Host_V5
begin

text \<open>
  The two coordinators of manual preemption, \<open>V5ContinuationCoordinator\<close> (\<open>continuation_v5.py\<close>) for typed
  items and \<open>LegacyV0ContinuationCoordinator\<close> (\<open>legacy_continuation_v0.py\<close>) for imported ones: the durable
  request, its publication and the signal; the recovery of a pending request after a restart; and the
  finalization that requeues or isolates the attempt. Both persist before they publish, and publish
  before they signal.

  The message of an exception raised by a check is what the host's Python prints; it is \<open>h_message\<close> of the
  error. Reasons written to the database are built from those messages as the code builds them.
\<close>

abbreviation cont_error :: "reason \<Rightarrow> error" where
  "cont_error r \<equiv> (V5ContinuationError, r)"

text \<open>The readers and digests of the repository and the state directory, fixed when the service starts.\<close>

record service_config =
  cf_checks :: evidence_checks
  cf_wire :: wire
  cf_state_dir :: string
  cf_poll :: rat
  cf_control :: rat
  cf_grace :: rat
  cf_retry :: rat
  cf_min_free :: rat
  cf_max_utilization :: rat
  cf_min_disk :: rat

definition py_repr :: "string \<Rightarrow> string" where
  "py_repr s =
    (let q = (if CHR 0x27 \<in> set s \<and> CHR 0x22 \<notin> set s then CHR 0x22 else CHR 0x27); bs = [char_of (92::nat)];
         one = (\<lambda>c. let n = ord c in
           if c = q \<or> n = 92 then bs @ [c]
           else if n = 10 then bs @ ''n'' else if n = 13 then bs @ ''r'' else if n = 9 then bs @ ''t''
           else if n < 32 \<or> 127 \<le> n \<and> n \<le> 160 \<or> n = 173
             then bs @ ''x'' @ [hex_digit (n div 16), hex_digit (n mod 16)]
           else [c])
     in [q] @ concat (map one s) @ [q])"

abbreviation the_clock :: "'h host \<Rightarrow> ('h, string) action" where
  "the_clock H \<equiv> on_host (h_clock H)"

abbreviation the_epoch :: "'h host \<Rightarrow> ('h, pyfloat) action" where
  "the_epoch H \<equiv> on_host (h_epoch H)"

abbreviation the_files :: "'h host \<Rightarrow> ('h, file_view) action" where
  "the_files H \<equiv> ask (\<lambda>s. h_files H (sv_host s))"

section \<open>Signal delivery\<close>

text \<open>A Project is quarantined, then the reason is raised; a failed quarantine is added to it.\<close>

definition quarantine_and_raise ::
  "'h host \<Rightarrow> exn \<Rightarrow> queue_item \<Rightarrow> string \<Rightarrow> string \<Rightarrow> string \<Rightarrow> ('h, 'a) action" where
  "quarantine_and_raise H x item why actor changed_at =
    next_do
      (handled [V5SchedulerError] (\<lambda>e. raises x (why @ ''; Project quarantine failed: '' @ snd e))
        (transact H (quarantine_project (qi_project_id item) why actor changed_at (Some (qi_id item)))))
      (\<lambda>_. raises x why)"

definition raise_signal_uncertainty ::
  "'h host \<Rightarrow> exn \<Rightarrow> string \<Rightarrow> queue_item \<Rightarrow> string \<Rightarrow> string \<Rightarrow> string \<Rightarrow> string \<Rightarrow> ('h, 'a) action" where
  "raise_signal_uncertainty H x lead item request_id actor changed_at detail =
    quarantine_and_raise H x item (lead @ py_repr request_id @ '' has uncertain SIGINT delivery: '' @ detail
      @ ''; the active yielding state is preserved for recovery'') actor changed_at"

definition raise_publication_uncertainty ::
  "'h host \<Rightarrow> queue_item \<Rightarrow> string \<Rightarrow> string \<Rightarrow> string \<Rightarrow> string \<Rightarrow> ('h, 'a) action" where
  "raise_publication_uncertainty H item request_id actor changed_at cause =
    quarantine_and_raise H V5ContinuationError item (''manual-yield request '' @ py_repr request_id
      @ '' is durable but publication failed: '' @ cause @ ''; the live yielding process identity, ''
      @ ''GPU assignment, and immutable request are retained for startup recovery'') actor changed_at"

text \<open>Recording the result of a signal attempt; a failed audit becomes part of the message.\<close>

definition audited ::
  "'h host \<Rightarrow> signal_claim \<Rightarrow> bool \<Rightarrow> string \<Rightarrow> string \<Rightarrow> string \<Rightarrow> (string \<Rightarrow> ('h, 'a) action) \<Rightarrow> ('h, 'a) action
    \<Rightarrow> ('h, 'a) action" where
  "audited H sclaim delivered detail actor changed_at failed ok =
    next_do (the_epoch H) (\<lambda>epoch.
    next_do
      (handled [V5SchedulerError] (\<lambda>e. yields (Some (snd e)))
        (next_do (transact H (record_manual_yield_signal_result sclaim delivered detail epoch actor changed_at))
          (\<lambda>_. yields None)))
      (\<lambda>problem. case problem of None \<Rightarrow> ok | Some message \<Rightarrow> failed message))"

text \<open>The signal of a claimed attempt and its audit.\<close>

definition deliver_yield_signal ::
  "'h host \<Rightarrow> exn \<Rightarrow> string \<Rightarrow> queue_item \<Rightarrow> string \<Rightarrow> string \<Rightarrow> string \<Rightarrow> int \<Rightarrow> int \<Rightarrow> string option \<Rightarrow> signal_claim
    \<Rightarrow> 'p \<Rightarrow> ('h, 'p) action" where
  "deliver_yield_signal H x lead item request_id actor changed_at pid pgid ticks sclaim pending =
    (let uncertain = raise_signal_uncertainty H x lead item request_id actor changed_at;
         unsignaled = raise_signal_uncertainty H x lead item request_id actor changed_at;
         refused = ''authenticated signal delivery returned false'' in
     next_do
       (handled_any (\<lambda>e. let raised = ''signal operation raised '' @ snd e in
           audited H sclaim False raised actor changed_at
             (\<lambda>message. unsignaled (''signal operation raised '' @ raised @ ''; result audit failed: '' @ message))
             (unsignaled raised))
         (signal_recorded_process H pid pgid ticks ''SIGINT''))
       (\<lambda>signaled. if signaled
          then audited H sclaim True ''authenticated SIGINT was delivered'' actor changed_at
            (\<lambda>message. uncertain (''signal was delivered but result audit failed: '' @ message)) (yields pending)
          else audited H sclaim False refused actor changed_at
            (\<lambda>message. uncertain (refused @ ''; result audit failed: '' @ message)) (uncertain refused)))"

section \<open>Typed items: the request\<close>

record yield_pending =
  vp_project_id :: int
  vp_revision_id :: int
  vp_item_id :: int
  vp_segment :: int
  vp_run_id :: string
  vp_prior_sha256 :: string
  vp_request_path :: string
  vp_receipt_path :: string
  vp_request :: yield_request
  vp_source :: string
  vp_sha256 :: string

definition cont_text :: "nat \<Rightarrow> string \<Rightarrow> string result" where
  "cont_text maximum s = require (text_ok maximum s) (cont_error Bad_text) (Inr s)"

definition cont_timestamp :: "string \<Rightarrow> string result" where
  "cont_timestamp s = reraise V5ContinuationError (legacy_timestamp s)"

text \<open>The running receipt of the segment: its run and the digest of its exact bytes.\<close>

definition running_receipt ::
  "file_view \<Rightarrow> wire \<Rightarrow> (string \<Rightarrow> string) \<Rightarrow> prepared_attempt \<Rightarrow> (string \<times> string) result" where
  "running_receipt files w sha prepared =
    and_then (reraise V5ContinuationError
        (read_regular files (path_join (ap_segment_root (pa_paths prepared)) ''runner.json''))) (\<lambda>source.
    and_then (reraise V5ContinuationError (decode_document w source)) (\<lambda>document.
    require (set (json_keys document) = set runner_receipt_fields) (cont_error Bad_payload)
   (require (json_get ''apiVersion'' document = Some (JStr ''experiment-queue/v1'')
        \<and> json_get ''kind'' document = Some (JStr ''RunnerReceipt'')
        \<and> json_get ''status'' document = Some (JStr ''running'') \<and> json_get ''return_code'' document = Some JNull
        \<and> json_scalar_eq (the (json_get ''queue_item_id'' document)) (JInt (pa_item_id prepared))
        \<and> json_scalar_eq (the (json_get ''segment'' document)) (JInt (pa_segment prepared)))
      (cont_error Wrong_identity)
   (case json_get ''run_id'' document of
      Some (JStr run) \<Rightarrow> and_then (cont_text 256 run) (\<lambda>_. Inr (run, sha source))
    | _ \<Rightarrow> Inl (cont_error Bad_text)))))"

definition process_identity :: "int \<Rightarrow> int \<Rightarrow> db \<Rightarrow> (int \<times> int \<times> string option) result" where
  "process_identity item_id segment d =
    fetch (find_item (db_items d) item_id) (cont_error Row_missing) (\<lambda>row.
    require (qi_state row \<in> {Running, Yielding} \<and> qi_segment row = segment) (cont_error Wrong_state)
   (fetch (qi_pid row) (cont_error Row_missing) (\<lambda>pid.
    fetch (qi_pgid row) (cont_error Row_missing) (\<lambda>pgid.
    Inr (pid, pgid, qi_start_ticks row)))))"

text \<open>What the coordinator asks of the attempt before it makes a request.\<close>

definition yieldable :: "prepared_attempt \<Rightarrow> item_view \<Rightarrow> admission_snapshot result" where
  "yieldable prepared view = (case view of (item, snapshot) \<Rightarrow>
    require (qi_state item = Running \<and> qi_admission_kind item = Experiment_card \<and> qi_preemptible item)
      (cont_error Wrong_state)
   (fetch snapshot (cont_error Wrong_state) (\<lambda>s.
    require ((pa_project_id prepared, pa_revision_id prepared, pa_experiment_id prepared, pa_attempt prepared,
          pa_segment prepared, pa_git_commit prepared, pa_resolved_sha256 prepared)
        = (qi_project_id item, qi_revision_id item, qi_experiment_id item, qi_attempt item, qi_segment item,
          qi_git_commit item, Some (as_resolved_sha256 s))) (cont_error Wrong_identity)
   (and_then (reraise V5ContinuationError (checkpoint_names s)) (\<lambda>_. Inr s)))))"

definition manual_request ::
  "(string \<Rightarrow> string) \<Rightarrow> queue_item \<Rightarrow> admission_snapshot \<Rightarrow> string \<Rightarrow> string \<Rightarrow> string \<Rightarrow> string \<Rightarrow> string \<Rightarrow> string
    \<Rightarrow> yield_request result" where
  "manual_request sha item s request_id run prior remark actor requested_at =
    and_then (create_continuation sha (as_resolved_sha256 s) (as_project_revision s) (qi_git_commit item) run prior)
      (\<lambda>continuation.
       let q = \<lparr>yq_request_id = request_id, yq_item_id = qi_id item, yq_segment = qi_segment item,
                yq_kind = Manual_preemption, yq_requested_at = requested_at, yq_requested_by = actor,
                yq_note = remark, yq_continuation = continuation\<rparr> in
       require (request_ok sha q) (doc_error Bad_text) (Inr q))"

definition pending_of :: "queue_item \<Rightarrow> prepared_attempt \<Rightarrow> string \<Rightarrow> string \<Rightarrow> yield_request \<Rightarrow> request_record \<Rightarrow> yield_pending" where
  "pending_of item prepared run prior q r =
    \<lparr>vp_project_id = qi_project_id item, vp_revision_id = qi_revision_id item, vp_item_id = qi_id item,
     vp_segment = qi_segment item, vp_run_id = run, vp_prior_sha256 = prior,
     vp_request_path = ap_yield_request (pa_paths prepared),
     vp_receipt_path = ap_yield_receipt (pa_paths prepared), vp_request = q, vp_source = rr_source r,
     vp_sha256 = rr_sha256 r\<rparr>"

definition request_manual_yield ::
  "'h host \<Rightarrow> service_config \<Rightarrow> prepared_attempt \<Rightarrow> string \<Rightarrow> string \<Rightarrow> string \<Rightarrow> ('h, yield_pending) action" where
  "request_manual_yield H cf prepared remark actor requested_at =
    (let ec = cf_checks cf; w = cf_wire cf; paths = pa_paths prepared in
    next_do (checked H (cont_text 256 actor)) (\<lambda>_.
    next_do (checked H (cont_text 1000 remark)) (\<lambda>_.
    next_do (checked H (cont_timestamp requested_at)) (\<lambda>_.
    next_do (query H (get_queue_item ec (pa_item_id prepared))) (\<lambda>view.
    next_do (checked H (yieldable prepared view)) (\<lambda>s.
    let item = fst view in
    next_do (query H (process_identity (qi_id item) (qi_segment item))) (\<lambda>(pid, pgid, ticks).
    next_do (the_files H) (\<lambda>files.
    next_do (checked H (running_receipt files w (ec_sha256 ec) prepared)) (\<lambda>(run, prior).
    next_do (on_host (h_token H 12)) (\<lambda>token.
    let request_id = ''manual:'' @ str_int (qi_id item) @ '':'' @ str_int (qi_segment item) @ '':'' @ token in
    next_do (checked H (manual_request (ec_sha256 ec) item s request_id run prior remark actor requested_at)) (\<lambda>q.
    let source = wi_encode w (request_to_document q) in
    next_do (transact H (record_yield_request ec w q source)) (\<lambda>r.
    next_do (handled_any (\<lambda>e. raise_publication_uncertainty H item request_id actor requested_at (snd e))
        (call_host (h_publish_once H (ap_yield_request paths) source (ap_segment_root paths)))) (\<lambda>_.
    let pending = pending_of item prepared run prior q r in
    next_do (the_epoch H) (\<lambda>epoch.
    next_do (on_host (h_token H 16)) (\<lambda>attempt_token.
    next_do (transact H (claim_manual_yield_signal_attempt (qi_id item) request_id attempt_token epoch (Finite 5)
        actor requested_at)) (\<lambda>found.
    case found of
      None \<Rightarrow> yields pending
    | Some sclaim \<Rightarrow> deliver_yield_signal H V5ContinuationError ''manual-yield request '' item request_id actor
        requested_at pid pgid ticks sclaim pending))))))))))))))))"

section \<open>Typed items: recovery and finalization\<close>

definition recover_pending :: "'h host \<Rightarrow> service_config \<Rightarrow> prepared_attempt \<Rightarrow> ('h, yield_pending) action" where
  "recover_pending H cf prepared =
    (let ec = cf_checks cf; w = cf_wire cf; paths = pa_paths prepared in
    next_do (query H (get_queue_item ec (pa_item_id prepared))) (\<lambda>(item, snapshot).
    next_do (query H (\<lambda>d. Inr (Option.bind (find_item (db_items d) (qi_id item)) qi_yield_request_id))) (\<lambda>stored.
    case stored of
      None \<Rightarrow> fails H V5ContinuationError Wrong_state
    | Some key \<Rightarrow>
        unless_fails H (qi_state item = Yielding) V5ContinuationError Wrong_state
       (next_do (query H (get_yield_request ec w key)) (\<lambda>r.
        let q = rr_request r in
        unless_fails H ((pa_project_id prepared, pa_revision_id prepared, pa_item_id prepared, pa_segment prepared,
            pa_experiment_id prepared, pa_attempt prepared, pa_git_commit prepared, pa_resolved_sha256 prepared)
          = (qi_project_id item, qi_revision_id item, qi_id item, qi_segment item, qi_experiment_id item,
            qi_attempt item, qi_git_commit item, map_option as_resolved_sha256 snapshot))
          V5ContinuationError Wrong_identity
       (unless_fails H (yq_item_id q = qi_id item \<and> yq_segment q = qi_segment item
            \<and> rr_project_id r = qi_project_id item \<and> rr_revision_id r = qi_revision_id item)
          V5ContinuationError Wrong_identity
       (next_do
          (handled [V5ContinuationError]
            (\<lambda>e. raises V5ContinuationError (''persisted yield request cannot be recovered: '' @ snd e))
            (next_do (call_host (h_publish_once H (ap_yield_request paths) (rr_source r) (ap_segment_root paths))) (\<lambda>_.
             next_do (the_files H) (\<lambda>files.
             checked H (reraise V5ContinuationError (read_regular files (ap_yield_request paths)))))))
          (\<lambda>published.
        unless_fails H (published = rr_source r) V5ContinuationError Conflicting_evidence
       (yields (pending_of item prepared (ci_run_id (yq_continuation q))
          (ci_prior_receipt_sha256 (yq_continuation q)) q r))))))))))"

definition isolate_and_raise ::
  "'h host \<Rightarrow> service_config \<Rightarrow> exn \<Rightarrow> int \<Rightarrow> string \<Rightarrow> string \<Rightarrow> string \<Rightarrow> bool \<Rightarrow> ('h, 'a) action" where
  "isolate_and_raise H cf x item_id why actor changed_at terminal =
    next_do
      (handled repository_errors
        (\<lambda>e. raises x (why @ ''; item isolation did not override a concurrent state transition: '' @ snd e))
        (transact H (isolate_continuation_failure (cf_checks cf) item_id why actor changed_at terminal)))
      (\<lambda>_. raises x why)"

text \<open>The receipt on disk: strict JSON in the deterministic encoding, then the document's own rules.\<close>

definition published_receipt ::
  "file_view \<Rightarrow> wire \<Rightarrow> (string \<Rightarrow> string) \<Rightarrow> string \<Rightarrow> (string \<times> yield_receipt) result" where
  "published_receipt files w sha path =
    and_then (reraise V5ContinuationError (read_regular files path)) (\<lambda>source.
    and_then (reraise V5ContinuationError (decode_document w source)) (\<lambda>document.
    require (wi_encode w document = source) (cont_error Bad_payload)
   (and_then (receipt_from_document sha document) (\<lambda>receipt. Inr (source, receipt)))))"

definition receipt_read_errors :: "exn list" where
  "receipt_read_errors = [V5ContinuationError, YieldDocumentError, YieldIntegrityError, TypeError,
     ProtocolIdentityError, CanonicalJSONError]"

text \<open>A ready receipt: validated against the request and the files, recorded, and the item requeued.\<close>

definition finalize_ready ::
  "'h host \<Rightarrow> service_config \<Rightarrow> yield_pending \<Rightarrow> string \<Rightarrow> yield_receipt \<Rightarrow> string \<Rightarrow> string \<Rightarrow> ('h, bool) action" where
  "finalize_ready H cf pending source receipt actor changed_at =
    (let ec = cf_checks cf; w = cf_wire cf in
    next_do (query H (get_queue_item ec (vp_item_id pending))) (\<lambda>(item, snapshot).
    next_do (query H (\<lambda>d. and_then (load_revision (ec_verify ec) d (vp_revision_id pending)) (\<lambda>v.
        Inr (v, artifact_root_paths d (pv_project_id v) (pv_id v))))) (\<lambda>(revision, roots).
    case snapshot of
      None \<Rightarrow> fails H V5ContinuationError Row_missing
    | Some s \<Rightarrow>
        handled ([YieldDocumentError, YieldIntegrityError, V5ContinuationError] @ repository_errors)
          (\<lambda>e. isolate_and_raise H cf V5ContinuationError (vp_item_id pending)
             (''manual continuation failed validation: '' @ snd e) actor changed_at False)
          (next_do (ask (\<lambda>s. h_checkpoint_files H (sv_host s))) (\<lambda>files.
           next_do (checked H (and_then (reraise V5ContinuationError (checkpoint_names s)) (\<lambda>names.
              validate_ready_continuation (ec_sha256 ec) files receipt (vp_request pending) (as_resolved_sha256 s)
                (pv_label revision) (pv_git_commit revision) (vp_run_id pending) (vp_prior_sha256 pending)
                roots names None))) (\<lambda>_.
           next_do (transact H (record_yield_receipt ec w receipt source actor)) (\<lambda>_.
           next_do (transact H (\<lambda>d. requeue_ready_continuation ec w files
               (yq_request_id (vp_request pending)) actor changed_at d)) (\<lambda>_.
           yields True))))))))"

text \<open>A failed receipt: recorded, and the item ends as failed.\<close>

definition finalize_failed ::
  "'h host \<Rightarrow> service_config \<Rightarrow> yield_pending \<Rightarrow> string \<Rightarrow> yield_receipt \<Rightarrow> string \<Rightarrow> string \<Rightarrow> ('h, bool) action" where
  "finalize_failed H cf pending source receipt actor changed_at =
    (let ec = cf_checks cf; w = cf_wire cf in
    next_do
      (handled repository_errors
        (\<lambda>e. isolate_and_raise H cf V5ContinuationError (vp_item_id pending)
           (''failed manual-yield receipt is stale or invalid: '' @ snd e) actor changed_at False)
        (next_do (transact H (record_yield_receipt ec w receipt source actor)) (\<lambda>_. yields ())))
      (\<lambda>_.
    next_do (transact H (isolate_continuation_failure ec (vp_item_id pending)
        (''project declined manual continuation: '' @ py_str (yt_error receipt)) actor changed_at True)) (\<lambda>_.
    yields False)))"

definition finalize_manual_yield ::
  "'h host \<Rightarrow> service_config \<Rightarrow> yield_pending \<Rightarrow> string \<Rightarrow> string \<Rightarrow> ('h, bool) action" where
  "finalize_manual_yield H cf pending actor changed_at =
    (let ec = cf_checks cf; w = cf_wire cf in
    next_do (checked H (cont_text 256 actor)) (\<lambda>_.
    next_do (checked H (cont_timestamp changed_at)) (\<lambda>_.
    next_do (query H (get_yield_request ec w (yq_request_id (vp_request pending)))) (\<lambda>r.
    unless_fails H (rr_request r = vp_request pending \<and> rr_source r = vp_source pending
        \<and> rr_sha256 r = vp_sha256 pending) V5ContinuationError Conflicting_evidence
   (next_do (the_files H) (\<lambda>files.
    next_do
      (handled receipt_read_errors
        (\<lambda>e. isolate_and_raise H cf V5ContinuationError (vp_item_id pending)
           (''manual-yield receipt is missing or invalid: '' @ snd e) actor changed_at False)
        (checked H (published_receipt files w (ec_sha256 ec) (vp_receipt_path pending))))
      (\<lambda>(source, receipt).
    if yt_status receipt = Failed_receipt then finalize_failed H cf pending source receipt actor changed_at
    else finalize_ready H cf pending source receipt actor changed_at)))))))"

section \<open>Imported items\<close>

text \<open>\<open>" ".join(note.split())\<close>.\<close>

fun split_words :: "string \<Rightarrow> string \<Rightarrow> string list" where
  "split_words acc [] = (if acc = [] then [] else [rev acc])"
| "split_words acc (c # s) =
     (if py_space c then (if acc = [] then split_words [] s else rev acc # split_words [] s)
      else split_words (c # acc) s)"

definition preemption_note :: "string \<Rightarrow> string result" where
  "preemption_note remark =
    require (CHR 0x00 \<notin> set remark) (legacy_error Bad_text)
   (let joined = strip (join_text '' '' (split_words [] remark));
        reason = (if joined = [] then ''manual operator preemption'' else joined) in
    require (text_ok 200 reason) (legacy_error Bad_text) (Inr reason))"

definition canonical_directory :: "file_view \<Rightarrow> string \<Rightarrow> string result" where
  "canonical_directory files path =
    require (is_absolute path \<and> \<not> fv_symlink files path) (legacy_error Bad_argument)
   (fetch (fv_resolve files path) (legacy_error Row_missing) (\<lambda>resolved.
    require (path_parts resolved = path_parts path \<and> fv_directory files resolved) (legacy_error Bad_argument)
   (Inr resolved)))"

definition shared_legacy_paths :: "string list" where
  "shared_legacy_paths = [''.env'', ''.venv'', ''data'', ''experiments'', ''figures'', ''logs'', ''model'', ''out'',
     ''outputs'', ''oxy_updates'', ''papers'', ''runs'']"

fun shared_roots :: "file_view \<Rightarrow> string \<Rightarrow> string list \<Rightarrow> string list result" where
  "shared_roots files primary [] = Inr []"
| "shared_roots files primary (name # names) =
    (let candidate = path_join primary name in
     if \<not> fv_exists files candidate then shared_roots files primary names
     else fetch (fv_resolve files candidate) (legacy_error Row_missing) (\<lambda>resolved.
       and_then (shared_roots files primary names) (\<lambda>rest.
       Inr (if fv_directory files resolved then resolved # rest else rest))))"

definition allowed_run_roots :: "file_view \<Rightarrow> prepared_attempt \<Rightarrow> string list result" where
  "allowed_run_roots files prepared =
    and_then (canonical_directory files (pa_worktree prepared)) (\<lambda>worktree.
    case pa_primary_repo prepared of
      None \<Rightarrow> Inr [worktree]
    | Some value \<Rightarrow> if value = [] then Inr [worktree]
        else and_then (canonical_directory files value) (\<lambda>primary.
          and_then (shared_roots files primary shared_legacy_paths) (\<lambda>shared.
          Inr (rev (remdups (rev (worktree # primary # shared)))))))"

definition runner_receipt ::
  "file_view \<Rightarrow> wire \<Rightarrow> prepared_attempt \<Rightarrow> string list \<Rightarrow> runner_evidence option result" where
  "runner_receipt files w prepared roots =
    runner_receipt_from_path files w (path_join (ap_segment_root (pa_paths prepared)) ''runner.json'')
      (pa_item_id prepared) (pa_segment prepared) roots"

definition validate_prepared :: "queue_item \<Rightarrow> prepared_attempt \<Rightarrow> unit result" where
  "validate_prepared item prepared =
    require ((pa_item_id prepared, pa_project_id prepared, pa_revision_id prepared, pa_experiment_id prepared,
        pa_attempt prepared, pa_segment prepared, pa_git_commit prepared, pa_admission_kind prepared,
        pa_resolved_sha256 prepared, pa_command_kind prepared)
      = (qi_id item, qi_project_id item, qi_revision_id item, qi_experiment_id item, qi_attempt item,
        qi_segment item, qi_git_commit item, Legacy_card, None, ''legacy-shell'')) (legacy_error Wrong_identity)
   (Inr ())"

text \<open>A receipt left by an earlier failed yield is removed only when an event recorded its digest.\<close>

definition last_failed_digest :: "int \<Rightarrow> db \<Rightarrow> json option" where
  "last_failed_digest item_id d =
    (case rev (filter (\<lambda>e. e_item_id e = Some item_id \<and> e_type e = ''COOPERATIVE_YIELD_FAILED'') (db_events d)) of
       [] \<Rightarrow> None
     | e # _ \<Rightarrow> json_get ''receipt_sha256'' (e_payload e))"

definition discard_recorded_failed_receipt ::
  "'h host \<Rightarrow> service_config \<Rightarrow> int \<Rightarrow> string \<Rightarrow> ('h, unit) action" where
  "discard_recorded_failed_receipt H cf item_id path =
    next_do (the_files H) (\<lambda>files.
    if \<not> fv_exists files path then yields ()
    else next_do (checked H (read_regular files path)) (\<lambda>source.
      next_do (query H (\<lambda>d. Inr (last_failed_digest item_id d))) (\<lambda>digest.
      unless_fails H (digest = Some (JStr (ec_sha256 (cf_checks cf) source))) LegacyV0ContinuationError
        Conflicting_evidence (call_host (h_unlink H path)))))"

definition legacy_pending_of ::
  "queue_item \<Rightarrow> prepared_attempt \<Rightarrow> string \<Rightarrow> string \<Rightarrow> string \<Rightarrow> string \<Rightarrow> string \<Rightarrow> string
    \<Rightarrow> runner_evidence option \<Rightarrow> string option \<Rightarrow> string option \<Rightarrow> string option \<Rightarrow> string list \<Rightarrow> legacy_pending" where
  "legacy_pending_of item prepared gpu request_id requested_at requested_by remark source runner directory manifest
      pull roots =
    \<lparr>lp_project_id = qi_project_id item, lp_revision_id = qi_revision_id item, lp_item_id = qi_id item,
     lp_segment = qi_segment item, lp_gpu_uuid = gpu, lp_request_id = request_id, lp_requested_at = requested_at,
     lp_requested_by = requested_by, lp_note = remark, lp_segment_root = ap_segment_root (pa_paths prepared),
     lp_request_path = ap_yield_request (pa_paths prepared), lp_receipt_path = ap_yield_receipt (pa_paths prepared),
     lp_source = source, lp_run_id = map_option ru_run_id runner, lp_run_directory = directory,
     lp_manifest = manifest, lp_pull_command = pull, lp_roots = roots\<rparr>"

definition legacy_request_manual_yield ::
  "'h host \<Rightarrow> service_config \<Rightarrow> prepared_attempt \<Rightarrow> string \<Rightarrow> string \<Rightarrow> string \<Rightarrow> ('h, legacy_pending) action" where
  "legacy_request_manual_yield H cf prepared remark actor requested_at =
    (let ec = cf_checks cf; w = cf_wire cf; paths = pa_paths prepared in
    next_do (checked H (require (text_ok 256 actor) (legacy_error Bad_text) (Inr ()))) (\<lambda>_.
    next_do (checked H (legacy_timestamp requested_at)) (\<lambda>_.
    next_do (checked H (preemption_note remark)) (\<lambda>reason.
    next_do (query H (get_queue_item ec (pa_item_id prepared))) (\<lambda>(item, snapshot).
    next_do (checked H (validate_prepared item prepared)) (\<lambda>_.
    unless_fails H (qi_state item = Running \<and> qi_admission_kind item = Legacy_card \<and> snapshot = None
        \<and> qi_preemptible item) LegacyV0ContinuationError Wrong_state
   (next_do (discard_recorded_failed_receipt H cf (qi_id item) (ap_yield_receipt paths)) (\<lambda>_.
    next_do (the_files H) (\<lambda>files.
    next_do (checked H (allowed_run_roots files prepared)) (\<lambda>roots.
    next_do (checked H (runner_receipt files w prepared roots)) (\<lambda>runner.
    unless_fails H (case runner of None \<Rightarrow> True | Some r \<Rightarrow> ru_status r = ''running'') LegacyV0ContinuationError
      Wrong_state
   (next_do (on_host (h_token H 12)) (\<lambda>token.
    let request_id = ''legacy-manual:'' @ str_int (qi_id item) @ '':'' @ str_int (qi_segment item) @ '':'' @ token in
    next_do (transact H (persist_legacy_request (ec_sha256 ec) item runner request_id reason actor requested_at)) (\<lambda>p.
    next_do
      (handled [LegacyV0ContinuationError]
        (\<lambda>e. next_do (transact H (withdraw_legacy_request item request_id (snd e) actor requested_at)) (\<lambda>_.
           raises LegacyV0ContinuationError
             (''persisted legacy manual-yield request could not be published: '' @ snd e)))
        (call_host (h_publish H (ap_yield_request paths) (le_source p) (ap_segment_root paths)))) (\<lambda>_.
    let pending = legacy_pending_of item prepared (le_gpu_uuid p) request_id requested_at actor reason (le_source p)
          runner (map_option ru_run_directory runner) (map_option ru_manifest runner)
          (Option.bind runner ru_pull_command) roots in
    next_do (on_host (h_token H 16)) (\<lambda>attempt_token.
    next_do (the_epoch H) (\<lambda>epoch.
    next_do (transact H (claim_manual_yield_signal_attempt (qi_id item) request_id attempt_token epoch (Finite 5)
        actor requested_at)) (\<lambda>found.
    case found of
      None \<Rightarrow> yields pending
    | Some sclaim \<Rightarrow> deliver_yield_signal H LegacyV0ContinuationError ''legacy manual-yield request '' item request_id
        actor requested_at (le_pid p) (le_pgid p) (le_start_ticks p) sclaim pending))))))))))))))))))"

definition legacy_request_columns ::
  "queue_item \<Rightarrow> (string \<times> string \<times> string \<times> string \<times> string) result" where
  "legacy_request_columns row =
    and_then (column_text 256 (qi_yield_request_id row)) (\<lambda>request_id.
    and_then (column_text 256 (qi_gpu_uuid row)) (\<lambda>gpu.
    fetch (qi_yield_requested_at row) (legacy_error Bad_text) (\<lambda>t.
    and_then (legacy_timestamp t) (\<lambda>requested_at.
    and_then (column_text 256 (qi_yield_requested_by row)) (\<lambda>requested_by.
    and_then (column_text 200 (qi_yield_note row)) (\<lambda>remark.
    Inr (request_id, gpu, requested_at, requested_by, remark)))))))"

text \<open>The run directory, manifest and pull command a recovered request is bound to.\<close>

definition recovered_run ::
  "file_view \<Rightarrow> queue_item \<Rightarrow> runner_evidence option \<Rightarrow> (string option \<times> string option) result" where
  "recovered_run files row runner =
    and_then (case qi_runner_run_dir row of
        None \<Rightarrow> Inr None
      | Some path \<Rightarrow> and_then (canonical_directory files path) (\<lambda>r. Inr (Some r))) (\<lambda>stored.
    require (case (runner, stored) of
        (Some r, Some run) \<Rightarrow> path_parts (ru_run_directory r) = path_parts run | _ \<Rightarrow> True)
      (legacy_error Conflicting_evidence)
   (and_then (case (runner, qi_runner_manifest_path row) of
        (None, Some path) \<Rightarrow> fetch (fv_resolve_lax files path) (OSError, Row_missing) (\<lambda>m. Inr (Some m))
      | _ \<Rightarrow> Inr (map_option ru_manifest runner)) (\<lambda>manifest.
    Inr (coalesce stored (map_option ru_run_directory runner), manifest))))"

definition legacy_recover_pending ::
  "'h host \<Rightarrow> service_config \<Rightarrow> prepared_attempt \<Rightarrow> ('h, legacy_pending) action" where
  "legacy_recover_pending H cf prepared =
    (let ec = cf_checks cf; w = cf_wire cf; paths = pa_paths prepared in
    next_do (query H (get_queue_item ec (pa_item_id prepared))) (\<lambda>(item, _).
    next_do (checked H (validate_prepared item prepared)) (\<lambda>_.
    next_do (query H (\<lambda>d. fetch (find_item (db_items d) (qi_id item)) (legacy_error Row_missing) Inr)) (\<lambda>row.
    unless_fails H (qi_state item = Yielding \<and> qi_admission_kind item = Legacy_card \<and> qi_preemptible item
        \<and> qi_yield_request_id row \<noteq> None) LegacyV0ContinuationError Wrong_state
   (next_do (checked H (legacy_request_columns row)) (\<lambda>(request_id, gpu, requested_at, requested_by, remark).
    let source = v0_wire_bytes (legacy_request_document request_id (qi_id item) (qi_segment item) gpu
          requested_at requested_by remark) in
    next_do (the_files H) (\<lambda>files.
    next_do (checked H (read_regular files (ap_yield_request paths))) (\<lambda>published.
    unless_fails H (published = source) LegacyV0ContinuationError Conflicting_evidence
   (next_do (checked H (allowed_run_roots files prepared)) (\<lambda>roots.
    next_do (checked H (runner_receipt files w prepared roots)) (\<lambda>runner.
    next_do (checked H (recovered_run files row runner)) (\<lambda>(directory, manifest).
    yields (legacy_pending_of item prepared gpu request_id requested_at requested_by remark source runner directory
      manifest (qi_rsync_pull_command row) roots)))))))))))))"

text \<open>A failed receipt of a live attempt: the attempt runs on and the receipt is removed.\<close>

definition reconcile_live_failure ::
  "'h host \<Rightarrow> service_config \<Rightarrow> legacy_pending \<Rightarrow> string \<Rightarrow> string \<Rightarrow> ('h, bool) action" where
  "reconcile_live_failure H cf pending actor changed_at =
    next_do (the_files H) (\<lambda>files.
    if \<not> fv_exists files (lp_receipt_path pending) then yields False
    else
      next_do (checked H (read_legacy_receipt files (cf_wire cf) pending)) (\<lambda>(source, document, status).
      if status \<noteq> Failed_receipt then yields False
      else
        next_do (checked H (failed_detail document)) (\<lambda>(progress, step, problem).
        next_do (checked H (require (text_ok 256 actor) (legacy_error Bad_text) (Inr ()))) (\<lambda>_.
        next_do (checked H (legacy_timestamp changed_at)) (\<lambda>_.
        next_do (query H (\<lambda>d. fetch (find_item (db_items d) (lp_item_id pending)) (legacy_error Row_missing) Inr)) (\<lambda>row.
        next_do (case (qi_pid row, qi_pgid row) of
            (Some pid, Some pgid) \<Rightarrow> process_identity_matches H pid pgid (qi_start_ticks row)
          | _ \<Rightarrow> yields False) (\<lambda>alive.
        unless_fails H alive LegacyV0ContinuationError Wrong_state
       (next_do (transact H (resume_legacy_attempt pending progress step problem
            (ec_sha256 (cf_checks cf) source) actor changed_at)) (\<lambda>_.
        next_do (call_host (h_unlink H (lp_receipt_path pending))) (\<lambda>_.
        next_do (query H (get_queue_item (cf_checks cf) (lp_item_id pending))) (\<lambda>_.
        yields True)))))))))))"

text \<open>The evidence of an attempt that yielded: receipt, checkpoint files and runner receipt agree.\<close>

definition yielded_evidence ::
  "'h host \<Rightarrow> service_config \<Rightarrow> legacy_pending \<Rightarrow> int \<Rightarrow> string \<Rightarrow> string
    \<Rightarrow> ('h, string \<times> legacy_ready \<times> runner_evidence option) action" where
  "yielded_evidence H cf pending return_code actor changed_at =
    next_do (the_files H) (\<lambda>files.
    next_do (checked H (read_legacy_receipt files (cf_wire cf) pending)) (\<lambda>(source, document, status).
    next_do (if status = Failed_receipt
        then next_do (checked H (failed_detail document)) (\<lambda>(_, _, problem).
          isolate_and_raise H cf LegacyV0ContinuationError (lp_item_id pending)
            (''project declined legacy manual continuation: '' @ problem) actor changed_at True)
        else yields ()) (\<lambda>_.
    unless_fails H (return_code = 75) LegacyV0ContinuationError Wrong_state
   (next_do (checked H (ready_evidence files document pending)) (\<lambda>ready.
    next_do (checked H (runner_receipt_from_path files (cf_wire cf)
        (path_join (lp_segment_root pending) ''runner.json'') (lp_item_id pending) (lp_segment pending)
        (lp_roots pending))) (\<lambda>runner.
    unless_fails H (case runner of None \<Rightarrow> True | Some r \<Rightarrow>
        ru_status r = ''yielded'' \<and> ru_return_code r = Some 75
        \<and> (case lp_run_id pending of None \<Rightarrow> True | Some run \<Rightarrow> ru_run_id r = run)
        \<and> (case lp_run_directory pending of None \<Rightarrow> True
             | Some run \<Rightarrow> path_parts (ru_run_directory r) = path_parts run))
      LegacyV0ContinuationError Wrong_identity
   (yields (source, ready, runner))))))))"

definition legacy_finalize_manual_yield ::
  "'h host \<Rightarrow> service_config \<Rightarrow> legacy_pending \<Rightarrow> int \<Rightarrow> string \<Rightarrow> string \<Rightarrow> ('h, bool) action" where
  "legacy_finalize_manual_yield H cf pending return_code actor changed_at =
    unless_fails H (0 \<le> return_code) LegacyV0ContinuationError Bad_integer
   (next_do (checked H (require (text_ok 256 actor) (legacy_error Bad_text) (Inr ()))) (\<lambda>_.
    next_do (checked H (legacy_timestamp changed_at)) (\<lambda>_.
    next_do
      (handled [LegacyV0ContinuationError]
        (\<lambda>e. next_do (query H (get_queue_item (cf_checks cf) (lp_item_id pending))) (\<lambda>(current, _).
           if qi_state current \<noteq> Yielding then raises (fst e) (snd e)
           else isolate_and_raise H cf LegacyV0ContinuationError (lp_item_id pending)
             (''legacy manual continuation failed validation: '' @ snd e) actor changed_at True))
        (yielded_evidence H cf pending return_code actor changed_at))
      (\<lambda>(source, ready, runner).
    next_do (transact H (requeue_legacy_attempt pending ready runner (ec_sha256 (cf_checks cf) source) actor
        changed_at)) (\<lambda>_.
    next_do (query H (get_queue_item (cf_checks cf) (lp_item_id pending))) (\<lambda>_.
    yields True))))))"

section \<open>Both coordinators only take steps of the queue\<close>

lemma drives_quarantine_and_raise [drive]: "cooperative H \<Longrightarrow> drives (quarantine_and_raise H x item why actor t)"
  unfolding quarantine_and_raise_def by (intro drive)

lemma drives_signal_uncertainty [drive]:
  "cooperative H \<Longrightarrow> drives (raise_signal_uncertainty H x lead item rid actor t detail)"
  unfolding raise_signal_uncertainty_def by (intro drive)

lemma drives_publication_uncertainty [drive]:
  "cooperative H \<Longrightarrow> drives (raise_publication_uncertainty H item rid actor t cause)"
  unfolding raise_publication_uncertainty_def by (intro drive)

lemma drives_audited [drive]:
  "cooperative H \<Longrightarrow> (\<And>m. drives (failed m)) \<Longrightarrow> drives ok \<Longrightarrow> drives (audited H c b detail actor t failed ok)"
  unfolding audited_def by (intro drive)

lemma drives_deliver_yield_signal [drive]:
  "cooperative H \<Longrightarrow> drives (deliver_yield_signal H x lead item rid actor t pid pgid ticks c pending)"
  unfolding deliver_yield_signal_def Let_def by (intro drive)

lemma drives_request_manual_yield [drive]:
  "cooperative H \<Longrightarrow> drives (request_manual_yield H cf prepared remark actor t)"
  unfolding request_manual_yield_def by (intro drive)

lemma drives_recover_pending [drive]: "cooperative H \<Longrightarrow> drives (recover_pending H cf prepared)"
  unfolding recover_pending_def by (intro drive)

lemma drives_isolate_and_raise [drive]:
  "cooperative H \<Longrightarrow> drives (isolate_and_raise H cf x k why actor t terminal)"
  unfolding isolate_and_raise_def by (intro drive)

lemma drives_finalize_ready [drive]: "cooperative H \<Longrightarrow> drives (finalize_ready H cf pending source receipt actor t)"
  unfolding finalize_ready_def by (intro drive)

lemma drives_finalize_failed [drive]: "cooperative H \<Longrightarrow> drives (finalize_failed H cf pending source receipt actor t)"
  unfolding finalize_failed_def by (intro drive)

lemma drives_finalize_manual_yield [drive]: "cooperative H \<Longrightarrow> drives (finalize_manual_yield H cf pending actor t)"
  unfolding finalize_manual_yield_def by (intro drive)

lemma drives_discard [drive]: "cooperative H \<Longrightarrow> drives (discard_recorded_failed_receipt H cf k path)"
  unfolding discard_recorded_failed_receipt_def by (intro drive)

lemma drives_legacy_request [drive]:
  "cooperative H \<Longrightarrow> drives (legacy_request_manual_yield H cf prepared remark actor t)"
  unfolding legacy_request_manual_yield_def by (intro drive)

lemma drives_legacy_recover [drive]: "cooperative H \<Longrightarrow> drives (legacy_recover_pending H cf prepared)"
  unfolding legacy_recover_pending_def by (intro drive)

lemma drives_live_failure [drive]: "cooperative H \<Longrightarrow> drives (reconcile_live_failure H cf pending actor t)"
  unfolding reconcile_live_failure_def by (intro drive)

lemma drives_yielded_evidence [drive]: "cooperative H \<Longrightarrow> drives (yielded_evidence H cf pending code actor t)"
  unfolding yielded_evidence_def by (intro drive)

lemma drives_legacy_finalize [drive]:
  "cooperative H \<Longrightarrow> drives (legacy_finalize_manual_yield H cf pending code actor t)"
  unfolding legacy_finalize_manual_yield_def by (intro drive)

end
