(* ===== verification/Service_V5.thy ===== *)
theory Service_V5
  imports Continuation_V5
begin

text \<open>
  The runnable scheduler, \<open>V5SchedulerService\<close> of \<open>scheduler_service_v5.py\<close>: GPU availability, preparation,
  claim and launch of one attempt, the reconciliation of local and restarted processes, escalating
  termination, recovery of GPU leases and worktrees, and the control loop. Every method is an action on
  the service's state.

  The Git work of imported items (\<open>_legacy_context\<close>, the removal in \<open>_cleanup_legacy_worktree\<close>), worktrees,
  execution plans, attempt preparation and launch, and receipts are the host's operations.
\<close>

section \<open>Configuration\<close>

definition finite_float :: "rat \<Rightarrow> pyfloat \<Rightarrow> rat result" where
  "finite_float minimum x = (case x of
      Finite r \<Rightarrow> require (minimum \<le> r) (service_error Bad_number) (Inr r)
    | _ \<Rightarrow> Inl (service_error Bad_number))"

definition service_config_of ::
  "evidence_checks \<Rightarrow> wire \<Rightarrow> string \<Rightarrow> pyfloat \<Rightarrow> pyfloat \<Rightarrow> pyfloat \<Rightarrow> pyfloat \<Rightarrow> pyfloat \<Rightarrow> pyfloat \<Rightarrow> pyfloat
    \<Rightarrow> service_config result" where
  "service_config_of ec w state_dir poll control grace retry min_free max_utilization min_disk =
    and_then (finite_float (round64 (1 / 1000)) poll) (\<lambda>poll_seconds.
    and_then (finite_float (round64 (1 / 1000)) control) (\<lambda>control_seconds.
    and_then (finite_float 0 grace) (\<lambda>grace_seconds.
    and_then (finite_float 0 retry) (\<lambda>retry_seconds.
    and_then (finite_float 0 min_free) (\<lambda>free.
    require (free \<le> 1) (service_error Bad_number)
   (and_then (finite_float 0 max_utilization) (\<lambda>utilization.
    require (utilization \<le> 100) (service_error Bad_number)
   (and_then (finite_float 0 min_disk) (\<lambda>disk.
    Inr \<lparr>cf_checks = ec, cf_wire = w, cf_state_dir = state_dir, cf_poll = poll_seconds,
         cf_control = control_seconds, cf_grace = grace_seconds, cf_retry = retry_seconds, cf_min_free = free,
         cf_max_utilization = utilization, cf_min_disk = disk\<rparr>)))))))))"

section \<open>Locks and telemetry\<close>

definition pause :: "'h host \<Rightarrow> string \<Rightarrow> string \<Rightarrow> ('h, unit) action" where
  "pause H why actor = next_do (the_clock H) (\<lambda>t. next_do (transact H (pause_host why actor t)) (\<lambda>_. yields ()))"

definition quarantine :: "'h host \<Rightarrow> int \<Rightarrow> string \<Rightarrow> string \<Rightarrow> int \<Rightarrow> ('h, unit) action" where
  "quarantine H project_id why actor item_id = next_do (the_clock H) (\<lambda>t.
     next_do (transact H (quarantine_project project_id why actor t (Some item_id))) (\<lambda>_. yields ()))"

definition global_gpu_lock :: "'h host \<Rightarrow> string \<Rightarrow> ('h, bool) action" where
  "global_gpu_lock H uuid =
    next_do (ask sv_locks) (\<lambda>locks.
    if uuid \<in> set locks then yields True
    else next_do
      (handled [HostGpuLockError]
        (\<lambda>e. raises V5SchedulerServiceError
           (''cannot authenticate host-wide lock for GPU '' @ py_repr uuid @ '': '' @ snd e))
        (call_host (h_lock_gpu H uuid)))
      (\<lambda>acquired. if acquired
         then next_do (change (\<lambda>s. s\<lparr>sv_locks := sv_locks s @ [uuid]\<rparr>)) (\<lambda>_. yields True)
         else yields False))"

definition unlocked :: "'h host \<Rightarrow> string \<Rightarrow> 'h service \<Rightarrow> 'h service" where
  "unlocked H uuid s = (if uuid \<in> set (sv_locks s)
     then s\<lparr>sv_locks := filter (\<lambda>u. u \<noteq> uuid) (sv_locks s), sv_host := h_unlock_gpu H uuid (sv_host s)\<rparr> else s)"

definition release_gpu_lock :: "'h host \<Rightarrow> string \<Rightarrow> ('h, unit) action" where
  "release_gpu_lock H uuid = change (unlocked H uuid)"

definition current_snapshots :: "'h host \<Rightarrow> ('h, gpu_snapshot list) action" where
  "current_snapshots H =
    next_do (call_host (h_gpus H)) (\<lambda>observed. checked H (validated_gpu_snapshots observed))"

definition pause_and_raise :: "'h host \<Rightarrow> string \<Rightarrow> string \<Rightarrow> ('h, 'a) action" where
  "pause_and_raise H why actor = next_do (pause H why actor) (\<lambda>_. raises V5SchedulerServiceError why)"

definition require_current_idle_gpu ::
  "'h host \<Rightarrow> service_config \<Rightarrow> int \<Rightarrow> string \<Rightarrow> string \<Rightarrow> ('h, gpu_snapshot) action" where
  "require_current_idle_gpu H cf item_id uuid actor =
    (let lead = ''cannot release queue item '' @ str_int item_id @ '' GPU lease: '' in
    next_do (global_gpu_lock H uuid) (\<lambda>locked.
    if \<not> locked then pause_and_raise H (lead @ ''host-wide lock for '' @ py_repr uuid
        @ '' is owned by another scheduler/process'') actor
    else
      next_do (handled_any (\<lambda>e. pause_and_raise H (lead @ ''current GPU telemetry failed: '' @ snd e) actor)
        (current_snapshots H)) (\<lambda>snapshots.
      case filter (\<lambda>g. gs_uuid g = uuid) snapshots of
        [g] \<Rightarrow> unless_fails H (idle (cf_min_free cf) (cf_max_utilization cf) g) V5SchedulerServiceError Not_idle
          (yields g)
      | matches \<Rightarrow> pause_and_raise H (lead @ ''telemetry returned '' @ digits (length matches)
          @ '' exact records for assigned GPU '' @ py_repr uuid @ ''; exactly one is required'') actor)))"

definition release_finalized_gpu_lease ::
  "'h host \<Rightarrow> service_config \<Rightarrow> int \<Rightarrow> gpu_snapshot \<Rightarrow> string \<Rightarrow> ('h, bool) action" where
  "release_finalized_gpu_lease H cf item_id g actor =
    next_do (the_clock H) (\<lambda>t.
    transact H (release_gpu_lease item_id (gs_uuid g) (gs_index g) (gs_memory_total g) (gs_memory_used g)
      (gs_utilization g) (gs_compute_pids g) (Finite (cf_min_free cf)) (Finite (cf_max_utilization cf)) actor t))"

fun readings :: "('h \<Rightarrow> 'a \<times> 'h) \<Rightarrow> nat \<Rightarrow> 'h \<Rightarrow> 'a list \<times> 'h" where
  "readings f 0 h = ([], h)"
| "readings f (Suc n) h = (case f h of (v, h1) \<Rightarrow> case readings f n h1 of (vs, h2) \<Rightarrow> (v # vs, h2))"

text \<open>The transaction reads the clock once for every row it updates.\<close>

definition refresh_transaction ::
  "'h host \<Rightarrow> gpu_snapshot list \<Rightarrow> ('h, (string \<times> string \<times> string) list) action" where
  "refresh_transaction H snapshots s =
    (let s1 = interleave H s in
     case readings (h_clock H) (length (observed_rows snapshots (sv_db s1))) (sv_host s1) of (stamps, h) \<Rightarrow>
     case refresh_allowlist snapshots stamps (sv_db s1) of
       Inl e \<Rightarrow> (Inl (fst e, h_message H h e), s1\<lparr>sv_host := h\<rparr>)
     | Inr (changes, d) \<Rightarrow> (Inr changes, s1\<lparr>sv_db := d, sv_host := h\<rparr>))"

definition refresh_allowed_gpus :: "'h host \<Rightarrow> gpu_snapshot list \<Rightarrow> ('h, unit) action" where
  "refresh_allowed_gpus H snapshots =
    next_do (refresh_transaction H snapshots) (each_do (\<lambda>(uuid, old_index, new_index).
      next_do (the_clock H) (\<lambda>t.
      next_do (transact H (record_event t ''scheduler'' ''gpu_host_index_changed'' Scope_host
          (JObj [(''gpuUuid'', JStr uuid), (''oldIndex'', JStr old_index), (''newIndex'', JStr new_index)])
          None None)) (\<lambda>_. yields ()))))"

text \<open>The GPUs, or a paused host when telemetry cannot be read.\<close>

definition telemetry_or_pause :: "'h host \<Rightarrow> string \<Rightarrow> ('h, gpu_snapshot list option) action" where
  "telemetry_or_pause H lead =
    handled_any (\<lambda>e. next_do (pause H (lead @ snd e) ''scheduler'') (\<lambda>_. yields None))
      (next_do (current_snapshots H) (\<lambda>snapshots. yields (Some snapshots)))"

definition available_gpus :: "'h host \<Rightarrow> service_config \<Rightarrow> ('h, gpu_snapshot list) action" where
  "available_gpus H cf =
    next_do (telemetry_or_pause H ''GPU telemetry failed: '') (\<lambda>telemetry. case telemetry of
         None \<Rightarrow> yields []
       | Some snapshots \<Rightarrow>
           next_do (refresh_allowed_gpus H snapshots) (\<lambda>_.
           next_do (query H (\<lambda>d. Inr (offered_gpus d, leased_gpu_uuids d))) (\<lambda>(offered, assigned).
           next_do (query H open_gpu_uuids) (\<lambda>blocked.
           yields (free_gpus (cf_min_free cf) (cf_max_utilization cf) snapshots offered assigned blocked)))))"

section \<open>Cleanup\<close>

definition cleanup_structured_worktree ::
  "'h host \<Rightarrow> project_revision \<Rightarrow> worktree_evidence \<Rightarrow> ('h, unit) action" where
  "cleanup_structured_worktree H revision evidence =
    handled [ProjectWorktreeError, V5SchedulerError]
      (\<lambda>e. handled [V5SchedulerError] (\<lambda>_. yields ())
         (next_do (the_clock H) (\<lambda>t.
          next_do (transact H (record_worktree_cleanup evidence ''scheduler'' t (Some (snd e)))) (\<lambda>_.
          quarantine H (we_project_id evidence) (''worktree cleanup failed: '' @ snd e) ''scheduler''
            (we_item_id evidence)))))
      (next_do (call_host (h_cleanup_worktree H revision evidence)) (\<lambda>_.
       next_do (the_clock H) (\<lambda>t.
       next_do (transact H (record_worktree_cleanup evidence ''scheduler'' t None)) (\<lambda>_. yields ()))))"

definition legacy_runtime_row :: "legacy_context \<Rightarrow> db \<Rightarrow> bool result" where
  "legacy_runtime_row legacy d =
    fetch (find_item (db_items d) (qi_id (lx_item legacy))) (service_error Row_missing) (\<lambda>row.
    require (qi_runtime_git_ref row = Some (lx_git_ref legacy)
        \<and> qi_runtime_worktree_path row = Some (lx_worktree_path legacy)) (service_error Wrong_identity)
   (Inr (qi_runtime_worktree_removed_at row \<noteq> None)))"

definition cleanup_legacy_worktree :: "'h host \<Rightarrow> service_config \<Rightarrow> legacy_context \<Rightarrow> ('h, unit) action" where
  "cleanup_legacy_worktree H cf legacy =
    (let k = qi_id (lx_item legacy);
         record_cleanup = (\<lambda>problem. next_do (the_clock H) (\<lambda>t. transact H (record_legacy_worktree_cleanup
            (cf_state_dir cf) k (lx_git_ref legacy) (lx_worktree_path legacy) ''scheduler'' t problem))) in
    handled [V5SchedulerServiceError, V5SchedulerError]
      (\<lambda>e. handled [V5SchedulerError] (\<lambda>_. yields ())
         (next_do (record_cleanup (Some (snd e))) (\<lambda>_.
          quarantine H (qi_project_id (lx_item legacy)) (''legacy worktree cleanup failed: '' @ snd e) ''scheduler'' k)))
      (next_do (query H (legacy_runtime_row legacy)) (\<lambda>removed.
       if removed then yields ()
       else next_do (call_host (h_remove_legacy H legacy)) (\<lambda>_.
         next_do (record_cleanup None) (\<lambda>_. yields ())))))"

definition cleanup_dispatch :: "'h host \<Rightarrow> service_config \<Rightarrow> prepared_dispatch \<Rightarrow> ('h, unit) action" where
  "cleanup_dispatch H cf context = (case pd_legacy context of
      Some legacy \<Rightarrow> cleanup_legacy_worktree H cf legacy
    | None \<Rightarrow> (case (pd_revision context, pd_evidence context) of
          (Some revision, Some evidence) \<Rightarrow> cleanup_structured_worktree H revision evidence
        | _ \<Rightarrow> yields ()))"

section \<open>Preparation\<close>

definition typed_prior_receipt_source :: "'h host \<Rightarrow> service_config \<Rightarrow> queue_item \<Rightarrow> ('h, string option) action" where
  "typed_prior_receipt_source H cf item =
    unless_fails H (qi_admission_kind item = Experiment_card) V5SchedulerServiceError Not_allowed
   (if qi_segment item = 1 then yields None
    else next_do (query H (get_ready_yield_receipt_for_segment (cf_checks cf) (cf_wire cf) (qi_id item)
        (qi_segment item - 1))) (\<lambda>r.
      unless_fails H (cr_project_id r = qi_project_id item \<and> cr_revision_id r = qi_revision_id item)
        V5SchedulerServiceError Wrong_identity (yields (Some (cr_source r)))))"

definition get_revision :: "'h host \<Rightarrow> service_config \<Rightarrow> int \<Rightarrow> ('h, project_revision) action" where
  "get_revision H cf revision_id = query H (\<lambda>d. load_revision (ec_verify (cf_checks cf)) d revision_id)"

definition legacy_context_for :: "'h host \<Rightarrow> int \<Rightarrow> bool \<Rightarrow> bool \<Rightarrow> bool \<Rightarrow> ('h, legacy_context) action" where
  "legacy_context_for H item_id allow_active_dirty prepare_runtime verify_runtime s =
    (let s1 = interleave H s in
     call_host (h_legacy_context H item_id allow_active_dirty prepare_runtime verify_runtime (sv_db s1)) s1)"

text \<open>A worktree whose attempt could not be prepared is removed again, best effort.\<close>

definition discard_worktree :: "'h host \<Rightarrow> project_revision \<Rightarrow> worktree_evidence \<Rightarrow> ('h, unit) action" where
  "discard_worktree H revision evidence =
    handled [ProjectWorktreeError, V5SchedulerError]
      (\<lambda>e. handled [V5SchedulerError] (\<lambda>_. yields ())
         (next_do (the_clock H) (\<lambda>t.
          next_do (transact H (record_worktree_cleanup evidence ''scheduler'' t (Some (snd e)))) (\<lambda>_. yields ()))))
      (next_do (call_host (h_cleanup_worktree H revision evidence)) (\<lambda>_.
       next_do (the_clock H) (\<lambda>t.
       next_do (transact H (record_worktree_cleanup evidence ''scheduler'' t None)) (\<lambda>_. yields ()))))"

definition prepare_structured ::
  "'h host \<Rightarrow> service_config \<Rightarrow> dispatch_candidate \<Rightarrow> gpu_snapshot \<Rightarrow> queue_item \<Rightarrow> admission_snapshot
    \<Rightarrow> ('h, prepared_dispatch) action" where
  "prepare_structured H cf candidate g item snapshot =
    next_do (get_revision H cf (qi_revision_id item)) (\<lambda>revision.
    next_do (call_host (h_prepare_worktree H revision (qi_id item))) (\<lambda>evidence.
    next_do (the_clock H) (\<lambda>t.
    next_do (transact H (record_worktree_prepared evidence ''scheduler'' t)) (\<lambda>_.
    handled_base
      (\<lambda>e. next_do (discard_worktree H revision evidence) (\<lambda>_. raises (fst e) (snd e)))
      (next_do (typed_prior_receipt_source H cf item) (\<lambda>prior.
       next_do (call_host (h_plan H snapshot revision (we_worktree evidence) (gs_uuid g))) (\<lambda>plan.
       next_do (call_host (h_prepare_structured H item revision snapshot plan evidence (gs_uuid g) (gs_index g)
           False prior)) (\<lambda>prepared.
       yields \<lparr>pd_prepared = prepared, pd_candidate = candidate, pd_revision = Some revision,
               pd_evidence = Some evidence, pd_plan = Some plan, pd_legacy = None\<rparr>))))))))"

definition prepare_dispatch ::
  "'h host \<Rightarrow> service_config \<Rightarrow> dispatch_candidate \<Rightarrow> gpu_snapshot \<Rightarrow> ('h, prepared_dispatch) action" where
  "prepare_dispatch H cf candidate g =
    next_do (query H (get_queue_item (cf_checks cf) (c_id candidate))) (\<lambda>(item, snapshot).
    case qi_admission_kind item of
      Experiment_card \<Rightarrow> (case snapshot of
          None \<Rightarrow> fails H V5SchedulerServiceError Row_missing
        | Some s \<Rightarrow> prepare_structured H cf candidate g item s)
    | Legacy_card \<Rightarrow>
        next_do (legacy_context_for H (qi_id item) False True True) (\<lambda>legacy.
        next_do (the_clock H) (\<lambda>t.
        next_do (transact H (record_legacy_worktree_adopted (cf_state_dir cf) (qi_id item) (lx_git_ref legacy)
            (lx_worktree_path legacy) ''scheduler'' t)) (\<lambda>_.
        next_do (call_host (h_prepare_legacy H item legacy (gs_uuid g) (gs_index g) False)) (\<lambda>prepared.
        yields \<lparr>pd_prepared = prepared, pd_candidate = candidate, pd_revision = None, pd_evidence = None,
                pd_plan = None, pd_legacy = Some legacy\<rparr>)))))"

section \<open>Termination\<close>

definition termination_action_from_active :: "active_attempt \<Rightarrow> termination_action result" where
  "termination_action_from_active a =
    require (aa_state a \<in> {Terminating, Force_killing}) (service_error Wrong_state)
   (fetch (aa_terminate_requested_at a) (service_error Corrupt_evidence) (\<lambda>requested_at.
    fetch (aa_terminate_reason a) (service_error Corrupt_evidence) (\<lambda>why.
    fetch (aa_termination_stage a) (service_error Corrupt_evidence) (\<lambda>stage.
    fetch (aa_termination_signal_epoch a) (service_error Corrupt_evidence) (\<lambda>epoch.
    require (aa_state a = Force_killing \<longrightarrow> stage = Kill) (service_error Corrupt_evidence)
   (require (aa_state a = Terminating \<longrightarrow> stage \<noteq> Kill) (service_error Corrupt_evidence)
   (require ((aa_pid a = None) = (aa_pgid a = None)) (service_error Corrupt_evidence)
   (Inr \<lparr>ta_item_id = aa_id a, ta_project_id = aa_project_id a, ta_segment = aa_segment a, ta_state = aa_state a,
         ta_stage = stage, ta_requested_at = requested_at, ta_reason = why, ta_signal_epoch = epoch,
         ta_pid = aa_pid a, ta_pgid = aa_pgid a, ta_start_ticks = aa_start_ticks a\<rparr>))))))))"

definition termination_replay_key :: "termination_action \<Rightarrow> replay_key" where
  "termination_replay_key a =
    (ta_item_id a, ta_segment a, ta_stage a, ta_pid a, ta_pgid a, ta_start_ticks a, ta_signal_epoch a)"

definition deliver_termination_action :: "'h host \<Rightarrow> termination_action \<Rightarrow> string \<Rightarrow> ('h, bool) action" where
  "deliver_termination_action H action actor =
    (let signum = stage_signal (ta_stage action) in
    next_do
      (case (ta_pid action, ta_pgid action) of
         (Some pid, Some pgid) \<Rightarrow>
           handled attempt_errors (\<lambda>e. yields (False, Some (snd e)))
             (next_do (signal_recorded_process H pid pgid (ta_start_ticks action) signum) (\<lambda>b. yields (b, None)))
       | _ \<Rightarrow> yields (False, None))
      (\<lambda>(delivered, problem).
    next_do (the_clock H) (\<lambda>t.
    next_do (transact H (record_termination_signal_attempt action signum delivered actor t)) (\<lambda>_.
    next_do (change (\<lambda>s. s\<lparr>sv_replayed := termination_replay_key action # sv_replayed s\<rparr>)) (\<lambda>_.
    case problem of
      None \<Rightarrow> yields delivered
    | Some message \<Rightarrow> raises V5SchedulerServiceError (''termination for queue item '' @ str_int (ta_item_id action)
        @ '' is persisted, but '' @ signum @ '' could not be delivered: '' @ message))))))"

definition reconcile_termination_action ::
  "'h host \<Rightarrow> service_config \<Rightarrow> active_attempt \<Rightarrow> string \<Rightarrow> ('h, unit) action" where
  "reconcile_termination_action H cf active actor =
    next_do (checked H (termination_action_from_active active)) (\<lambda>action.
    next_do (the_epoch H) (\<lambda>reading.
    next_do (checked H (finite_float 0 reading)) (\<lambda>now.
    next_do (ask sv_replayed) (\<lambda>replayed.
    if termination_replay_key action \<notin> set replayed
    then next_do (deliver_termination_action H action actor) (\<lambda>_. yields ())
    else if ta_stage action \<noteq> Kill \<and> cf_grace cf \<le> round64 (now - ta_signal_epoch action)
    then
      next_do (the_clock H) (\<lambda>t.
      next_do (transact H (escalate_termination (ta_item_id action) (ta_stage action)
          (Finite (ta_signal_epoch action)) actor t (Finite now))) (\<lambda>escalated.
      case escalated of
        None \<Rightarrow> yields ()
      | Some next \<Rightarrow> next_do (ask sv_replayed) (\<lambda>replayed'.
          if termination_replay_key next \<notin> set replayed'
          then next_do (deliver_termination_action H next actor) (\<lambda>_. yields ()) else yields ())))
    else yields ()))))"

text \<open>The public entry point: the request is committed before the first signal.\<close>

definition service_request_termination ::
  "'h host \<Rightarrow> int \<Rightarrow> string \<Rightarrow> string \<Rightarrow> bool \<Rightarrow> string option \<Rightarrow> ('h, termination_action \<times> bool) action" where
  "service_request_termination H item_id why actor force requested_at =
    unless_fails H (item_id > 0) V5SchedulerServiceError Bad_integer
   (next_do (case requested_at of None \<Rightarrow> the_clock H | Some t \<Rightarrow> yields t) (\<lambda>t.
    next_do (the_epoch H) (\<lambda>reading.
    next_do (checked H (finite_float 0 reading)) (\<lambda>epoch.
    next_do (transact H (request_termination item_id why force actor t (Finite epoch))) (\<lambda>action.
    next_do (deliver_termination_action H action actor) (\<lambda>delivered.
    yields (action, delivered)))))))"

section \<open>Dispatch\<close>

definition active_attempt_of :: "'h host \<Rightarrow> int \<Rightarrow> ('h, active_attempt option) action" where
  "active_attempt_of H item_id = query H (\<lambda>d. Inr (find (\<lambda>a. aa_id a = item_id) (active_attempts d)))"

definition dict_set :: "'k \<Rightarrow> 'v \<Rightarrow> ('k \<times> 'v) list \<Rightarrow> ('k \<times> 'v) list" where
  "dict_set k v kvs = (if k \<in> fst ` set kvs then map (\<lambda>(j, w). (j, if j = k then v else w)) kvs else kvs @ [(k, v)])"

definition dict_pop :: "'k \<Rightarrow> ('k \<times> 'v) list \<Rightarrow> ('k \<times> 'v) list" where
  "dict_pop k kvs = filter (\<lambda>kv. fst kv \<noteq> k) kvs"

definition preparation_errors :: "exn list" where
  "preparation_errors = attempt_errors @ [ExecutionValidationError, LegacyCardError, ProjectWorktreeError]
     @ repository_errors @ [V5SchedulerError, V5SchedulerServiceError]"

text \<open>
  \<open>except BaseException\<close>: an unexpected failure leaves no detached executor, active row or host lock behind.
  \<open>context\<close>, \<open>launched\<close> and \<open>claimed\<close> are how far the dispatch had come.
\<close>

definition abort_dispatch ::
  "'h host \<Rightarrow> service_config \<Rightarrow> string \<Rightarrow> int \<Rightarrow> prepared_dispatch option \<Rightarrow> launched_attempt option \<Rightarrow> bool \<Rightarrow> failure
    \<Rightarrow> ('h, 'a) action" where
  "abort_dispatch H cf uuid item_id context launched claimed e =
    next_do (case launched of
        None \<Rightarrow> yields ()
      | Some l \<Rightarrow> handled [AttemptLaunchUncertainError]
          (\<lambda>u. next_do (pause H (''unexpected dispatch failure ('' @ snd e
              @ ''); process-group teardown is ambiguous: '' @ snd u) ''scheduler'') (\<lambda>_.
            raises V5SchedulerServiceError (''unexpected dispatch failure left an assigned ambiguous attempt ''
              @ ''under a paused host'')))
          (stop_launched_attempt H l)) (\<lambda>_.
    next_do (if claimed
        then handled [V5SchedulerError] (\<lambda>_. yields ())
          (next_do (the_clock H) (\<lambda>t.
           next_do (transact H (fail_active_item item_id (''unexpected dispatch failure: '' @ snd e) ''scheduler'' t None)) (\<lambda>_.
           pause H (''unexpected dispatch failure: '' @ snd e) ''scheduler'')))
        else yields ()) (\<lambda>_.
    next_do (case context of None \<Rightarrow> yields () | Some c \<Rightarrow> cleanup_dispatch H cf c) (\<lambda>_.
    next_do (release_gpu_lock H uuid) (\<lambda>_.
    raises (fst e) (snd e)))))"

text \<open>Before the claim: fresh telemetry under the lock, then preparation. \<open>None\<close> is \<open>return False\<close>.\<close>

definition prepare_or_quarantine ::
  "'h host \<Rightarrow> service_config \<Rightarrow> dispatch_candidate \<Rightarrow> gpu_snapshot \<Rightarrow> ('h, (gpu_snapshot \<times> prepared_dispatch) option) action" where
  "prepare_or_quarantine H cf candidate g =
    handled preparation_errors
      (\<lambda>e. next_do (quarantine H (c_project_id candidate) (''dispatch preparation failed: '' @ snd e)
          ''scheduler'' (c_id candidate)) (\<lambda>_. yields None))
      (next_do (prepare_dispatch H cf candidate g) (\<lambda>context. yields (Some (g, context))))"

definition prepare_locked ::
  "'h host \<Rightarrow> service_config \<Rightarrow> dispatch_candidate \<Rightarrow> string \<Rightarrow> ('h, (gpu_snapshot \<times> prepared_dispatch) option) action" where
  "prepare_locked H cf candidate uuid =
    (let refused = next_do (release_gpu_lock H uuid) (\<lambda>_. yields None) in
    next_do (telemetry_or_pause H ''GPU telemetry failed before dispatch claim: '') (\<lambda>telemetry.
    case Option.bind telemetry (\<lambda>snapshots. by_uuid snapshots uuid) of
      None \<Rightarrow> refused
    | Some g \<Rightarrow>
        if \<not> idle (cf_min_free cf) (cf_max_utilization cf) g then refused
        else next_do (prepare_or_quarantine H cf candidate g) (\<lambda>prepared. case prepared of
            None \<Rightarrow> refused
          | Some p \<Rightarrow> yields (Some p))))"

definition launch_failed ::
  "'h host \<Rightarrow> service_config \<Rightarrow> string \<Rightarrow> int \<Rightarrow> prepared_dispatch \<Rightarrow> launched_attempt option \<Rightarrow> failure \<Rightarrow> ('h, unit) action" where
  "launch_failed H cf uuid item_id context launched e =
    (if fst e = AttemptLaunchUncertainError
     then pause H (''durable executor launch is ambiguous: '' @ snd e) ''scheduler''
     else next_do (case launched of
         None \<Rightarrow> yields True
       | Some l \<Rightarrow> handled [AttemptLaunchUncertainError]
           (\<lambda>u. next_do (pause H (''launch identity could not be recorded ('' @ snd e
               @ ''); process-group teardown is ambiguous: '' @ snd u) ''scheduler'') (\<lambda>_. yields False))
           (next_do (stop_launched_attempt H l) (\<lambda>_. yields True))) (\<lambda>stopped.
       if \<not> stopped then yields ()
       else
         next_do (the_clock H) (\<lambda>t.
         next_do (transact H (fail_active_item item_id (''durable executor launch failed: '' @ snd e) ''scheduler'' t
             (Some 127))) (\<lambda>_.
         next_do (pause H (''durable executor launch failed: '' @ snd e) ''scheduler'') (\<lambda>_.
         next_do (cleanup_dispatch H cf context) (\<lambda>_.
         release_gpu_lock H uuid))))))"

text \<open>A termination requested while the attempt was starting is signalled as soon as its process is known.\<close>

definition deliver_raced_termination :: "'h host \<Rightarrow> int \<Rightarrow> ('h, unit) action" where
  "deliver_raced_termination H item_id =
    handled [V5SchedulerError, V5SchedulerServiceError]
      (\<lambda>e. pause H (''could not deliver raced termination: '' @ snd e) ''scheduler'')
      (next_do (active_attempt_of H item_id) (\<lambda>active. case active of
         None \<Rightarrow> fails H V5SchedulerServiceError Row_missing
       | Some a \<Rightarrow> next_do (checked H (termination_action_from_active a)) (\<lambda>action.
           next_do (deliver_termination_action H action ''scheduler:launch'') (\<lambda>_. yields ()))))"

text \<open>The claim and the launch of a prepared attempt.\<close>

definition claim_prepared ::
  "'h host \<Rightarrow> service_config \<Rightarrow> dispatch_candidate \<Rightarrow> string \<Rightarrow> gpu_snapshot \<Rightarrow> prepared_dispatch \<Rightarrow> ('h, bool) action" where
  "claim_prepared H cf candidate uuid g context =
    next_do (the_clock H) (\<lambda>t.
    next_do (transact H (claim (c_id candidate) (gs_uuid g) (gs_index g) ''scheduler'' t)) (\<lambda>won.
    if won \<noteq> None then yields True
    else next_do (cleanup_dispatch H cf context) (\<lambda>_.
      next_do (release_gpu_lock H uuid) (\<lambda>_. yields False))))"

definition record_launch ::
  "'h host \<Rightarrow> dispatch_candidate \<Rightarrow> gpu_snapshot \<Rightarrow> launched_attempt \<Rightarrow> ('h, item_state) action" where
  "record_launch H candidate g l = next_do (the_clock H) (\<lambda>t.
    transact H (record_launched (c_id candidate) (c_segment candidate) (gs_uuid g) (la_pid l) (la_pgid l)
      (la_start_ticks l) ''scheduler'' t))"

definition launch_claimed ::
  "'h host \<Rightarrow> service_config \<Rightarrow> dispatch_candidate \<Rightarrow> string \<Rightarrow> gpu_snapshot \<Rightarrow> prepared_dispatch \<Rightarrow> ('h, bool) action" where
  "launch_claimed H cf candidate uuid g context =
    (let k = c_id candidate in
    next_do
      (handled_base (abort_dispatch H cf uuid k (Some context) None True)
        (handled (attempt_errors @ [V5SchedulerError])
          (\<lambda>e. next_do (launch_failed H cf uuid k context None e) (\<lambda>_. yields None))
          (next_do (call_host (h_launch H (pd_prepared context))) (\<lambda>l. yields (Some l)))))
      (\<lambda>launched. case launched of
         None \<Rightarrow> yields False
       | Some l \<Rightarrow>
    next_do
      (handled_base (abort_dispatch H cf uuid k (Some context) (Some l) True)
        (handled (attempt_errors @ [V5SchedulerError])
          (\<lambda>e. next_do (launch_failed H cf uuid k context (Some l) e) (\<lambda>_. yields None))
          (next_do (record_launch H candidate g l) (\<lambda>state. yields (Some state)))))
      (\<lambda>recorded. case recorded of
         None \<Rightarrow> yields False
       | Some state \<Rightarrow>
    next_do (change (\<lambda>s. s\<lparr>sv_processes := dict_set k l (sv_processes s),
                          sv_contexts := dict_set k context (sv_contexts s)\<rparr>)) (\<lambda>_.
    next_do (if state \<in> {Terminating, Force_killing} then deliver_raced_termination H k else yields ()) (\<lambda>_.
    yields True)))))"

definition dispatch_one :: "'h host \<Rightarrow> service_config \<Rightarrow> gpu_snapshot \<Rightarrow> ('h, bool) action" where
  "dispatch_one H cf gpu =
    (let uuid = gs_uuid gpu in
    next_do (query H (list_dispatch_candidates (Some 1))) (\<lambda>candidates.
    case candidates of
      [] \<Rightarrow> yields False
    | candidate # _ \<Rightarrow>
    next_do (the_clock H) (\<lambda>t.
    next_do (ask (\<lambda>s. h_disk_usage H (sv_host s))) (\<lambda>usage.
    next_do (transact H (enforce_disk_capacity usage (cf_state_dir cf) (c_project_id candidate)
        (Finite (cf_min_disk cf)) (Some (c_revision_id candidate)) ''scheduler'' t)) (\<lambda>checks.
    if \<not> list_all sufficient checks then yields False
    else next_do (global_gpu_lock H uuid) (\<lambda>locked.
      if \<not> locked then yields False
      else next_do
        (handled_base (abort_dispatch H cf uuid (c_id candidate) None None False)
          (prepare_locked H cf candidate uuid))
        (\<lambda>prepared. case prepared of
           None \<Rightarrow> yields False
         | Some (g, context) \<Rightarrow>
             next_do
               (handled_base (abort_dispatch H cf uuid (c_id candidate) (Some context) None False)
                 (claim_prepared H cf candidate uuid g context))
               (\<lambda>won. if won then launch_claimed H cf candidate uuid g context else yields False))))))))"

section \<open>Attempts rebuilt from the database\<close>

definition runtime_identity :: "queue_item \<Rightarrow> db \<Rightarrow> (string \<times> string) result" where
  "runtime_identity item d =
    fetch (find (\<lambda>i. qi_id i = qi_id item \<and> qi_project_id i = qi_project_id item
        \<and> qi_revision_id i = qi_revision_id item) (db_items d)) (service_error Row_missing) (\<lambda>row.
    fetch (qi_runtime_git_ref row) (service_error Corrupt_evidence) (\<lambda>git_ref.
    fetch (qi_runtime_worktree_path row) (service_error Corrupt_evidence) (\<lambda>path.
    require (qi_runtime_worktree_created_at row \<noteq> None) (service_error Corrupt_evidence)
   (require (qi_runtime_worktree_removed_at row = None) (service_error Wrong_state)
   (Inr (git_ref, path))))))"

definition recorded_worktree_evidence ::
  "'h host \<Rightarrow> queue_item \<Rightarrow> project_revision \<Rightarrow> ('h, worktree_evidence) action" where
  "recorded_worktree_evidence H item revision =
    next_do (query H (runtime_identity item)) (\<lambda>(git_ref, path).
    next_do (call_host (h_expected_evidence H revision (qi_id item))) (\<lambda>expected.
    let evidence = expected\<lparr>we_git_ref := git_ref, we_worktree := path\<rparr> in
    handled [ProjectWorktreeError]
      (\<lambda>e. raises V5SchedulerServiceError (''typed queue item '' @ str_int (qi_id item)
         @ '' persisted runtime worktree evidence is invalid: '' @ snd e))
      (next_do (call_host (h_evidence_ok H evidence)) (\<lambda>_. yields evidence))))"

definition candidate_of :: "queue_item \<Rightarrow> string \<Rightarrow> string \<Rightarrow> revision_kind \<Rightarrow> dispatch_candidate" where
  "candidate_of item project_key label kind =
    \<lparr>c_id = qi_id item, c_project_id = qi_project_id item, c_project_key = project_key,
     c_revision_id = qi_revision_id item, c_revision_label = label, c_revision_kind = kind,
     c_admission_kind = qi_admission_kind item, c_snapshot_id = qi_snapshot_id item,
     c_experiment_id = qi_experiment_id item, c_attempt = qi_attempt item, c_priority = qi_priority item,
     c_resume_front = qi_resume_front item, c_segment = qi_segment item, c_git_commit = qi_git_commit item\<rparr>"

text \<open>
  The rebuilt candidate carries the revision kind \<open>'typed-v1'\<close> in the code, a value the database does not have; the
  field is not read on this path, and the model puts \<open>Project_v1\<close> there.
\<close>

definition structured_context_from_active ::
  "'h host \<Rightarrow> service_config \<Rightarrow> active_attempt \<Rightarrow> bool \<Rightarrow> ('h, prepared_dispatch) action" where
  "structured_context_from_active H cf active allow_exit =
    next_do (query H (get_queue_item (cf_checks cf) (aa_id active))) (\<lambda>(item, snapshot).
    case (qi_admission_kind item, snapshot, aa_gpu_uuid active, aa_gpu_index active) of
      (Experiment_card, Some s, Some uuid, Some index) \<Rightarrow>
        next_do (get_revision H cf (qi_revision_id item)) (\<lambda>revision.
        next_do (recorded_worktree_evidence H item revision) (\<lambda>evidence.
        next_do (call_host (h_recover_worktree H revision (qi_id item) evidence)) (\<lambda>_.
        next_do (call_host (h_plan H s revision (we_worktree evidence) uuid)) (\<lambda>plan.
        next_do (typed_prior_receipt_source H cf item) (\<lambda>prior.
        next_do (call_host (h_prepare_structured H item revision s plan evidence uuid index allow_exit prior)) (\<lambda>prepared.
        yields \<lparr>pd_prepared = prepared,
                pd_candidate = candidate_of item (aa_project_key active) (pv_label revision) Project_v1,
                pd_revision = Some revision, pd_evidence = Some evidence, pd_plan = Some plan,
                pd_legacy = None\<rparr>))))))
    | _ \<Rightarrow> fails H V5SchedulerServiceError Corrupt_evidence)"

definition legacy_context_from_active ::
  "'h host \<Rightarrow> service_config \<Rightarrow> active_attempt \<Rightarrow> bool \<Rightarrow> ('h, prepared_dispatch) action" where
  "legacy_context_from_active H cf active allow_exit =
    next_do (query H (get_queue_item (cf_checks cf) (aa_id active))) (\<lambda>(item, snapshot).
    case (qi_admission_kind item, snapshot, aa_gpu_uuid active, aa_gpu_index active) of
      (Legacy_card, None, Some uuid, Some index) \<Rightarrow>
        next_do (legacy_context_for H (qi_id item) True False True) (\<lambda>legacy.
        next_do (call_host (h_prepare_legacy H item legacy uuid index allow_exit)) (\<lambda>prepared.
        yields \<lparr>pd_prepared = prepared,
                pd_candidate = candidate_of item (lx_project_key legacy) (lx_revision_label legacy) Legacy_v4,
                pd_revision = None, pd_evidence = None, pd_plan = None, pd_legacy = Some legacy\<rparr>))
    | _ \<Rightarrow> fails H V5SchedulerServiceError Corrupt_evidence)"

definition context_from_active ::
  "'h host \<Rightarrow> service_config \<Rightarrow> admission_kind \<Rightarrow> active_attempt \<Rightarrow> bool \<Rightarrow> ('h, prepared_dispatch) action" where
  "context_from_active H cf kind active allow_exit =
    (if kind = Experiment_card then structured_context_from_active H cf active allow_exit
     else legacy_context_from_active H cf active allow_exit)"

section \<open>Ended attempts\<close>

definition finalize_authenticated_receipt ::
  "'h host \<Rightarrow> service_config \<Rightarrow> executor_receipt \<Rightarrow> prepared_dispatch \<Rightarrow> string \<Rightarrow> ('h, unit) action" where
  "finalize_authenticated_receipt H cf receipt context actor =
    (let t = er_finished_at receipt in
    next_do (query H (get_queue_item (cf_checks cf) (er_item_id receipt))) (\<lambda>(item, _).
    if qi_state item = Yielding then
      (if qi_admission_kind item = Legacy_card then
         next_do (legacy_recover_pending H cf (pd_prepared context)) (\<lambda>pending.
         next_do (legacy_finalize_manual_yield H cf pending (er_return_code receipt) actor t) (\<lambda>_. yields ()))
       else
         handled [V5ContinuationError]
           (\<lambda>_. next_do (query H (get_queue_item (cf_checks cf) (qi_id item))) (\<lambda>(current, _).
              if qi_state current = Yielding
              then next_do (transact H (isolate_continuation_failure (cf_checks cf) (qi_id item)
                  ''manual continuation terminal evidence was rejected'' actor t True)) (\<lambda>_. yields ())
              else yields ()))
           (next_do (recover_pending H cf (pd_prepared context)) (\<lambda>pending.
            next_do (finalize_manual_yield H cf pending actor t) (\<lambda>_. yields ()))))
    else
      next_do (case pd_plan context of
          None \<Rightarrow> yields ()
        | Some plan \<Rightarrow> next_do (call_host (h_observe H plan (er_return_code receipt = 0))) (\<lambda>observations.
            next_do (transact H (record_job_artifacts (qi_id item) (er_segment receipt) observations actor t)) (\<lambda>_.
            yields ()))) (\<lambda>_.
      next_do (transact H (record_executor_completion receipt actor)) (\<lambda>_. yields ()))))"

definition isolate_terminal_evidence_failure ::
  "'h host \<Rightarrow> service_config \<Rightarrow> int \<Rightarrow> int \<Rightarrow> string \<Rightarrow> string \<Rightarrow> ('h, unit) action" where
  "isolate_terminal_evidence_failure H cf item_id project_id why actor =
    next_do (query H (get_queue_item (cf_checks cf) item_id)) (\<lambda>(current, _).
    if \<not> active_state (qi_state current) then yields ()
    else if qi_state current = Yielding
    then next_do (the_clock H) (\<lambda>t.
      next_do (transact H (isolate_continuation_failure (cf_checks cf) item_id why actor t True)) (\<lambda>_. yields ()))
    else next_do (the_clock H) (\<lambda>t.
      next_do (transact H (fail_active_item item_id why actor t None)) (\<lambda>_.
      quarantine H project_id why actor item_id)))"

definition finish_errors :: "exn list" where
  "finish_errors = attempt_errors @ [ExecutionValidationError, ExecutorError, LegacyV0ContinuationError,
     V5ContinuationError] @ repository_errors @ [V5SchedulerError, OSError]"

text \<open>The idle GPU of an ended attempt, or nothing while telemetry does not prove it idle.\<close>

definition idle_gpu_or_none :: "'h host \<Rightarrow> service_config \<Rightarrow> int \<Rightarrow> string \<Rightarrow> string \<Rightarrow> ('h, gpu_snapshot option) action" where
  "idle_gpu_or_none H cf item_id uuid actor =
    handled [V5SchedulerServiceError] (\<lambda>_. yields None)
      (next_do (require_current_idle_gpu H cf item_id uuid actor) (\<lambda>g. yields (Some g)))"

definition finish_receipt ::
  "'h host \<Rightarrow> service_config \<Rightarrow> int \<Rightarrow> launched_attempt \<Rightarrow> int option \<Rightarrow> prepared_dispatch \<Rightarrow> ('h, unit) action" where
  "finish_receipt H cf item_id launched returncode context =
    next_do (the_files H) (\<lambda>files.
    let present = fv_exists files (ap_exit_receipt (pa_paths (la_prepared launched))) in
    handled finish_errors
      (\<lambda>e. next_do (query H (get_queue_item (cf_checks cf) item_id)) (\<lambda>(current, _).
         if qi_state current \<in> {Succeeded, Failed, Interrupted, Force_killed} then yields ()
         else if \<not> present \<and> qi_state current \<in> {Terminating, Force_killing}
         then next_do (the_clock H) (\<lambda>t.
           next_do (transact H (record_termination_completion item_id ''scheduler'' t
               (map_option (\<lambda>n. if n \<ge> 0 then n else 128 + \<bar>n\<bar>) returncode))) (\<lambda>_. yields ()))
         else isolate_terminal_evidence_failure H cf item_id (c_project_id (pd_candidate context))
           (''executor terminal evidence rejected: '' @ snd e) ''scheduler''))
      (next_do (call_host (h_read_exit H (la_prepared launched))) (\<lambda>receipt.
       finalize_authenticated_receipt H cf receipt context ''scheduler'')))"

definition retire_attempt ::
  "'h host \<Rightarrow> service_config \<Rightarrow> int \<Rightarrow> string \<Rightarrow> prepared_dispatch \<Rightarrow> gpu_snapshot \<Rightarrow> ('h, unit) action" where
  "retire_attempt H cf item_id uuid context g =
    next_do (release_finalized_gpu_lease H cf item_id g ''scheduler'') (\<lambda>_.
    next_do (cleanup_dispatch H cf context) (\<lambda>_.
    next_do (release_gpu_lock H uuid) (\<lambda>_.
    change (\<lambda>s. s\<lparr>sv_processes := dict_pop item_id (sv_processes s),
                   sv_contexts := dict_pop item_id (sv_contexts s)\<rparr>))))"

definition finish_local_process ::
  "'h host \<Rightarrow> service_config \<Rightarrow> int \<Rightarrow> launched_attempt \<Rightarrow> int option \<Rightarrow> ('h, unit) action" where
  "finish_local_process H cf item_id launched returncode =
    (let uuid = pa_gpu_uuid (la_prepared launched) in
    next_do (ask (\<lambda>s. map_of (sv_contexts s) item_id)) (\<lambda>found. case found of
      None \<Rightarrow> fails H KeyError Row_missing
    | Some context \<Rightarrow>
    next_do (query H (get_queue_item (cf_checks cf) item_id)) (\<lambda>(before, _).
    if qi_state before = Yielding then
      next_do (idle_gpu_or_none H cf item_id uuid ''scheduler'') (\<lambda>proof. case proof of
        None \<Rightarrow> yields ()
      | Some g \<Rightarrow> next_do (finish_receipt H cf item_id launched returncode context) (\<lambda>_.
          retire_attempt H cf item_id uuid context g))
    else
      next_do (finish_receipt H cf item_id launched returncode context) (\<lambda>_.
      next_do (idle_gpu_or_none H cf item_id uuid ''scheduler'') (\<lambda>proof. case proof of
        None \<Rightarrow> yields ()
      | Some g \<Rightarrow> retire_attempt H cf item_id uuid context g)))))"

section \<open>Live attempts\<close>

definition reconcile_live_legacy_yield ::
  "'h host \<Rightarrow> service_config \<Rightarrow> active_attempt \<Rightarrow> prepared_dispatch option \<Rightarrow> ('h, unit) action" where
  "reconcile_live_legacy_yield H cf active context =
    (if aa_state active \<noteq> Yielding then yields ()
     else next_do (query H (get_queue_item (cf_checks cf) (aa_id active))) (\<lambda>(item, _).
     if qi_admission_kind item \<noteq> Legacy_card then yields ()
     else handled (attempt_errors @ [LegacyV0ContinuationError])
       (\<lambda>e. let why = ''legacy cooperative-yield evidence rejected: '' @ snd e in
          handled [V5SchedulerError, V5SchedulerServiceError]
            (\<lambda>_. pause H (''could not safely terminate queue item '' @ str_int (aa_id active)
               @ '' after legacy continuation rejection: '' @ snd e) ''scheduler'')
            (next_do (the_clock H) (\<lambda>t.
             next_do (service_request_termination H (aa_id active) why ''scheduler'' False (Some t)) (\<lambda>_.
             quarantine H (aa_project_id active) why ''scheduler'' (aa_id active)))))
       (next_do (case context of Some c \<Rightarrow> yields c | None \<Rightarrow> legacy_context_from_active H cf active True) (\<lambda>recovered.
        next_do (legacy_recover_pending H cf (pd_prepared recovered)) (\<lambda>pending.
        next_do (the_clock H) (\<lambda>t.
        next_do (reconcile_live_failure H cf pending ''scheduler'' t) (\<lambda>_. yields ())))))))"

definition signal_errors :: "exn list" where
  "signal_errors = attempt_errors @ [ExecutionValidationError, LegacyV0ContinuationError, ProjectWorktreeError,
     V5ContinuationError] @ repository_errors @ [V5SchedulerError, V5SchedulerServiceError, OSError]"

definition recovered_request_id ::
  "'h host \<Rightarrow> service_config \<Rightarrow> active_attempt \<Rightarrow> ('h, string) action" where
  "recovered_request_id H cf active =
    (if aa_admission_kind active = Experiment_card then
       next_do (structured_context_from_active H cf active False) (\<lambda>context.
       next_do (recover_pending H cf (pd_prepared context)) (\<lambda>pending.
       yields (yq_request_id (vp_request pending))))
     else
       next_do (legacy_context_from_active H cf active False) (\<lambda>context.
       next_do (legacy_recover_pending H cf (pd_prepared context)) (\<lambda>pending.
       yields (lp_request_id pending))))"

definition replay_yield_signal ::
  "'h host \<Rightarrow> active_attempt \<Rightarrow> int \<Rightarrow> int \<Rightarrow> string \<Rightarrow> signal_claim \<Rightarrow> ('h, unit) action" where
  "replay_yield_signal H active pid pgid t sclaim =
    next_do
      (handled (attempt_errors @ [OSError])
        (\<lambda>e. yields (False, ''authenticated SIGINT operation failed: '' @ snd e))
        (next_do (signal_recorded_process H pid pgid (aa_start_ticks active) ''SIGINT'') (\<lambda>b.
         yields (b, if b then ''authenticated SIGINT was delivered''
           else ''authenticated SIGINT delivery returned false''))))
      (\<lambda>(delivered, detail).
    next_do (the_epoch H) (\<lambda>epoch.
    next_do (transact H (record_manual_yield_signal_result sclaim delivered detail epoch ''scheduler:recovery'' t)) (\<lambda>_.
    if delivered then yields ()
    else next_do (transact H (quarantine_project (aa_project_id active)
        (''manual-yield request '' @ py_repr (sc_request_id sclaim) @ '' signal attempt '' @ str_int (sc_attempt sclaim)
         @ '' is uncertain: '' @ detail) ''scheduler:recovery'' t (Some (aa_id active)))) (\<lambda>_. yields ()))))"

definition reconcile_manual_yield_signal ::
  "'h host \<Rightarrow> service_config \<Rightarrow> active_attempt \<Rightarrow> ('h, unit) action" where
  "reconcile_manual_yield_signal H cf active =
    (if aa_state active \<noteq> Yielding then yields ()
     else handled signal_errors
       (\<lambda>e. pause H (''could not safely reconcile manual-yield signal for queue item '' @ str_int (aa_id active)
          @ '': '' @ snd e) ''scheduler:recovery'')
       (next_do (recovered_request_id H cf active) (\<lambda>request_id.
        case (aa_pid active, aa_pgid active) of
          (Some pid, Some pgid) \<Rightarrow>
            next_do (the_clock H) (\<lambda>t.
            next_do (on_host (h_token H 16)) (\<lambda>token.
            next_do (the_epoch H) (\<lambda>epoch.
            next_do (transact H (claim_manual_yield_signal_attempt (aa_id active) request_id token epoch
                (Finite (cf_retry cf)) ''scheduler:recovery'' t)) (\<lambda>found. case found of
                None \<Rightarrow> yields ()
              | Some sclaim \<Rightarrow> replay_yield_signal H active pid pgid t sclaim))))
        | _ \<Rightarrow> fails H V5SchedulerServiceError Corrupt_evidence)))"

definition reconcile_live_attempt ::
  "'h host \<Rightarrow> service_config \<Rightarrow> string \<Rightarrow> string \<Rightarrow> active_attempt \<Rightarrow> prepared_dispatch option \<Rightarrow> ('h, unit) action" where
  "reconcile_live_attempt H cf lead actor active context =
    next_do (if aa_state active = Yielding
        then next_do (reconcile_manual_yield_signal H cf active) (\<lambda>_.
          reconcile_live_legacy_yield H cf active context)
        else yields ()) (\<lambda>_.
    if aa_state active \<in> {Terminating, Force_killing}
    then handled [V5SchedulerError, V5SchedulerServiceError]
      (\<lambda>e. pause H (lead @ str_int (aa_id active) @ '': '' @ snd e) actor)
      (reconcile_termination_action H cf active actor)
    else yields ())"

definition reconcile_local_processes :: "'h host \<Rightarrow> service_config \<Rightarrow> ('h, unit) action" where
  "reconcile_local_processes H cf =
    next_do (query H (\<lambda>d. Inr (active_attempts d))) (\<lambda>attempts.
    next_do (ask sv_processes) (each_do (\<lambda>(item_id, launched).
      next_do (on_host (h_poll H (la_pid launched))) (\<lambda>code.
      if code \<noteq> None then finish_local_process H cf item_id launched code
      else (case find (\<lambda>a. aa_id a = item_id) (rev attempts) of
          None \<Rightarrow> yields ()
        | Some active \<Rightarrow> next_do (ask (\<lambda>s. map_of (sv_contexts s) item_id)) (\<lambda>context.
            reconcile_live_attempt H cf ''could not reconcile termination for queue item '' ''scheduler'' active
              context))))))"

section \<open>The service only takes steps of the queue\<close>

lemma drives_bookkeeping [drive]:
  "drives (change (\<lambda>s. s\<lparr>sv_locks := f s\<rparr>))"
  "drives (change (\<lambda>s. s\<lparr>sv_replayed := g s\<rparr>))"
  "drives (change (\<lambda>s. s\<lparr>sv_last_poll := q s\<rparr>))"
  "drives (change (\<lambda>s. s\<lparr>sv_scheduler_lock := b s\<rparr>))"
  "drives (change (\<lambda>s. s\<lparr>sv_processes := p s, sv_contexts := c s\<rparr>))"
  by (auto intro: drives_change)

lemma drives_case_pair_option [drive]:
  "drives a \<Longrightarrow> (\<And>x y. drives (f x y)) \<Longrightarrow> drives (case v of None \<Rightarrow> a | Some (x, y) \<Rightarrow> f x y)"
  by (cases v) auto

lemma drives_pause [drive]: "cooperative H \<Longrightarrow> drives (pause H why actor)"
  unfolding pause_def by (intro drive)

lemma drives_quarantine [drive]: "cooperative H \<Longrightarrow> drives (quarantine H p why actor k)"
  unfolding quarantine_def by (intro drive)

lemma drives_global_gpu_lock [drive]: "cooperative H \<Longrightarrow> drives (global_gpu_lock H uuid)"
  unfolding global_gpu_lock_def by (intro drive)

lemma drives_release_gpu_lock [drive]: "cooperative H \<Longrightarrow> drives (release_gpu_lock H uuid)"
  unfolding release_gpu_lock_def by (intro drive) (simp add: unlocked_def)

lemma drives_current_snapshots [drive]: "cooperative H \<Longrightarrow> drives (current_snapshots H)"
  unfolding current_snapshots_def by (intro drive)

lemma drives_pause_and_raise [drive]: "cooperative H \<Longrightarrow> drives (pause_and_raise H why actor)"
  unfolding pause_and_raise_def by (intro drive)

lemma drives_require_current_idle_gpu [drive]: "cooperative H \<Longrightarrow> drives (require_current_idle_gpu H cf k uuid actor)"
  unfolding require_current_idle_gpu_def by (intro drive)

lemma drives_release_finalized_gpu_lease [drive]: "cooperative H \<Longrightarrow> drives (release_finalized_gpu_lease H cf k g actor)"
  unfolding release_finalized_gpu_lease_def by (intro drive)

lemma drives_refresh_transaction [drive]:
  assumes "cooperative H"
  shows "drives (refresh_transaction H snapshots)"
  unfolding drives_def
proof
  fix s
  obtain stamps h where read: "readings (h_clock H) (length (observed_rows snapshots (sv_db (interleave H s))))
      (sv_host (interleave H s)) = (stamps, h)" by fastforce
  note others = interleave_drives[OF assms, of s]
  show "execution (sv_db s) (sv_db (snd (refresh_transaction H snapshots s)))"
  proof (cases "refresh_allowlist snapshots stamps (sv_db (interleave H s))")
    case (Inr w)
    obtain changes d where "w = (changes, d)" by fastforce
    with Inr read others show ?thesis
      by (auto simp: refresh_transaction_def Let_def intro: rtranclp.rtrancl_into_rtrancl queue_step.refresh)
  qed (use read others in \<open>simp add: refresh_transaction_def Let_def\<close>)
qed

lemma drives_refresh_allowed_gpus [drive]: "cooperative H \<Longrightarrow> drives (refresh_allowed_gpus H snapshots)"
  unfolding refresh_allowed_gpus_def by (intro drive)

lemma drives_telemetry_or_pause [drive]: "cooperative H \<Longrightarrow> drives (telemetry_or_pause H lead)"
  unfolding telemetry_or_pause_def by (intro drive)

lemma drives_available_gpus [drive]: "cooperative H \<Longrightarrow> drives (available_gpus H cf)"
  unfolding available_gpus_def by (intro drive)

lemma drives_cleanup_structured_worktree [drive]: "cooperative H \<Longrightarrow> drives (cleanup_structured_worktree H v e)"
  unfolding cleanup_structured_worktree_def by (intro drive)

lemma drives_cleanup_legacy_worktree [drive]: "cooperative H \<Longrightarrow> drives (cleanup_legacy_worktree H cf lx)"
  unfolding cleanup_legacy_worktree_def Let_def by (intro drive)

lemma drives_cleanup_dispatch [drive]: "cooperative H \<Longrightarrow> drives (cleanup_dispatch H cf c)"
  unfolding cleanup_dispatch_def by (intro drive)

lemma drives_typed_prior_receipt_source [drive]: "cooperative H \<Longrightarrow> drives (typed_prior_receipt_source H cf item)"
  unfolding typed_prior_receipt_source_def by (intro drive)

lemma drives_get_revision [drive]: "cooperative H \<Longrightarrow> drives (get_revision H cf k)"
  unfolding get_revision_def by (intro drive)

lemma drives_legacy_context_for [drive]: "cooperative H \<Longrightarrow> drives (legacy_context_for H k a b c)"
  using interleave_drives by (auto simp: drives_def legacy_context_for_def Let_def call_host_def split: prod.splits)

lemma drives_discard_worktree [drive]: "cooperative H \<Longrightarrow> drives (discard_worktree H v e)"
  unfolding discard_worktree_def by (intro drive)

lemma drives_prepare_structured [drive]: "cooperative H \<Longrightarrow> drives (prepare_structured H cf c g item snap)"
  unfolding prepare_structured_def by (intro drive)

lemma drives_prepare_dispatch [drive]: "cooperative H \<Longrightarrow> drives (prepare_dispatch H cf c g)"
  unfolding prepare_dispatch_def by (intro drive)

lemma drives_deliver_termination_action [drive]: "cooperative H \<Longrightarrow> drives (deliver_termination_action H act actor)"
  unfolding deliver_termination_action_def by (intro drive)

lemma drives_reconcile_termination_action [drive]: "cooperative H \<Longrightarrow> drives (reconcile_termination_action H cf a actor)"
  unfolding reconcile_termination_action_def by (intro drive)

lemma drives_service_request_termination [drive]: "cooperative H \<Longrightarrow> drives (service_request_termination H k why actor force t)"
  unfolding service_request_termination_def by (intro drive)

lemma drives_active_attempt_of [drive]: "cooperative H \<Longrightarrow> drives (active_attempt_of H k)"
  unfolding active_attempt_of_def by (intro drive)

lemma drives_abort_dispatch [drive]: "cooperative H \<Longrightarrow> drives (abort_dispatch H cf uuid k c l b e)"
  unfolding abort_dispatch_def by (intro drive)

lemma drives_prepare_or_quarantine [drive]: "cooperative H \<Longrightarrow> drives (prepare_or_quarantine H cf c g)"
  unfolding prepare_or_quarantine_def by (intro drive)

lemma drives_prepare_locked [drive]: "cooperative H \<Longrightarrow> drives (prepare_locked H cf c uuid)"
  unfolding prepare_locked_def Let_def by (intro drive)

lemma drives_launch_failed [drive]: "cooperative H \<Longrightarrow> drives (launch_failed H cf uuid k c l e)"
  unfolding launch_failed_def by (intro drive)

lemma drives_deliver_raced_termination [drive]: "cooperative H \<Longrightarrow> drives (deliver_raced_termination H k)"
  unfolding deliver_raced_termination_def by (intro drive)

lemma drives_claim_prepared [drive]: "cooperative H \<Longrightarrow> drives (claim_prepared H cf c uuid g pd)"
  unfolding claim_prepared_def by (intro drive)

lemma drives_record_launch [drive]: "cooperative H \<Longrightarrow> drives (record_launch H c g l)"
  unfolding record_launch_def by (intro drive)

lemma drives_launch_claimed [drive]: "cooperative H \<Longrightarrow> drives (launch_claimed H cf c uuid g pd)"
  unfolding launch_claimed_def by (intro drive)

lemma drives_dispatch_one [drive]: "cooperative H \<Longrightarrow> drives (dispatch_one H cf g)"
  unfolding dispatch_one_def by (intro drive)

lemma drives_recorded_worktree_evidence [drive]: "cooperative H \<Longrightarrow> drives (recorded_worktree_evidence H item v)"
  unfolding recorded_worktree_evidence_def by (intro drive)

lemma drives_structured_context_from_active [drive]: "cooperative H \<Longrightarrow> drives (structured_context_from_active H cf a b)"
  unfolding structured_context_from_active_def by (intro drive)

lemma drives_legacy_context_from_active [drive]: "cooperative H \<Longrightarrow> drives (legacy_context_from_active H cf a b)"
  unfolding legacy_context_from_active_def by (intro drive)

lemma drives_context_from_active [drive]: "cooperative H \<Longrightarrow> drives (context_from_active H cf kind a b)"
  unfolding context_from_active_def by (intro drive)

lemma drives_finalize_authenticated_receipt [drive]: "cooperative H \<Longrightarrow> drives (finalize_authenticated_receipt H cf r c actor)"
  unfolding finalize_authenticated_receipt_def by (intro drive)

lemma drives_isolate_terminal_evidence_failure [drive]: "cooperative H \<Longrightarrow> drives (isolate_terminal_evidence_failure H cf k p why actor)"
  unfolding isolate_terminal_evidence_failure_def by (intro drive)

lemma drives_idle_gpu_or_none [drive]: "cooperative H \<Longrightarrow> drives (idle_gpu_or_none H cf k uuid actor)"
  unfolding idle_gpu_or_none_def by (intro drive)

lemma drives_finish_receipt [drive]: "cooperative H \<Longrightarrow> drives (finish_receipt H cf k l code c)"
  unfolding finish_receipt_def by (intro drive)

lemma drives_retire_attempt [drive]: "cooperative H \<Longrightarrow> drives (retire_attempt H cf k uuid c g)"
  unfolding retire_attempt_def by (intro drive)

lemma drives_finish_local_process [drive]: "cooperative H \<Longrightarrow> drives (finish_local_process H cf k l code)"
  unfolding finish_local_process_def by (intro drive)

lemma drives_reconcile_live_legacy_yield [drive]: "cooperative H \<Longrightarrow> drives (reconcile_live_legacy_yield H cf a c)"
  unfolding reconcile_live_legacy_yield_def by (intro drive)

lemma drives_recovered_request_id [drive]: "cooperative H \<Longrightarrow> drives (recovered_request_id H cf a)"
  unfolding recovered_request_id_def by (intro drive)

lemma drives_replay_yield_signal [drive]: "cooperative H \<Longrightarrow> drives (replay_yield_signal H a pid pgid t c)"
  unfolding replay_yield_signal_def by (intro drive)

lemma drives_reconcile_manual_yield_signal [drive]: "cooperative H \<Longrightarrow> drives (reconcile_manual_yield_signal H cf a)"
  unfolding reconcile_manual_yield_signal_def by (intro drive)

lemma drives_reconcile_live_attempt [drive]: "cooperative H \<Longrightarrow> drives (reconcile_live_attempt H cf lead actor a c)"
  unfolding reconcile_live_attempt_def by (intro drive)

lemma drives_reconcile_local_processes [drive]: "cooperative H \<Longrightarrow> drives (reconcile_local_processes H cf)"
  unfolding reconcile_local_processes_def by (intro drive)

end
