(* ===== verification/Control_V5.thy ===== *)
theory Control_V5
  imports Service_V5
begin

text \<open>
  The rest of \<open>V5SchedulerService\<close>: attempts of an earlier scheduler process, GPU leases and worktrees left
  behind by a crash, the operator's resolution of an abandoned attempt, manual preemption, one iteration
  of the scheduler and its control loop.

  \<open>serve_loop\<close> is the \<open>while\<close> loop of \<open>run\<close>. It need not end, so it is a partial function; \<open>None\<close> is not
  returning. \<open>passes\<close> counts its rounds and states when it returns.
\<close>

section \<open>Restarted attempts\<close>

definition attempt_paths_for :: "'h host \<Rightarrow> service_config \<Rightarrow> active_attempt \<Rightarrow> ('h, attempt_paths) action" where
  "attempt_paths_for H cf active =
    create_attempt_paths H (cf_state_dir cf) (aa_project_key active) (aa_id active) (aa_segment active)"

definition read_recovered_receipt ::
  "'h host \<Rightarrow> service_config \<Rightarrow> active_attempt \<Rightarrow> ('h, executor_receipt \<times> prepared_dispatch) action" where
  "read_recovered_receipt H cf active =
    next_do (attempt_paths_for H cf active) (\<lambda>_.
    next_do (query H (get_queue_item (cf_checks cf) (aa_id active))) (\<lambda>(item, _).
    next_do (context_from_active H cf (qi_admission_kind item) active True) (\<lambda>context.
    next_do (call_host (h_read_exit H (pd_prepared context))) (\<lambda>receipt.
    yields (receipt, context)))))"

definition pause_ambiguous_launch :: "'h host \<Rightarrow> active_attempt \<Rightarrow> string \<Rightarrow> ('h, unit) action" where
  "pause_ambiguous_launch H active why =
    next_do (case aa_gpu_uuid active of None \<Rightarrow> yields True | Some uuid \<Rightarrow> global_gpu_lock H uuid) (\<lambda>_.
    pause H (''cannot safely reconcile queue item '' @ str_int (aa_id active) @ '' launch: '' @ why)
      ''scheduler:recovery'')"

definition recovery_errors :: "exn list" where
  "recovery_errors = attempt_errors @ [ExecutionValidationError, ExecutorError, ProjectWorktreeError]
     @ repository_errors @ [V5SchedulerError, V5SchedulerServiceError, OSError]"

definition str_or_none :: "string option \<Rightarrow> string" where
  "str_or_none v = (case v of None \<Rightarrow> ''None'' | Some s \<Rightarrow> s)"

text \<open>The process identity of the launch sidecar is adopted into the database row.\<close>

definition adopt_launch_identity ::
  "'h host \<Rightarrow> service_config \<Rightarrow> active_attempt \<Rightarrow> ('h, active_attempt) action" where
  "adopt_launch_identity H cf active =
    next_do (context_from_active H cf (aa_admission_kind active) active True) (\<lambda>context.
    next_do (call_host (h_read_launch H (pd_prepared context) None None None)) (\<lambda>receipt.
    unless_fails H (lc_pid receipt = lc_pgid receipt) V5SchedulerServiceError Wrong_identity
   (next_do (ask (\<lambda>s. h_proc_mounted H (sv_host s))) (\<lambda>linux.
    unless_fails H (linux \<longrightarrow> lc_start_ticks receipt \<noteq> None) V5SchedulerServiceError Corrupt_evidence
   (next_do (transact H (record_launched (aa_id active) (aa_segment active) (str_or_none (aa_gpu_uuid active))
        (lc_pid receipt) (lc_pgid receipt) (lc_start_ticks receipt) ''scheduler:recovery''
        (lc_published_at receipt))) (\<lambda>_.
    next_do (active_attempt_of H (aa_id active)) (\<lambda>refreshed. case refreshed of
      None \<Rightarrow> fails H V5SchedulerServiceError Row_missing
    | Some a \<Rightarrow> yields a)))))))"

definition recover_durable_launch_identity ::
  "'h host \<Rightarrow> service_config \<Rightarrow> active_attempt \<Rightarrow> ('h, active_attempt option) action" where
  "recover_durable_launch_identity H cf active =
    next_do (attempt_paths_for H cf active) (\<lambda>paths.
    next_do (the_files H) (\<lambda>files.
    if \<not> fv_exists files (ap_launch_receipt paths)
    then next_do (pause_ambiguous_launch H active (''database process identity is incomplete and launch receipt ''
        @ ap_launch_receipt paths @ '' is absent'')) (\<lambda>_. yields None)
    else handled recovery_errors
      (\<lambda>e. next_do (pause_ambiguous_launch H active (snd e)) (\<lambda>_. yields None))
      (next_do (adopt_launch_identity H cf active) (\<lambda>a. yields (Some a)))))"

definition recovered_errors :: "exn list" where
  "recovered_errors = recovery_errors @ [LegacyV0ContinuationError, V5ContinuationError]"

text \<open>An attempt that ended while no scheduler ran; its evidence is authenticated before it is finalized.\<close>

definition finalize_recovered ::
  "'h host \<Rightarrow> service_config \<Rightarrow> active_attempt \<Rightarrow> ('h, prepared_dispatch option) action" where
  "finalize_recovered H cf active =
    (let rejected = (\<lambda>e. isolate_terminal_evidence_failure H cf (aa_id active) (aa_project_id active)
           (''recovered executor evidence rejected: '' @ snd e) ''scheduler:recovery'') in
    next_do
      (handled recovered_errors (\<lambda>e. next_do (rejected e) (\<lambda>_. yields None))
        (next_do (read_recovered_receipt H cf active) (\<lambda>found. yields (Some found))))
      (\<lambda>found. case found of
         None \<Rightarrow> yields None
       | Some (receipt, context) \<Rightarrow>
           next_do (handled recovered_errors rejected
             (finalize_authenticated_receipt H cf receipt context ''scheduler:recovery'')) (\<lambda>_.
           yields (Some context))))"

definition retire_recovered ::
  "'h host \<Rightarrow> service_config \<Rightarrow> int \<Rightarrow> string \<Rightarrow> prepared_dispatch option \<Rightarrow> gpu_snapshot \<Rightarrow> ('h, unit) action" where
  "retire_recovered H cf item_id uuid context g =
    next_do (release_finalized_gpu_lease H cf item_id g ''scheduler:recovery'') (\<lambda>_.
    next_do (case context of None \<Rightarrow> yields () | Some c \<Rightarrow> cleanup_dispatch H cf c) (\<lambda>_.
    release_gpu_lock H uuid))"

definition finish_recovered :: "'h host \<Rightarrow> service_config \<Rightarrow> active_attempt \<Rightarrow> ('h, unit) action" where
  "finish_recovered H cf active = (case aa_gpu_uuid active of
      None \<Rightarrow> pause_ambiguous_launch H active ''active row lacks assigned GPU identity for release''
    | Some uuid \<Rightarrow>
        if aa_state active = Yielding then
          next_do (idle_gpu_or_none H cf (aa_id active) uuid ''scheduler:recovery'') (\<lambda>proof. case proof of
            None \<Rightarrow> yields ()
          | Some g \<Rightarrow> next_do (finalize_recovered H cf active) (\<lambda>context.
              retire_recovered H cf (aa_id active) uuid context g))
        else
          next_do (finalize_recovered H cf active) (\<lambda>context.
          next_do (idle_gpu_or_none H cf (aa_id active) uuid ''scheduler:recovery'') (\<lambda>proof. case proof of
            None \<Rightarrow> yields ()
          | Some g \<Rightarrow> retire_recovered H cf (aa_id active) uuid context g)))"

definition lock_lost :: "'h host \<Rightarrow> active_attempt \<Rightarrow> string \<Rightarrow> ('h, unit) action" where
  "lock_lost H active uuid =
    (let why = ''could not reacquire host GPU lock for live queue item '' @ str_int (aa_id active) @ '' on '' @ uuid
           @ ''; another process may control the same GPU'' in
    next_do (pause H why ''scheduler:recovery'') (\<lambda>_.
    quarantine H (aa_project_id active) why ''scheduler:recovery'' (aa_id active)))"

definition reconcile_restarted_live :: "'h host \<Rightarrow> service_config \<Rightarrow> active_attempt \<Rightarrow> ('h, unit) action" where
  "reconcile_restarted_live H cf active =
    (let reconcile_it = reconcile_live_attempt H cf ''could not safely replay persisted termination for queue item ''
           ''scheduler:recovery'' active None in
    case aa_gpu_uuid active of
      None \<Rightarrow> reconcile_it
    | Some uuid \<Rightarrow> next_do (global_gpu_lock H uuid) (\<lambda>locked. if locked then reconcile_it else lock_lost H active uuid))"

definition reconcile_identified :: "'h host \<Rightarrow> service_config \<Rightarrow> active_attempt \<Rightarrow> ('h, unit) action" where
  "reconcile_identified H cf active =
    next_do (attempt_paths_for H cf active) (\<lambda>paths.
    next_do (the_files H) (\<lambda>files.
    if fv_exists files (ap_exit_receipt paths) then finish_recovered H cf active
    else
      next_do (case (aa_pid active, aa_pgid active) of
          (Some pid, Some pgid) \<Rightarrow> process_identity_matches H pid pgid (aa_start_ticks active)
        | _ \<Rightarrow> yields False) (\<lambda>alive.
      if alive then reconcile_restarted_live H cf active
      else pause_ambiguous_launch H active (''authenticated executor leader is absent without a terminal ''
        @ ''receipt; its process group may still contain project work''))))"

definition identity_incomplete :: "bool \<Rightarrow> active_attempt \<Rightarrow> bool" where
  "identity_incomplete linux active =
    (aa_pid active = None \<or> aa_pgid active = None \<or> linux \<and> aa_start_ticks active = None)"

definition reconcile_restarted :: "'h host \<Rightarrow> service_config \<Rightarrow> active_attempt \<Rightarrow> ('h, unit) action" where
  "reconcile_restarted H cf active =
    next_do (ask (\<lambda>s. (aa_id active \<in> fst ` set (sv_processes s), h_proc_mounted H (sv_host s)))) (\<lambda>(own, linux).
    if own then yields ()
    else if \<not> identity_incomplete linux active then reconcile_identified H cf active
    else next_do (recover_durable_launch_identity H cf active) (\<lambda>recovered. case recovered of
        None \<Rightarrow> yields ()
      | Some a \<Rightarrow> reconcile_identified H cf a))"

definition reconcile_restarted_processes :: "'h host \<Rightarrow> service_config \<Rightarrow> ('h, unit) action" where
  "reconcile_restarted_processes H cf =
    next_do (query H (\<lambda>d. Inr (active_attempts d))) (each_do (reconcile_restarted H cf))"

section \<open>Leases and worktrees of ended attempts\<close>

definition cleanup_recorded_worktree :: "'h host \<Rightarrow> service_config \<Rightarrow> queue_item \<Rightarrow> ('h, unit) action" where
  "cleanup_recorded_worktree H cf item =
    next_do (get_revision H cf (qi_revision_id item)) (\<lambda>revision.
    next_do (recorded_worktree_evidence H item revision) (\<lambda>evidence.
    cleanup_structured_worktree H revision evidence))"

definition cleanup_recorded_legacy :: "'h host \<Rightarrow> service_config \<Rightarrow> int \<Rightarrow> ('h, unit) action" where
  "cleanup_recorded_legacy H cf item_id =
    next_do (legacy_context_for H item_id True False False) (cleanup_legacy_worktree H cf)"

definition cleanup_errors :: "exn list" where
  "cleanup_errors = [ProjectWorktreeError] @ repository_errors @ [V5SchedulerError, V5SchedulerServiceError]"

definition cleanup_persisted_runtime :: "'h host \<Rightarrow> service_config \<Rightarrow> queue_item \<Rightarrow> ('h, unit) action" where
  "cleanup_persisted_runtime H cf row =
    handled cleanup_errors
      (\<lambda>e. quarantine H (qi_project_id row) (''orphaned worktree cleanup could not be recovered: '' @ snd e)
         ''scheduler:recovery'' (qi_id row))
      (if qi_admission_kind row = Experiment_card
       then next_do (query H (get_queue_item (cf_checks cf) (qi_id row))) (\<lambda>(item, _).
         cleanup_recorded_worktree H cf item)
       else cleanup_recorded_legacy H cf (qi_id row))"

definition pending_releases :: "db \<Rightarrow> queue_item list" where
  "pending_releases d = sort_key qi_id (filter (\<lambda>i. qi_lease_held i \<and> \<not> active_state (qi_state i)) (db_items d))"

definition reconcile_pending_release :: "'h host \<Rightarrow> service_config \<Rightarrow> queue_item \<Rightarrow> ('h, unit) action" where
  "reconcile_pending_release H cf row =
    (let k = qi_id row; uuid = str_or_none (qi_gpu_uuid row) in
    next_do
      (handled [V5SchedulerError, V5SchedulerServiceError]
        (\<lambda>e. next_do (if fst e = V5SchedulerError
            then pause H (''cannot commit queue item '' @ str_int k @ '' GPU lease release after idle telemetry: ''
              @ snd e) ''scheduler:recovery''
            else yields ()) (\<lambda>_. yields False))
        (next_do (require_current_idle_gpu H cf k uuid ''scheduler:recovery'') (\<lambda>g.
         next_do (release_finalized_gpu_lease H cf k g ''scheduler:recovery'') (\<lambda>_. yields True))))
      (\<lambda>freed. if freed
         then next_do (cleanup_persisted_runtime H cf row) (\<lambda>_. release_gpu_lock H uuid)
         else yields ()))"

definition reconcile_pending_gpu_lease_releases :: "'h host \<Rightarrow> service_config \<Rightarrow> ('h, unit) action" where
  "reconcile_pending_gpu_lease_releases H cf =
    next_do (query H (\<lambda>d. Inr (pending_releases d))) (each_do (reconcile_pending_release H cf))"

definition orphaned_worktrees :: "db \<Rightarrow> queue_item list" where
  "orphaned_worktrees d = sort_key qi_id (filter (\<lambda>i. \<not> active_state (qi_state i) \<and> \<not> qi_lease_held i
     \<and> qi_runtime_worktree_removed_at i = None
     \<and> (qi_runtime_git_ref i \<noteq> None \<or> qi_runtime_worktree_path i \<noteq> None)) (db_items d))"

definition reconcile_orphaned_worktree_cleanup :: "'h host \<Rightarrow> service_config \<Rightarrow> ('h, unit) action" where
  "reconcile_orphaned_worktree_cleanup H cf =
    next_do (query H (\<lambda>d. Inr (orphaned_worktrees d))) (each_do (cleanup_persisted_runtime H cf))"

section \<open>Operator requests\<close>

definition scheduler_unlocked :: "'h host \<Rightarrow> 'h service \<Rightarrow> 'h service" where
  "scheduler_unlocked H s = (if sv_scheduler_lock s
     then s\<lparr>sv_scheduler_lock := False, sv_host := h_unlock_scheduler H (sv_host s)\<rparr> else s)"

definition lock_scheduler :: "'h host \<Rightarrow> service_config \<Rightarrow> ('h, unit) action" where
  "lock_scheduler H cf =
    next_do (call_host (h_lock_scheduler H)) (\<lambda>acquired.
    if acquired then change (\<lambda>s. s\<lparr>sv_scheduler_lock := True\<rparr>)
    else raises V5SchedulerServiceError (''another scheduler already holds ''
      @ path_join (cf_state_dir cf) ''scheduler.lock'' @ ''; stop it before starting a second writer''))"

record abandoned_outcome =
  ao_resolution :: abandoned_resolution
  ao_launch_status :: string
  ao_cleanup_error :: "string option"

definition stale_identity_checks :: "bool \<Rightarrow> active_attempt \<Rightarrow> unit result" where
  "stale_identity_checks linux active =
    require ((aa_pid active = None) = (aa_pgid active = None)) (service_error Corrupt_evidence)
   (require (aa_pid active = None \<longrightarrow> aa_state active = Starting) (service_error Wrong_state)
   (require (aa_pid active \<noteq> None \<longrightarrow> aa_state active \<noteq> Starting) (service_error Corrupt_evidence)
   (require (aa_pid active \<noteq> None \<and> linux \<longrightarrow> aa_start_ticks active \<noteq> None) (service_error Corrupt_evidence)
   (Inr ()))))"

text \<open>Neither the process nor its group may exist.\<close>

definition require_dead :: "'h host \<Rightarrow> int \<Rightarrow> int \<Rightarrow> string option \<Rightarrow> ('h, unit) action" where
  "require_dead H pid pgid ticks =
    next_do (process_identity_matches H pid pgid ticks) (\<lambda>alive.
    unless_fails H (\<not> alive) V5SchedulerServiceError Not_allowed
   (next_do (named_process_group_exists H V5SchedulerServiceError pgid) (\<lambda>there.
    unless_fails H (\<not> there) V5SchedulerServiceError Not_allowed (yields ()))))"

definition abandoned_active ::
  "'h host \<Rightarrow> int \<Rightarrow> int \<Rightarrow> string \<Rightarrow> ('h, active_attempt) action" where
  "abandoned_active H item_id project_id uuid =
    next_do (active_attempt_of H item_id) (\<lambda>found. case found of
      None \<Rightarrow> fails H V5SchedulerServiceError Row_missing
    | Some active \<Rightarrow>
    unless_fails H (aa_project_id active = project_id) V5SchedulerServiceError Wrong_identity
   (next_do (query H (\<lambda>d. Inr (db_metadata d ''dispatch_paused''))) (\<lambda>paused.
    unless_fails H (paused = Some ''1'') V5SchedulerServiceError Not_allowed
   (unless_fails H (active_state (aa_state active)) V5SchedulerServiceError Wrong_state
   (unless_fails H (aa_gpu_uuid active = Some uuid \<and> aa_gpu_index active \<noteq> None) V5SchedulerServiceError Wrong_identity
   (next_do (ask (\<lambda>s. h_proc_mounted H (sv_host s))) (\<lambda>linux.
    next_do (checked H (stale_identity_checks linux active)) (\<lambda>_.
    yields active))))))))"

text \<open>The launch sidecar of the attempt, when there is one that can be read; its process must be dead too.\<close>

definition unbound_launch_receipt :: "'h host \<Rightarrow> string \<Rightarrow> ('h, launch_receipt option) action" where
  "unbound_launch_receipt H path =
    next_do (handled [ExecutorError] (\<lambda>_. yields None)
      (next_do (call_host (h_inspect_launch H path)) (\<lambda>r. yields (Some r)))) (\<lambda>found. case found of
        None \<Rightarrow> yields None
      | Some r \<Rightarrow> next_do (require_dead H (lc_pid r) (lc_pgid r) (lc_start_ticks r)) (\<lambda>_. yields (Some r)))"

definition abandoned_errors :: "exn list" where
  "abandoned_errors = attempt_errors @ [ExecutionValidationError, ProjectWorktreeError] @ repository_errors
     @ [V5SchedulerError, V5SchedulerServiceError]"

text \<open>Every check before the attempt is resolved: the attempt, the idle GPU, its context and the sidecar's status.\<close>

definition abandoned_evidence ::
  "'h host \<Rightarrow> service_config \<Rightarrow> active_attempt \<Rightarrow> string \<Rightarrow> string
    \<Rightarrow> ('h, gpu_snapshot \<times> prepared_dispatch option \<times> string) action" where
  "abandoned_evidence H cf active uuid actor =
    next_do (global_gpu_lock H uuid) (\<lambda>locked.
    unless_fails H locked V5SchedulerServiceError Not_allowed
   (next_do (attempt_paths_for H cf active) (\<lambda>paths.
    next_do (the_files H) (\<lambda>files.
    unless_fails H (\<not> fv_exists files (ap_exit_receipt paths)) V5SchedulerServiceError Not_allowed
   (next_do (case (aa_pid active, aa_pgid active) of
        (Some pid, Some pgid) \<Rightarrow> require_dead H pid pgid (aa_start_ticks active)
      | _ \<Rightarrow> yields ()) (\<lambda>_.
    next_do (the_files H) (\<lambda>files'.
    let present = fv_exists files' (ap_launch_receipt paths) in
    next_do (if present then unbound_launch_receipt H (ap_launch_receipt paths) else yields None) (\<lambda>unbound.
    next_do (require_current_idle_gpu H cf (aa_id active) uuid actor) (\<lambda>g.
    next_do (handled abandoned_errors (\<lambda>_. yields None)
      (next_do (context_from_active H cf (aa_admission_kind active) active False) (\<lambda>c. yields (Some c)))) (\<lambda>context.
    next_do (case (unbound, context) of
        (Some _, Some c) \<Rightarrow> handled [ExecutorError] (\<lambda>_. yields ''rejected'')
          (next_do (call_host (h_read_launch H (pd_prepared c) (aa_pid active) (aa_pgid active)
              (aa_start_ticks active))) (\<lambda>_. yields ''valid-inactive''))
      | _ \<Rightarrow> yields (if present then ''rejected'' else ''absent'')) (\<lambda>status.
    yields (g, context, status))))))))))))"

text \<open>The worktree of the resolved attempt; a cleanup that cannot be authenticated quarantines the Project.\<close>

definition cleanup_abandoned ::
  "'h host \<Rightarrow> service_config \<Rightarrow> int \<Rightarrow> int \<Rightarrow> prepared_dispatch option \<Rightarrow> string \<Rightarrow> string \<Rightarrow> ('h, string option) action" where
  "cleanup_abandoned H cf item_id project_id context actor t = (case context of
      Some c \<Rightarrow> next_do (cleanup_dispatch H cf c) (\<lambda>_. yields None)
    | None \<Rightarrow> handled cleanup_errors
        (\<lambda>e. next_do (transact H (quarantine_project project_id
             (''abandoned-launch runtime cleanup could not be authenticated: '' @ snd e) actor t (Some item_id))) (\<lambda>_.
           yields (Some (snd e))))
        (next_do (query H (get_queue_item (cf_checks cf) item_id)) (\<lambda>(item, _).
         next_do (if qi_admission_kind item = Experiment_card then cleanup_recorded_worktree H cf item
           else cleanup_recorded_legacy H cf item_id) (\<lambda>_. yields None))))"

definition recorded_cleanup_error :: "int \<Rightarrow> int \<Rightarrow> db \<Rightarrow> string option" where
  "recorded_cleanup_error item_id project_id d = Option.bind
     (find (\<lambda>i. qi_id i = item_id \<and> qi_project_id i = project_id) (db_items d)) qi_runtime_worktree_cleanup_error"

definition resolve_under_lock ::
  "'h host \<Rightarrow> service_config \<Rightarrow> int \<Rightarrow> int \<Rightarrow> string \<Rightarrow> string \<Rightarrow> string \<Rightarrow> string \<Rightarrow> ('h, abandoned_outcome) action" where
  "resolve_under_lock H cf item_id project_id uuid why actor t =
    next_do (abandoned_active H item_id project_id uuid) (\<lambda>active.
    next_do (abandoned_evidence H cf active uuid actor) (\<lambda>(g, context, status).
    next_do (transact H (resolve_abandoned_launch item_id project_id uuid (aa_pid active) (aa_pgid active)
        (aa_start_ticks active) why actor t)) (\<lambda>resolution.
    next_do (release_finalized_gpu_lease H cf item_id g actor) (\<lambda>_.
    finally_do (unlocked H uuid)
      (next_do (cleanup_abandoned H cf item_id project_id context actor t) (\<lambda>problem.
       next_do (query H (\<lambda>d. Inr (recorded_cleanup_error item_id project_id d))) (\<lambda>recorded.
       yields \<lparr>ao_resolution = resolution, ao_launch_status = status,
               ao_cleanup_error = (if recorded = None then problem else recorded)\<rparr>)))))))"

definition service_resolve_abandoned_launch ::
  "'h host \<Rightarrow> service_config \<Rightarrow> int \<Rightarrow> int \<Rightarrow> string \<Rightarrow> string \<Rightarrow> string \<Rightarrow> string \<Rightarrow> string option
    \<Rightarrow> ('h, abandoned_outcome) action" where
  "service_resolve_abandoned_launch H cf item_id project_id uuid why actor confirmation changed_at =
    unless_fails H (item_id > 0 \<and> project_id > 0) V5SchedulerServiceError Bad_integer
   (unless_fails H (confirmation = ''RESOLVE-ABANDONED-LAUNCH'') V5SchedulerServiceError Not_allowed
   (unless_fails H (plain_text uuid \<and> plain_text why \<and> plain_text actor) V5SchedulerServiceError Bad_text
   (next_do (case changed_at of None \<Rightarrow> the_clock H | Some t \<Rightarrow> yields t) (\<lambda>t.
    next_do (ask (\<lambda>s. \<not> sv_scheduler_lock s)) (\<lambda>owns.
    finally_do (\<lambda>s. if owns then scheduler_unlocked H s else s)
      (next_do (if owns then lock_scheduler H cf else yields ()) (\<lambda>_.
       resolve_under_lock H cf item_id project_id uuid why actor t)))))))"

text \<open>A typed or an imported request; its pending evidence is the coordinator's.\<close>

datatype preemption = Typed yield_pending | Imported legacy_pending

definition request_manual_preemption ::
  "'h host \<Rightarrow> service_config \<Rightarrow> int \<Rightarrow> string \<Rightarrow> string \<Rightarrow> string option \<Rightarrow> ('h, preemption) action" where
  "request_manual_preemption H cf item_id remark actor requested_at =
    unless_fails H (item_id > 0) V5SchedulerServiceError Bad_integer
   (next_do (active_attempt_of H item_id) (\<lambda>found. case found of
      None \<Rightarrow> fails H V5SchedulerServiceError Row_missing
    | Some active \<Rightarrow>
    next_do (ask (\<lambda>s. map_of (sv_contexts s) item_id)) (\<lambda>known.
    next_do (case known of
        Some c \<Rightarrow> yields c
      | None \<Rightarrow> next_do (query H (get_queue_item (cf_checks cf) item_id)) (\<lambda>(item, _).
          context_from_active H cf (qi_admission_kind item) active False)) (\<lambda>context.
    next_do (case requested_at of None \<Rightarrow> the_clock H | Some t \<Rightarrow> yields t) (\<lambda>t.
    if pa_admission_kind (pd_prepared context) = Experiment_card
    then next_do (request_manual_yield H cf (pd_prepared context) remark actor t) (\<lambda>p. yields (Typed p))
    else next_do (legacy_request_manual_yield H cf (pd_prepared context) remark actor t) (\<lambda>p.
      yields (Imported p)))))))"

section \<open>The control loop\<close>

text \<open>Each free GPU is offered until one offer fails with the host paused.\<close>

fun dispatch_pass :: "'h host \<Rightarrow> service_config \<Rightarrow> gpu_snapshot list \<Rightarrow> ('h, unit) action" where
  "dispatch_pass H cf [] = yields ()"
| "dispatch_pass H cf (g # gs) = next_do (dispatch_one H cf g) (\<lambda>won.
     if won then dispatch_pass H cf gs
     else next_do (query H host_dispatch_state) (\<lambda>(paused, _).
       if paused then yields () else dispatch_pass H cf gs))"

definition reconcile_all :: "'h host \<Rightarrow> service_config \<Rightarrow> ('h, unit) action" where
  "reconcile_all H cf =
    next_do (reconcile_local_processes H cf) (\<lambda>_.
    next_do (reconcile_restarted_processes H cf) (\<lambda>_.
    next_do (reconcile_pending_gpu_lease_releases H cf) (\<lambda>_.
    next_do (reconcile_orphaned_worktree_cleanup H cf) (\<lambda>_.
    next_do (the_clock H) (\<lambda>t.
    next_do (transact H (Reservation_V5.reconcile t ''scheduler'')) (\<lambda>_.
    next_do (the_clock H) (\<lambda>t'.
    next_do (transact H (reconcile_failed_dependencies ''scheduler'' t')) (\<lambda>_.
    yields ()))))))))"

definition poll_and_dispatch :: "'h host \<Rightarrow> service_config \<Rightarrow> bool \<Rightarrow> ('h, unit) action" where
  "poll_and_dispatch H cf force =
    next_do (on_host (h_monotonic H)) (\<lambda>now.
    next_do (ask sv_last_poll) (\<lambda>polled.
    if \<not> force \<and> round64 (now - polled) < cf_poll cf then yields ()
    else next_do (change (\<lambda>s. s\<lparr>sv_last_poll := now\<rparr>)) (\<lambda>_.
      next_do (query H host_dispatch_state) (\<lambda>(paused, _).
      if paused then yields ()
      else next_do (available_gpus H cf) (dispatch_pass H cf)))))"

definition run_iteration :: "'h host \<Rightarrow> service_config \<Rightarrow> bool \<Rightarrow> bool \<Rightarrow> ('h, unit) action" where
  "run_iteration H cf force allow =
    next_do (reconcile_all H cf) (\<lambda>_. if allow then poll_and_dispatch H cf force else yields ())"

definition slept :: "'h host \<Rightarrow> 'h service \<Rightarrow> 'h service" where
  "slept H s = s\<lparr>sv_host := h_sleep H (sv_host s)\<rparr>"

partial_function (option) serve_loop ::
  "'h host \<Rightarrow> service_config \<Rightarrow> bool \<Rightarrow> 'h service \<Rightarrow> ((failure + unit) \<times> 'h service) option" where
  "serve_loop H cf once s =
    (if h_stop_requested H (sv_host s) then Some (Inr (), s)
     else case run_iteration H cf once (\<not> once) s of
       (Inl e, s') \<Rightarrow> Some (Inl e, s')
     | (Inr _, s') \<Rightarrow> if once then Some (Inr (), s') else serve_loop H cf once (slept H s'))"

definition locks_closed :: "'h host \<Rightarrow> 'h service \<Rightarrow> 'h service" where
  "locks_closed H s =
    scheduler_unlocked H (s\<lparr>sv_locks := [], sv_host := fold (h_unlock_gpu H) (sv_locks s) (sv_host s)\<rparr>)"

text \<open>
  The service from taking the scheduler lock to the \<open>finally\<close> block. \<open>run\<close> installs and restores two signal
  handlers, which set the flag \<open>h_stop_requested\<close> reads; the two loops of \<open>signal.signal\<close> are not modelled. In the
  code the first one stands between taking the lock and the \<open>try\<close>: if it raised (the service is not on the main
  thread), the scheduler lock would stay held.
\<close>

definition run :: "'h host \<Rightarrow> service_config \<Rightarrow> bool \<Rightarrow> 'h service \<Rightarrow> ((failure + unit) \<times> 'h service) option" where
  "run H cf once s = (case lock_scheduler H cf s of
      (Inl e, s') \<Rightarrow> Some (Inl e, s')
    | (Inr _, s') \<Rightarrow> map_option (\<lambda>(r, s''). (r, locks_closed H s'')) (serve_loop H cf once s'))"

section \<open>The scheduler only takes steps of the queue\<close>

lemma drives_attempt_paths_for [drive]: "cooperative H \<Longrightarrow> drives (attempt_paths_for H cf a)"
  unfolding attempt_paths_for_def by (intro drive)

lemma drives_read_recovered_receipt [drive]: "cooperative H \<Longrightarrow> drives (read_recovered_receipt H cf a)"
  unfolding read_recovered_receipt_def by (intro drive)

lemma drives_pause_ambiguous_launch [drive]: "cooperative H \<Longrightarrow> drives (pause_ambiguous_launch H a why)"
  unfolding pause_ambiguous_launch_def by (intro drive)

lemma drives_adopt_launch_identity [drive]: "cooperative H \<Longrightarrow> drives (adopt_launch_identity H cf a)"
  unfolding adopt_launch_identity_def by (intro drive)

lemma drives_recover_durable_launch_identity [drive]: "cooperative H \<Longrightarrow> drives (recover_durable_launch_identity H cf a)"
  unfolding recover_durable_launch_identity_def by (intro drive)

lemma drives_finalize_recovered [drive]: "cooperative H \<Longrightarrow> drives (finalize_recovered H cf a)"
  unfolding finalize_recovered_def Let_def by (intro drive)

lemma drives_retire_recovered [drive]: "cooperative H \<Longrightarrow> drives (retire_recovered H cf k uuid c g)"
  unfolding retire_recovered_def by (intro drive)

lemma drives_finish_recovered [drive]: "cooperative H \<Longrightarrow> drives (finish_recovered H cf a)"
  unfolding finish_recovered_def by (intro drive)

lemma drives_lock_lost [drive]: "cooperative H \<Longrightarrow> drives (lock_lost H a uuid)"
  unfolding lock_lost_def by (intro drive)

lemma drives_reconcile_restarted_live [drive]: "cooperative H \<Longrightarrow> drives (reconcile_restarted_live H cf a)"
  unfolding reconcile_restarted_live_def Let_def by (intro drive)

lemma drives_reconcile_identified [drive]: "cooperative H \<Longrightarrow> drives (reconcile_identified H cf a)"
  unfolding reconcile_identified_def by (intro drive)

lemma drives_reconcile_restarted [drive]: "cooperative H \<Longrightarrow> drives (reconcile_restarted H cf a)"
  unfolding reconcile_restarted_def by (intro drive)

lemma drives_reconcile_restarted_processes [drive]: "cooperative H \<Longrightarrow> drives (reconcile_restarted_processes H cf)"
  unfolding reconcile_restarted_processes_def by (intro drive)

lemma drives_cleanup_recorded_worktree [drive]: "cooperative H \<Longrightarrow> drives (cleanup_recorded_worktree H cf item)"
  unfolding cleanup_recorded_worktree_def by (intro drive)

lemma drives_cleanup_recorded_legacy [drive]: "cooperative H \<Longrightarrow> drives (cleanup_recorded_legacy H cf k)"
  unfolding cleanup_recorded_legacy_def by (intro drive)

lemma drives_cleanup_persisted_runtime [drive]: "cooperative H \<Longrightarrow> drives (cleanup_persisted_runtime H cf row)"
  unfolding cleanup_persisted_runtime_def by (intro drive)

lemma drives_reconcile_pending_release [drive]: "cooperative H \<Longrightarrow> drives (reconcile_pending_release H cf row)"
  unfolding reconcile_pending_release_def by (intro drive)

lemma drives_reconcile_pending_gpu_lease_releases [drive]: "cooperative H \<Longrightarrow> drives (reconcile_pending_gpu_lease_releases H cf)"
  unfolding reconcile_pending_gpu_lease_releases_def by (intro drive)

lemma drives_reconcile_orphaned_worktree_cleanup [drive]: "cooperative H \<Longrightarrow> drives (reconcile_orphaned_worktree_cleanup H cf)"
  unfolding reconcile_orphaned_worktree_cleanup_def by (intro drive)

lemma drives_lock_scheduler [drive]: "cooperative H \<Longrightarrow> drives (lock_scheduler H cf)"
  unfolding lock_scheduler_def by (intro drive)

lemma drives_require_dead [drive]: "cooperative H \<Longrightarrow> drives (require_dead H pid pgid ticks)"
  unfolding require_dead_def by (intro drive)

lemma drives_abandoned_active [drive]: "cooperative H \<Longrightarrow> drives (abandoned_active H k p uuid)"
  unfolding abandoned_active_def by (intro drive)

lemma drives_unbound_launch_receipt [drive]: "cooperative H \<Longrightarrow> drives (unbound_launch_receipt H path)"
  unfolding unbound_launch_receipt_def by (intro drive)

lemma drives_abandoned_evidence [drive]: "cooperative H \<Longrightarrow> drives (abandoned_evidence H cf a uuid actor)"
  unfolding abandoned_evidence_def by (intro drive)

lemma drives_cleanup_abandoned [drive]: "cooperative H \<Longrightarrow> drives (cleanup_abandoned H cf k p c actor t)"
  unfolding cleanup_abandoned_def by (intro drive)

lemma cleanup_keeps_db [simp]: "sv_db (unlocked H uuid s) = sv_db s" "sv_db (scheduler_unlocked H s) = sv_db s"
  by (simp_all add: unlocked_def scheduler_unlocked_def)

lemma drives_unlocking [drive]:
  "drives m \<Longrightarrow> drives (finally_do (unlocked H uuid) m)"
  "drives m \<Longrightarrow> drives (finally_do (\<lambda>s. if owns then scheduler_unlocked H s else s) m)"
  by (auto intro: drives_finally)

lemma drives_resolve_under_lock [drive]: "cooperative H \<Longrightarrow> drives (resolve_under_lock H cf k p uuid why actor t)"
  unfolding resolve_under_lock_def by (intro drive)

lemma drives_service_resolve_abandoned_launch [drive]: "cooperative H \<Longrightarrow> drives (service_resolve_abandoned_launch H cf k p uuid why actor word t)"
  unfolding service_resolve_abandoned_launch_def by (intro drive)

lemma drives_request_manual_preemption [drive]: "cooperative H \<Longrightarrow> drives (request_manual_preemption H cf k remark actor t)"
  unfolding request_manual_preemption_def by (intro drive)

lemma drives_dispatch_pass [drive]: "cooperative H \<Longrightarrow> drives (dispatch_pass H cf gs)"
proof (induction gs)
  case Nil then show ?case unfolding dispatch_pass.simps by (intro drive)
next
  case (Cons g gs)
  then have rest: "drives (dispatch_pass H cf gs)" by blast
  from Cons.prems show ?case unfolding dispatch_pass.simps by (intro drive rest)
qed

lemma drives_reconcile_all [drive]: "cooperative H \<Longrightarrow> drives (reconcile_all H cf)"
  unfolding reconcile_all_def by (intro drive)

lemma drives_poll_and_dispatch [drive]: "cooperative H \<Longrightarrow> drives (poll_and_dispatch H cf force)"
  unfolding poll_and_dispatch_def by (intro drive)

lemma drives_run_iteration [drive]: "cooperative H \<Longrightarrow> drives (run_iteration H cf force allow)"
  unfolding run_iteration_def by (intro drive)

end
