(* ===== verification/Loop_V5.thy ===== *)
theory Loop_V5
  imports Control_V5
begin

text \<open>
  The control loop of the scheduler: when it returns, what it leaves behind, and that everything it does to
  the database is an execution of the queue, whatever the host answers and whatever other processes do
  between its transactions.
\<close>

section \<open>Rounds of the loop\<close>

text \<open>The state after \<open>n\<close> rounds, as long as none of them ends the loop.\<close>

fun passes :: "'h host \<Rightarrow> service_config \<Rightarrow> nat \<Rightarrow> 'h service \<Rightarrow> 'h service" where
  "passes H cf 0 s = s"
| "passes H cf (Suc n) s = passes H cf n (slept H (snd (run_iteration H cf False True s)))"

definition round_ends :: "'h host \<Rightarrow> service_config \<Rightarrow> 'h service \<Rightarrow> bool" where
  "round_ends H cf s = (h_stop_requested H (sv_host s) \<or> isl (fst (run_iteration H cf False True s)))"

lemma round_cases:
  obtains (stop) "h_stop_requested H (sv_host s)"
    | (failed) e s' where "\<not> h_stop_requested H (sv_host s)" "run_iteration H cf force allow s = (Inl e, s')"
    | (passed) s' where "\<not> h_stop_requested H (sv_host s)" "run_iteration H cf force allow s = (Inr (), s')"
proof -
  obtain r s' where run: "run_iteration H cf force allow s = (r, s')" by fastforce
  then show thesis using stop failed passed by (cases r) auto
qed

lemma serve_loop_stop: "h_stop_requested H (sv_host s) \<Longrightarrow> serve_loop H cf once s = Some (Inr (), s)"
  by (simp add: serve_loop.simps)

lemma serve_loop_failed:
  "\<not> h_stop_requested H (sv_host s) \<Longrightarrow> run_iteration H cf once (\<not> once) s = (Inl e, s')
    \<Longrightarrow> serve_loop H cf once s = Some (Inl e, s')"
  by (simp add: serve_loop.simps)

lemma serve_loop_passed:
  "\<not> h_stop_requested H (sv_host s) \<Longrightarrow> run_iteration H cf once (\<not> once) s = (Inr (), s')
    \<Longrightarrow> serve_loop H cf once s = (if once then Some (Inr (), s') else serve_loop H cf once (slept H s'))"
  by (simp add: serve_loop.simps[of H cf once s])

lemma serve_once: "\<exists>v. serve_loop H cf True s = Some v"
proof (rule round_cases[where H = H and s = s and cf = cf and force = True and allow = "\<not> True"])
qed (use serve_loop_stop serve_loop_failed serve_loop_passed in \<open>fastforce+\<close>)

lemma serve_loop_returns: "round_ends H cf (passes H cf n s) \<Longrightarrow> \<exists>v. serve_loop H cf False s = Some v"
proof (induction n arbitrary: s)
  case 0
  then show ?case
    using serve_loop_stop serve_loop_failed[of H s cf False]
    by (cases "run_iteration H cf False True s") (fastforce simp: round_ends_def isl_def)
next
  case (Suc n)
  show ?case
  proof (rule round_cases[where H = H and s = s and cf = cf and force = False and allow = True])
    fix s' assume "\<not> h_stop_requested H (sv_host s)" and run: "run_iteration H cf False True s = (Inr (), s')"
    then have "serve_loop H cf False s = serve_loop H cf False (slept H s')" using serve_loop_passed[of H s cf False] by simp
    with Suc.IH[of "slept H s'"] Suc.prems run show ?thesis by simp
  qed (use serve_loop_stop[of H s cf False] serve_loop_failed[of H s cf False] in \<open>auto\<close>)
qed

lemma serve_loop_ends:
  assumes "serve_loop H cf once s = Some v"
  shows "\<not> once \<longrightarrow> (\<exists>n. round_ends H cf (passes H cf n s))"
proof (induction rule: serve_loop.raw_induct[OF _ assms])
  case (1 loop H cf once s v)
  show ?case
  proof
    assume "\<not> once"
    show "\<exists>n. round_ends H cf (passes H cf n s)"
    proof (rule round_cases[where H = H and s = s and cf = cf and force = False and allow = True])
      fix s' assume go: "\<not> h_stop_requested H (sv_host s)" and run: "run_iteration H cf False True s = (Inr (), s')"
      then have "loop H cf once (slept H s') = Some v" using 1(2) \<open>\<not> once\<close> by simp
      then obtain n where "round_ends H cf (passes H cf n (slept H s'))" using 1(1) \<open>\<not> once\<close> by blast
      with run have "round_ends H cf (passes H cf (Suc n) s)" by simp
      then show ?thesis by blast
    qed (auto simp: round_ends_def intro: exI[of _ 0])
  qed
qed

text \<open>An invariant of the rounds holds when the loop returns.\<close>

lemma serve_loop_invariant:
  assumes "serve_loop H cf once s = Some (r, s')" and "I s"
    and "\<And>force allow s. I s \<Longrightarrow> I (snd (run_iteration H cf force allow s))" and "\<And>s. I s \<Longrightarrow> I (slept H s)"
  shows "I s'"
proof -
  have "(\<forall>force allow s. I s \<longrightarrow> I (snd (run_iteration H cf force allow s))) \<longrightarrow> (\<forall>s. I s \<longrightarrow> I (slept H s)) \<longrightarrow> I s
      \<longrightarrow> I (snd (r, s'))"
  proof (induction rule: serve_loop.raw_induct[OF _ assms(1)])
    case (1 loop H cf once s v)
    show ?case
    proof (intro impI)
      assume I: "\<forall>force allow s. I s \<longrightarrow> I (snd (run_iteration H cf force allow s))"
        "\<forall>s. I s \<longrightarrow> I (slept H s)" "I s"
      obtain r' s' where run: "run_iteration H cf once (\<not> once) s = (r', s')" by fastforce
      then have after: "I s'" "I (slept H s')" using I by (metis snd_conv)+
      show "I (snd v)"
        using 1(2) run after I 1(1)[of H cf once "slept H s'" v]
        by (cases r') (auto split: if_splits)
    qed
  qed
  with assms show ?thesis by simp
qed

section \<open>Properties\<close>

text \<open>
  (C5) The scheduler's control loop returns exactly when it should: a single pass always returns; the
  loop returns if and only if it could not take the scheduler lock, or in some round a stop was requested
  at the loop's head or the round raised.
\<close>

theorem run_returns_iff:
  "run H cf once s \<noteq> None \<longleftrightarrow>
    once \<or> isl (fst (lock_scheduler H cf s)) \<or> (\<exists>n. round_ends H cf (passes H cf n (snd (lock_scheduler H cf s))))"
proof -
  obtain r s' where lock: "lock_scheduler H cf s = (r, s')" by fastforce
  show ?thesis
  proof (cases r)
    case (Inl e) with lock show ?thesis by (simp add: run_def)
  next
    case (Inr u)
    have "serve_loop H cf once s' \<noteq> None \<longleftrightarrow> once \<or> (\<exists>n. round_ends H cf (passes H cf n s'))"
      using serve_once[of H cf s'] serve_loop_returns[of H cf _ s'] serve_loop_ends[of H cf once s']
      by (cases once) auto
    with Inr lock show ?thesis by (simp add: run_def)
  qed
qed

text \<open>
  (C3) However a scheduler that took its lock ends -- stopped, after one pass, or by an exception of any
  round -- it holds no GPU lock and no scheduler lock any more, and everything that happened to the database
  since it started is an execution of the queue. So the system invariant holds and history was only
  extended, whatever the host answered and whatever other processes committed in between.
\<close>

theorem run_is_execution:
  fixes H :: "'h host"
  assumes "cooperative H" and "system_inv (sv_db s)" and "\<not> isl (fst (lock_scheduler H cf s))"
    and "run H cf once s = Some (r, s')"
  shows "sv_locks s' = [] \<and> \<not> sv_scheduler_lock s' \<and> execution (sv_db s) (sv_db s')
    \<and> system_inv (sv_db s') \<and> history (sv_db s) (sv_db s')"
proof -
  obtain s0 where lock: "lock_scheduler H cf s = (Inr (), s0)"
    using assms(3) by (metis old.unit.exhaust prod.collapse sum.collapse(2))
  then obtain s1 where served: "serve_loop H cf once s0 = Some (r, s1)" and s': "s' = locks_closed H s1"
    using assms(4) by (auto simp: run_def)
  have "execution (sv_db s0) (sv_db s1)"
  proof (rule serve_loop_invariant[where I = "\<lambda>s. execution (sv_db s0) (sv_db s)", OF served])
    fix force allow and u :: "'h service"
    assume "execution (sv_db s0) (sv_db u)"
    with drivesD[OF drives_run_iteration[OF assms(1)], of u cf force allow]
    show "execution (sv_db s0) (sv_db (snd (run_iteration H cf force allow u)))" by (rule rtranclp_trans[rotated])
  qed (simp_all add: slept_def)
  then have "execution (sv_db s) (sv_db s')"
    using drives_step[OF drives_lock_scheduler[OF assms(1)] lock] s' by (simp add: locks_closed_def)
  with execution_safe[OF this assms(2)] s' show ?thesis by (simp add: locks_closed_def scheduler_unlocked_def)
qed

section \<open>Example\<close>

text \<open>
  A host on which everything works: one idle GPU, one imported item in the queue, launches succeed and no
  other process writes. Its state counts the stop requests seen.
\<close>

definition ex_queued :: queue_item where
  "ex_queued = (ex_item 1)\<lparr>qi_admission_kind := Legacy_card, qi_snapshot_id := None, qi_job_id := None\<rparr>"

definition ex_config :: service_config where
  "ex_config = \<lparr>cf_checks = ex_checks, cf_wire = ex_wire, cf_state_dir = ''/state'', cf_poll = 0, cf_control = 1,
     cf_grace = 10, cf_retry = 5, cf_min_free = 1 / 2, cf_max_utilization = 10, cf_min_disk = 0\<rparr>"

definition ex_observed :: "string \<Rightarrow> gpu_snapshot" where
  "ex_observed uuid = \<lparr>gs_index = ''0'', gs_uuid = uuid, gs_name = ''A100'', gs_memory_total = Finite 100,
     gs_memory_used = Finite 0, gs_utilization = Finite 0, gs_compute_pids = []\<rparr>"

definition ex_prepared :: prepared_attempt where
  "ex_prepared = \<lparr>pa_item_id = 1, pa_project_id = 1, pa_revision_id = 1, pa_experiment_id = ''exp1'', pa_attempt = 1,
     pa_segment = 1, pa_git_commit = ex_commit, pa_resolved_sha256 = None, pa_admission_kind = Legacy_card,
     pa_command_kind = ''legacy'', pa_worktree = ''/work/alpha'', pa_primary_repo = None, pa_gpu_uuid = ''GPU-a'',
     pa_paths = attempt_paths_of ''/state/a''\<rparr>"

definition ex_context :: legacy_context where
  "ex_context = \<lparr>lx_item = ex_queued, lx_project_key = ''alpha'', lx_revision_label = ''alpha:r1'',
     lx_git_ref = legacy_ref ''alpha'' 1 1, lx_worktree_path = legacy_worktree ''/state'' ''alpha'' 1 1 ex_commit\<rparr>"

definition ex_refused :: "('h, 'a) call" where
  "ex_refused h = (Inl (OSError, ''refused''), h)"

definition ex_granted :: "'a \<Rightarrow> ('h, 'a) call" where
  "ex_granted v h = (Inr v, h)"

definition ex_host :: "nat host" where
  "ex_host = \<lparr>
     h_clock = (\<lambda>h. (ex_time, h)), h_epoch = (\<lambda>h. (Finite 0, h)), h_monotonic = (\<lambda>h. (1, h)),
     h_token = (\<lambda>n h. (replicate 32 (CHR ''a''), h)), h_message = (\<lambda>h e. ''rejected''), h_others = (\<lambda>h d. (d, h)),
     h_gpus = ex_granted [ex_observed ''GPU-a''], h_lock_gpu = (\<lambda>uuid. ex_granted True), h_unlock_gpu = (\<lambda>uuid h. h),
     h_lock_scheduler = ex_granted True, h_unlock_scheduler = (\<lambda>h. h), h_disk_usage = (\<lambda>h path. Some 1073741824),
     h_files = (\<lambda>h. ex_file_view), h_checkpoint_files = (\<lambda>h. ex_files), h_publish_once = (\<lambda>a b c. ex_refused),
     h_publish = (\<lambda>a b c. ex_refused), h_unlink = (\<lambda>path. ex_refused), h_private_directory = (\<lambda>path. ex_granted ''/state/a''),
     h_kill = (\<lambda>pid signum h. (No_process, h)), h_killpg = (\<lambda>pgid signum h. (No_process, h)),
     h_getpgid = (\<lambda>pid h. (No_process, h)), h_start_ticks = (\<lambda>pid h. (None, h)), h_proc_mounted = (\<lambda>h. True),
     h_poll = (\<lambda>pid h. (None, h)), h_wait = (\<lambda>pid h. (True, h)),
     h_prepare_worktree = (\<lambda>v k. ex_refused), h_cleanup_worktree = (\<lambda>v e. ex_refused),
     h_recover_worktree = (\<lambda>v k e. ex_refused), h_expected_evidence = (\<lambda>v k. ex_refused),
     h_evidence_ok = (\<lambda>e. ex_refused), h_plan = (\<lambda>a v w u. ex_refused),
     h_prepare_structured = (\<lambda>i v a q e u x b r. ex_refused),
     h_legacy_context = (\<lambda>k a b c d. ex_granted ex_context),
     h_prepare_legacy = (\<lambda>i x u n b. ex_granted ex_prepared), h_remove_legacy = (\<lambda>x. ex_refused),
     h_launch = (\<lambda>q. ex_granted \<lparr>la_prepared = q, la_pid = 4242, la_pgid = 4242, la_start_ticks = Some ''99''\<rparr>),
     h_read_exit = (\<lambda>q. ex_refused), h_read_launch = (\<lambda>q a b c. ex_refused), h_inspect_launch = (\<lambda>path. ex_refused),
     h_observe = (\<lambda>q b. ex_refused), h_sleep = Suc, h_stop_requested = (\<lambda>h. 1 \<le> h)\<rparr>"

declare serve_loop.simps [code]

definition ex_service :: "db \<Rightarrow> nat service" where
  "ex_service d = \<lparr>sv_db = d, sv_host = 0, sv_locks = [], sv_processes = [], sv_contexts = [], sv_replayed = [],
     sv_scheduler_lock = False, sv_last_poll = 0\<rparr>"

lemma ex_cooperative: "cooperative ex_host"
  by (simp add: cooperative_def ex_host_def)

lemma ex_queued_inv: "system_inv (ex_db [ex_queued])"
  by code_simp

lemma ex_once: "case run ex_host ex_config True (ex_service (ex_db [ex_queued])) of
    None \<Rightarrow> False
  | Some (r, s) \<Rightarrow> \<not> isl r \<and> map qi_state (db_items (sv_db s)) = [Queued]"
  by code_simp

theorem run_is_execution_witness:
  "\<exists>r s'. run ex_host ex_config True (ex_service (ex_db [ex_queued])) = Some (r, s') \<and> \<not> isl r
     \<and> sv_locks s' = [] \<and> \<not> sv_scheduler_lock s' \<and> system_inv (sv_db s')"
proof -
  obtain r s' where run: "run ex_host ex_config True (ex_service (ex_db [ex_queued])) = Some (r, s')" "\<not> isl r"
    using ex_once by (auto split: option.split_asm prod.split_asm)
  have "\<not> isl (fst (lock_scheduler ex_host ex_config (ex_service (ex_db [ex_queued]))))" by code_simp
  from run_is_execution[OF ex_cooperative _ this run(1)] ex_queued_inv run show ?thesis
    by (auto simp: ex_service_def)
qed

end
