(* ===== verification/Frames_V5.thy ===== *)
theory Frames_V5
  imports Loop_V5
begin




section \<open>Observations\<close>





section \<open>Dispatch\<close>











lemma dict_set_lookup [simp]: "map_of (dict_set k v kvs) k = Some v"
  by (induction kvs) (auto simp: dict_set_def split: if_splits prod.splits)















section \<open>Signals\<close>

text \<open>
  The host answers that prove a process to be the recorded one, from \<open>h\<close> to \<open>h'\<close>: signal 0 reaches it, it
  belongs to the recorded process group, and its start time is the recorded one.
\<close>

definition identified :: "'h host \<Rightarrow> int \<Rightarrow> int \<Rightarrow> string option \<Rightarrow> 'h \<Rightarrow> 'h \<Rightarrow> bool" where
  "identified H pid pgid ticks h h' = (pid > 0 \<and> pgid > 0 \<and> (\<exists>t h1 h2. ticks = Some t \<and> h_kill H pid ''0'' h = (Answer (), h1)
     \<and> h_getpgid H pid h1 = (Answer pgid, h2) \<and> h_start_ticks H pid h2 = (Some t, h')))"

text \<open>What may have been asked of the host when the process was not proven to be the recorded one: no signal.\<close>

definition probed :: "'h host \<Rightarrow> int \<Rightarrow> 'h \<Rightarrow> 'h \<Rightarrow> bool" where
  "probed H pid h h' = (h' = h \<or> h' = snd (h_kill H pid ''0'' h)
     \<or> h' = snd (h_getpgid H pid (snd (h_kill H pid ''0'' h)))
     \<or> h' = snd (h_start_ticks H pid (snd (h_getpgid H pid (snd (h_kill H pid ''0'' h))))))"

lemma process_identity_effect:
  assumes "process_identity_matches H pid pgid ticks s = (r, s')"
  shows "if r = Inr True then \<exists>h. identified H pid pgid ticks (sv_host s) h \<and> s' = s\<lparr>sv_host := h\<rparr>
    else \<exists>h. probed H pid (sv_host s) h \<and> s' = s\<lparr>sv_host := h\<rparr>"
proof -
  obtain k1 h1 k2 h2 k3 h3 where asked: "h_kill H pid ''0'' (sv_host s) = (k1, h1)" "h_getpgid H pid h1 = (k2, h2)"
      "h_start_ticks H pid h2 = (k3, h3)"
    by fastforce
  have probes: "probed H pid (sv_host s) (sv_host s)" "probed H pid (sv_host s) h1" "probed H pid (sv_host s) h2"
      "probed H pid (sv_host s) h3"
    by (simp_all add: probed_def asked)
  have same: "s = s\<lparr>sv_host := sv_host s\<rparr>" by simp
  show ?thesis
    using assms asked probes same unfolding process_identity_matches_def unless_fails_def fails_def
    by (cases k1; cases k2; cases ticks)
      (auto simp: next_do_def on_host_def yields_def raises_def checked_def identified_def split: if_split_asm)
qed

text \<open>
  (C6) A signal is only ever sent to the recorded process. Whatever happens, either the service proved the process
  to be the recorded one right before (it exists, belongs to the recorded process group and has the recorded start
  time, in the host's answers), the signal is one of the three of the escalation, and the one thing it did
  then is to send it, SIGKILL to the recorded group and the others to the recorded process, reporting success
  exactly when the host delivered it; or it reported no success and nothing but the three harmless probes was
  asked of the host, so nothing was signalled. A reused process identifier is not hit, and an attempt without
  a recorded start time is never signalled.
\<close>

theorem only_recorded_process_signalled:
  assumes "signal_recorded_process H pid pgid ticks signum s = (r, s')"
  shows "(\<exists>h answer h'. identified H pid pgid ticks (sv_host s) h \<and> signum \<in> {''SIGINT'', ''SIGTERM'', ''SIGKILL''}
        \<and> (if signum = ''SIGKILL'' then h_killpg H pgid signum h else h_kill H pid signum h) = (answer, h')
        \<and> s' = s\<lparr>sv_host := h'\<rparr> \<and> (r = Inr True \<longleftrightarrow> answer = Answer ()))
    \<or> (r \<noteq> Inr True \<and> (\<exists>h. probed H pid (sv_host s) h \<and> s' = s\<lparr>sv_host := h\<rparr>))"
proof (cases "signum \<in> {''SIGINT'', ''SIGTERM'', ''SIGKILL''}")
  case False
  then have "r \<noteq> Inr True" "s' = s\<lparr>sv_host := sv_host s\<rparr>"
    using assms by (auto simp: signal_recorded_process_def unless_fails_def fails_def checked_def next_do_def raises_def)
  then show ?thesis by (auto simp: probed_def)
next
  case known: True
  obtain q t where asked: "process_identity_matches H pid pgid ticks s = (q, t)" by fastforce
  note effect = process_identity_effect[OF asked]
  show ?thesis
  proof (cases "q = Inr True")
    case True
    then obtain h where h: "identified H pid pgid ticks (sv_host s) h" "t = s\<lparr>sv_host := h\<rparr>" using effect by auto
    obtain answer h' where sent: "(if signum = ''SIGKILL'' then h_killpg H pgid signum h else h_kill H pid signum h) = (answer, h')"
      by fastforce
    have "s' = s\<lparr>sv_host := h'\<rparr> \<and> (r = Inr True \<longleftrightarrow> answer = Answer ())"
      using assms asked True known h(2) sent unfolding signal_recorded_process_def unless_fails_def fails_def
      by (cases answer) (auto simp: next_do_def on_host_def yields_def raises_def checked_def split: if_split_asm)
    with h(1) known sent show ?thesis by blast
  next
    case False
    then have "r \<noteq> Inr True \<and> s' = t"
      using assms asked known unfolding signal_recorded_process_def unless_fails_def
      by (cases q) (auto simp: next_do_def yields_def)
    with effect False show ?thesis by auto
  qed
qed

text \<open>
  Reconciling a termination repeats nothing it has done: once the signal of the current stage was
  attempted by this scheduler, it does nothing before the grace period is over, and nothing more after
  SIGKILL -- only the clock is read.
\<close>

theorem termination_signal_not_repeated:
  assumes "termination_action_from_active a = Inr act" and "h_epoch H (sv_host s) = (Finite now, h)" and "0 \<le> now"
    and "termination_replay_key act \<in> set (sv_replayed s)"
    and "ta_stage act = Kill \<or> round64 (now - ta_signal_epoch act) < cf_grace cf"
  shows "reconcile_termination_action H cf a actor s = (Inr (), s\<lparr>sv_host := h\<rparr>)"
  using assms by (auto simp: reconcile_termination_action_def next_do_def checked_def on_host_def ask_def yields_def
    finite_float_def)

section \<open>Rejected evidence\<close>

lemma quiet_interleave: "(\<And>h d. h_others H h d = (d, h)) \<Longrightarrow> interleave H s = s"
  by (simp add: interleave_def)

text \<open>
  (C37) The context of a live imported attempt that yields is rebuilt after a restart from its runtime
  worktree. If that fails with the service's own error, the reconciliation does not isolate the item but
  raises: the error leaves the iteration and ends the scheduler.
\<close>

theorem live_yield_context_error_escapes:
  assumes "\<And>h d. h_others H h d = (d, h)" and "aa_state a = Yielding"
    and "get_queue_item (cf_checks cf) (aa_id a) (sv_db s) = Inr (item, None)" and "qi_admission_kind item = Legacy_card"
    and "aa_gpu_uuid a = Some uuid" and "aa_gpu_index a = Some index"
    and "h_legacy_context H (qi_id item) True False True (sv_db s) (sv_host s) = (Inl (V5SchedulerServiceError, why), h)"
  shows "reconcile_live_legacy_yield H cf a None s = (Inl (V5SchedulerServiceError, why), s\<lparr>sv_host := h\<rparr>)"
  using assms
  by (simp add: reconcile_live_legacy_yield_def legacy_context_from_active_def next_do_def handled_def query_def
    transact_def Let_def quiet_interleave legacy_context_for_def call_host_def attempt_errors_def)

text \<open>
  (C38) The last resort for evidence of an ended yielding attempt that cannot be accepted is to isolate its
  item with the rejection as the reason. The repository takes at most 4000 characters, the rejections it is
  handed are not bounded by that, and a longer one is an error that nothing catches: the item stays yielding
  and the error leaves the iteration.
\<close>

theorem overlong_rejection_escapes:
  assumes "\<And>h d. h_others H h d = (d, h)" and "get_queue_item (cf_checks cf) k (sv_db s) = Inr (item, v)"
    and "qi_state item = Yielding" and "4000 < length why"
  shows "\<exists>message s'. isolate_terminal_evidence_failure H cf k p why actor s = (Inl (V5RepositoryError, message), s')
    \<and> sv_db s' = sv_db s"
proof -
  have "k > 0" using assms(2) by (auto simp: get_queue_item_def require_def split: if_split_asm)
  then have "isolate_continuation_failure (cf_checks cf) k why actor t True d = Inl (repo_error Bad_text)" for t d
    using assms(4) by (simp add: isolate_continuation_failure_def require_def text_ok_def log_safe_def)
  moreover have "active_state Yielding" by code_simp
  ultimately show ?thesis
    using assms by (auto simp: isolate_terminal_evidence_failure_def next_do_def query_def transact_def Let_def
      quiet_interleave on_host_def split: prod.split)
qed

section \<open>Example\<close>



definition ex_live_host :: "nat host" where
  "ex_live_host = ex_host\<lparr>h_kill := (\<lambda>pid signum h. (Answer (), h)), h_getpgid := (\<lambda>pid h. (Answer 4242, h)),
     h_start_ticks := (\<lambda>pid h. (Some ''99'', h)),
     h_legacy_context := (\<lambda>k a b c d h. (Inl (V5SchedulerServiceError, ''worktree changed''), h))\<rparr>"

lemma ex_live_quiet: "h_others ex_live_host h d = (d, h)"
  by (simp add: ex_live_host_def ex_host_def)

lemma ex_signals: "case signal_recorded_process ex_live_host 4242 4242 (Some ''99'') ''SIGTERM'' (ex_service (ex_db [])) of
    (Inr b, s) \<Rightarrow> b | _ \<Rightarrow> False"
  by code_simp

lemma ex_impostor: "\<not> identified ex_live_host 4242 4242 (Some ''98'') h h'"
  by (simp add: identified_def ex_live_host_def)

theorem only_recorded_process_signalled_witness:
  "(\<exists>s' h. signal_recorded_process ex_live_host 4242 4242 (Some ''99'') ''SIGTERM'' (ex_service (ex_db [])) = (Inr True, s')
     \<and> identified ex_live_host 4242 4242 (Some ''99'') 0 h)
   \<and> fst (signal_recorded_process ex_live_host 4242 4242 (Some ''98'') ''SIGTERM'' (ex_service (ex_db []))) \<noteq> Inr True"
proof
  obtain s' where run: "signal_recorded_process ex_live_host 4242 4242 (Some ''99'') ''SIGTERM'' (ex_service (ex_db []))
      = (Inr True, s')"
    using ex_signals by (auto split: prod.split_asm sum.split_asm)
  have host: "sv_host (ex_service (ex_db [])) = 0" by (simp add: ex_service_def)
  from only_recorded_process_signalled[OF run] run
  show "\<exists>s' h. signal_recorded_process ex_live_host 4242 4242 (Some ''99'') ''SIGTERM'' (ex_service (ex_db [])) = (Inr True, s')
     \<and> identified ex_live_host 4242 4242 (Some ''99'') 0 h" unfolding host by blast
  obtain r s1 where "signal_recorded_process ex_live_host 4242 4242 (Some ''98'') ''SIGTERM'' (ex_service (ex_db [])) = (r, s1)"
    by fastforce
  with only_recorded_process_signalled[OF this] ex_impostor
  show "fst (signal_recorded_process ex_live_host 4242 4242 (Some ''98'') ''SIGTERM'' (ex_service (ex_db []))) \<noteq> Inr True"
    by auto
qed

definition ex_active :: "item_state \<Rightarrow> stage \<Rightarrow> active_attempt" where
  "ex_active state stage = \<lparr>aa_id = 1, aa_project_id = 1, aa_project_key = ''alpha'', aa_revision_id = 1,
     aa_revision_label = ''alpha:r1'', aa_admission_kind = Legacy_card, aa_snapshot_id = None, aa_experiment_id = ''exp1'',
     aa_attempt = 1, aa_state = state, aa_segment = 1, aa_git_commit = ex_commit, aa_gpu_uuid = Some ''GPU-a'',
     aa_gpu_index = Some ''0'', aa_pid = Some 4242, aa_pgid = Some 4242, aa_start_ticks = Some ''99'',
     aa_started_at = Some ex_time, aa_terminate_requested_at = Some ex_time, aa_terminate_reason = Some ''stop'',
     aa_termination_stage = Some stage, aa_termination_signal_epoch = Some 0\<rparr>"

theorem termination_signal_not_repeated_witness:
  "reconcile_termination_action ex_host ex_config (ex_active Force_killing Kill) ''scheduler''
     ((ex_service (ex_db []))\<lparr>sv_replayed := [(1, 1, Kill, Some 4242, Some 4242, Some ''99'', 0)]\<rparr>)
   = (Inr (), (ex_service (ex_db []))\<lparr>sv_replayed := [(1, 1, Kill, Some 4242, Some 4242, Some ''99'', 0)], sv_host := 0\<rparr>)"
  (is "reconcile_termination_action _ _ _ _ ?s = _")
proof -
  obtain act where act: "termination_action_from_active (ex_active Force_killing Kill) = Inr act"
      "termination_replay_key act = (1, 1, Kill, Some 4242, Some 4242, Some ''99'', 0)" "ta_stage act = Kill"
    by (simp add: termination_action_from_active_def ex_active_def require_def fetch_def termination_replay_key_def)
  show ?thesis
    by (rule termination_signal_not_repeated[OF act(1), of ex_host ?s 0 0 ex_config])
      (use act in \<open>simp_all add: ex_host_def ex_service_def\<close>)
qed

theorem live_yield_context_error_escapes_witness:
  "reconcile_live_legacy_yield ex_live_host ex_config (ex_active Yielding Interrupt) None (ex_service (ex_db [ex_legacy_item]))
   = (Inl (V5SchedulerServiceError, ''worktree changed''), (ex_service (ex_db [ex_legacy_item]))\<lparr>sv_host := 0\<rparr>)"
proof (rule live_yield_context_error_escapes[OF ex_live_quiet])
  show "get_queue_item (cf_checks ex_config) (aa_id (ex_active Yielding Interrupt))
      (sv_db (ex_service (ex_db [ex_legacy_item]))) = Inr (ex_legacy_item, None)"
    by code_simp
qed (simp_all add: ex_active_def ex_legacy_item_def ex_live_host_def ex_service_def)

theorem overlong_rejection_escapes_witness:
  "\<exists>message s'. isolate_terminal_evidence_failure ex_host ex_config 1 1 (replicate 4001 CHR ''x'') ''scheduler''
      (ex_service (ex_db [ex_legacy_item])) = (Inl (V5RepositoryError, message), s')
    \<and> sv_db s' = ex_db [ex_legacy_item]"
proof -
  have found: "get_queue_item (cf_checks ex_config) 1 (sv_db (ex_service (ex_db [ex_legacy_item]))) = Inr (ex_legacy_item, None)"
    by code_simp
  have "h_others ex_host h d = (d, h)" for h d by (simp add: ex_host_def)
  from overlong_rejection_escapes[OF this found, of "replicate 4001 CHR ''x''" 1 "''scheduler''"] show ?thesis
    by (simp add: ex_legacy_item_def ex_service_def)
qed

end
