(* ===== verification/Executor_V5.thy ===== *)
theory Executor_V5
  imports Host_V5
begin

text \<open>
  The durable executor (\<open>executor.py\<close>): the payload it accepts, the signals it forwards, the launch and exit
  receipts it leaves, and the scheduler's readers of both. A receipt is trusted only when it names every
  scheduled value exactly. The preparation of an imported attempt (\<open>attempt_runtime.py\<close>) writes the payload.

  The bytes of a file are \<open>fv_read\<close>, \<open>wi_parse\<close> is strict JSON; publication with \<open>fsync\<close> and the confirmation of
  a published file are the host's (\<open>confirmed\<close>). Every defect of a document raises the same class, so the order in
  which its fields are checked is not kept. The executor's control flow is a step relation, since a signal may
  arrive between any two of its steps.
\<close>

abbreviation exec_error :: "reason \<Rightarrow> error" where
  "exec_error r \<equiv> (ExecutorError, r)"

section \<open>Fields\<close>

definition read_strict_json :: "file_view \<Rightarrow> wire \<Rightarrow> string \<Rightarrow> (json \<times> string) result" where
  "read_strict_json files w path =
    require (\<not> fv_symlink files path) (exec_error Bad_argument)
   (fetch (fv_read files path) (exec_error Row_missing) (\<lambda>source.
    require (source \<noteq> [] \<and> int (length source) \<le> 1048576) (exec_error Bad_payload)
   (fetch (wi_parse w source) (exec_error Bad_payload) (\<lambda>document.
    require (case document of JObj kvs \<Rightarrow> True | _ \<Rightarrow> False) (exec_error Bad_payload) (Inr (document, source))))))"

definition exact_fields :: "json \<Rightarrow> string list \<Rightarrow> unit result" where
  "exact_fields document expected =
    require (set (json_keys document) = set expected) (exec_error Bad_payload) (Inr ())"

definition text_field :: "bool \<Rightarrow> nat \<Rightarrow> string \<Rightarrow> bool" where
  "text_field allow_empty maximum s = ((s \<noteq> [] \<or> allow_empty) \<and> CHR 0x00 \<notin> set s \<and> length s \<le> maximum)"

definition exec_text :: "bool \<Rightarrow> nat \<Rightarrow> json option \<Rightarrow> string result" where
  "exec_text allow_empty maximum v = (case v of
      Some (JStr s) \<Rightarrow> require (text_field allow_empty maximum s) (exec_error Bad_text) (Inr s)
    | _ \<Rightarrow> Inl (exec_error Bad_text))"

definition optional_text :: "nat \<Rightarrow> json option \<Rightarrow> string option result" where
  "optional_text maximum v = (case v of
      None \<Rightarrow> Inr None
    | Some JNull \<Rightarrow> Inr None
    | _ \<Rightarrow> and_then (exec_text False maximum v) (\<lambda>s. Inr (Some s)))"

definition exec_positive :: "json option \<Rightarrow> int result" where
  "exec_positive v = (case v of
      Some (JInt n) \<Rightarrow> require (n > 0) (exec_error Bad_integer) (Inr n)
    | _ \<Rightarrow> Inl (exec_error Bad_integer))"

definition exec_nonnegative :: "json option \<Rightarrow> int result" where
  "exec_nonnegative v = (case v of
      Some (JInt n) \<Rightarrow> require (n \<ge> 0) (exec_error Bad_integer) (Inr n)
    | _ \<Rightarrow> Inl (exec_error Bad_integer))"

definition exec_timestamp :: "json option \<Rightarrow> string result" where
  "exec_timestamp v = and_then (exec_text False 4096 v) (\<lambda>s.
     require (aware_timestamp s) (exec_error Bad_timestamp) (Inr s))"

fun exec_texts :: "json list \<Rightarrow> string list result" where
  "exec_texts [] = Inr []"
| "exec_texts (j # js) = and_then (exec_text False 4096 (Some j)) (\<lambda>s.
     and_then (exec_texts js) (\<lambda>ss. Inr (s # ss)))"

definition version_is :: "int \<Rightarrow> json \<Rightarrow> bool" where
  "version_is n document = (case json_get ''schema_version'' document of
      None \<Rightarrow> False | Some v \<Rightarrow> json_scalar_eq v (JInt n))"

section \<open>The identity of an attempt\<close>

record scheduled_attempt =
  xi_item_id :: int
  xi_project_id :: int
  xi_revision_id :: int
  xi_project_key :: string
  xi_revision :: string
  xi_experiment_id :: string
  xi_attempt :: int
  xi_resolved :: "string option"
  xi_admission :: string
  xi_segment :: int
  xi_git_commit :: string
  xi_worktree :: string
  xi_command_kind :: string
  xi_command_sha256 :: string

definition exec_resolved :: "string \<Rightarrow> json option \<Rightarrow> string option result" where
  "exec_resolved admission v =
    (if admission = ''ExperimentCard/v1'' then
       (case v of
          Some (JStr s) \<Rightarrow> require (sha256_text s) (exec_error Bad_payload) (Inr (Some s))
        | _ \<Rightarrow> Inl (exec_error Bad_payload))
     else if admission = ''LegacyMarkdownCard/v0'' then
       require (v = Some JNull) (exec_error Bad_payload) (Inr None)
     else Inl (exec_error Bad_argument))"

definition exec_commit :: "json option \<Rightarrow> string result" where
  "exec_commit v = and_then (exec_text False 4096 v) (\<lambda>s.
     require (commit_text s) (exec_error Bad_text) (Inr s))"

definition exec_digest :: "json option \<Rightarrow> string result" where
  "exec_digest v = and_then (exec_text False 4096 v) (\<lambda>s.
     require (sha256_text s) (exec_error Bad_text) (Inr s))"

section \<open>Exit receipts\<close>

record exit_receipt =
  xr_attempt :: scheduled_attempt
  xr_gpu_uuid :: "string option"
  xr_started_at :: string
  xr_finished_at :: string
  xr_return_code :: int
  xr_signals :: "string list"

definition exit_fields :: "string list" where
  "exit_fields = [''schema_version'', ''queue_item_id'', ''project_id'', ''project_revision_id'', ''project_key'',
     ''project_revision'', ''experiment_id'', ''attempt'', ''resolved_spec_sha256'', ''admission_kind'', ''segment'',
     ''git_commit'', ''worktree'', ''command_kind'', ''command_sha256'', ''started_at'', ''finished_at'', ''return_code'',
     ''signals_received'', ''gpu_uuid'']"

definition exit_identity :: "json \<Rightarrow> scheduled_attempt result" where
  "exit_identity document =
    and_then (exec_text False 4096 (json_get ''admission_kind'' document)) (\<lambda>admission.
    and_then (exec_resolved admission (json_get ''resolved_spec_sha256'' document)) (\<lambda>resolved.
    and_then (exec_commit (json_get ''git_commit'' document)) (\<lambda>git_commit.
    and_then (exec_text False 4096 (json_get ''command_kind'' document)) (\<lambda>command_kind.
    require (command_kind \<in> {''argv'', ''legacy-shell''}) (exec_error Bad_argument)
   (and_then (exec_digest (json_get ''command_sha256'' document)) (\<lambda>command_sha256.
    and_then (exec_positive (json_get ''queue_item_id'' document)) (\<lambda>item_id.
    and_then (exec_positive (json_get ''project_id'' document)) (\<lambda>project_id.
    and_then (exec_positive (json_get ''project_revision_id'' document)) (\<lambda>revision_id.
    and_then (exec_text False 4096 (json_get ''project_key'' document)) (\<lambda>project_key.
    and_then (exec_text False 4096 (json_get ''project_revision'' document)) (\<lambda>revision.
    and_then (exec_text False 4096 (json_get ''experiment_id'' document)) (\<lambda>experiment_id.
    and_then (exec_positive (json_get ''attempt'' document)) (\<lambda>attempt.
    and_then (exec_positive (json_get ''segment'' document)) (\<lambda>segment.
    and_then (exec_text False 4096 (json_get ''worktree'' document)) (\<lambda>worktree.
    Inr \<lparr>xi_item_id = item_id, xi_project_id = project_id, xi_revision_id = revision_id, xi_project_key = project_key,
         xi_revision = revision, xi_experiment_id = experiment_id, xi_attempt = attempt, xi_resolved = resolved,
         xi_admission = admission, xi_segment = segment, xi_git_commit = git_commit, xi_worktree = worktree,
         xi_command_kind = command_kind, xi_command_sha256 = command_sha256\<rparr>)))))))))))))))"

text \<open>
  \<open>datetime.fromisoformat(text.replace("Z", "+00:00"))\<close> on both sides. Every \<open>Z\<close> is replaced, not only a final
  one, and an unparseable result is a \<open>ValueError\<close>.
\<close>

definition zulu_replaced :: "string \<Rightarrow> string" where
  "zulu_replaced s = concat (map (\<lambda>c. if c = CHR ''Z'' then ''+00:00'' else [c]) s)"

definition precedes :: "string \<Rightarrow> string \<Rightarrow> bool result" where
  "precedes finished started = (case (fromisoformat (zulu_replaced finished), fromisoformat (zulu_replaced started)) of
      (Some (f, Some f_off), Some (s, Some s_off)) \<Rightarrow> Inr (f - f_off < s - s_off)
    | (Some (f, None), Some (s, None)) \<Rightarrow> Inr (f < s)
    | (Some _, Some _) \<Rightarrow> Inl (TypeError, Bad_timestamp)
    | _ \<Rightarrow> Inl (ValueError, Bad_timestamp))"

definition read_exit_document :: "scheduled_attempt \<Rightarrow> string option \<Rightarrow> json \<Rightarrow> exit_receipt result" where
  "read_exit_document expected gpu_uuid document =
    and_then (exact_fields document exit_fields) (\<lambda>_.
    require (version_is 3 document) (exec_error Bad_payload)
   (and_then (case json_get ''signals_received'' document of
        Some (JList js) \<Rightarrow> exec_texts js
      | _ \<Rightarrow> Inl (exec_error Bad_payload)) (\<lambda>signals.
    and_then (optional_text 4096 (json_get ''gpu_uuid'' document)) (\<lambda>gpu.
    and_then (exit_identity document) (\<lambda>actual.
    require (actual = expected \<and> gpu = gpu_uuid) (exec_error Wrong_identity)
   (and_then (exec_timestamp (json_get ''started_at'' document)) (\<lambda>started_at.
    and_then (exec_timestamp (json_get ''finished_at'' document)) (\<lambda>finished_at.
    and_then (precedes finished_at started_at) (\<lambda>early.
    require (\<not> early) (exec_error Bad_timestamp)
   (and_then (exec_nonnegative (json_get ''return_code'' document)) (\<lambda>return_code.
    Inr \<lparr>xr_attempt = actual, xr_gpu_uuid = gpu, xr_started_at = started_at, xr_finished_at = finished_at,
         xr_return_code = return_code, xr_signals = signals\<rparr>)))))))))))"

definition read_exit_receipt ::
  "file_view \<Rightarrow> wire \<Rightarrow> (string \<Rightarrow> bool) \<Rightarrow> scheduled_attempt \<Rightarrow> string option \<Rightarrow> string \<Rightarrow> exit_receipt result" where
  "read_exit_receipt files w confirmed expected gpu_uuid path =
    require (confirmed path) (exec_error Stale_evidence)
   (and_then (read_strict_json files w path) (\<lambda>(document, _). read_exit_document expected gpu_uuid document))"

text \<open>The fields the controller finalizes from.\<close>

definition executor_receipt_of :: "exit_receipt \<Rightarrow> executor_receipt" where
  "executor_receipt_of r = \<lparr>er_item_id = xi_item_id (xr_attempt r), er_project_id = xi_project_id (xr_attempt r),
     er_revision_id = xi_revision_id (xr_attempt r), er_experiment_id = xi_experiment_id (xr_attempt r),
     er_attempt = xi_attempt (xr_attempt r), er_segment = xi_segment (xr_attempt r),
     er_git_commit = xi_git_commit (xr_attempt r), er_finished_at = xr_finished_at r,
     er_return_code = xr_return_code r, er_signals_received = xr_signals r\<rparr>"

section \<open>Launch receipts\<close>

record launch_binding =
  lb_item_id :: int
  lb_project_id :: int
  lb_project_key :: string
  lb_revision_id :: int
  lb_revision :: string
  lb_experiment_id :: string
  lb_attempt :: int
  lb_segment :: int
  lb_payload_sha256 :: string
  lb_gpu_uuid :: "string option"

record executor_launch =
  el_binding :: launch_binding
  el_pid :: int
  el_pgid :: int
  el_start_ticks :: "string option"
  el_published_at :: string

definition launch_fields :: "string list" where
  "launch_fields = [''schema_version'', ''queue_item_id'', ''project_id'', ''project_key'', ''project_revision_id'',
     ''project_revision'', ''experiment_id'', ''attempt'', ''segment'', ''payload_sha256'', ''pid'', ''pgid'',
     ''process_start_ticks'', ''gpu_uuid'', ''published_at'']"

definition launch_binding_from :: "json \<Rightarrow> launch_binding result" where
  "launch_binding_from document =
    and_then (exec_positive (json_get ''queue_item_id'' document)) (\<lambda>item_id.
    and_then (exec_positive (json_get ''project_id'' document)) (\<lambda>project_id.
    and_then (exec_text False 4096 (json_get ''project_key'' document)) (\<lambda>project_key.
    and_then (exec_positive (json_get ''project_revision_id'' document)) (\<lambda>revision_id.
    and_then (exec_text False 4096 (json_get ''project_revision'' document)) (\<lambda>revision.
    and_then (exec_text False 4096 (json_get ''experiment_id'' document)) (\<lambda>experiment_id.
    and_then (exec_positive (json_get ''attempt'' document)) (\<lambda>attempt.
    and_then (exec_positive (json_get ''segment'' document)) (\<lambda>segment.
    and_then (exec_text False 4096 (json_get ''payload_sha256'' document)) (\<lambda>payload_sha256.
    and_then (optional_text 4096 (json_get ''gpu_uuid'' document)) (\<lambda>gpu.
    Inr \<lparr>lb_item_id = item_id, lb_project_id = project_id, lb_project_key = project_key, lb_revision_id = revision_id,
         lb_revision = revision, lb_experiment_id = experiment_id, lb_attempt = attempt, lb_segment = segment,
         lb_payload_sha256 = payload_sha256, lb_gpu_uuid = gpu\<rparr>))))))))))"

definition matches_if_given :: "'a option \<Rightarrow> 'a \<Rightarrow> bool" where
  "matches_if_given v x = (case v of None \<Rightarrow> True | Some y \<Rightarrow> x = y)"

definition read_launch_document ::
  "launch_binding \<Rightarrow> int option \<Rightarrow> int option \<Rightarrow> string option \<Rightarrow> json \<Rightarrow> executor_launch result" where
  "read_launch_document expected pid pgid ticks document =
    and_then (exact_fields document launch_fields) (\<lambda>_.
    require (version_is 1 document) (exec_error Bad_payload)
   (and_then (optional_text 256 (json_get ''process_start_ticks'' document)) (\<lambda>actual_ticks.
    and_then (launch_binding_from document) (\<lambda>actual.
    and_then (exec_positive (json_get ''pid'' document)) (\<lambda>actual_pid.
    and_then (exec_positive (json_get ''pgid'' document)) (\<lambda>actual_pgid.
    require (sha256_text (lb_payload_sha256 actual)) (exec_error Bad_text)
   (require (actual = expected \<and> matches_if_given pid actual_pid \<and> matches_if_given pgid actual_pgid
        \<and> (case ticks of None \<Rightarrow> True | Some t \<Rightarrow> actual_ticks = Some t)) (exec_error Wrong_identity)
   (and_then (exec_timestamp (json_get ''published_at'' document)) (\<lambda>published_at.
    Inr \<lparr>el_binding = actual, el_pid = actual_pid, el_pgid = actual_pgid, el_start_ticks = actual_ticks,
         el_published_at = published_at\<rparr>)))))))))"

text \<open>
  \<open>inspect\<close> takes the expectations from the file itself, then reads the file again; \<open>first\<close> and \<open>again\<close> are the two
  documents.
\<close>

definition inspect_launch_document :: "json \<Rightarrow> json \<Rightarrow> executor_launch result" where
  "inspect_launch_document first again =
    and_then (launch_binding_from first) (\<lambda>binding.
    and_then (exec_positive (json_get ''pid'' first)) (\<lambda>pid.
    and_then (exec_positive (json_get ''pgid'' first)) (\<lambda>pgid.
    and_then (optional_text 256 (json_get ''process_start_ticks'' first)) (\<lambda>ticks.
    and_then (read_launch_document binding (Some pid) (Some pgid) ticks again) (\<lambda>receipt.
    require (el_start_ticks receipt = ticks) (exec_error Wrong_identity) (Inr receipt))))))"

section \<open>The payload\<close>

text \<open>\<open>Path.parent\<close> and \<open>Path.with_name\<close> of an absolute path.\<close>

definition path_of_parts :: "string list \<Rightarrow> string" where
  "path_of_parts parts = (case parts of [] \<Rightarrow> ''.'' | r # rest \<Rightarrow> r @ join_text ''/'' rest)"

definition parent_path :: "string \<Rightarrow> string" where
  "parent_path s = (let parts = path_parts s in
     path_of_parts (if length parts \<le> 1 then parts else butlast parts))"

definition absolute_directory :: "file_view \<Rightarrow> json option \<Rightarrow> string result" where
  "absolute_directory files v =
    and_then (exec_text False 4096 v) (\<lambda>s.
    require (is_absolute s) (exec_error Bad_argument)
   (fetch (fv_resolve files s) (exec_error Row_missing) (\<lambda>resolved.
    require (path_parts resolved = path_parts s \<and> fv_directory files resolved) (exec_error Bad_argument) (Inr resolved))))"

definition absolute_control_file :: "file_view \<Rightarrow> string \<Rightarrow> json option \<Rightarrow> string result" where
  "absolute_control_file files control_root v =
    and_then (exec_text False 4096 v) (\<lambda>s.
    require (is_absolute s) (exec_error Bad_argument)
   (fetch (fv_resolve files (parent_path s)) (exec_error Row_missing) (\<lambda>resolved.
    require (path_parts resolved = path_parts (parent_path s)) (exec_error Bad_argument)
   (require (path_inside resolved control_root) (exec_error Not_allowed) (Inr s)))))"

definition exec_command :: "wire \<Rightarrow> (string \<Rightarrow> string) \<Rightarrow> json \<Rightarrow> (string list \<times> string \<times> string) result" where
  "exec_command w sha document =
    and_then (exec_text False 4096 (json_get ''command_kind'' document)) (\<lambda>kind.
    if kind = ''argv'' then
      (case json_get ''command'' document of
         Some (JList (j # js)) \<Rightarrow>
           and_then (exec_text False 4096 (Some j)) (\<lambda>program.
           require (list_all (\<lambda>v. case v of JStr s \<Rightarrow> text_field True 4096 s | _ \<Rightarrow> False) js) (exec_error Bad_text)
          (let argv = program # map (\<lambda>v. case v of JStr s \<Rightarrow> s | _ \<Rightarrow> []) js in
           Inr (argv, sha (wi_canonical w (JList (map JStr argv))), kind)))
       | _ \<Rightarrow> Inl (exec_error Bad_payload))
    else if kind = ''legacy-shell'' then
      and_then (exec_text False 4096 (json_get ''command'' document)) (\<lambda>script.
      Inr ([''/bin/bash'', ''-lc'', script], sha (utf8 script), kind))
    else Inl (exec_error Bad_argument))"

record executor_payload =
  ep_attempt :: scheduled_attempt
  ep_argv :: "string list"
  ep_cwd :: string
  ep_receipt_path :: string
  ep_launch_path :: string
  ep_sha256 :: string

definition payload_fields :: "string list" where
  "payload_fields = [''schema_version'', ''queue_item_id'', ''project_id'', ''project_revision_id'', ''project_key'',
     ''project_revision'', ''experiment_id'', ''attempt'', ''resolved_spec_sha256'', ''admission_kind'', ''segment'',
     ''git_commit'', ''worktree'', ''cwd'', ''command_kind'', ''command'', ''control_root'', ''receipt_path'']"

text \<open>The identity of the payload; its command's kind and digest are computed from the command.\<close>

definition payload_identity :: "json \<Rightarrow> string \<Rightarrow> string \<Rightarrow> scheduled_attempt result" where
  "payload_identity document command_kind command_sha256 =
    and_then (exec_positive (json_get ''queue_item_id'' document)) (\<lambda>item_id.
    and_then (exec_positive (json_get ''project_id'' document)) (\<lambda>project_id.
    and_then (exec_positive (json_get ''project_revision_id'' document)) (\<lambda>revision_id.
    and_then (exec_positive (json_get ''segment'' document)) (\<lambda>segment.
    and_then (exec_positive (json_get ''attempt'' document)) (\<lambda>attempt.
    and_then (exec_text False 4096 (json_get ''project_key'' document)) (\<lambda>project_key.
    and_then (exec_text False 4096 (json_get ''project_revision'' document)) (\<lambda>revision.
    and_then (exec_text False 4096 (json_get ''experiment_id'' document)) (\<lambda>experiment_id.
    and_then (exec_text False 4096 (json_get ''admission_kind'' document)) (\<lambda>admission.
    and_then (exec_resolved admission (json_get ''resolved_spec_sha256'' document)) (\<lambda>resolved.
    and_then (exec_commit (json_get ''git_commit'' document)) (\<lambda>git_commit.
    and_then (exec_text False 4096 (json_get ''worktree'' document)) (\<lambda>worktree.
    Inr \<lparr>xi_item_id = item_id, xi_project_id = project_id, xi_revision_id = revision_id, xi_project_key = project_key,
         xi_revision = revision, xi_experiment_id = experiment_id, xi_attempt = attempt, xi_resolved = resolved,
         xi_admission = admission, xi_segment = segment, xi_git_commit = git_commit, xi_worktree = worktree,
         xi_command_kind = command_kind, xi_command_sha256 = command_sha256\<rparr>))))))))))))"

definition validated_payload ::
  "file_view \<Rightarrow> wire \<Rightarrow> (string \<Rightarrow> string) \<Rightarrow> string \<Rightarrow> executor_payload result" where
  "validated_payload files w sha path =
    and_then (read_strict_json files w path) (\<lambda>(document, source).
    and_then (exact_fields document payload_fields) (\<lambda>_.
    require (version_is 1 document) (exec_error Bad_payload)
   (and_then (payload_identity document [] []) (\<lambda>identity.
    and_then (absolute_directory files (json_get ''worktree'' document)) (\<lambda>worktree.
    and_then (absolute_directory files (json_get ''cwd'' document)) (\<lambda>cwd.
    require (path_inside cwd worktree) (exec_error Not_allowed)
   (and_then (absolute_directory files (json_get ''control_root'' document)) (\<lambda>control_root.
    fetch (fv_resolve files path) (exec_error Row_missing) (\<lambda>canonical.
    require (path_inside (parent_path canonical) control_root) (exec_error Not_allowed)
   (and_then (absolute_control_file files control_root (json_get ''receipt_path'' document)) (\<lambda>receipt_path.
    let launch_path = path_join (parent_path canonical) ''launch.json'' in
    require (path_parts canonical \<noteq> path_parts receipt_path) (exec_error Bad_argument)
   (require (path_parts launch_path \<noteq> path_parts receipt_path) (exec_error Bad_argument)
   (and_then (exec_command w sha document) (\<lambda>(argv, digest, kind).
    Inr \<lparr>ep_attempt = identity\<lparr>xi_command_kind := kind, xi_command_sha256 := digest\<rparr>, ep_argv = argv, ep_cwd = cwd,
         ep_receipt_path = receipt_path, ep_launch_path = launch_path, ep_sha256 = sha source\<rparr>))))))))))))))"

section \<open>Running the child\<close>

text \<open>
  \<open>execute_payload\<close> between its steps: publishing the launch receipt, replaying the signals that came before the
  child existed, waiting, draining the process group, ended with a return code, or ended by an \<open>ExecutorError\<close>
  without a receipt.
\<close>

datatype executor_phase = Publishing | Replaying "string list" | Waiting | Draining int | Ended int | Raised

record executor_state =
  xs_phase :: executor_phase
  xs_received :: "string list"
  xs_accepted :: "string list"
  xs_pending :: "string list"
  xs_sent :: "string list"
  xs_exited :: bool

definition executor_start :: executor_state where
  "executor_start = \<lparr>xs_phase = Publishing, xs_received = [], xs_accepted = [], xs_pending = [], xs_sent = [],
     xs_exited = False\<rparr>"

definition handling :: "executor_phase \<Rightarrow> bool" where
  "handling phase = (case phase of Ended code \<Rightarrow> False | Raised \<Rightarrow> False | _ \<Rightarrow> True)"

text \<open>The handler \<open>forward\<close>: a signal is accepted once, kept while there is no child and broadcast otherwise.\<close>

definition forward :: "string \<Rightarrow> executor_state \<Rightarrow> executor_state" where
  "forward signum s =
    (if signum \<in> set (xs_accepted s) then s
     else let t = s\<lparr>xs_accepted := xs_accepted s @ [signum], xs_received := xs_received s @ [signum]\<rparr> in
       if xs_phase s = Publishing then t\<lparr>xs_pending := xs_pending s @ [signum]\<rparr>
       else t\<lparr>xs_sent := xs_sent s @ [signum]\<rparr>)"

definition normal_code :: "int \<Rightarrow> int" where
  "normal_code raw = (if raw < 0 then 128 + \<bar>raw\<bar> else raw)"

definition launch_error :: "string \<Rightarrow> executor_state \<Rightarrow> executor_state" where
  "launch_error message s = s\<lparr>xs_phase := Ended 127, xs_received := xs_received s @ [''launch_error:'' @ message]\<rparr>"

inductive executor_step :: "executor_state \<Rightarrow> executor_state \<Rightarrow> bool" where
  arrive: "handling (xs_phase s) \<Longrightarrow> signum \<in> {''SIGINT'', ''SIGTERM''} \<Longrightarrow> executor_step s (forward signum s)"
| spawn: "xs_phase s = Publishing \<Longrightarrow> executor_step s (s\<lparr>xs_phase := Replaying (xs_pending s)\<rparr>)"
| replay: "xs_phase s = Replaying (signum # rest) \<Longrightarrow>
    executor_step s (s\<lparr>xs_phase := Replaying rest, xs_sent := xs_sent s @ [signum]\<rparr>)"
| exited: "xs_phase s = Replaying (signum # rest) \<Longrightarrow>
    executor_step s (s\<lparr>xs_phase := Waiting, xs_pending := [], xs_exited := True\<rparr>)"
| replayed: "xs_phase s = Replaying [] \<Longrightarrow> executor_step s (s\<lparr>xs_phase := Waiting, xs_pending := []\<rparr>)"
| wait: "xs_phase s = Waiting \<Longrightarrow> executor_step s (s\<lparr>xs_phase := Draining (normal_code raw)\<rparr>)"
| drained: "xs_phase s = Draining code \<Longrightarrow> executor_step s (s\<lparr>xs_phase := Ended code\<rparr>)"
| os_error: "handling (xs_phase s) \<Longrightarrow> executor_step s (launch_error message s)"
| escapes: "xs_phase s = Publishing \<or> xs_phase s = Draining code \<Longrightarrow> executor_step s (s\<lparr>xs_phase := Raised\<rparr>)"

inductive_cases executor_stepE: "executor_step s t"

abbreviation executor_run :: "executor_state \<Rightarrow> bool" where
  "executor_run \<equiv> executor_step\<^sup>*\<^sup>* executor_start"

section \<open>The receipts the executor writes\<close>

definition launch_document ::
  "executor_payload \<Rightarrow> int \<Rightarrow> int \<Rightarrow> string option \<Rightarrow> string option \<Rightarrow> string \<Rightarrow> json" where
  "launch_document payload pid pgid ticks gpu_uuid published_at = (let a = ep_attempt payload in
    JObj [(''schema_version'', JInt 1), (''queue_item_id'', JInt (xi_item_id a)), (''project_id'', JInt (xi_project_id a)),
      (''project_key'', JStr (xi_project_key a)), (''project_revision_id'', JInt (xi_revision_id a)),
      (''project_revision'', JStr (xi_revision a)), (''experiment_id'', JStr (xi_experiment_id a)),
      (''attempt'', JInt (xi_attempt a)), (''segment'', JInt (xi_segment a)),
      (''payload_sha256'', JStr (ep_sha256 payload)), (''pid'', JInt pid), (''pgid'', JInt pgid),
      (''process_start_ticks'', json_opt JStr ticks), (''gpu_uuid'', json_opt JStr gpu_uuid),
      (''published_at'', JStr published_at)])"

text \<open>\<open>_publish_launch_receipt\<close>: the executor must lead its group and, on Linux, know its start time.\<close>

definition publish_launch_receipt ::
  "bool \<Rightarrow> executor_payload \<Rightarrow> int \<Rightarrow> int \<Rightarrow> string option \<Rightarrow> string option \<Rightarrow> string \<Rightarrow> json result" where
  "publish_launch_receipt linux payload pid pgid ticks gpu_uuid published_at =
    require (pgid = pid) (exec_error Wrong_identity)
   (require (linux \<longrightarrow> ticks \<noteq> None) (exec_error Corrupt_evidence)
   (Inr (launch_document payload pid pgid ticks gpu_uuid published_at)))"

definition exit_document ::
  "scheduled_attempt \<Rightarrow> string \<Rightarrow> string \<Rightarrow> int \<Rightarrow> string list \<Rightarrow> string option \<Rightarrow> json" where
  "exit_document a started_at finished_at return_code signals gpu_uuid =
    JObj [(''schema_version'', JInt 3), (''queue_item_id'', JInt (xi_item_id a)), (''project_id'', JInt (xi_project_id a)),
      (''project_revision_id'', JInt (xi_revision_id a)), (''project_key'', JStr (xi_project_key a)),
      (''project_revision'', JStr (xi_revision a)), (''experiment_id'', JStr (xi_experiment_id a)),
      (''attempt'', JInt (xi_attempt a)), (''resolved_spec_sha256'', json_opt JStr (xi_resolved a)),
      (''admission_kind'', JStr (xi_admission a)), (''segment'', JInt (xi_segment a)),
      (''git_commit'', JStr (xi_git_commit a)), (''worktree'', JStr (xi_worktree a)),
      (''command_kind'', JStr (xi_command_kind a)), (''command_sha256'', JStr (xi_command_sha256 a)),
      (''started_at'', JStr started_at), (''finished_at'', JStr finished_at), (''return_code'', JInt return_code),
      (''signals_received'', JList (map JStr signals)), (''gpu_uuid'', json_opt JStr gpu_uuid)]"

section \<open>Preparing an imported attempt\<close>

abbreviation attempt_error :: "reason \<Rightarrow> error" where
  "attempt_error r \<equiv> (AttemptRuntimeError, r)"

definition attempt_text :: "nat \<Rightarrow> string \<Rightarrow> bool" where
  "attempt_text maximum s = (s \<noteq> [] \<and> s = strip s \<and> length s \<le> maximum \<and> CHR 0x00 \<notin> set s)"

definition attempt_directory :: "file_view \<Rightarrow> string \<Rightarrow> string result" where
  "attempt_directory files s =
    require (is_absolute s) (attempt_error Bad_argument)
   (fetch (fv_resolve files s) (attempt_error Row_missing) (\<lambda>resolved.
    require (path_parts resolved = path_parts s \<and> fv_directory files resolved) (attempt_error Bad_argument) (Inr resolved)))"

record legacy_launch =
  ll_item_id :: int
  ll_project_id :: int
  ll_project_key :: string
  ll_revision_id :: int
  ll_revision :: string
  ll_experiment_id :: string
  ll_attempt :: int
  ll_segment :: int
  ll_git_commit :: string
  ll_root :: string
  ll_primary :: string
  ll_command :: string
  ll_environment :: "(string \<times> string) list"
  ll_gpu_uuid :: string
  ll_gpu_index :: string
  ll_preemptible :: bool
  ll_run_directory :: "string option"
  ll_checkpoint :: "string option"
  ll_wandb_id :: "string option"
  ll_allow_exit :: bool

record prepared_payload =
  pp_attempt :: scheduled_attempt
  pp_argv :: "string list"
  pp_cwd :: string
  pp_document :: json
  pp_encoded :: string
  pp_gpu_uuid :: string
  pp_gpu_index :: string
  pp_environment :: "(string \<times> string) list"

definition payload_document :: "scheduled_attempt \<Rightarrow> string \<Rightarrow> json \<Rightarrow> string \<Rightarrow> string \<Rightarrow> json" where
  "payload_document a cwd command control_root receipt_path =
    JObj [(''schema_version'', JInt 1), (''queue_item_id'', JInt (xi_item_id a)), (''project_id'', JInt (xi_project_id a)),
      (''project_revision_id'', JInt (xi_revision_id a)), (''project_key'', JStr (xi_project_key a)),
      (''project_revision'', JStr (xi_revision a)), (''experiment_id'', JStr (xi_experiment_id a)),
      (''attempt'', JInt (xi_attempt a)), (''resolved_spec_sha256'', json_opt JStr (xi_resolved a)),
      (''admission_kind'', JStr (xi_admission a)), (''segment'', JInt (xi_segment a)),
      (''git_commit'', JStr (xi_git_commit a)), (''worktree'', JStr (xi_worktree a)), (''cwd'', JStr cwd),
      (''command_kind'', JStr (xi_command_kind a)), (''command'', command), (''control_root'', JStr control_root),
      (''receipt_path'', JStr receipt_path)]"

definition environment_ok :: "(string \<times> string) list \<Rightarrow> bool" where
  "environment_ok env = list_all (\<lambda>(name, value). name \<noteq> [] \<and> CHR ''='' \<notin> set name \<and> CHR 0x00 \<notin> set name
     \<and> CHR 0x00 \<notin> set value) env"

definition queue_values :: "legacy_launch \<Rightarrow> attempt_paths \<Rightarrow> string \<Rightarrow> string \<Rightarrow> (string \<times> string) list" where
  "queue_values l paths worktree primary =
    [(''EXPERIMENT_QUEUE_ITEM_ID'', str_int (ll_item_id l)), (''EXPERIMENT_QUEUE_PROJECT_ID'', str_int (ll_project_id l)),
     (''EXPERIMENT_QUEUE_PROJECT_KEY'', ll_project_key l),
     (''EXPERIMENT_QUEUE_PROJECT_REVISION_ID'', str_int (ll_revision_id l)),
     (''EXPERIMENT_QUEUE_PROJECT_REVISION'', ll_revision l), (''EXPERIMENT_QUEUE_GIT_COMMIT'', ll_git_commit l),
     (''EXPERIMENT_QUEUE_EXPERIMENT_ID'', ll_experiment_id l), (''EXPERIMENT_QUEUE_ATTEMPT'', str_int (ll_attempt l)),
     (''EXPERIMENT_QUEUE_SEGMENT'', str_int (ll_segment l)), (''EXPERIMENT_QUEUE_GPU_UUID'', ll_gpu_uuid l),
     (''EXPERIMENT_QUEUE_WORKTREE'', worktree), (''EXPERIMENT_QUEUE_PRIMARY_REPO'', primary),
     (''EXPERIMENT_QUEUE_RUNNER_RECEIPT_PATH'', path_join (ap_segment_root paths) ''runner.json''),
     (''CUDA_VISIBLE_DEVICES'', ll_gpu_uuid l)]
    @ (if ll_preemptible l then [(''EXPERIMENT_QUEUE_YIELD_REQUEST_PATH'', ap_yield_request paths),
        (''EXPERIMENT_QUEUE_YIELD_RECEIPT_PATH'', ap_yield_receipt paths)] else [])"

text \<open>A later segment names its run directory and checkpoint; the first one names none.\<close>

definition continuation_values ::
  "file_view \<Rightarrow> (string \<Rightarrow> bool) \<Rightarrow> legacy_launch \<Rightarrow> (string \<times> string) list result" where
  "continuation_values files regular l =
    (if ll_segment l > 1 then
       (case (ll_run_directory l, ll_checkpoint l) of
          (Some run, Some source) \<Rightarrow>
            and_then (attempt_directory files run) (\<lambda>run_directory.
            require (is_absolute source \<and> \<not> fv_symlink files source) (attempt_error Bad_argument)
           (fetch (fv_resolve files source) (attempt_error Row_missing) (\<lambda>checkpoint.
            require (path_parts checkpoint = path_parts source \<and> regular checkpoint) (attempt_error Bad_argument)
           (require (null_or (attempt_text 256) (ll_wandb_id l)) (attempt_error Bad_text)
           (Inr ([(''EXPERIMENT_QUEUE_CONTINUATION_RUN_DIR'', run_directory),
                  (''EXPERIMENT_QUEUE_CONTINUATION_CHECKPOINT'', checkpoint)]
              @ (case ll_wandb_id l of None \<Rightarrow> [] | Some k \<Rightarrow> [(''EXPERIMENT_QUEUE_WANDB_ID'', k)])))))))
        | _ \<Rightarrow> Inl (attempt_error Bad_argument))
     else require (ll_run_directory l = None \<and> ll_checkpoint l = None \<and> ll_wandb_id l = None)
       (attempt_error Bad_argument) (Inr []))"

definition legacy_identity_ok :: "legacy_launch \<Rightarrow> bool" where
  "legacy_identity_ok l =
    (0 < ll_item_id l \<and> 0 < ll_project_id l \<and> 0 < ll_revision_id l \<and> 0 < ll_attempt l \<and> 0 < ll_segment l
     \<and> attempt_text 63 (ll_project_key l) \<and> slug_check (ll_project_key l) \<and> attempt_text 256 (ll_revision l)
     \<and> attempt_text 256 (ll_experiment_id l) \<and> attempt_text 64 (ll_git_commit l) \<and> commit_text (ll_git_commit l)
     \<and> attempt_text 262144 (ll_command l))"

definition legacy_attempt_identity :: "(string \<Rightarrow> string) \<Rightarrow> legacy_launch \<Rightarrow> string \<Rightarrow> scheduled_attempt" where
  "legacy_attempt_identity sha l worktree =
    \<lparr>xi_item_id = ll_item_id l, xi_project_id = ll_project_id l, xi_revision_id = ll_revision_id l,
     xi_project_key = ll_project_key l, xi_revision = ll_revision l, xi_experiment_id = ll_experiment_id l,
     xi_attempt = ll_attempt l, xi_resolved = None, xi_admission = ''LegacyMarkdownCard/v0'', xi_segment = ll_segment l,
     xi_git_commit = ll_git_commit l, xi_worktree = worktree, xi_command_kind = ''legacy-shell'',
     xi_command_sha256 = sha (utf8 (ll_command l))\<rparr>"

definition environment_updated :: "(string \<times> string) list \<Rightarrow> (string \<times> string) list \<Rightarrow> (string \<times> string) list" where
  "environment_updated env new = sort_key fst (filter (\<lambda>kv. fst kv \<notin> fst ` set new) env @ new)"

definition prepare_legacy_attempt ::
  "file_view \<Rightarrow> (string \<Rightarrow> bool) \<Rightarrow> wire \<Rightarrow> (string \<Rightarrow> string) \<Rightarrow> string \<Rightarrow> attempt_paths \<Rightarrow> legacy_launch
    \<Rightarrow> prepared_payload result" where
  "prepare_legacy_attempt files regular w sha control_root paths l =
    require (legacy_identity_ok l) (attempt_error Bad_text)
   (and_then (attempt_directory files (ll_root l)) (\<lambda>root.
    and_then (attempt_directory files (ll_primary l)) (\<lambda>primary.
    require (attempt_text 256 (ll_gpu_uuid l) \<and> attempt_text 64 (ll_gpu_index l)) (attempt_error Bad_text)
   (require (environment_ok (ll_environment l)) (attempt_error Bad_argument)
   (require (ll_allow_exit l \<or> \<not> (fv_exists files (ap_exit_receipt paths) \<or> fv_symlink files (ap_exit_receipt paths))) (attempt_error Conflicting_evidence)
   (and_then (continuation_values files regular l) (\<lambda>continuation.
    let a = legacy_attempt_identity sha l root;
        document = payload_document a root (JStr (ll_command l)) control_root (ap_exit_receipt paths) in
    Inr \<lparr>pp_attempt = a, pp_argv = [''/bin/bash'', ''-lc'', ll_command l], pp_cwd = root, pp_document = document,
         pp_encoded = wi_canonical w document @ [char_of (10::nat)], pp_gpu_uuid = ll_gpu_uuid l,
         pp_gpu_index = ll_gpu_index l,
         pp_environment = environment_updated (ll_environment l)
           (queue_values l paths root primary @ continuation)\<rparr>)))))))"

section \<open>Signals are forwarded once\<close>

definition signals_inv :: "executor_state \<Rightarrow> bool" where
  "signals_inv s =
    (distinct (xs_accepted s) \<and> set (xs_accepted s) \<subseteq> {''SIGINT'', ''SIGTERM''}
     \<and> distinct (xs_sent s) \<and> set (xs_sent s) \<subseteq> set (xs_accepted s) \<and> set (xs_accepted s) \<subseteq> set (xs_received s)
     \<and> (case xs_phase s of
          Publishing \<Rightarrow> xs_sent s = [] \<and> xs_pending s = xs_accepted s
        | Replaying rest \<Rightarrow> distinct rest \<and> set rest \<inter> set (xs_sent s) = {}
            \<and> set (xs_accepted s) = set rest \<union> set (xs_sent s)
        | Waiting \<Rightarrow> xs_exited s \<or> set (xs_accepted s) = set (xs_sent s)
        | Draining code \<Rightarrow> 0 \<le> code
        | Ended code \<Rightarrow> 0 \<le> code
        | Raised \<Rightarrow> True))"

lemma forward_inv: "signals_inv s \<Longrightarrow> handling (xs_phase s) \<Longrightarrow> signum \<in> {''SIGINT'', ''SIGTERM''} \<Longrightarrow> signals_inv (forward signum s)"
  by (auto simp: signals_inv_def forward_def Let_def handling_def split: executor_phase.splits)

lemma executor_step_inv:
  assumes "executor_step s t" and "signals_inv s"
  shows "signals_inv t"
  using assms
proof (cases rule: executor_step.cases)
  case (arrive signum)
  then show ?thesis using forward_inv assms(2) by simp
qed (use assms(2) in \<open>auto simp: signals_inv_def launch_error_def normal_code_def handling_def split: executor_phase.splits\<close>)

lemma executor_run_inv: "executor_run s \<Longrightarrow> signals_inv s"
proof (induction rule: rtranclp_induct)
  case base then show ?case by (simp add: signals_inv_def executor_start_def)
qed (use executor_step_inv in blast)

text \<open>
  However signals arrive between the executor's steps, each graceful signal is broadcast to the
  scientific process group at most once, every broadcast signal is named in the exit receipt, and none that
  came before the child existed is lost: when the executor waits for a child it has not seen exit, every
  accepted signal has been sent. The return code it ends with is not negative.
\<close>

theorem signals_forwarded_once:
  assumes "executor_run s"
  shows "distinct (xs_sent s) \<and> set (xs_sent s) \<subseteq> {''SIGINT'', ''SIGTERM''} \<and> set (xs_sent s) \<subseteq> set (xs_received s)
    \<and> (xs_phase s = Waiting \<and> \<not> xs_exited s \<longrightarrow> set (xs_sent s) = set (xs_accepted s))
    \<and> (\<forall>code. xs_phase s = Ended code \<longrightarrow> 0 \<le> code)"
  using executor_run_inv[OF assms] by (auto simp: signals_inv_def)

section \<open>Receipts read back\<close>

lemma field_eq_Inr [simp]:
  "exec_text b n v = Inr s \<longleftrightarrow> v = Some (JStr s) \<and> text_field b n s"
  "exec_positive v = Inr k \<longleftrightarrow> v = Some (JInt k) \<and> 0 < k"
  "exec_nonnegative v = Inr k \<longleftrightarrow> v = Some (JInt k) \<and> 0 \<le> k"
  by (auto simp: exec_text_def exec_positive_def exec_nonnegative_def require_def
    split: option.splits json.splits if_split_asm)

lemma derived_field_eq_Inr [simp]:
  "exec_commit v = Inr s \<longleftrightarrow> v = Some (JStr s) \<and> text_field False 4096 s \<and> commit_text s"
  "exec_digest v = Inr s \<longleftrightarrow> v = Some (JStr s) \<and> text_field False 4096 s \<and> sha256_text s"
  "exec_timestamp v = Inr s \<longleftrightarrow> v = Some (JStr s) \<and> text_field False 4096 s \<and> aware_timestamp s"
  by (auto simp: exec_commit_def exec_digest_def exec_timestamp_def)

lemma exec_texts_printed: "list_all (text_field False 4096) ss \<Longrightarrow> exec_texts (map JStr ss) = Inr ss"
  by (induction ss) auto

lemma optional_text_printed:
  "null_or (text_field False n) v \<Longrightarrow> optional_text n (Some (json_opt JStr v)) = Inr v"
  by (cases v) (auto simp: optional_text_def null_or_def)

text \<open>What a validated payload guarantees of its identity.\<close>

definition scheduled_ok :: "scheduled_attempt \<Rightarrow> bool" where
  "scheduled_ok a =
    (0 < xi_item_id a \<and> 0 < xi_project_id a \<and> 0 < xi_revision_id a \<and> 0 < xi_attempt a \<and> 0 < xi_segment a
     \<and> list_all (text_field False 4096) [xi_project_key a, xi_revision a, xi_experiment_id a, xi_admission a,
         xi_git_commit a, xi_worktree a, xi_command_kind a, xi_command_sha256 a]
     \<and> commit_text (xi_git_commit a) \<and> sha256_text (xi_command_sha256 a)
     \<and> xi_command_kind a \<in> {''argv'', ''legacy-shell''}
     \<and> exec_resolved (xi_admission a) (Some (json_opt JStr (xi_resolved a))) = Inr (xi_resolved a))"

lemma digest_text:
  assumes "sha256_text s"
  shows "text_field False 4096 s"
proof -
  have "CHR 0x00 \<notin> set s"
  proof
    assume zero: "CHR 0x00 \<in> set s"
    have "\<forall>c \<in> set s. c \<in> set ''0123456789abcdef''" using assms by (simp add: sha256_text_def hex_digest_def list_all_iff)
    from bspec[OF this zero] show False by simp
  qed
  with assms show ?thesis by (auto simp: sha256_text_def text_field_def)
qed

lemma kind_text: "text_field False 4096 ''argv''" "text_field False 4096 ''legacy-shell''"
  by (simp_all add: text_field_def)

lemma exec_resolvedD:
  "exec_resolved admission v = Inr r \<Longrightarrow> exec_resolved admission (Some (json_opt JStr r)) = Inr r"
  by (auto simp: exec_resolved_def require_def split: if_splits option.split_asm json.split_asm)

lemma payload_identity_ok:
  assumes "payload_identity document kind digest = Inr a" and "kind \<in> {''argv'', ''legacy-shell''}" and "sha256_text digest"
  shows "scheduled_ok a"
  using assms exec_resolvedD digest_text kind_text by (auto simp: payload_identity_def scheduled_ok_def)

lemma exit_identity_printed:
  assumes "scheduled_ok a"
  shows "exit_identity (exit_document a started finished code signals gpu) = Inr a"
  using assms by (auto simp: exit_identity_def exit_document_def json_get_def scheduled_ok_def)

lemma payload_identity_command:
  "payload_identity document k0 d0 = Inr a \<Longrightarrow>
    payload_identity document kind digest = Inr (a\<lparr>xi_command_kind := kind, xi_command_sha256 := digest\<rparr>)"
  by (auto simp: payload_identity_def)

lemma exec_commandD:
  assumes "exec_command w sha document = Inr (argv, digest, kind)" and "\<And>x. sha256_text (sha x)"
  shows "kind \<in> {''argv'', ''legacy-shell''}" "sha256_text digest"
  using assms by (auto simp: exec_command_def Let_def split: if_split_asm option.split_asm json.split_asm list.split_asm)

lemma validated_payload_ok:
  assumes "validated_payload files w sha path = Inr v" and "\<And>x. sha256_text (sha x)"
  shows "scheduled_ok (ep_attempt v)"
proof -
  obtain document a argv digest kind where identity: "payload_identity document [] [] = Inr a"
    and command: "exec_command w sha document = Inr (argv, digest, kind)"
    and v: "ep_attempt v = a\<lparr>xi_command_kind := kind, xi_command_sha256 := digest\<rparr>"
    using assms(1) by (auto simp: validated_payload_def Let_def)
  show ?thesis
    unfolding v by (rule payload_identity_ok[OF payload_identity_command[OF identity] exec_commandD[OF command assms(2)]])
qed

lemma exit_document_fields: "json_keys (exit_document a started finished code signals gpu) = exit_fields"
  by (simp add: json_keys_def exit_document_def exit_fields_def)

lemma exit_document_gets:
  "json_get ''schema_version'' (exit_document a started finished code signals gpu) = Some (JInt 3)"
  "json_get ''signals_received'' (exit_document a started finished code signals gpu) = Some (JList (map JStr signals))"
  "json_get ''gpu_uuid'' (exit_document a started finished code signals gpu) = Some (json_opt JStr gpu)"
  "json_get ''started_at'' (exit_document a started finished code signals gpu) = Some (JStr started)"
  "json_get ''finished_at'' (exit_document a started finished code signals gpu) = Some (JStr finished)"
  "json_get ''return_code'' (exit_document a started finished code signals gpu) = Some (JInt code)"
  by (simp_all add: json_get_def exit_document_def)

text \<open>
  (C39) The scheduler accepts the exit receipt of its own attempt and of no other: for a payload the executor
  accepted, the receipt it writes when it ends is read back with its return code and signals when the
  scheduled identity and GPU are exactly those of the payload, and is refused for any other expectation. The
  clock must not have gone backwards and the texts must fit the reader's bounds.
\<close>

theorem exit_receipt_authenticates:
  assumes payload: "validated_payload files w sha path = Inr v" and sha: "\<And>x. sha256_text (sha x)"
    and ended: "executor_run s" "xs_phase s = Ended code"
    and signals: "list_all (text_field False 4096) (xs_received s)" and gpu: "null_or (text_field False 4096) gpu"
    and times: "text_field False 4096 started" "aware_timestamp started" "text_field False 4096 finished"
      "aware_timestamp finished" "precedes finished started = Inr False"
  shows "read_exit_document expected expected_gpu (exit_document (ep_attempt v) started finished code (xs_received s) gpu) =
    (if expected = ep_attempt v \<and> expected_gpu = gpu
     then Inr \<lparr>xr_attempt = expected, xr_gpu_uuid = gpu, xr_started_at = started, xr_finished_at = finished,
       xr_return_code = code, xr_signals = xs_received s\<rparr>
     else Inl (ExecutorError, Wrong_identity))"
proof -
  let ?d = "exit_document (ep_attempt v) started finished code (xs_received s) gpu"
  have "0 \<le> code" using executor_run_inv[OF ended(1)] ended(2) by (simp add: signals_inv_def)
  then have fields: "exec_nonnegative (json_get ''return_code'' ?d) = Inr code"
      "exec_timestamp (json_get ''started_at'' ?d) = Inr started"
      "exec_timestamp (json_get ''finished_at'' ?d) = Inr finished"
      "exit_identity ?d = Inr (ep_attempt v)" "optional_text 4096 (json_get ''gpu_uuid'' ?d) = Inr gpu"
      "exec_texts (map JStr (xs_received s)) = Inr (xs_received s)"
    using times exit_identity_printed[OF validated_payload_ok[OF payload sha]] optional_text_printed[OF gpu]
      exec_texts_printed[OF signals] by (simp_all add: exit_document_gets)
  show ?thesis
    unfolding read_exit_document_def exact_fields_def version_is_def exit_document_fields
    using fields times(5) by (auto simp: exit_document_gets require_def json_scalar_eq_def json_number_def)
qed

section \<open>Prepared payloads\<close>

text \<open>The control files of a segment as \<open>AttemptPaths.create\<close> lays them out, and a canonical worktree.\<close>

definition control_layout :: "file_view \<Rightarrow> string \<Rightarrow> string \<Rightarrow> string \<Rightarrow> bool" where
  "control_layout files control_root payload_path exit_path =
    (is_absolute control_root \<and> text_field False 4096 control_root \<and> fv_directory files control_root
     \<and> fv_resolve files control_root = Some control_root \<and> fv_resolve files payload_path = Some payload_path
     \<and> path_inside (parent_path payload_path) control_root
     \<and> is_absolute exit_path \<and> text_field False 4096 exit_path
     \<and> fv_resolve files (parent_path exit_path) = Some (parent_path exit_path)
     \<and> path_inside (parent_path exit_path) control_root \<and> path_parts payload_path \<noteq> path_parts exit_path
     \<and> path_parts (path_join (parent_path payload_path) ''launch.json'') \<noteq> path_parts exit_path)"

definition canonical_worktree :: "file_view \<Rightarrow> string \<Rightarrow> bool" where
  "canonical_worktree files s =
    (is_absolute s \<and> text_field False 4096 s \<and> fv_resolve files s = Some s \<and> fv_directory files s)"

lemma attempt_text_field: "attempt_text n s \<Longrightarrow> n \<le> 4096 \<Longrightarrow> text_field False 4096 s"
  by (auto simp: attempt_text_def text_field_def)

lemma prepared_legacyD:
  assumes "prepare_legacy_attempt files regular w sha control_root paths l = Inr pp"
  shows "legacy_identity_ok l" "pp_attempt pp = legacy_attempt_identity sha l (pp_cwd pp)"
    "pp_document pp = payload_document (pp_attempt pp) (pp_cwd pp) (JStr (ll_command l)) control_root (ap_exit_receipt paths)"
    "pp_argv pp = [''/bin/bash'', ''-lc'', ll_command l]"
  using assms by (auto simp: prepare_legacy_attempt_def Let_def)

lemma payload_document_fields: "json_keys (payload_document a cwd command control_root receipt_path) = payload_fields"
  by (simp add: json_keys_def payload_document_def payload_fields_def)

lemma payload_document_gets:
  "json_get ''schema_version'' (payload_document a cwd command control_root receipt_path) = Some (JInt 1)"
  "json_get ''worktree'' (payload_document a cwd command control_root receipt_path) = Some (JStr (xi_worktree a))"
  "json_get ''cwd'' (payload_document a cwd command control_root receipt_path) = Some (JStr cwd)"
  "json_get ''control_root'' (payload_document a cwd command control_root receipt_path) = Some (JStr control_root)"
  "json_get ''receipt_path'' (payload_document a cwd command control_root receipt_path) = Some (JStr receipt_path)"
  "json_get ''command_kind'' (payload_document a cwd command control_root receipt_path) = Some (JStr (xi_command_kind a))"
  "json_get ''command'' (payload_document a cwd command control_root receipt_path) = Some command"
  by (simp_all add: json_get_def payload_document_def)

lemma legacy_payload_identity:
  assumes "legacy_identity_ok l" and "text_field False 4096 wt"
  shows "payload_identity (payload_document (legacy_attempt_identity sha l wt) cwd command control_root receipt_path) k d
    = Inr ((legacy_attempt_identity sha l wt)\<lparr>xi_command_kind := k, xi_command_sha256 := d\<rparr>)"
proof -
  have "text_field False 4096 ''LegacyMarkdownCard/v0''" by (simp add: text_field_def)
  moreover have "text_field False 4096 (ll_project_key l)" "text_field False 4096 (ll_revision l)"
      "text_field False 4096 (ll_experiment_id l)" "text_field False 4096 (ll_git_commit l)"
    using assms(1) attempt_text_field by (auto simp: legacy_identity_ok_def)
  ultimately show ?thesis
    using assms by (simp add: payload_identity_def payload_document_def json_get_def legacy_attempt_identity_def
      exec_resolved_def legacy_identity_ok_def)
qed

lemma canonical_directory_accepted:
  "canonical_worktree files s \<Longrightarrow> absolute_directory files (Some (JStr s)) = Inr s"
  by (simp add: absolute_directory_def canonical_worktree_def)

lemma legacy_command_accepted:
  "exec_command w sha (payload_document (legacy_attempt_identity sha l wt) cwd (JStr (ll_command l)) control_root receipt_path)
    = (if text_field False 4096 (ll_command l)
       then Inr ([''/bin/bash'', ''-lc'', ll_command l], sha (utf8 (ll_command l)), ''legacy-shell'')
       else Inl (ExecutorError, Bad_text))"
  using kind_text by (simp add: exec_command_def payload_document_gets legacy_attempt_identity_def exec_text_def require_def and_then_def)

text \<open>
  (C40) The payload prepared for an imported attempt is accepted by the executor with exactly the prepared
  identity and command if and only if the command has at most 4096 characters. Preparation accepts up to
  262144 characters, so a longer command is prepared, claimed and launched, and then refused by the executor.
\<close>

theorem legacy_payload_accepted_iff:
  assumes prepared: "prepare_legacy_attempt files regular w sha control_root paths l = Inr pp"
    and read: "read_strict_json files w path = Inr (pp_document pp, source)"
    and layout: "control_layout files control_root path (ap_exit_receipt paths)" "canonical_worktree files (pp_cwd pp)"
  shows "validated_payload files w sha path = (if length (ll_command l) \<le> 4096
    then Inr \<lparr>ep_attempt = pp_attempt pp, ep_argv = pp_argv pp, ep_cwd = pp_cwd pp,
           ep_receipt_path = ap_exit_receipt paths, ep_launch_path = path_join (parent_path path) ''launch.json'',
           ep_sha256 = sha source\<rparr>
    else Inl (ExecutorError, Bad_text))"
proof -
  note pp = prepared_legacyD[OF prepared]
  let ?a = "legacy_attempt_identity sha l (pp_cwd pp)"
  let ?d = "payload_document ?a (pp_cwd pp) (JStr (ll_command l)) control_root (ap_exit_receipt paths)"
  have "canonical_worktree files control_root" using layout(1) by (simp add: control_layout_def canonical_worktree_def)
  then have dirs: "absolute_directory files (Some (JStr control_root)) = Inr control_root"
      "absolute_directory files (Some (JStr (pp_cwd pp))) = Inr (pp_cwd pp)"
      "path_inside (pp_cwd pp) (pp_cwd pp)"
    using canonical_directory_accepted layout(2) by (simp_all add: path_inside_def)
  have exit: "absolute_control_file files control_root (Some (JStr (ap_exit_receipt paths))) = Inr (ap_exit_receipt paths)"
    using layout(1) by (simp add: absolute_control_file_def control_layout_def)
  have identity: "payload_identity ?d [] [] = Inr (?a\<lparr>xi_command_kind := [], xi_command_sha256 := []\<rparr>)"
    using legacy_payload_identity[OF pp(1)] layout(2) by (simp add: canonical_worktree_def)
  have command: "text_field False 4096 (ll_command l) \<longleftrightarrow> length (ll_command l) \<le> 4096"
    using pp(1) by (auto simp: legacy_identity_ok_def attempt_text_def text_field_def)
  have "xi_worktree ?a = pp_cwd pp" "?a\<lparr>xi_command_kind := ''legacy-shell'', xi_command_sha256 := sha (utf8 (ll_command l))\<rparr> = ?a"
    by (simp_all add: legacy_attempt_identity_def)
  then show ?thesis
    using layout(1) read dirs exit identity legacy_command_accepted[of w sha l "pp_cwd pp" "pp_cwd pp" control_root "ap_exit_receipt paths"]
    unfolding validated_payload_def exact_fields_def version_is_def pp(2-4)
    by (simp add: payload_document_fields payload_document_gets command json_scalar_eq_def json_number_def control_layout_def Let_def)
qed

section \<open>Example\<close>

definition ex_interrupted :: executor_state where
  "ex_interrupted = \<lparr>xs_phase = Waiting, xs_received = [''SIGINT''], xs_accepted = [''SIGINT''], xs_pending = [],
     xs_sent = [''SIGINT''], xs_exited = False\<rparr>"

lemma ex_interrupted_run: "executor_run ex_interrupted"
proof -
  let ?s1 = "forward ''SIGINT'' executor_start"
  let ?s2 = "?s1\<lparr>xs_phase := Replaying (xs_pending ?s1)\<rparr>"
  let ?s3 = "?s2\<lparr>xs_phase := Replaying [], xs_sent := xs_sent ?s2 @ [''SIGINT'']\<rparr>"
  have "executor_step executor_start ?s1" by (rule arrive) (simp_all add: executor_start_def handling_def)
  then have "executor_run ?s1" by (rule r_into_rtranclp)
  moreover have "executor_step ?s1 ?s2" by (rule spawn) (simp add: forward_def executor_start_def)
  ultimately have "executor_run ?s2" by (rule rtranclp.rtrancl_into_rtrancl)
  moreover have "executor_step ?s2 ?s3" by (rule replay) (simp add: forward_def executor_start_def)
  ultimately have "executor_run ?s3" by (rule rtranclp.rtrancl_into_rtrancl)
  moreover have "executor_step ?s3 (?s3\<lparr>xs_phase := Waiting, xs_pending := []\<rparr>)" by (rule replayed) simp
  ultimately have "executor_run (?s3\<lparr>xs_phase := Waiting, xs_pending := []\<rparr>)" by (rule rtranclp.rtrancl_into_rtrancl)
  moreover have "?s3\<lparr>xs_phase := Waiting, xs_pending := []\<rparr> = ex_interrupted"
    by (simp add: ex_interrupted_def forward_def executor_start_def)
  ultimately show ?thesis by (simp only:)
qed

theorem signals_forwarded_once_witness:
  "executor_run ex_interrupted \<and> xs_phase ex_interrupted = Waiting \<and> \<not> xs_exited ex_interrupted
    \<and> set (xs_sent ex_interrupted) = set (xs_accepted ex_interrupted)"
  using signals_forwarded_once[OF ex_interrupted_run] ex_interrupted_run by (simp add: ex_interrupted_def)

definition ex_launch :: "string \<Rightarrow> legacy_launch" where
  "ex_launch command = \<lparr>ll_item_id = 1, ll_project_id = 1, ll_project_key = ''alpha'', ll_revision_id = 1,
     ll_revision = ''alpha:r1'', ll_experiment_id = ''exp1'', ll_attempt = 1, ll_segment = 1, ll_git_commit = ex_commit,
     ll_root = ''/work/alpha'', ll_primary = ''/work/alpha'', ll_command = command, ll_environment = [],
     ll_gpu_uuid = ''GPU-a'', ll_gpu_index = ''0'', ll_preemptible = False, ll_run_directory = None, ll_checkpoint = None,
     ll_wandb_id = None, ll_allow_exit = True\<rparr>"

definition ex_payload_document :: "string \<Rightarrow> json" where
  "ex_payload_document command = payload_document (legacy_attempt_identity (\<lambda>x. ex_sha) (ex_launch command) ''/work/alpha'')
     ''/work/alpha'' (JStr command) ''/state'' ''/state/a/exit.json''"

definition ex_payload_wire :: "string \<Rightarrow> wire" where
  "ex_payload_wire command = \<lparr>wi_parse = (\<lambda>s. Some (ex_payload_document command)), wi_encode = (\<lambda>j. []),
     wi_canonical = (\<lambda>j. ''payload'')\<rparr>"

definition ex_payload_view :: file_view where
  "ex_payload_view = ex_file_view\<lparr>fv_read := (\<lambda>p. Some ''payload'')\<rparr>"

lemma ex_validated: "case validated_payload ex_payload_view (ex_payload_wire ''run'') (\<lambda>x. ex_sha) ''/state/a/executor.json'' of
    Inl e \<Rightarrow> False | Inr v \<Rightarrow> ep_argv v = [''/bin/bash'', ''-lc'', ''run'']"
  by code_simp

theorem exit_receipt_authenticates_witness:
  "\<exists>v. validated_payload ex_payload_view (ex_payload_wire ''run'') (\<lambda>x. ex_sha) ''/state/a/executor.json'' = Inr v
     \<and> (\<exists>r. read_exit_document (ep_attempt v) (Some ''GPU-a'') (exit_document (ep_attempt v) ex_time ex_time 127
           [''launch_error:missing''] (Some ''GPU-a'')) = Inr r \<and> xr_return_code r = 127)"
proof -
  let ?s = "launch_error ''missing'' executor_start"
  obtain v where v: "validated_payload ex_payload_view (ex_payload_wire ''run'') (\<lambda>x. ex_sha) ''/state/a/executor.json'' = Inr v"
    using ex_validated by (auto split: sum.split_asm)
  have sha: "sha256_text ex_sha" by code_simp
  have run: "executor_run ?s"
    by (intro r_into_rtranclp os_error) (simp add: executor_start_def handling_def)
  have s: "xs_phase ?s = Ended 127" "xs_received ?s = [''launch_error:missing'']"
    by (simp_all add: launch_error_def executor_start_def)
  have fits: "list_all (text_field False 4096) (xs_received ?s)" "null_or (text_field False 4096) (Some ''GPU-a'')"
    unfolding s by (simp_all add: text_field_def null_or_def)
  have times: "text_field False 4096 ex_time" "aware_timestamp ex_time" "precedes ex_time ex_time = Inr False"
    by code_simp+
  from exit_receipt_authenticates[OF v sha run s(1) fits times(1,2) times(1,2,3), of "ep_attempt v" "Some ''GPU-a''"] v
  show ?thesis by (simp add: s)
qed

lemma ex_long_command: "attempt_text 262144 (replicate 5000 (CHR ''x''))"
  by (simp add: attempt_text_def strip_def py_space_def dropWhile_replicate)

lemma ex_legacy_prepared:
  assumes "attempt_text 262144 command"
  shows "\<exists>pp. prepare_legacy_attempt ex_payload_view (\<lambda>p. True) (ex_payload_wire command) (\<lambda>x. ex_sha) ''/state''
    (attempt_paths_of ''/state/a'') (ex_launch command) = Inr pp \<and> pp_document pp = ex_payload_document command
    \<and> pp_cwd pp = ''/work/alpha''"
proof -
  have "attempt_text 63 ''alpha''" "slug_check ''alpha''" "attempt_text 256 ''alpha:r1''" "attempt_text 256 ''exp1''"
      "attempt_text 64 ex_commit" "commit_text ex_commit"
    by code_simp+
  then have "legacy_identity_ok (ex_launch command)" using assms by (simp add: legacy_identity_ok_def ex_launch_def)
  moreover have "attempt_text 256 ''GPU-a''" "attempt_text 64 ''0''" by code_simp+
  moreover have "ap_exit_receipt (attempt_paths_of ''/state/a'') = ''/state/a/exit.json''" by code_simp
  ultimately show ?thesis
    by (simp add: prepare_legacy_attempt_def attempt_directory_def ex_launch_def ex_payload_view_def ex_file_view_def
      is_absolute_def environment_ok_def continuation_values_def ex_payload_document_def Let_def)
qed

theorem legacy_payload_accepted_iff_witness:
  "validated_payload ex_payload_view (ex_payload_wire (replicate 5000 (CHR ''x''))) (\<lambda>x. ex_sha) ''/state/a/executor.json''
    = Inl (ExecutorError, Bad_text)"
proof -
  let ?c = "replicate 5000 (CHR ''x'')"
  obtain pp where pp: "prepare_legacy_attempt ex_payload_view (\<lambda>p. True) (ex_payload_wire ?c) (\<lambda>x. ex_sha) ''/state''
      (attempt_paths_of ''/state/a'') (ex_launch ?c) = Inr pp" "pp_document pp = ex_payload_document ?c" "pp_cwd pp = ''/work/alpha''"
    using ex_legacy_prepared[OF ex_long_command] by blast
  have read: "read_strict_json ex_payload_view (ex_payload_wire ?c) ''/state/a/executor.json'' = Inr (pp_document pp, ''payload'')"
    unfolding pp(2) by (simp add: read_strict_json_def ex_payload_view_def ex_file_view_def ex_payload_wire_def
      ex_payload_document_def payload_document_def)
  have layout: "control_layout ex_payload_view ''/state'' ''/state/a/executor.json'' (ap_exit_receipt (attempt_paths_of ''/state/a''))"
      "canonical_worktree ex_payload_view (pp_cwd pp)"
    unfolding pp(3) by code_simp+
  have "\<not> length (ll_command (ex_launch ?c)) \<le> 4096" by (simp add: ex_launch_def)
  then show ?thesis using legacy_payload_accepted_iff[OF pp(1) read layout] by simp
qed

end
